(* ===== verification/PyPrelude.thy ===== *)
theory PyPrelude
  imports Main "HOL-Library.Sublist" "HOL-Library.AList"
begin

text \<open>
  Shared vocabulary of the development: Python exceptions as values, the result type
  \<open>py_error + 'a\<close> with its bind and its loops (\<open>rfold\<close>, \<open>rmap\<close>), and the
  built-in operations on strings that the sources call (\<open>int(...)\<close>, the \<open>in\<close>
  test, slicing, \<open>str.lower\<close>). Strings are \<^typ>\<open>string\<close>; a character stands for
  one code point below 256.
\<close>

section \<open>Fact collections\<close>

named_theorems py_defs "definitions of modelled built-ins, to unfold when evaluating"
named_theorems result_iff "when a computation returns or raises"

section \<open>Exceptions as values\<close>

text \<open>
  \<open>Builtin c\<close> is an exception of class \<open>c\<close> raised by the interpreter or by a library
  (its message is not modelled); \<open>Raised c msg\<close> is a \<^verbatim>\<open>raise c(msg)\<close> statement of the
  sources, with the message the source gives.
\<close>

datatype exn =
    AttributeError | TypeError | ValueError | KeyError | IndexError
  | RuntimeError | OverflowError | BinasciiError | BadZipFile | OSError
  | UnboundLocalError

datatype py_error = Builtin exn | Raised exn string

type_synonym 'a result = "py_error + 'a"

definition rbind :: "'a result \<Rightarrow> ('a \<Rightarrow> 'b result) \<Rightarrow> 'b result" where
  "rbind m f = (case m of Inl e \<Rightarrow> Inl e | Inr x \<Rightarrow> f x)"

text \<open>A \<^verbatim>\<open>for\<close> loop over a list whose body may raise: the first exception ends it.\<close>

fun rfold :: "('a \<Rightarrow> 's \<Rightarrow> 's result) \<Rightarrow> 'a list \<Rightarrow> 's \<Rightarrow> 's result" where
  "rfold f [] s = Inr s"
| "rfold f (x # xs) s = rbind (f x s) (rfold f xs)"

fun rmap :: "('a \<Rightarrow> 'b result) \<Rightarrow> 'a list \<Rightarrow> 'b list result" where
  "rmap f [] = Inr []"
| "rmap f (x # xs) = rbind (f x) (\<lambda>y. rbind (rmap f xs) (\<lambda>ys. Inr (y # ys)))"

definition of_option :: "py_error \<Rightarrow> 'a option \<Rightarrow> 'a result" where
  "of_option e m = (case m of None \<Rightarrow> Inl e | Some x \<Rightarrow> Inr x)"

definition returns :: "'a result \<Rightarrow> bool" where
  "returns m \<longleftrightarrow> (case m of Inl _ \<Rightarrow> False | Inr _ \<Rightarrow> True)"

lemma rbind_Inl [simp]: "rbind (Inl e) f = Inl e"
  by (simp add: rbind_def)

lemma rbind_Inr [simp]: "rbind (Inr x) f = f x"
  by (simp add: rbind_def)

lemma rbind_Inr_right [simp]: "rbind m Inr = m"
  by (cases m) simp_all

lemma rbind_assoc: "rbind (rbind m f) g = rbind m (\<lambda>x. rbind (f x) g)"
  by (cases m) simp_all

lemma rbind_eq_Inr_iff [result_iff]:
  "rbind m f = Inr y \<longleftrightarrow> (\<exists>x. m = Inr x \<and> f x = Inr y)"
  by (cases m) simp_all

lemma rbind_eq_Inl_iff [result_iff]:
  "rbind m f = Inl e \<longleftrightarrow> m = Inl e \<or> (\<exists>x. m = Inr x \<and> f x = Inl e)"
  by (cases m) simp_all

lemma rbind_split:
  "P (rbind m f) \<longleftrightarrow> (\<forall>e. m = Inl e \<longrightarrow> P (Inl e)) \<and> (\<forall>x. m = Inr x \<longrightarrow> P (f x))"
  by (cases m) simp_all

lemma rbind_split_asm:
  "P (rbind m f) \<longleftrightarrow> \<not> ((\<exists>e. m = Inl e \<and> \<not> P (Inl e)) \<or> (\<exists>x. m = Inr x \<and> \<not> P (f x)))"
  by (cases m) simp_all

lemmas rbind_splits = rbind_split rbind_split_asm

lemma of_option_simps [simp]:
  "of_option e None = Inl e"
  "of_option e (Some x) = Inr x"
  by (simp_all add: of_option_def)

lemma of_option_eq_Inr_iff [result_iff]: "of_option e m = Inr x \<longleftrightarrow> m = Some x"
  by (cases m) simp_all

lemma returns_simps [simp]:
  "returns (Inr x)"
  "\<not> returns (Inl e)"
  by (simp_all add: returns_def)

lemma returns_iff: "returns m \<longleftrightarrow> (\<exists>x. m = Inr x)"
  by (cases m) simp_all

lemma returns_rbind [result_iff]:
  "returns (rbind m f) \<longleftrightarrow> (\<exists>x. m = Inr x \<and> returns (f x))"
  by (cases m) simp_all

lemma rbind_cong [fundef_cong]:
  "m = m' \<Longrightarrow> (\<And>x. m' = Inr x \<Longrightarrow> f x = g x) \<Longrightarrow> rbind m f = rbind m' g"
  by (cases m') simp_all

lemma rfold_append: "rfold f (xs @ ys) s = rbind (rfold f xs s) (rfold f ys)"
proof (induction xs arbitrary: s)
  case Nil
  show ?case by simp
next
  case (Cons x xs)
  then show ?case by (cases "f x s") (simp_all add: rbind_assoc)
qed

lemma rfold_total:
  "(\<And>x s. x \<in> set xs \<Longrightarrow> f x s = Inr (g x s)) \<Longrightarrow> rfold f xs s = Inr (fold g xs s)"
  by (induction xs arbitrary: s) simp_all

lemma rfold_invariant:
  assumes "rfold f xs s = Inr t" and "I s"
    and "\<And>x u v. x \<in> set xs \<Longrightarrow> I u \<Longrightarrow> f x u = Inr v \<Longrightarrow> I v"
  shows "I t"
  using assms
proof (induction xs arbitrary: s)
  case Nil
  then show ?case by simp
next
  case (Cons x xs)
  from Cons.prems(1) obtain u where u: "f x s = Inr u" and rest: "rfold f xs u = Inr t"
    by (auto simp: result_iff)
  from u Cons.prems(2,3) have "I u" by auto
  with rest Cons.prems(3) show ?case by (auto intro: Cons.IH)
qed

lemma rmap_total: "(\<And>x. x \<in> set xs \<Longrightarrow> f x = Inr (g x)) \<Longrightarrow> rmap f xs = Inr (map g xs)"
  by (induction xs) simp_all

lemma rmap_length: "rmap f xs = Inr ys \<Longrightarrow> length ys = length xs"
  by (induction xs arbitrary: ys) (auto simp: result_iff)

lemma rmap_returns_iff: "returns (rmap f xs) \<longleftrightarrow> list_all (\<lambda>x. returns (f x)) xs"
  by (induction xs) (auto simp: result_iff returns_iff)

lemma rmap_Inr_map: "rmap f xs = Inr ys \<Longrightarrow> map Inr ys = map f xs"
  by (induction xs arbitrary: ys) (auto simp: result_iff)

end
