(* ===== verification/Suds.thy ===== *)
theory Suds
  imports PyPrelude
begin

text \<open>
  The raw response tree that the SOAP toolkit hands to \<^verbatim>\<open>result_classes.py\<close>: \<^verbatim>\<open>None\<close>,
  a text node (\<^verbatim>\<open>suds.sax.text.Text\<close>, a subclass of \<^verbatim>\<open>str\<close>), an object with named
  attributes in insertion order (\<^verbatim>\<open>suds.sudsobject.Object\<close>), or a list. The operations
  are the duck-typed probes the sources apply to it: \<^verbatim>\<open>hasattr\<close>, attribute access,
  \<^verbatim>\<open>del\<close>, \<^verbatim>\<open>isinstance(_, Text)\<close>, \<^verbatim>\<open>len\<close>, \<^verbatim>\<open>[0]\<close> and iteration, each with the
  exception Python raises on the shapes it does not apply to.
\<close>

section \<open>The tree\<close>

datatype suds =
    PyNone
  | Text string
  | Object "(string \<times> suds) list"
  | PyList "suds list"

section \<open>Attribute probes\<close>

definition getattr :: "suds \<Rightarrow> string \<Rightarrow> suds result" where
  "getattr x n =
     (case x of
        Object al \<Rightarrow> of_option (Builtin AttributeError) (map_of al n)
      | _ \<Rightarrow> Inl (Builtin AttributeError))"

definition hasattr :: "suds \<Rightarrow> string \<Rightarrow> bool" where
  "hasattr x n = (case x of Object al \<Rightarrow> map_of al n \<noteq> None | _ \<Rightarrow> False)"

definition delattr :: "suds \<Rightarrow> string \<Rightarrow> suds result" where
  "delattr x n =
     (case x of
        Object al \<Rightarrow>
          (if map_of al n \<noteq> None then Inr (Object (AList.delete n al))
           else Inl (Builtin AttributeError))
      | _ \<Rightarrow> Inl (Builtin AttributeError))"

definition isinstance_Text :: "suds \<Rightarrow> bool" where
  "isinstance_Text x = (case x of Text _ \<Rightarrow> True | _ \<Rightarrow> False)"

text \<open>
  \<^verbatim>\<open>del x.a.b\<close> mutates the object \<^verbatim>\<open>x.a\<close> in place, so every holder of \<^verbatim>\<open>x\<close> sees
  the change: the model returns the new \<^verbatim>\<open>x\<close>, with \<^verbatim>\<open>a\<close> at its old position.
\<close>

definition delattr_in :: "suds \<Rightarrow> string \<Rightarrow> string \<Rightarrow> suds result" where
  "delattr_in x a b =
     rbind (getattr x a) (\<lambda>y.
     rbind (delattr y b) (\<lambda>y'.
       (case x of
          Object al \<Rightarrow> Inr (Object (AList.update a y' al))
        | _ \<Rightarrow> Inl (Builtin AttributeError))))"

section \<open>Sequence protocol\<close>

text \<open>
  Iterating a \<^verbatim>\<open>str\<close> yields its characters as strings of length one, iterating an
  \<^verbatim>\<open>Object\<close> yields its \<^verbatim>\<open>(name, value)\<close> pairs; a plain \<^verbatim>\<open>str\<close> is written \<open>Text\<close>
  and a tuple \<open>PyList\<close>, which answer every probe above as those do.
\<close>

definition py_len :: "suds \<Rightarrow> nat result" where
  "py_len x =
     (case x of
        PyNone \<Rightarrow> Inl (Builtin TypeError)
      | Text s \<Rightarrow> Inr (length s)
      | Object al \<Rightarrow> Inr (length al)
      | PyList xs \<Rightarrow> Inr (length xs))"

definition py_iter :: "suds \<Rightarrow> suds list result" where
  "py_iter x =
     (case x of
        PyNone \<Rightarrow> Inl (Builtin TypeError)
      | Text s \<Rightarrow> Inr (map (\<lambda>c. Text [c]) s)
      | Object al \<Rightarrow> Inr (map (\<lambda>(k, v). PyList [Text k, v]) al)
      | PyList xs \<Rightarrow> Inr xs)"

definition py_getitem :: "suds \<Rightarrow> nat \<Rightarrow> suds result" where
  "py_getitem x i =
     (case x of
        PyNone \<Rightarrow> Inl (Builtin TypeError)
      | Text s \<Rightarrow> (if i < length s then Inr (Text [s ! i]) else Inl (Builtin IndexError))
      | Object al \<Rightarrow> (if i < length al then Inr (snd (al ! i)) else Inl (Builtin IndexError))
      | PyList xs \<Rightarrow> (if i < length xs then Inr (xs ! i) else Inl (Builtin IndexError)))"

definition py_eq_str :: "suds \<Rightarrow> string \<Rightarrow> bool" where
  "py_eq_str x s = (x = Text s)"

section \<open>Well-formed trees\<close>

text \<open>An \<^verbatim>\<open>Object\<close> keeps one value per attribute name.\<close>

fun wf_suds :: "suds \<Rightarrow> bool" where
  "wf_suds PyNone = True"
| "wf_suds (Text s) = True"
| "wf_suds (Object al) = (distinct (map fst al) \<and> (\<forall>v \<in> set (map snd al). wf_suds v))"
| "wf_suds (PyList xs) = (\<forall>x \<in> set xs. wf_suds x)"

section \<open>Characteristic equations\<close>

lemma getattr_simps [simp]:
  "getattr PyNone n = Inl (Builtin AttributeError)"
  "getattr (Text s) n = Inl (Builtin AttributeError)"
  "getattr (PyList xs) n = Inl (Builtin AttributeError)"
  "getattr (Object al) n = of_option (Builtin AttributeError) (map_of al n)"
  by (simp_all add: getattr_def)

lemma hasattr_simps [simp]:
  "\<not> hasattr PyNone n"
  "\<not> hasattr (Text s) n"
  "\<not> hasattr (PyList xs) n"
  "hasattr (Object al) n \<longleftrightarrow> map_of al n \<noteq> None"
  by (simp_all add: hasattr_def)

lemma isinstance_Text_simps [simp]:
  "\<not> isinstance_Text PyNone"
  "isinstance_Text (Text s)"
  "\<not> isinstance_Text (PyList xs)"
  "\<not> isinstance_Text (Object al)"
  by (simp_all add: isinstance_Text_def)

lemma isinstance_Text_iff: "isinstance_Text x \<longleftrightarrow> (\<exists>s. x = Text s)"
  by (cases x) simp_all

lemma hasattr_iff_getattr: "hasattr x n \<longleftrightarrow> returns (getattr x n)"
  by (cases x) (auto simp: returns_iff result_iff)

lemma hasattr_getattrE:
  assumes "hasattr x n"
  obtains al v where "x = Object al" and "map_of al n = Some v" and "getattr x n = Inr v"
  using assms by (cases x) auto

lemma getattr_Inr_iff [result_iff]:
  "getattr x n = Inr v \<longleftrightarrow> (\<exists>al. x = Object al \<and> map_of al n = Some v)"
  by (cases x) (auto simp: result_iff)

lemma getattr_Inl_iff [result_iff]:
  "getattr x n = Inl e \<longleftrightarrow> e = Builtin AttributeError \<and> \<not> hasattr x n"
  by (cases x) (auto simp: of_option_def split: option.splits)

lemma delattr_simps [simp]:
  "delattr PyNone n = Inl (Builtin AttributeError)"
  "delattr (Text s) n = Inl (Builtin AttributeError)"
  "delattr (PyList xs) n = Inl (Builtin AttributeError)"
  "delattr (Object al) n =
     (if map_of al n \<noteq> None then Inr (Object (AList.delete n al))
      else Inl (Builtin AttributeError))"
  by (simp_all add: delattr_def)

lemma delattr_Inr_iff [result_iff]:
  "delattr x n = Inr y \<longleftrightarrow> (\<exists>al. x = Object al \<and> map_of al n \<noteq> None \<and> y = Object (AList.delete n al))"
  by (cases x) auto

lemma hasattr_delattr:
  "delattr x n = Inr y \<Longrightarrow> hasattr y m \<longleftrightarrow> hasattr x m \<and> m \<noteq> n"
  by (auto simp: result_iff AList.delete_conv split: if_splits)

lemma getattr_delattr_other:
  "delattr x n = Inr y \<Longrightarrow> m \<noteq> n \<Longrightarrow> getattr y m = getattr x m"
  by (auto simp: result_iff AList.delete_conv)

lemma py_len_simps [simp]:
  "py_len PyNone = Inl (Builtin TypeError)"
  "py_len (Text s) = Inr (length s)"
  "py_len (Object al) = Inr (length al)"
  "py_len (PyList xs) = Inr (length xs)"
  by (simp_all add: py_len_def)

lemma py_iter_simps [simp]:
  "py_iter PyNone = Inl (Builtin TypeError)"
  "py_iter (Text s) = Inr (map (\<lambda>c. Text [c]) s)"
  "py_iter (Object al) = Inr (map (\<lambda>(k, v). PyList [Text k, v]) al)"
  "py_iter (PyList xs) = Inr xs"
  by (simp_all add: py_iter_def)

lemma py_getitem_simps [simp]:
  "py_getitem PyNone i = Inl (Builtin TypeError)"
  "py_getitem (PyList (x # xs)) 0 = Inr x"
  "py_getitem (Object ((k, v) # al)) 0 = Inr v"
  "py_getitem (Text (c # s)) 0 = Inr (Text [c])"
  by (simp_all add: py_getitem_def)

lemma py_eq_str_simps [simp]:
  "py_eq_str (Text s) t \<longleftrightarrow> s = t"
  "\<not> py_eq_str PyNone t"
  "\<not> py_eq_str (Object al) t"
  "\<not> py_eq_str (PyList xs) t"
  by (simp_all add: py_eq_str_def)

section \<open>Well-formedness is kept\<close>

lemma wf_suds_getattr: "wf_suds x \<Longrightarrow> getattr x n = Inr v \<Longrightarrow> wf_suds v"
  by (auto simp: result_iff dest!: map_of_SomeD) force

lemma wf_suds_delattr: "wf_suds x \<Longrightarrow> delattr x n = Inr y \<Longrightarrow> wf_suds y"
  by (auto simp: result_iff AList.distinct_delete) (auto simp: AList.delete_eq)

lemma set_update_subset: "set (AList.update k v al) \<subseteq> insert (k, v) (set al)"
  by (induction al) auto

lemma wf_suds_update:
  "wf_suds (Object al) \<Longrightarrow> wf_suds v \<Longrightarrow> wf_suds (Object (AList.update k v al))"
  using set_update_subset [of k v al] by (auto simp: AList.distinct_update)

lemma wf_suds_delattr_in:
  assumes "wf_suds x" and "delattr_in x a b = Inr x'"
  shows "wf_suds x'"
proof -
  from assms(2) obtain al y y' where x: "x = Object al"
    and y: "getattr x a = Inr y" and y': "delattr y b = Inr y'"
    and x': "x' = Object (AList.update a y' al)"
    by (cases x) (auto simp: delattr_in_def result_iff)
  from assms(1) y have "wf_suds y" by (rule wf_suds_getattr)
  then have "wf_suds y'" using y' by (rule wf_suds_delattr)
  with assms(1) show ?thesis unfolding x x' by (rule wf_suds_update)
qed

section \<open>Nested deletion\<close>

lemma delattr_in_Inr_iff [result_iff]:
  "delattr_in x a b = Inr x' \<longleftrightarrow>
     (\<exists>al bl. x = Object al \<and> map_of al a = Some (Object bl) \<and> map_of bl b \<noteq> None \<and>
           x' = Object (AList.update a (Object (AList.delete b bl)) al))"
  by (cases x) (auto simp: delattr_in_def result_iff)

lemma hasattr_delattr_in:
  "delattr_in x a b = Inr x' \<Longrightarrow> hasattr x' m \<longleftrightarrow> hasattr x m"
  by (auto simp: result_iff AList.update_conv' split: if_splits)

lemma getattr_delattr_in_other:
  "delattr_in x a b = Inr x' \<Longrightarrow> m \<noteq> a \<Longrightarrow> getattr x' m = getattr x m"
  by (auto simp: result_iff AList.update_conv')

lemma getattr_delattr_in_same:
  "delattr_in x a b = Inr x' \<Longrightarrow>
   \<exists>y y'. getattr x a = Inr y \<and> delattr y b = Inr y' \<and> getattr x' a = Inr y'"
  by (auto simp: result_iff AList.update_conv')

lemma delattr_in_returns_iff:
  "returns (delattr_in x a b) \<longleftrightarrow> (\<exists>y. getattr x a = Inr y \<and> hasattr y b)"
  by (auto simp: returns_iff result_iff elim!: hasattr_getattrE)

end
