(* ===== verification/PyStr.thy ===== *)
theory PyStr
  imports PyPrelude
begin

text \<open>
  The string built-ins that \<^verbatim>\<open>ImportResult.from_suds\<close> applies to message texts:
  the substring test \<^verbatim>\<open>sub in s\<close>, the slice \<^verbatim>\<open>s[n:]\<close> and \<^verbatim>\<open>int(s)\<close> for base 10.
  \<open>py_int\<close> follows CPython: surrounding whitespace is skipped, one sign is allowed,
  digits may be grouped by single underscores, anything else is a \<^verbatim>\<open>ValueError\<close>
  (\<open>None\<close> here). The interpreter's limit on the number of digits is not modelled.
  \<open>str_of_nat\<close> and \<open>zfill\<close> are the decimal rendering the server and the
  \<^verbatim>\<open>{row:05}\<close> format use; the round trip with \<open>py_int\<close> is proved at the end.
\<close>

section \<open>Definitions\<close>

definition py_isspace :: "char \<Rightarrow> bool" where
  "py_isspace c \<longleftrightarrow> (of_char c :: nat) \<in> {9, 10, 11, 12, 13, 32, 133, 160}"

definition py_strip :: "string \<Rightarrow> string" where
  "py_strip s = rev (dropWhile py_isspace (rev (dropWhile py_isspace s)))"

definition is_digit :: "char \<Rightarrow> bool" where
  "is_digit c \<longleftrightarrow> 48 \<le> (of_char c :: nat) \<and> (of_char c :: nat) \<le> 57"

definition digit_val :: "char \<Rightarrow> nat" where
  "digit_val c = of_char c - 48"

fun digits_from :: "nat \<Rightarrow> string \<Rightarrow> nat option" where
  "digits_from a [] = Some a"
| "digits_from a (c # cs) =
     (if is_digit c then digits_from (10 * a + digit_val c) cs
      else if c = CHR ''_'' then
        (case cs of
           [] \<Rightarrow> None
         | d # ds \<Rightarrow> if is_digit d then digits_from (10 * a + digit_val d) ds else None)
      else None)"

definition py_digits :: "string \<Rightarrow> nat option" where
  "py_digits s =
     (case s of
        [] \<Rightarrow> None
      | c # cs \<Rightarrow> if is_digit c then digits_from (digit_val c) cs else None)"

definition py_int :: "string \<Rightarrow> int option" where
  "py_int s =
     (case py_strip s of
        [] \<Rightarrow> None
      | c # cs \<Rightarrow>
          if c = CHR ''-'' then map_option (\<lambda>n. - int n) (py_digits cs)
          else if c = CHR ''+'' then map_option int (py_digits cs)
          else map_option int (py_digits (c # cs)))"

definition py_in_str :: "string \<Rightarrow> string \<Rightarrow> bool" where
  "py_in_str sub s = sublist sub s"

definition py_slice_from :: "nat \<Rightarrow> string \<Rightarrow> string" where
  "py_slice_from n s = drop n s"


definition nat_of_digits :: "string \<Rightarrow> nat" where
  "nat_of_digits ds = foldl (\<lambda>a c. 10 * a + digit_val c) 0 ds"

fun str_of_nat :: "nat \<Rightarrow> string" where
  "str_of_nat n =
     (if n < 10 then [char_of (48 + n)] else str_of_nat (n div 10) @ [char_of (48 + n mod 10)])"

declare str_of_nat.simps [simp del]

definition zfill :: "nat \<Rightarrow> string \<Rightarrow> string" where
  "zfill w s = replicate (w - length s) CHR ''0'' @ s"

section \<open>Evaluation and parsing lemmas\<close>

lemmas py_int_defs [py_defs] =
  py_int_def py_strip_def py_isspace_def py_digits_def is_digit_def digit_val_def

lemmas py_str_defs [py_defs] = py_in_str_def py_slice_from_def sublist_code

lemma is_digit_not_space: "is_digit c \<Longrightarrow> \<not> py_isspace c"
  by (auto simp: is_digit_def py_isspace_def)

lemma is_digit_not_sign: "is_digit c \<Longrightarrow> c \<noteq> CHR ''-'' \<and> c \<noteq> CHR ''+'' \<and> c \<noteq> CHR ''_''"
  by (auto simp: is_digit_def)

lemma is_digit_char_of: "(d::nat) < 10 \<Longrightarrow> is_digit (char_of (48 + d))"
  by (simp add: is_digit_def)

lemma digit_val_char_of: "(d::nat) < 10 \<Longrightarrow> digit_val (char_of (48 + d)) = d"
  by (simp add: digit_val_def)

lemma digits_from_digits:
  "list_all is_digit ds \<Longrightarrow> digits_from a ds = Some (foldl (\<lambda>a c. 10 * a + digit_val c) a ds)"
  by (induction ds arbitrary: a) simp_all

lemma py_digits_digits:
  "ds \<noteq> [] \<Longrightarrow> list_all is_digit ds \<Longrightarrow> py_digits ds = Some (nat_of_digits ds)"
  by (cases ds) (simp_all add: py_digits_def nat_of_digits_def digits_from_digits)

lemma py_strip_space_Cons [simp]: "py_isspace c \<Longrightarrow> py_strip (c # s) = py_strip s"
  by (simp add: py_strip_def)

lemma py_strip_id:
  assumes "s \<noteq> []" and "\<not> py_isspace (hd s)" and "\<not> py_isspace (last s)"
  shows "py_strip s = s"
proof -
  from assms have "dropWhile py_isspace s = s"
    by (simp add: dropWhile_eq_self_iff)
  moreover from assms have "dropWhile py_isspace (rev s) = rev s"
    by (simp add: dropWhile_eq_self_iff hd_rev)
  ultimately show ?thesis by (simp add: py_strip_def)
qed

lemma py_strip_digits: "ds \<noteq> [] \<Longrightarrow> list_all is_digit ds \<Longrightarrow> py_strip ds = ds"
  by (rule py_strip_id) (auto simp: list_all_iff is_digit_not_space)

lemma py_int_digits:
  assumes "ds \<noteq> []" and "list_all is_digit ds"
  shows "py_int ds = Some (int (nat_of_digits ds))"
proof -
  from assms obtain c cs where ds: "ds = c # cs" and c: "is_digit c"
    by (cases ds) auto
  from assms have "py_strip ds = ds" by (rule py_strip_digits)
  moreover from assms have "py_digits ds = Some (nat_of_digits ds)" by (rule py_digits_digits)
  ultimately show ?thesis
    using is_digit_not_sign [OF c] by (simp add: py_int_def ds)
qed

lemma py_int_space_Cons [simp]: "py_isspace c \<Longrightarrow> py_int (c # s) = py_int s"
  by (simp add: py_int_def)

lemma nat_of_digits_snoc [simp]:
  "nat_of_digits (ds @ [c]) = 10 * nat_of_digits ds + digit_val c"
  by (simp add: nat_of_digits_def)

lemma nat_of_digits_Nil [simp]: "nat_of_digits [] = 0"
  by (simp add: nat_of_digits_def)

lemma nat_of_digits_append:
  "nat_of_digits (xs @ ys) = foldl (\<lambda>a c. 10 * a + digit_val c) (nat_of_digits xs) ys"
  by (simp add: nat_of_digits_def)

lemma nat_of_digits_replicate_zero [simp]: "nat_of_digits (replicate k CHR ''0'') = 0"
  by (induction k) (simp_all add: nat_of_digits_def digit_val_def)

lemma nat_of_digits_zeros: "nat_of_digits (replicate k CHR ''0'' @ ds) = nat_of_digits ds"
  by (simp add: nat_of_digits_append) (simp add: nat_of_digits_def)

lemma str_of_nat_digits: "list_all is_digit (str_of_nat n)"
  by (induction n rule: str_of_nat.induct) (subst str_of_nat.simps, simp add: is_digit_char_of)

lemma str_of_nat_nonempty: "str_of_nat n \<noteq> []"
  by (subst str_of_nat.simps) simp

lemma nat_of_digits_str_of_nat: "nat_of_digits (str_of_nat n) = n"
proof (induction n rule: str_of_nat.induct)
  case (1 n)
  show ?case
  proof (cases "n < 10")
    case True
    then show ?thesis
      by (subst str_of_nat.simps) (simp add: nat_of_digits_def digit_val_char_of)
  next
    case False
    with "1.IH" have "nat_of_digits (str_of_nat (n div 10)) = n div 10" by simp
    with False show ?thesis
      by (subst str_of_nat.simps) (simp add: digit_val_char_of)
  qed
qed

lemma zfill_digits: "list_all is_digit s \<Longrightarrow> list_all is_digit (zfill w s)"
  by (auto simp: zfill_def list_all_iff is_digit_def)

lemma zfill_nonempty: "s \<noteq> [] \<Longrightarrow> zfill w s \<noteq> []"
  by (simp add: zfill_def)

lemma py_int_str_of_nat: "py_int (zfill w (str_of_nat n)) = Some (int n)"
proof -
  have "py_int (zfill w (str_of_nat n)) = Some (int (nat_of_digits (zfill w (str_of_nat n))))"
    by (rule py_int_digits) (simp_all add: zfill_nonempty str_of_nat_nonempty zfill_digits str_of_nat_digits)
  then show ?thesis
    by (simp add: zfill_def nat_of_digits_zeros nat_of_digits_str_of_nat)
qed

end
