(* ===== verification/Base64.thy ===== *)
theory Base64
  imports PyPrelude "HOL-Library.Word"
begin

text \<open>
  The encodings of the standard library that the sources apply to bytes: \<^verbatim>\<open>bytes(s,
  "utf-8")\<close> for strings of code points below 256, \<^verbatim>\<open>base64.b64encode\<close> (RFC 4648,
  standard alphabet, padded), which \<^verbatim>\<open>client.py\<close> applies to the credentials and to the
  payload of an import, and \<^verbatim>\<open>base64.b64decode\<close>, which \<^verbatim>\<open>result_classes.py\<close> applies to
  the documents of an export. Bytes are \<open>8 word\<close>. The decoder is the loop of
  \<^verbatim>\<open>binascii.a2b_base64\<close> without validation: characters outside the alphabet are
  skipped, a complete run of padding ends the input, and data that stops inside a
  group of four is an error. The round trip shows that decoding undoes encoding.
\<close>

unbundle bit_operations_syntax

type_synonym byte = "8 word"

section \<open>UTF-8\<close>

definition utf8_char :: "char \<Rightarrow> byte list" where
  "utf8_char c =
     (let n = (of_char c :: nat) in
      if n < 128 then [of_nat n] else [of_nat (192 + n div 64), of_nat (128 + n mod 64)])"

definition utf8_encode :: "string \<Rightarrow> byte list" where
  "utf8_encode s = concat (map utf8_char s)"

text \<open>
  Reading UTF-8, as the receiver of a payload does: a byte below 128 is a character,
  the bytes \<open>C2\<close> and \<open>C3\<close> start the two-byte sequences of the code points from 128 to
  255. Anything else is no text of code points below 256.
\<close>

fun utf8_decode :: "byte list \<Rightarrow> string option" where
  "utf8_decode [] = Some []"
| "utf8_decode [b] = (if unat b < 128 then Some [char_of (unat b)] else None)"
| "utf8_decode (b # b2 # bs) =
     (if unat b < 128 then map_option (Cons (char_of (unat b))) (utf8_decode (b2 # bs))
      else if 194 \<le> unat b \<and> unat b \<le> 195 \<and> 128 \<le> unat b2 \<and> unat b2 < 192
      then map_option (Cons (char_of ((unat b - 192) * 64 + (unat b2 - 128)))) (utf8_decode bs)
      else None)"

section \<open>Encoding\<close>

definition alphabet :: string where
  "alphabet = ''ABCDEFGHIJKLMNOPQRSTUVWXYZabcdefghijklmnopqrstuvwxyz0123456789+/''"

definition b64char :: "byte \<Rightarrow> char" where
  "b64char w = alphabet ! unat w"

fun b64encode :: "byte list \<Rightarrow> string" where
  "b64encode [] = []"
| "b64encode [a] =
     [b64char (drop_bit 2 a), b64char (push_bit 4 (a AND 3)), CHR ''='', CHR ''='']"
| "b64encode [a, b] =
     [b64char (drop_bit 2 a), b64char (push_bit 4 (a AND 3) OR drop_bit 4 b),
      b64char (push_bit 2 (b AND 15)), CHR ''='']"
| "b64encode (a # b # c # rest) =
     [b64char (drop_bit 2 a), b64char (push_bit 4 (a AND 3) OR drop_bit 4 b),
      b64char (push_bit 2 (b AND 15) OR drop_bit 6 c), b64char (c AND 63)] @ b64encode rest"

section \<open>Decoding\<close>

text \<open>The value of a character of the alphabet.\<close>

definition b64val :: "char \<Rightarrow> byte option" where
  "b64val c = map_option of_nat (map_of (zip alphabet [0..<64]) c)"

text \<open>
  The loop over the input. Its state is the position in the group of four, the bits
  left over from the character before, the number of padding characters seen since
  the last data character, and the bytes produced so far.
\<close>

fun a2b_loop :: "nat \<Rightarrow> byte \<Rightarrow> nat \<Rightarrow> string \<Rightarrow> byte list \<Rightarrow> byte list result" where
  "a2b_loop quad_pos leftchar pads [] out =
     (if quad_pos \<noteq> 0 then Inl (Builtin BinasciiError) else Inr out)"
| "a2b_loop quad_pos leftchar pads (c # cs) out =
     (if c = CHR ''='' then
        (if quad_pos \<ge> 2 then
           (if quad_pos + (pads + 1) \<ge> 4 then Inr out
            else a2b_loop quad_pos leftchar (pads + 1) cs out)
         else a2b_loop quad_pos leftchar pads cs out)
      else
        (case b64val c of
           None \<Rightarrow> a2b_loop quad_pos leftchar pads cs out
         | Some this_ch \<Rightarrow>
             (if quad_pos = 0 then a2b_loop 1 this_ch 0 cs out
              else if quad_pos = 1 then
                a2b_loop 2 (this_ch AND 15) 0 cs
                  (out @ [push_bit 2 leftchar OR drop_bit 4 this_ch])
              else if quad_pos = 2 then
                a2b_loop 3 (this_ch AND 3) 0 cs
                  (out @ [push_bit 4 leftchar OR drop_bit 2 this_ch])
              else a2b_loop 0 0 0 cs (out @ [push_bit 6 leftchar OR this_ch]))))"

definition a2b_base64 :: "string \<Rightarrow> byte list result" where
  "a2b_base64 s = a2b_loop 0 0 0 s []"

text \<open>\<^verbatim>\<open>base64.b64decode\<close> of a string: the string must be ASCII.\<close>

definition py_b64decode :: "string \<Rightarrow> byte list result" where
  "py_b64decode s =
     (if list_all (\<lambda>c. (of_char c :: nat) < 128) s then a2b_base64 s
      else Inl (Builtin ValueError))"

section \<open>Lemmas\<close>

lemmas base64_defs [py_defs] = utf8_encode_def utf8_char_def b64char_def alphabet_def

lemmas b64decode_eval =
  py_b64decode_def a2b_base64_def b64val_def alphabet_def upt_rec_numeral upt_conv_Cons

lemma utf8_encode_append [simp]: "utf8_encode (s @ t) = utf8_encode s @ utf8_encode t"
  by (simp add: utf8_encode_def)

lemma utf8_encode_Nil [simp]: "utf8_encode [] = []"
  by (simp add: utf8_encode_def)

lemma utf8_char_length: "length (utf8_char c) = (if (of_char c :: nat) < 128 then 1 else 2)"
  by (simp add: utf8_char_def Let_def)

lemma utf8_encode_ascii:
  "list_all (\<lambda>c. (of_char c :: nat) < 128) s \<Longrightarrow> length (utf8_encode s) = length s"
  by (induction s) (simp_all add: utf8_encode_def utf8_char_def)

lemma of_char_less_256: "(of_char c :: nat) < 256"
proof -
  have "(of_char (char_of (of_char c :: nat)) :: nat) = of_char c mod 256"
    by (simp only: of_char_of)
  then have "(of_char c :: nat) = of_char c mod 256" by simp
  then show ?thesis by (metis mod_less_divisor zero_less_numeral)
qed

lemma utf8_decode_char: "utf8_decode (utf8_char c @ bs) = map_option (Cons c) (utf8_decode bs)"
proof -
  define n where "n = (of_char c :: nat)"
  have c: "char_of n = c" by (simp add: n_def)
  have n: "n < 256" unfolding n_def by (rule of_char_less_256)
  show ?thesis
  proof (cases "n < 128")
    case True
    then have "unat (of_nat n :: byte) = n" by (simp add: unat_of_nat)
    with True c show ?thesis
      by (cases bs) (simp_all add: utf8_char_def flip: n_def)
  next
    case False
    with n have hi: "unat (of_nat (192 + n div 64) :: byte) = 192 + n div 64"
      and lo: "unat (of_nat (128 + n mod 64) :: byte) = 128 + n mod 64"
      by (simp_all only: unat_of_nat) simp_all
    from False n have "194 \<le> 192 + n div 64" "192 + n div 64 \<le> 195" by simp_all
    with False c hi lo show ?thesis
      by (simp add: utf8_char_def flip: n_def)
  qed
qed

lemma utf8_decode_encode [simp]: "utf8_decode (utf8_encode s) = Some s"
  by (induction s) (simp_all add: utf8_encode_def utf8_decode_char)

lemma b64encode_length: "length (b64encode bs) = 4 * ((length bs + 2) div 3)"
proof (induction bs rule: b64encode.induct)
  case (4 a b c rest)
  have "(length rest + 5) div 3 = Suc ((length rest + 2) div 3)" by arith
  with 4 show ?case by (simp add: add.commute)
qed simp_all

lemma b64encode_eq_Nil_iff [simp]: "b64encode bs = [] \<longleftrightarrow> bs = []"
  by (cases bs rule: b64encode.cases) simp_all

subsection \<open>The alphabet\<close>

lemma alphabet_length [simp]: "length alphabet = 64"
  by (simp add: alphabet_def)

lemma alphabet_distinct: "distinct alphabet"
  by (simp add: alphabet_def)

lemma alphabet_ascii: "c \<in> set alphabet \<Longrightarrow> (of_char c :: nat) < 128"
  by (auto simp: alphabet_def)

lemma alphabet_no_pad: "CHR ''='' \<notin> set alphabet"
  by (simp add: alphabet_def)

lemma b64char_in_alphabet: "unat w < 64 \<Longrightarrow> b64char w \<in> set alphabet"
  by (simp add: b64char_def)

lemma b64char_not_pad [simp]: "unat w < 64 \<Longrightarrow> b64char w \<noteq> CHR ''=''"
  using b64char_in_alphabet [of w] alphabet_no_pad by auto

lemma b64val_b64char [simp]:
  assumes "unat w < 64"
  shows "b64val (b64char w) = Some w"
proof -
  from assms have "map_of (zip alphabet [0..<64]) (alphabet ! unat w) = Some ([0..<64] ! unat w)"
    by (intro map_of_zip_nth) (simp_all add: alphabet_distinct)
  with assms show ?thesis by (simp add: b64val_def b64char_def)
qed

lemma b64val_Some_iff: "b64val c \<noteq> None \<longleftrightarrow> c \<in> set alphabet"
proof -
  have "map_of (zip alphabet [0..<64]) c \<noteq> None \<longleftrightarrow> c \<in> set alphabet"
    by (simp add: map_of_zip_is_None [symmetric])
  then show ?thesis by (simp add: b64val_def)
qed

subsection \<open>Six bits at a time\<close>

lemma sextet_iff: "unat (w :: byte) < 64 \<longleftrightarrow> drop_bit 6 w = 0"
  by (simp add: drop_bit_eq_div unat_div word_less_nat_alt unat_eq_zero [symmetric]
      div_eq_0_iff del: unat_eq_zero)

lemma byte_masks:
  "(a :: byte) AND 3 = take_bit 2 a" "(a :: byte) AND 15 = take_bit 4 a"
  "(a :: byte) AND 63 = take_bit 6 a"
  by (simp_all add: take_bit_eq_mask mask_eq_exp_minus_1)

lemma Suc_Suc_diff_2: "Suc (Suc (n - 2)) = (if 2 \<le> n then n else 2)"
  by arith

lemmas byte_bits = bit_simps byte_masks Suc_Suc_diff_2

lemma sextet_bounds [simp]:
  fixes a b c :: byte
  shows "unat (drop_bit 2 a) < 64"
    and "unat (push_bit 4 (a AND 3) OR drop_bit 4 b) < 64"
    and "unat (push_bit 2 (b AND 15) OR drop_bit 6 c) < 64"
    and "unat (c AND 63) < 64"
    and "unat (push_bit 4 (a AND 3)) < 64"
    and "unat (push_bit 2 (b AND 15)) < 64"
  by (simp_all add: sextet_iff; rule bit_word_eqI; auto simp: byte_bits)+

lemma sextet_join [simp]:
  fixes a b c :: byte
  shows "push_bit 2 (drop_bit 2 a) OR drop_bit 4 (push_bit 4 (a AND 3) OR drop_bit 4 b) = a"
    and "push_bit 4 ((push_bit 4 (a AND 3) OR drop_bit 4 b) AND 15) OR
         drop_bit 2 (push_bit 2 (b AND 15) OR drop_bit 6 c) = b"
    and "push_bit 6 ((push_bit 2 (b AND 15) OR drop_bit 6 c) AND 3) OR (c AND 63) = c"
    and "push_bit 2 (drop_bit 2 a) OR drop_bit 4 (push_bit 4 (a AND 3)) = a"
    and "push_bit 4 ((push_bit 4 (a AND 3) OR drop_bit 4 b) AND 15) OR
         drop_bit 2 (push_bit 2 (b AND 15)) = b"
  by (rule bit_word_eqI; auto simp: byte_bits)+

subsection \<open>Decoding a group\<close>

text \<open>One data character in each position of the group.\<close>

lemma a2b_loop_data:
  assumes "unat v < 64"
  shows "a2b_loop 0 l p (b64char v # cs) out = a2b_loop 1 v 0 cs out"
    and "a2b_loop 1 l p (b64char v # cs) out =
           a2b_loop 2 (v AND 15) 0 cs (out @ [push_bit 2 l OR drop_bit 4 v])"
    and "a2b_loop 2 l p (b64char v # cs) out =
           a2b_loop 3 (v AND 3) 0 cs (out @ [push_bit 4 l OR drop_bit 2 v])"
    and "a2b_loop 3 l p (b64char v # cs) out = a2b_loop 0 0 0 cs (out @ [push_bit 6 l OR v])"
  using assms by simp_all

lemma a2b_loop_group:
  "a2b_loop 0 l p
     (b64char (drop_bit 2 a) # b64char (push_bit 4 (a AND 3) OR drop_bit 4 b) #
      b64char (push_bit 2 (b AND 15) OR drop_bit 6 c) # b64char (c AND 63) # cs) out =
   a2b_loop 0 0 0 cs (out @ [a, b, c])"
  by (simp only: a2b_loop_data sextet_bounds sextet_join append_assoc append_Cons append_Nil)

text \<open>A complete run of padding ends the input: what follows is not read.\<close>

lemma a2b_loop_pad:
  "a2b_loop 2 l 0 (CHR ''='' # CHR ''='' # cs) out = Inr out"
  "a2b_loop 3 l 0 (CHR ''='' # cs) out = Inr out"
  by simp_all

lemma a2b_loop_tail1:
  "a2b_loop 0 l p
     (b64char (drop_bit 2 a) # b64char (push_bit 4 (a AND 3)) # CHR ''='' # CHR ''='' # cs)
     out =
   Inr (out @ [a])"
  by (simp only: a2b_loop_data sextet_bounds sextet_join a2b_loop_pad)

lemma a2b_loop_tail2:
  "a2b_loop 0 l p
     (b64char (drop_bit 2 a) # b64char (push_bit 4 (a AND 3) OR drop_bit 4 b) #
      b64char (push_bit 2 (b AND 15)) # CHR ''='' # cs) out =
   Inr (out @ [a, b])"
  by (simp only: a2b_loop_data sextet_bounds sextet_join a2b_loop_pad append_assoc
      append_Cons append_Nil)

text \<open>Between groups, characters outside the alphabet and padding are skipped.\<close>

lemma a2b_loop_skip:
  "list_all (\<lambda>c. b64val c = None) junk \<Longrightarrow> a2b_loop 0 l p junk out = Inr out"
  by (induction junk) simp_all

lemma a2b_loop_b64encode_junk:
  assumes "list_all (\<lambda>c. b64val c = None) junk"
  shows "a2b_loop 0 l p (b64encode bs @ junk) out = Inr (out @ bs)"
proof (induction bs arbitrary: l p out rule: b64encode.induct)
  case 1
  from assms show ?case by (simp add: a2b_loop_skip)
next
  case (2 a)
  show ?case unfolding b64encode.simps append_Cons append_Nil by (rule a2b_loop_tail1)
next
  case (3 a b)
  show ?case unfolding b64encode.simps append_Cons append_Nil by (rule a2b_loop_tail2)
next
  case (4 a b c rest)
  show ?case unfolding b64encode.simps append_Cons append_Nil append_assoc a2b_loop_group
    by (simp add: "4.IH")
qed

lemma a2b_loop_b64encode: "a2b_loop 0 l p (b64encode bs) out = Inr (out @ bs)"
  using a2b_loop_b64encode_junk [of "[]" l p bs out] by simp

lemma b64char_ascii: "unat w < 64 \<Longrightarrow> (of_char (b64char w) :: nat) < 128"
  by (simp add: alphabet_ascii b64char_in_alphabet)

lemma pad_ascii: "(of_char CHR ''='' :: nat) < 128"
  by simp

lemma b64encode_ascii: "list_all (\<lambda>c. (of_char c :: nat) < 128) (b64encode bs)"
proof (induction bs rule: b64encode.induct)
  case (4 a b c rest)
  then show ?case unfolding b64encode.simps list_all_append list.pred_inject
    by (intro conjI b64char_ascii sextet_bounds list.pred_inject(1))
qed (unfold b64encode.simps list.pred_inject,
    (intro conjI b64char_ascii sextet_bounds pad_ascii list.pred_inject(1))+)

lemma py_b64decode_b64encode [simp]: "py_b64decode (b64encode bs) = Inr bs"
  by (simp add: py_b64decode_def a2b_base64_def b64encode_ascii a2b_loop_b64encode)

lemma py_b64decode_b64encode_junk:
  assumes "list_all (\<lambda>c. b64val c = None \<and> (of_char c :: nat) < 128) junk"
  shows "py_b64decode (b64encode bs @ junk) = Inr bs"
proof -
  from assms have "list_all (\<lambda>c. b64val c = None) junk"
    and "list_all (\<lambda>c. (of_char c :: nat) < 128) junk"
    by (simp_all add: list_all_iff)
  then show ?thesis
    by (simp add: py_b64decode_def a2b_base64_def b64encode_ascii a2b_loop_b64encode_junk)
qed

section \<open>The round trip\<close>

text \<open>
  C20 (roundtrip): encoding bytes to base64 and decoding the text yields the original
  bytes, for every list of bytes, also when ASCII characters outside the alphabet
  (line breaks, for instance) follow the text; the encoder produces four characters
  for every three bytes, rounded up, all of them ASCII.
\<close>

theorem b64decode_b64encode:
  "py_b64decode (b64encode bs) = Inr bs \<and>
   (list_all (\<lambda>c. b64val c = None \<and> (of_char c :: nat) < 128) junk \<longrightarrow>
      py_b64decode (b64encode bs @ junk) = Inr bs) \<and>
   length (b64encode bs) = 4 * ((length bs + 2) div 3) \<and>
   list_all (\<lambda>c. (of_char c :: nat) < 128) (b64encode bs)"
  by (simp add: b64encode_length b64encode_ascii py_b64decode_b64encode_junk)

theorem b64decode_b64encode_witness:
  "py_b64decode (b64encode [104, 101, 108, 108, 111]) = Inr [104, 101, 108, 108, 111] \<and>
   py_b64decode (b64encode [104, 101, 108, 108, 111] @ [CHR 0x0A]) =
     Inr [104, 101, 108, 108, 111] \<and>
   b64encode [104, 101, 108, 108, 111] = ''aGVsbG8=''"
  using b64decode_b64encode [of "[104, 101, 108, 108, 111]" "[CHR 0x0A]"]
  by (simp add: b64val_def alphabet_def upt_rec_numeral upt_conv_Cons b64char_def)

end
