(* ===== verification/Runtime.thy ===== *)
theory Runtime
  imports Suds PyStr Base64
begin

text \<open>
  What the sources take from the standard library and from the SOAP toolkit, as far as
  the result classes and the credential cache need it: \<^verbatim>\<open>datetime.time\<close>,
  \<^verbatim>\<open>datetime.timedelta\<close> (a number of microseconds with the normalised \<^verbatim>\<open>days\<close> and
  \<^verbatim>\<open>seconds\<close> fields and the bound on \<^verbatim>\<open>days\<close>), an opened \<^verbatim>\<open>zipfile.ZipFile\<close>, and the
  record \<open>pyenv\<close> of library functions whose code is outside the repository
  (\<^verbatim>\<open>repr\<close> and \<^verbatim>\<open>str\<close> of a suds object, \<^verbatim>\<open>str\<close> of an unassigned field,
  \<^verbatim>\<open>time.fromisoformat\<close>, \<^verbatim>\<open>base64.b64decode\<close>, opening an archive).
  Every operation of the result classes takes the environment as its first argument;
  the theorems hold for every environment, the witnesses use \<open>sample_env\<close>, whose
  decoder is the one of theory \<open>Base64\<close>.
\<close>

section \<open>Time\<close>

record pytime =
  hour :: nat
  minute :: nat
  second :: nat
  microsecond :: nat

type_synonym timedelta = int

definition timedelta_of_us :: "int \<Rightarrow> timedelta result" where
  "timedelta_of_us us =
     (if \<bar>us div 86400000000\<bar> \<le> 999999999 then Inr us else Inl (Builtin OverflowError))"

definition timedelta_milliseconds :: "int \<Rightarrow> timedelta result" where
  "timedelta_milliseconds n = timedelta_of_us (n * 1000)"

definition timedelta_seconds :: "int \<Rightarrow> timedelta result" where
  "timedelta_seconds n = timedelta_of_us (n * 1000000)"

definition td_days :: "timedelta \<Rightarrow> int" where
  "td_days d = d div 86400000000"

definition td_seconds :: "timedelta \<Rightarrow> int" where
  "td_seconds d = (d div 1000000) mod 86400"

section \<open>Archives and the library environment\<close>

record zipfile =
  filelist :: "string list"
  zread :: "string \<Rightarrow> byte list result"

record pyenv =
  repr_of :: "suds \<Rightarrow> string"
  str_of :: "suds \<Rightarrow> string"
  time_fromisoformat :: "string \<Rightarrow> pytime option"
  b64decode :: "string \<Rightarrow> byte list result"
  open_zip :: "byte list \<Rightarrow> zipfile result"
  field_str :: string

text \<open>
  \<^verbatim>\<open>str(x)\<close> of a text node is its content and of \<^verbatim>\<open>None\<close> the word \<^verbatim>\<open>None\<close>; the
  rendering of objects and lists is the toolkit's printer. \<open>field_str\<close> is what \<^verbatim>\<open>str\<close>
  gives for the \<^verbatim>\<open>dataclasses.Field\<close> object that an attribute of \<^verbatim>\<open>BaseResult\<close> reads as
  until it is assigned.
\<close>

definition py_str :: "pyenv \<Rightarrow> suds \<Rightarrow> string" where
  "py_str env x = (case x of Text s \<Rightarrow> s | PyNone \<Rightarrow> ''None'' | _ \<Rightarrow> str_of env x)"

definition py_repr :: "pyenv \<Rightarrow> suds \<Rightarrow> string" where
  "py_repr env x = (case x of PyNone \<Rightarrow> ''None'' | _ \<Rightarrow> repr_of env x)"

section \<open>A concrete environment\<close>

text \<open>
  \<open>hms_fromisoformat\<close> accepts exactly \<^verbatim>\<open>HH:MM:SS\<close>, the format of the service's
  \<^verbatim>\<open>_Time\<close> attribute and a format every Python version accepts.
\<close>

definition hms_fromisoformat :: "string \<Rightarrow> pytime option" where
  "hms_fromisoformat s =
     (case s of
        [h1, h2, c1, m1, m2, c2, s1, s2] \<Rightarrow>
          if c1 = CHR '':'' \<and> c2 = CHR '':'' \<and> list_all is_digit [h1, h2, m1, m2, s1, s2]
             \<and> nat_of_digits [h1, h2] < 24 \<and> nat_of_digits [m1, m2] < 60
             \<and> nat_of_digits [s1, s2] < 60
          then Some \<lparr>hour = nat_of_digits [h1, h2], minute = nat_of_digits [m1, m2],
                     second = nat_of_digits [s1, s2], microsecond = 0\<rparr>
          else None
      | _ \<Rightarrow> None)"

definition sample_zip :: zipfile where
  "sample_zip =
     \<lparr>filelist = [''a.txt'', ''b.bin''],
      zread = (\<lambda>n. if n = ''a.txt'' then Inr [104, 101, 108, 108, 111]
                    else if n = ''b.bin'' then Inr [0, 255]
                    else Inl (Builtin KeyError))\<rparr>"

definition sample_env :: pyenv where
  "sample_env =
     \<lparr>repr_of = (\<lambda>_. ''<suds object>''), str_of = (\<lambda>_. ''<suds object>''),
      time_fromisoformat = hms_fromisoformat,
      b64decode = py_b64decode,
      open_zip = (\<lambda>bs. if bs = [80, 75] then Inr sample_zip else Inl (Builtin BadZipFile)),
      field_str = ''Field(name=None,type=None,default=None)''\<rparr>"

section \<open>Lemmas\<close>

lemma sample_decode [simp]:
  "py_b64decode ''UEs='' = Inr [80, 75]"
  "py_b64decode ''UEs'' = Inl (Builtin BinasciiError)"
  by (simp_all add: b64decode_eval)

lemma py_str_simps [simp]:
  "py_str env (Text s) = s"
  "py_str env PyNone = ''None''"
  "py_str env (Object al) = str_of env (Object al)"
  "py_str env (PyList xs) = str_of env (PyList xs)"
  by (simp_all add: py_str_def)

lemma py_repr_simps [simp]:
  "py_repr env PyNone = ''None''"
  "py_repr env (Text s) = repr_of env (Text s)"
  "py_repr env (Object al) = repr_of env (Object al)"
  "py_repr env (PyList xs) = repr_of env (PyList xs)"
  by (simp_all add: py_repr_def)

lemma timedelta_of_us_Inr_iff [result_iff]:
  "timedelta_of_us us = Inr d \<longleftrightarrow> d = us \<and> \<bar>us div 86400000000\<bar> \<le> 999999999"
  by (auto simp: timedelta_of_us_def)

lemma timedelta_of_us_Inl_iff [result_iff]:
  "timedelta_of_us us = Inl e \<longleftrightarrow> e = Builtin OverflowError \<and> \<bar>us div 86400000000\<bar> > 999999999"
  by (auto simp: timedelta_of_us_def)

lemma td_seconds_range: "0 \<le> td_seconds d \<and> td_seconds d < 86400"
  by (simp add: td_seconds_def)

lemma td_split: "d div 1000000 = td_days d * 86400 + td_seconds d"
proof -
  have "d div 86400000000 = (d div 1000000) div 86400"
    by (simp add: div_mult2_eq [symmetric])
  then show ?thesis by (simp add: td_days_def td_seconds_def)
qed

lemma td_seconds_small:
  assumes "0 \<le> d" and "d < 86400000000"
  shows "td_seconds d = d div 1000000"
proof -
  from assms have "0 \<le> d div 1000000" and "d div 1000000 < 86400" by simp_all
  then show ?thesis by (simp add: td_seconds_def)
qed

lemmas sample_defs [py_defs] = sample_env_def sample_zip_def hms_fromisoformat_def nat_of_digits_def

end
