(* ===== verification/ResultBase.thy ===== *)
theory ResultBase
  imports Runtime
begin

text \<open>
  \<^verbatim>\<open>BaseResult\<close> of \<^verbatim>\<open>result_classes.py\<close>: the two error fields shared by
  \<^verbatim>\<open>ExportResult\<close> and \<^verbatim>\<open>ImportResult\<close>, and \<^verbatim>\<open>handle_suds_response_errors\<close>.

  \<^verbatim>\<open>BaseResult\<close> is a plain class, not a dataclass, so \<^verbatim>\<open>has_error\<close> and \<^verbatim>\<open>error_msg\<close>
  are class attributes bound to the objects \<^verbatim>\<open>dataclasses.field(...)\<close> returns, and the
  constructors of the subclasses do not set them. Until a method assigns the attribute
  on the instance, reading it yields that \<^verbatim>\<open>Field\<close> object, which is truthy. The
  model keeps the two states apart: \<open>Unassigned\<close> is the class-level \<^verbatim>\<open>Field\<close> object,
  \<open>Assigned v\<close> a value stored on the instance.
\<close>

section \<open>The shared fields\<close>

datatype 'a slot = Unassigned | Assigned 'a

definition truthy :: "bool slot \<Rightarrow> bool" where
  "truthy s = (case s of Unassigned \<Rightarrow> True | Assigned b \<Rightarrow> b)"

record BaseResult =
  has_error :: "bool slot"
  error_msg :: "string slot"

section \<open>Common error scenarios\<close>

text \<open>
  The second test is an \<^verbatim>\<open>if\<close>, not an \<^verbatim>\<open>elif\<close>; for \<^verbatim>\<open>None\<close> it is false. Where the
  \<^verbatim>\<open>Export\<close> node has no \<^verbatim>\<open>_Error\<close> the source calls \<^verbatim>\<open>repr()\<close> without an argument,
  which raises \<^verbatim>\<open>TypeError\<close>.
\<close>

definition handle_suds_response_errors ::
  "pyenv \<Rightarrow> suds \<Rightarrow> 'a BaseResult_scheme \<Rightarrow> 'a BaseResult_scheme result" where
  "handle_suds_response_errors env suds_response self =
     (let self1 = (if suds_response = PyNone
                   then self\<lparr>has_error := Assigned True, error_msg := Assigned ''''\<rparr>
                   else self)
      in if hasattr suds_response ''Export'' then
           rbind (getattr suds_response ''Export'') (\<lambda>export.
             if hasattr export ''_Error'' then
               rbind (getattr export ''_Error'') (\<lambda>err.
                 Inr (self1\<lparr>has_error := Assigned True, error_msg := Assigned (py_str env err)\<rparr>))
             else Inl (Builtin TypeError))
         else Inr self1)"

section \<open>Lemmas\<close>

lemma truthy_simps [simp]:
  "truthy Unassigned"
  "truthy (Assigned b) \<longleftrightarrow> b"
  by (simp_all add: truthy_def)

lemma not_truthy_iff: "\<not> truthy s \<longleftrightarrow> s = Assigned False"
  by (cases s) auto

lemma handle_None [simp]:
  "handle_suds_response_errors env PyNone self =
     Inr (self\<lparr>has_error := Assigned True, error_msg := Assigned ''''\<rparr>)"
  by (simp add: handle_suds_response_errors_def)

lemma handle_no_Export:
  "\<not> hasattr resp ''Export'' \<Longrightarrow> resp \<noteq> PyNone \<Longrightarrow>
   handle_suds_response_errors env resp self = Inr self"
  by (simp add: handle_suds_response_errors_def)

lemma handle_Export_Error:
  "getattr resp ''Export'' = Inr ex \<Longrightarrow> getattr ex ''_Error'' = Inr err \<Longrightarrow>
   handle_suds_response_errors env resp self =
     Inr (self\<lparr>has_error := Assigned True, error_msg := Assigned (py_str env err)\<rparr>)"
  by (auto simp: handle_suds_response_errors_def result_iff)

lemma handle_Export_no_Error:
  "getattr resp ''Export'' = Inr ex \<Longrightarrow> \<not> hasattr ex ''_Error'' \<Longrightarrow>
   handle_suds_response_errors env resp self = Inl (Builtin TypeError)"
  by (auto simp: handle_suds_response_errors_def result_iff)

lemmas handle_simps = handle_None handle_no_Export handle_Export_Error handle_Export_no_Error

lemma handle_cases [consumes 0, case_names None No_Export Export_Error Export_no_Error]:
  assumes "resp = PyNone \<Longrightarrow> P"
    and "resp \<noteq> PyNone \<Longrightarrow> \<not> hasattr resp ''Export'' \<Longrightarrow> P"
    and "\<And>ex err. getattr resp ''Export'' = Inr ex \<Longrightarrow> getattr ex ''_Error'' = Inr err \<Longrightarrow> P"
    and "\<And>ex. getattr resp ''Export'' = Inr ex \<Longrightarrow> \<not> hasattr ex ''_Error'' \<Longrightarrow> P"
  shows P
proof (cases "hasattr resp ''Export''")
  case False
  with assms(1,2) show ?thesis by blast
next
  case True
  then obtain ex where ex: "getattr resp ''Export'' = Inr ex"
    by (auto elim: hasattr_getattrE)
  show ?thesis
  proof (cases "hasattr ex ''_Error''")
    case True
    then obtain err where "getattr ex ''_Error'' = Inr err"
      by (auto elim: hasattr_getattrE)
    with ex show ?thesis by (rule assms(3))
  next
    case False
    with ex show ?thesis by (rule assms(4))
  qed
qed

lemma handle_returns_iff:
  "returns (handle_suds_response_errors env resp self) \<longleftrightarrow>
     (\<forall>ex. getattr resp ''Export'' = Inr ex \<longrightarrow> hasattr ex ''_Error'')"
  by (cases resp rule: handle_cases) (auto simp: handle_simps result_iff)

lemma handle_Inl:
  "handle_suds_response_errors env resp self = Inl e \<Longrightarrow> e = Builtin TypeError"
  by (cases resp rule: handle_cases) (auto simp: handle_simps)

lemma handle_Inr_has_error:
  "handle_suds_response_errors env resp self = Inr r \<Longrightarrow>
   has_error r = (if resp = PyNone \<or> hasattr resp ''Export'' then Assigned True
                  else has_error self)"
  by (cases resp rule: handle_cases) (auto simp: handle_simps result_iff)

lemma handle_Inr_more:
  "handle_suds_response_errors env resp self = Inr r \<Longrightarrow> BaseResult.more r = BaseResult.more self"
  by (cases resp rule: handle_cases) (auto simp: handle_simps)

lemma handle_Inr_update:
  "handle_suds_response_errors env resp self = Inr r \<Longrightarrow>
   \<exists>h e. r = self\<lparr>has_error := h, error_msg := e\<rparr>"
proof (cases resp rule: handle_cases)
  case No_Export
  assume "handle_suds_response_errors env resp self = Inr r"
  with No_Export have "r = self\<lparr>has_error := has_error self, error_msg := error_msg self\<rparr>"
    by (simp add: handle_simps)
  then show ?thesis by blast
qed (auto simp: handle_simps)

lemma handle_Inr_error_msg:
  "handle_suds_response_errors env resp self = Inr r \<Longrightarrow>
   error_msg r =
     (if resp = PyNone then Assigned ''''
      else case getattr resp ''Export'' of
             Inl _ \<Rightarrow> error_msg self
           | Inr ex \<Rightarrow> (case getattr ex ''_Error'' of
                         Inl _ \<Rightarrow> error_msg self
                       | Inr err \<Rightarrow> Assigned (py_str env err)))"
  by (cases resp rule: handle_cases)
     (auto simp: handle_simps result_iff split: sum.splits)

end
