(* ===== verification/ImportResult.thy ===== *)
theory ImportResult
  imports ResultBase "HOL-Library.Multiset"
begin

text \<open>
  \<^verbatim>\<open>ImportMessage\<close>, \<^verbatim>\<open>ImportElement\<close> and \<^verbatim>\<open>ImportResult\<close> of \<^verbatim>\<open>result_classes.py\<close>:
  the records, \<^verbatim>\<open>ImportResult.from_suds\<close> with its two loops, \<^verbatim>\<open>__bool__\<close> and the
  filter accessors. The fields that the source copies from the response hold whatever
  the response holds, so they have type \<open>suds\<close>; \<open>known_status\<close> and \<open>known_action\<close>
  say when they are the strings the annotations promise. The loops are \<open>rfold\<close>s over the items that
  iteration yields; the loop state of the message loop is the local variable \<^verbatim>\<open>row\<close>
  paired with the result under construction.
\<close>

section \<open>Records\<close>

record ImportMessage =
  time :: pytime
  status :: suds
  message :: suds
  row :: int

record ImportElement =
  action :: suds
  elem_id :: suds
  foreign_key :: suds

record ImportResult = BaseResult +
  messages :: "ImportMessage list"
  elements :: "ImportElement list"
  total_rows :: "int option"
  elapsed_time :: "timedelta option"

text \<open>
  The generated \<^verbatim>\<open>__init__\<close> followed by \<^verbatim>\<open>__post_init__\<close>: the time must be a string
  (\<^verbatim>\<open>TypeError\<close> otherwise) that \<^verbatim>\<open>time.fromisoformat\<close> accepts (\<^verbatim>\<open>ValueError\<close>).
\<close>

definition ImportMessage_init ::
  "pyenv \<Rightarrow> suds \<Rightarrow> suds \<Rightarrow> suds \<Rightarrow> int \<Rightarrow> ImportMessage result" where
  "ImportMessage_init env t s m r =
     (case t of
        Text isostr \<Rightarrow>
          rbind (of_option (Builtin ValueError) (time_fromisoformat env isostr)) (\<lambda>tm.
            Inr \<lparr>time = tm, status = s, message = m, row = r\<rparr>)
      | _ \<Rightarrow> Inl (Builtin TypeError))"

definition ImportResult_init :: ImportResult where
  "ImportResult_init =
     \<lparr>has_error = Unassigned, error_msg = Unassigned,
      messages = [], elements = [], total_rows = None, elapsed_time = None\<rparr>"

section \<open>The message loop\<close>

text \<open>
  \<^verbatim>\<open>sub in v\<close>: substring test on a string, membership on a list, attribute-name test
  on an object, \<^verbatim>\<open>TypeError\<close> on \<^verbatim>\<open>None\<close>. \<^verbatim>\<open>int(v[n:])\<close>: only a string can be sliced
  and then parsed.
\<close>

definition py_contains :: "string \<Rightarrow> suds \<Rightarrow> bool result" where
  "py_contains sub v =
     (case v of
        PyNone \<Rightarrow> Inl (Builtin TypeError)
      | Text s \<Rightarrow> Inr (py_in_str sub s)
      | Object al \<Rightarrow> Inr (sub \<in> set (map fst al))
      | PyList xs \<Rightarrow> Inr (Text sub \<in> set xs))"

definition int_of_slice :: "suds \<Rightarrow> nat \<Rightarrow> int result" where
  "int_of_slice v n =
     (case v of
        Text s \<Rightarrow> of_option (Builtin ValueError) (py_int (py_slice_from n s))
      | _ \<Rightarrow> Inl (Builtin TypeError))"

text \<open>The \<^verbatim>\<open>if\<close>/\<^verbatim>\<open>elif\<close> chain under \<^verbatim>\<open>msg._Result == "Progress"\<close>.\<close>

definition progress_update ::
  "suds \<Rightarrow> int \<times> ImportResult \<Rightarrow> (int \<times> ImportResult) result" where
  "progress_update v st =
     (case st of (cur, result) \<Rightarrow>
        rbind (py_contains ''Processing row :'' v) (\<lambda>is_row.
          if is_row then rbind (int_of_slice v 17) (\<lambda>n. Inr (n, result))
          else rbind (py_contains ''Total rows imported:'' v) (\<lambda>is_total.
            if is_total then
              rbind (int_of_slice v 21) (\<lambda>n. Inr (cur, result\<lparr>total_rows := Some n\<rparr>))
            else rbind (py_contains ''Total time (ms):'' v) (\<lambda>is_time.
              if is_time then
                rbind (int_of_slice v 17) (\<lambda>n.
                rbind (timedelta_milliseconds n) (\<lambda>d.
                  Inr (cur, result\<lparr>elapsed_time := Some d\<rparr>)))
              else Inr (cur, result)))))"

text \<open>One pass through the body of \<^verbatim>\<open>for msg in suds_response.Import.Message\<close>.\<close>

definition message_step ::
  "pyenv \<Rightarrow> suds \<Rightarrow> int \<times> ImportResult \<Rightarrow> (int \<times> ImportResult) result" where
  "message_step env msg st =
     rbind (getattr msg ''_Result'') (\<lambda>res.
     rbind (if py_eq_str res ''Progress''
            then rbind (getattr msg ''value'') (\<lambda>v. progress_update v st)
            else Inr st) (\<lambda>(cur, result).
     rbind (getattr msg ''_Time'') (\<lambda>t.
     rbind (getattr msg ''value'') (\<lambda>v.
     rbind (ImportMessage_init env t res v cur) (\<lambda>m.
       Inr (cur, result\<lparr>messages := messages result @ [m]\<rparr>))))))"

definition parse_messages :: "pyenv \<Rightarrow> suds \<Rightarrow> ImportResult \<Rightarrow> ImportResult result" where
  "parse_messages env imp result =
     (if hasattr imp ''Message'' then
        rbind (getattr imp ''Message'') (\<lambda>ms.
        rbind (py_iter ms) (\<lambda>items.
        rbind (rfold (message_step env) items (0, result)) (\<lambda>(cur, result'). Inr result')))
      else Inr result)"

section \<open>The element loop\<close>

definition element_step :: "suds \<Rightarrow> ImportResult \<Rightarrow> ImportResult result" where
  "element_step elem result =
     rbind (getattr elem ''_Action'') (\<lambda>a.
     rbind (getattr elem ''_ID'') (\<lambda>i.
     rbind (getattr elem ''_ForeignKey'') (\<lambda>f.
       Inr (result\<lparr>elements := elements result @
              [\<lparr>action = a, elem_id = i, foreign_key = f\<rparr>]\<rparr>))))"

text \<open>
  \<^verbatim>\<open>len(Elements) > 0\<close> counts the attributes of the \<^verbatim>\<open>Elements\<close> object and
  \<^verbatim>\<open>Elements[0]\<close> is the value of its first attribute: only the first group is read.
\<close>

definition parse_elements :: "suds \<Rightarrow> ImportResult \<Rightarrow> ImportResult result" where
  "parse_elements imp result =
     (if hasattr imp ''Elements'' then
        rbind (getattr imp ''Elements'') (\<lambda>es.
        rbind (py_len es) (\<lambda>n.
          if n > 0 then
            rbind (py_getitem es 0) (\<lambda>group.
            rbind (py_iter group) (\<lambda>items. rfold element_step items result))
          else Inr result))
      else Inr result)"

section \<open>from\_suds, truth value, filters\<close>

definition ImportResult_from_suds :: "pyenv \<Rightarrow> suds \<Rightarrow> ImportResult result" where
  "ImportResult_from_suds env suds_response =
     rbind (handle_suds_response_errors env suds_response ImportResult_init) (\<lambda>r1.
     rbind (if hasattr suds_response ''Import'' then
              rbind (getattr suds_response ''Import'') (\<lambda>imp.
              rbind (parse_messages env imp (r1\<lparr>has_error := Assigned False\<rparr>)) (\<lambda>r2.
                parse_elements imp r2))
            else Inr r1) (\<lambda>r3.
       Inr (if \<not> hasattr suds_response ''Export'' \<and> \<not> hasattr suds_response ''Import''
            then r3\<lparr>has_error := Assigned True,
                    error_msg := Assigned (py_repr env suds_response)\<rparr>
            else r3)))"

definition ImportResult_bool :: "ImportResult \<Rightarrow> bool" where
  "ImportResult_bool self = (\<not> truthy (has_error self))"

definition filter_messages :: "ImportResult \<Rightarrow> string \<Rightarrow> ImportMessage list" where
  "filter_messages self st = filter (\<lambda>m. py_eq_str (status m) st) (messages self)"

definition progress_messages :: "ImportResult \<Rightarrow> ImportMessage list" where
  "progress_messages self = filter_messages self ''Progress''"

definition comment_messages :: "ImportResult \<Rightarrow> ImportMessage list" where
  "comment_messages self = filter_messages self ''Comment''"

definition success_messages :: "ImportResult \<Rightarrow> ImportMessage list" where
  "success_messages self = filter_messages self ''Success''"

definition warning_messages :: "ImportResult \<Rightarrow> ImportMessage list" where
  "warning_messages self = filter_messages self ''Warning''"

definition error_messages :: "ImportResult \<Rightarrow> ImportMessage list" where
  "error_messages self = filter_messages self ''Error''"

definition filter_elements :: "ImportResult \<Rightarrow> string \<Rightarrow> ImportElement list" where
  "filter_elements self act = filter (\<lambda>e. py_eq_str (action e) act) (elements self)"

definition added_elements :: "ImportResult \<Rightarrow> ImportElement list" where
  "added_elements self = filter_elements self ''Add''"

definition updated_elements :: "ImportResult \<Rightarrow> ImportElement list" where
  "updated_elements self = filter_elements self ''Update''"

text \<open>
  The values of the type aliases \<^verbatim>\<open>ImportMessageStatus\<close> and \<^verbatim>\<open>ImportElementActions\<close>.
  Nothing in the source checks them; they are hypotheses of the partition theorems.
\<close>

definition known_status :: "suds \<Rightarrow> bool" where
  "known_status s \<longleftrightarrow>
     s \<in> Text ` {''Progress'', ''Comment'', ''Success'', ''Warning'', ''Error''}"

definition known_action :: "suds \<Rightarrow> bool" where
  "known_action a \<longleftrightarrow> a \<in> Text ` {''Add'', ''Update''}"

text \<open>A result of an import of one row, with a warning, an added and an updated element.\<close>

definition sample_import_result :: ImportResult where
  "sample_import_result =
     \<lparr>has_error = Assigned False, error_msg = Unassigned,
      messages =
        [\<lparr>time = \<lparr>hour = 21, minute = 52, second = 34, microsecond = 0\<rparr>,
          status = Text ''Progress'', message = Text ''Successfully created ImportLog.'',
          row = 0\<rparr>,
         \<lparr>time = \<lparr>hour = 21, minute = 52, second = 34, microsecond = 0\<rparr>,
          status = Text ''Progress'', message = Text ''Processing row : 00001'', row = 1\<rparr>,
         \<lparr>time = \<lparr>hour = 21, minute = 52, second = 34, microsecond = 0\<rparr>,
          status = Text ''Warning'', message = Text ''Actie: Reference not found'', row = 1\<rparr>,
         \<lparr>time = \<lparr>hour = 21, minute = 52, second = 35, microsecond = 0\<rparr>,
          status = Text ''Progress'', message = Text ''Total rows imported: 1'', row = 1\<rparr>,
         \<lparr>time = \<lparr>hour = 21, minute = 52, second = 35, microsecond = 0\<rparr>,
          status = Text ''Progress'', message = Text ''Total time (ms): 1500'', row = 1\<rparr>],
      elements =
        [\<lparr>action = Text ''Add'', elem_id = Text ''id-1'', foreign_key = Text ''fk-1''\<rparr>,
         \<lparr>action = Text ''Update'', elem_id = Text ''id-2'', foreign_key = Text ''fk-2''\<rparr>],
      total_rows = Some 1, elapsed_time = Some 1500000\<rparr>"

section \<open>Lemmas\<close>

lemmas import_defs [py_defs] =
  ImportResult_from_suds_def handle_suds_response_errors_def parse_messages_def
  parse_elements_def message_step_def element_step_def progress_update_def py_contains_def
  int_of_slice_def ImportMessage_init_def ImportResult_init_def timedelta_milliseconds_def
  timedelta_of_us_def

lemmas message_filters =
  progress_messages_def comment_messages_def success_messages_def warning_messages_def
  error_messages_def filter_messages_def

lemmas element_filters = added_elements_def updated_elements_def filter_elements_def

lemma py_contains_simps [simp]:
  "py_contains sub PyNone = Inl (Builtin TypeError)"
  "py_contains sub (Text s) = Inr (py_in_str sub s)"
  "py_contains sub (Object al) = Inr (sub \<in> set (map fst al))"
  "py_contains sub (PyList xs) = Inr (Text sub \<in> set xs)"
  by (simp_all add: py_contains_def)

lemma int_of_slice_simps [simp]:
  "int_of_slice (Text s) n = of_option (Builtin ValueError) (py_int (py_slice_from n s))"
  "int_of_slice PyNone n = Inl (Builtin TypeError)"
  "int_of_slice (Object al) n = Inl (Builtin TypeError)"
  "int_of_slice (PyList xs) n = Inl (Builtin TypeError)"
  by (simp_all add: int_of_slice_def)

lemma ImportMessage_init_Inr_iff [result_iff]:
  "ImportMessage_init env t s v r = Inr m \<longleftrightarrow>
     (\<exists>str tm. t = Text str \<and> time_fromisoformat env str = Some tm \<and>
        m = \<lparr>time = tm, status = s, message = v, row = r\<rparr>)"
  by (cases t) (auto simp: ImportMessage_init_def result_iff)

lemma ImportResult_bool_iff: "ImportResult_bool r \<longleftrightarrow> has_error r = Assigned False"
  by (simp add: ImportResult_bool_def not_truthy_iff)

lemma mset_status_partition:
  "list_all (\<lambda>m. known_status (status m)) ms \<Longrightarrow>
   mset (filter (\<lambda>m. py_eq_str (status m) ''Progress'') ms) +
   mset (filter (\<lambda>m. py_eq_str (status m) ''Comment'') ms) +
   mset (filter (\<lambda>m. py_eq_str (status m) ''Success'') ms) +
   mset (filter (\<lambda>m. py_eq_str (status m) ''Warning'') ms) +
   mset (filter (\<lambda>m. py_eq_str (status m) ''Error'') ms) = mset ms"
  by (induction ms) (auto simp: known_status_def)

lemma mset_action_partition:
  "list_all (\<lambda>e. known_action (action e)) es \<Longrightarrow>
   mset (filter (\<lambda>e. py_eq_str (action e) ''Add'') es) +
   mset (filter (\<lambda>e. py_eq_str (action e) ''Update'') es) = mset es"
  by (induction es) (auto simp: known_action_def)

lemma sample_import_result_known:
  "list_all (\<lambda>m. known_status (status m)) (messages sample_import_result)"
  "list_all (\<lambda>e. known_action (action e)) (elements sample_import_result)"
  by (simp_all add: sample_import_result_def known_status_def known_action_def)

section \<open>The filter accessors\<close>

text \<open>
  \<^verbatim>\<open>filter_messages\<close> returns the messages of the given status and only those, in the
  order they have in \<^verbatim>\<open>messages\<close>.
\<close>

theorem filter_messages_subseq:
  "subseq (filter_messages r st) (messages r) \<and>
   set (filter_messages r st) = {m \<in> set (messages r). status m = Text st}"
  by (auto simp: filter_messages_def py_eq_str_def)

text \<open>
  When every message has one of the five statuses of
  \<^verbatim>\<open>ImportMessageStatus\<close>, the five named accessors partition \<^verbatim>\<open>messages\<close>: each
  message is returned by exactly one of them, as often as it occurs.
\<close>

theorem messages_partition:
  assumes "list_all (\<lambda>m. known_status (status m)) (messages r)"
  shows "mset (progress_messages r) + mset (comment_messages r) + mset (success_messages r) +
         mset (warning_messages r) + mset (error_messages r) = mset (messages r)"
  using mset_status_partition [OF assms] by (simp add: message_filters)

theorem messages_partition_witness:
  "list_all (\<lambda>m. known_status (status m)) (messages sample_import_result) \<and>
   mset (progress_messages sample_import_result) + mset (comment_messages sample_import_result) +
   mset (success_messages sample_import_result) + mset (warning_messages sample_import_result) +
   mset (error_messages sample_import_result) = mset (messages sample_import_result)"
  using messages_partition [OF sample_import_result_known(1)] sample_import_result_known(1)
  by simp

text \<open>
  The same for the elements: when every element has one of the two actions of
  \<^verbatim>\<open>ImportElementActions\<close>, \<^verbatim>\<open>added_elements\<close> and \<^verbatim>\<open>updated_elements\<close> partition
  \<^verbatim>\<open>elements\<close>.
\<close>

theorem elements_partition:
  assumes "list_all (\<lambda>e. known_action (action e)) (elements r)"
  shows "mset (added_elements r) + mset (updated_elements r) = mset (elements r)"
  using mset_action_partition [OF assms] by (simp add: element_filters)

theorem elements_partition_witness:
  "list_all (\<lambda>e. known_action (action e)) (elements sample_import_result) \<and>
   mset (added_elements sample_import_result) + mset (updated_elements sample_import_result) =
     mset (elements sample_import_result)"
  using elements_partition [OF sample_import_result_known(2)] sample_import_result_known(2)
  by simp

end
