(* ===== verification/ImportSpec.thy ===== *)
theory ImportSpec
  imports ImportResult
begin

text \<open>
  The contract of \<^verbatim>\<open>ImportResult.from_suds\<close> and the proof that the loops of
  \<open>ImportResult\<close> implement it.

  The abstract side reads a message in two steps, as the design notes of the
  specification ask: \<open>message_info\<close> decodes what a message announces into the closed
  type \<open>progress_info\<close>, and \<open>apply_info\<close> updates the accumulator \<open>acc\<close> of current row,
  total rows and elapsed time. \<open>spec_messages\<close> is the pure fold over the message list;
  \<open>rows_from\<close>, \<open>last_total\<close> and \<open>last_time\<close> are what a caller observes of it.
  \<open>abs_state\<close> and \<open>store\<close> relate the loop state of the code (the variable \<^verbatim>\<open>row\<close>
  and the result object) to the abstract state. \<open>element_of\<close>, \<open>first_group\<close> and
  \<open>message_items\<close> do the same for the element loop and for the two iterations.
\<close>

section \<open>Decoding one message\<close>

datatype progress_info = RowInfo int | TotalInfo int | TimeInfo timedelta | NoInfo

definition progress_info :: "suds \<Rightarrow> progress_info result" where
  "progress_info v =
     rbind (py_contains ''Processing row :'' v) (\<lambda>is_row.
       if is_row then rbind (int_of_slice v 17) (\<lambda>n. Inr (RowInfo n))
       else rbind (py_contains ''Total rows imported:'' v) (\<lambda>is_total.
         if is_total then rbind (int_of_slice v 21) (\<lambda>n. Inr (TotalInfo n))
         else rbind (py_contains ''Total time (ms):'' v) (\<lambda>is_time.
           if is_time then
             rbind (int_of_slice v 17) (\<lambda>n.
             rbind (timedelta_milliseconds n) (\<lambda>d. Inr (TimeInfo d)))
           else Inr NoInfo)))"

definition message_info :: "suds \<Rightarrow> progress_info result" where
  "message_info msg =
     rbind (getattr msg ''_Result'') (\<lambda>res.
       if py_eq_str res ''Progress'' then rbind (getattr msg ''value'') progress_info
       else Inr NoInfo)"

definition make_message :: "pyenv \<Rightarrow> suds \<Rightarrow> int \<Rightarrow> ImportMessage result" where
  "make_message env msg r =
     rbind (getattr msg ''_Result'') (\<lambda>res.
     rbind (getattr msg ''_Time'') (\<lambda>t.
     rbind (getattr msg ''value'') (\<lambda>v. ImportMessage_init env t res v r)))"

definition message_ok :: "pyenv \<Rightarrow> suds \<Rightarrow> bool" where
  "message_ok env msg \<longleftrightarrow> returns (message_info msg) \<and> returns (make_message env msg 0)"

section \<open>The accumulator and the pure fold\<close>

record acc =
  current_row :: int
  acc_total_rows :: "int option"
  acc_elapsed_time :: "timedelta option"

fun apply_info :: "progress_info \<Rightarrow> acc \<Rightarrow> acc" where
  "apply_info (RowInfo n) a = a\<lparr>current_row := n\<rparr>"
| "apply_info (TotalInfo n) a = a\<lparr>acc_total_rows := Some n\<rparr>"
| "apply_info (TimeInfo d) a = a\<lparr>acc_elapsed_time := Some d\<rparr>"
| "apply_info NoInfo a = a"

definition spec_step ::
  "pyenv \<Rightarrow> suds \<Rightarrow> acc \<times> ImportMessage list \<Rightarrow> (acc \<times> ImportMessage list) result" where
  "spec_step env msg s =
     rbind (message_info msg) (\<lambda>i.
     rbind (make_message env msg (current_row (apply_info i (fst s)))) (\<lambda>m.
       Inr (apply_info i (fst s), snd s @ [m])))"

fun spec_messages :: "pyenv \<Rightarrow> suds list \<Rightarrow> acc \<Rightarrow> (acc \<times> ImportMessage list) result" where
  "spec_messages env [] a = Inr (a, [])"
| "spec_messages env (msg # msgs) a =
     rbind (message_info msg) (\<lambda>i.
     rbind (make_message env msg (current_row (apply_info i a))) (\<lambda>m.
     rbind (spec_messages env msgs (apply_info i a)) (\<lambda>(a', ms). Inr (a', m # ms))))"

definition abs_state :: "int \<times> ImportResult \<Rightarrow> acc \<times> ImportMessage list" where
  "abs_state st =
     (\<lparr>current_row = fst st, acc_total_rows = total_rows (snd st),
       acc_elapsed_time = elapsed_time (snd st)\<rparr>, messages (snd st))"

definition store :: "ImportResult \<Rightarrow> acc \<times> ImportMessage list \<Rightarrow> int \<times> ImportResult" where
  "store r s = (current_row (fst s),
     r\<lparr>total_rows := acc_total_rows (fst s), elapsed_time := acc_elapsed_time (fst s),
       messages := snd s\<rparr>)"

section \<open>What a caller observes\<close>

fun rows_from :: "int \<Rightarrow> progress_info list \<Rightarrow> int list" where
  "rows_from cur [] = []"
| "rows_from cur (i # is) =
     (let c = (case i of RowInfo n \<Rightarrow> n | _ \<Rightarrow> cur) in c # rows_from c is)"

definition last_total :: "int option \<Rightarrow> progress_info list \<Rightarrow> int option" where
  "last_total t0 is = fold (\<lambda>i t. case i of TotalInfo n \<Rightarrow> Some n | _ \<Rightarrow> t) is t0"

definition last_time :: "timedelta option \<Rightarrow> progress_info list \<Rightarrow> timedelta option" where
  "last_time t0 is = fold (\<lambda>i t. case i of TimeInfo d \<Rightarrow> Some d | _ \<Rightarrow> t) is t0"

section \<open>Elements and iteration\<close>

definition element_of :: "suds \<Rightarrow> ImportElement result" where
  "element_of elem =
     rbind (getattr elem ''_Action'') (\<lambda>a.
     rbind (getattr elem ''_ID'') (\<lambda>i.
     rbind (getattr elem ''_ForeignKey'') (\<lambda>f.
       Inr \<lparr>action = a, elem_id = i, foreign_key = f\<rparr>)))"

definition first_group :: "suds \<Rightarrow> suds list result" where
  "first_group imp =
     (if hasattr imp ''Elements'' then
        rbind (getattr imp ''Elements'') (\<lambda>es.
        rbind (py_len es) (\<lambda>n.
          if n > 0 then rbind (py_getitem es 0) py_iter else Inr []))
      else Inr [])"

definition message_items :: "suds \<Rightarrow> suds list result" where
  "message_items imp =
     (if hasattr imp ''Message'' then rbind (getattr imp ''Message'') py_iter else Inr [])"

section \<open>Sample responses\<close>

definition sample_message :: "string \<Rightarrow> string \<Rightarrow> string \<Rightarrow> suds" where
  "sample_message v t res =
     Object [(''value'', Text v), (''_Time'', Text t), (''_Result'', Text res)]"

definition sample_element :: "string \<Rightarrow> string \<Rightarrow> string \<Rightarrow> suds" where
  "sample_element a i f =
     Object [(''_Action'', Text a), (''_ID'', Text i), (''_ForeignKey'', Text f)]"

text \<open>The response of the specification's testable property on rows.\<close>

definition spec_example :: "string \<Rightarrow> string \<Rightarrow> suds" where
  "spec_example t1 t2 =
     Object [(''Import'', Object [(''Message'', PyList
       [sample_message ''Processing row : 00001'' t1 ''Progress'',
        sample_message ''ok'' t2 ''Success''])])]"

definition sample_messages :: "suds list" where
  "sample_messages =
     [sample_message ''Successfully created ImportLog.'' ''21:52:34'' ''Progress'',
      sample_message ''Processing row : 00001'' ''21:52:34'' ''Progress'',
      sample_message ''Actie: Reference not found'' ''21:52:34'' ''Warning'',
      sample_message ''Total rows imported: 1'' ''21:52:35'' ''Progress'',
      sample_message ''Total time (ms): 1500'' ''21:52:35'' ''Progress'']"

definition sample_elements :: "suds list" where
  "sample_elements =
     [sample_element ''Add'' ''id-1'' ''fk-1'', sample_element ''Update'' ''id-2'' ''fk-2'']"

definition sample_import_body :: suds where
  "sample_import_body =
     Object [(''Message'', PyList sample_messages),
             (''Elements'', Object
                [(''Element'', PyList sample_elements),
                 (''Later'', PyList [sample_element ''Add'' ''id-3'' ''fk-3''])])]"

definition sample_import :: suds where
  "sample_import = Object [(''Import'', sample_import_body)]"

lemmas sample_import_defs =
  sample_message_def sample_element_def spec_example_def sample_messages_def
  sample_elements_def sample_import_body_def sample_import_def sample_import_result_def

section \<open>The accumulator\<close>

lemma current_row_apply_info:
  "current_row (apply_info i a) = (case i of RowInfo n \<Rightarrow> n | _ \<Rightarrow> current_row a)"
  by (cases i) simp_all

lemma acc_total_rows_apply_info:
  "acc_total_rows (apply_info i a) =
     (case i of TotalInfo n \<Rightarrow> Some n | _ \<Rightarrow> acc_total_rows a)"
  by (cases i) simp_all

lemma acc_elapsed_time_apply_info:
  "acc_elapsed_time (apply_info i a) =
     (case i of TimeInfo d \<Rightarrow> Some d | _ \<Rightarrow> acc_elapsed_time a)"
  by (cases i) simp_all

lemma store_abs_state [simp]: "store r (abs_state (cur, r)) = (cur, r)"
  by (simp add: store_def abs_state_def)

lemma abs_state_store [simp]: "abs_state (store r s) = s"
  by (cases s) (simp add: store_def abs_state_def)

lemma store_store [simp]: "store (snd (store r s)) s' = store r s'"
  by (simp add: store_def)

section \<open>The message loop refines the fold\<close>

lemma progress_update_refines:
  "progress_update v (cur, r) =
     rbind (progress_info v) (\<lambda>i.
       Inr (store r (apply_info i (fst (abs_state (cur, r))), messages r)))"
  by (cases v)
     (auto simp: progress_update_def progress_info_def store_def abs_state_def of_option_def
        timedelta_milliseconds_def timedelta_of_us_def split: option.splits)

lemma message_step_refines:
  "message_step env msg (cur, r) =
     rbind (spec_step env msg (abs_state (cur, r))) (\<lambda>s. Inr (store r s))"
proof (cases "getattr msg ''_Result''")
  case (Inl e)
  then show ?thesis by (simp add: message_step_def spec_step_def message_info_def)
next
  case res: (Inr res)
  show ?thesis
  proof (cases "py_eq_str res ''Progress''")
    case False
    with res show ?thesis
      by (simp add: message_step_def spec_step_def message_info_def make_message_def
          rbind_assoc store_def abs_state_def cong: rbind_cong)
  next
    case True
    show ?thesis
    proof (cases "getattr msg ''value''")
      case (Inl e)
      with res True show ?thesis
        by (simp add: message_step_def spec_step_def message_info_def)
    next
      case v: (Inr v)
      show ?thesis
      proof (cases "progress_info v")
        case (Inl e)
        with res True v show ?thesis
          by (simp add: message_step_def spec_step_def message_info_def progress_update_refines)
      next
        case (Inr i)
        with res True v show ?thesis
          by (simp add: message_step_def spec_step_def message_info_def make_message_def
              progress_update_refines rbind_assoc store_def abs_state_def cong: rbind_cong)
      qed
    qed
  qed
qed

lemma rfold_message_step_refines:
  "rfold (message_step env) items (cur, r) =
     rbind (rfold (spec_step env) items (abs_state (cur, r))) (\<lambda>s. Inr (store r s))"
proof (induction items arbitrary: cur r)
  case Nil
  show ?case by simp
next
  case (Cons msg items)
  show ?case
  proof (cases "spec_step env msg (abs_state (cur, r))")
    case (Inl e)
    then show ?thesis by (simp add: message_step_refines)
  next
    case (Inr s)
    obtain c' r' where st: "store r s = (c', r')" by (cases "store r s")
    then have "abs_state (c', r') = s" and "\<And>s'. store r' s' = store r s'"
      using abs_state_store [of r s] store_store [of r s] by simp_all
    with Inr st show ?thesis
      by (simp add: message_step_refines Cons.IH)
  qed
qed

lemma spec_step_pair:
  "spec_step env msg (a, ms) =
     rbind (message_info msg) (\<lambda>i.
     rbind (make_message env msg (current_row (apply_info i a))) (\<lambda>m.
       Inr (apply_info i a, ms @ [m])))"
  by (simp add: spec_step_def)

lemma rfold_spec_step:
  "rfold (spec_step env) items (a, ms) =
     rbind (spec_messages env items a) (\<lambda>(a', xs). Inr (a', ms @ xs))"
proof (induction items arbitrary: a ms)
  case Nil
  show ?case by simp
next
  case (Cons msg items)
  show ?case
    by (simp add: spec_step_pair Cons.IH rbind_assoc split_def)
qed

text \<open>
  C3 (refinement): run from any value of \<^verbatim>\<open>row\<close> and any result object, the message
  loop of \<^verbatim>\<open>ImportResult.from_suds\<close> raises exactly when the pure fold \<open>spec_messages\<close>
  does, with the same exception, and otherwise leaves the fold's accumulator in
  \<^verbatim>\<open>row\<close>, \<^verbatim>\<open>total_rows\<close> and \<^verbatim>\<open>elapsed_time\<close> and the fold's messages appended to
  \<^verbatim>\<open>messages\<close>.
\<close>

theorem message_loop_refines:
  "rfold (message_step env) items (cur, r) =
     rbind (spec_messages env items (fst (abs_state (cur, r)))) (\<lambda>(a, xs).
       Inr (store r (a, messages r @ xs)))"
  by (simp add: rfold_message_step_refines abs_state_def rfold_spec_step rbind_assoc split_def)

section \<open>Properties of the fold\<close>

lemma make_message_Inr_iff [result_iff]:
  "make_message env msg r = Inr m \<longleftrightarrow>
     (\<exists>res str tm v. getattr msg ''_Result'' = Inr res \<and>
        getattr msg ''_Time'' = Inr (Text str) \<and> time_fromisoformat env str = Some tm \<and>
        getattr msg ''value'' = Inr v \<and>
        m = \<lparr>time = tm, status = res, message = v, row = r\<rparr>)"
  by (auto simp: make_message_def result_iff)

lemma make_message_row: "make_message env msg r = Inr m \<Longrightarrow> row m = r"
  by (auto simp: result_iff)

lemma make_message_returns_row:
  "returns (make_message env msg r) \<longleftrightarrow> returns (make_message env msg r')"
  by (auto simp: returns_iff result_iff)

lemma spec_messages_Inr:
  assumes "spec_messages env items a = Inr (a', xs)"
  shows "\<exists>infos. rmap message_info items = Inr infos \<and>
           map row xs = rows_from (current_row a) infos \<and>
           current_row a' = (if xs = [] then current_row a else row (last xs)) \<and>
           acc_total_rows a' = last_total (acc_total_rows a) infos \<and>
           acc_elapsed_time a' = last_time (acc_elapsed_time a) infos \<and>
           map (Inr \<circ> status) xs = map (\<lambda>m. getattr m ''_Result'') items \<and>
           map (Inr \<circ> message) xs = map (\<lambda>m. getattr m ''value'') items"
  using assms
proof (induction items arbitrary: a a' xs)
  case Nil
  then show ?case by (simp add: last_total_def last_time_def)
next
  case (Cons msg items)
  from Cons.prems obtain i m a1 ys where i: "message_info msg = Inr i"
    and m: "make_message env msg (current_row (apply_info i a)) = Inr m"
    and rest: "spec_messages env items (apply_info i a) = Inr (a1, ys)"
    and eq: "a' = a1" "xs = m # ys"
    by (auto simp: result_iff)
  from Cons.IH [OF rest] obtain infos where infos: "rmap message_info items = Inr infos"
    and rows: "map row ys = rows_from (current_row (apply_info i a)) infos"
    and cur: "current_row a1 = (if ys = [] then current_row (apply_info i a) else row (last ys))"
    and tot: "acc_total_rows a1 = last_total (acc_total_rows (apply_info i a)) infos"
    and tim: "acc_elapsed_time a1 = last_time (acc_elapsed_time (apply_info i a)) infos"
    and sts: "map (Inr \<circ> status) ys = map (\<lambda>m. getattr m ''_Result'') items"
    and vals: "map (Inr \<circ> message) ys = map (\<lambda>m. getattr m ''value'') items"
    by blast
  from m have mrow: "row m = current_row (apply_info i a)" by (rule make_message_row)
  from m have mst: "getattr msg ''_Result'' = Inr (status m)"
    and mval: "getattr msg ''value'' = Inr (message m)"
    by (auto simp: result_iff)
  have "rmap message_info (msg # items) = Inr (i # infos)"
    using i infos by simp
  moreover have "map row xs = rows_from (current_row a) (i # infos)"
    using rows mrow eq by (simp add: current_row_apply_info Let_def)
  moreover have "current_row a' = (if xs = [] then current_row a else row (last xs))"
    using cur mrow eq by simp
  moreover have "acc_total_rows a' = last_total (acc_total_rows a) (i # infos)"
    using tot eq by (simp add: last_total_def acc_total_rows_apply_info)
  moreover have "acc_elapsed_time a' = last_time (acc_elapsed_time a) (i # infos)"
    using tim eq by (simp add: last_time_def acc_elapsed_time_apply_info)
  moreover have "map (Inr \<circ> status) xs = map (\<lambda>m. getattr m ''_Result'') (msg # items)"
    using sts mst eq by simp
  moreover have "map (Inr \<circ> message) xs = map (\<lambda>m. getattr m ''value'') (msg # items)"
    using vals mval eq by simp
  ultimately show ?case by blast
qed

lemma spec_messages_length:
  "spec_messages env items a = Inr (a', xs) \<Longrightarrow> length xs = length items"
  by (drule spec_messages_Inr) (auto dest: arg_cong [where f = length])

lemma spec_messages_returns_iff:
  "returns (spec_messages env items a) \<longleftrightarrow> list_all (message_ok env) items"
proof (induction items arbitrary: a)
  case Nil
  show ?case by simp
next
  case (Cons msg items)
  have "returns (spec_messages env (msg # items) a) \<longleftrightarrow>
          (\<exists>i. message_info msg = Inr i \<and>
               returns (make_message env msg (current_row (apply_info i a))) \<and>
               returns (spec_messages env items (apply_info i a)))"
    by (simp add: returns_rbind split_def) (simp add: returns_iff)
  also have "\<dots> \<longleftrightarrow> returns (message_info msg) \<and> returns (make_message env msg 0) \<and>
                   list_all (message_ok env) items"
  proof -
    have "\<And>r. returns (make_message env msg r) \<longleftrightarrow> returns (make_message env msg 0)"
      by (rule make_message_returns_row)
    then show ?thesis
      unfolding Cons.IH returns_iff [of "message_info msg"] by blast
  qed
  finally show ?case by (simp add: message_ok_def [of env msg])
qed

section \<open>The element loop and the two parsing steps\<close>

lemma element_step_refines:
  "element_step elem r = rbind (element_of elem) (\<lambda>e. Inr (r\<lparr>elements := elements r @ [e]\<rparr>))"
  by (simp add: element_step_def element_of_def rbind_assoc)

lemma rfold_element_step_refines:
  "rfold element_step items r =
     rbind (rmap element_of items) (\<lambda>es. Inr (r\<lparr>elements := elements r @ es\<rparr>))"
proof (induction items arbitrary: r)
  case Nil
  show ?case by simp
next
  case (Cons elem items)
  show ?case by (simp add: element_step_refines [of elem r] Cons.IH rbind_assoc)
qed

lemma parse_elements_refines:
  "parse_elements imp r =
     rbind (first_group imp) (\<lambda>items.
     rbind (rmap element_of items) (\<lambda>es. Inr (r\<lparr>elements := elements r @ es\<rparr>)))"
  by (auto simp: parse_elements_def first_group_def rfold_element_step_refines rbind_assoc
      intro!: rbind_cong)

lemma parse_messages_refines:
  "parse_messages env imp r =
     rbind (message_items imp) (\<lambda>items.
     rbind (spec_messages env items
              \<lparr>current_row = 0, acc_total_rows = total_rows r,
               acc_elapsed_time = elapsed_time r\<rparr>) (\<lambda>(a, xs).
       Inr (r\<lparr>total_rows := acc_total_rows a, elapsed_time := acc_elapsed_time a,
               messages := messages r @ xs\<rparr>)))"
  by (auto simp: parse_messages_def message_items_def rfold_message_step_refines
      rfold_spec_step abs_state_def store_def rbind_assoc split_def intro!: rbind_cong)

lemma parse_messages_frame:
  assumes "parse_messages env imp r = Inr r'"
  shows "has_error r' = has_error r" "error_msg r' = error_msg r" "elements r' = elements r"
  using assms by (auto simp: parse_messages_refines result_iff split: prod.splits)

lemma parse_elements_frame:
  assumes "parse_elements imp r = Inr r'"
  shows "has_error r' = has_error r" "error_msg r' = error_msg r" "messages r' = messages r"
    "total_rows r' = total_rows r" "elapsed_time r' = elapsed_time r"
  using assms by (auto simp: parse_elements_refines result_iff)

lemma parse_messages_returns_iff:
  "returns (parse_messages env imp r) \<longleftrightarrow>
     (\<exists>items. message_items imp = Inr items \<and> list_all (message_ok env) items)"
proof -
  have "returns (parse_messages env imp r) \<longleftrightarrow>
          (\<exists>items. message_items imp = Inr items \<and>
             returns (spec_messages env items
               \<lparr>current_row = 0, acc_total_rows = total_rows r,
                acc_elapsed_time = elapsed_time r\<rparr>))"
    by (simp add: parse_messages_refines returns_rbind split_def) (simp add: returns_iff)
  then show ?thesis by (simp add: spec_messages_returns_iff)
qed

lemma parse_elements_returns_iff:
  "returns (parse_elements imp r) \<longleftrightarrow>
     (\<exists>els. first_group imp = Inr els \<and> list_all (\<lambda>e. returns (element_of e)) els)"
proof -
  have "returns (parse_elements imp r) \<longleftrightarrow>
          (\<exists>els. first_group imp = Inr els \<and> returns (rmap element_of els))"
    by (simp add: parse_elements_refines returns_rbind) (simp add: returns_iff)
  then show ?thesis by (simp add: rmap_returns_iff)
qed

section \<open>from\_suds by the shape of the response\<close>

lemma from_suds_no_Import_no_Export:
  "\<not> hasattr resp ''Import'' \<Longrightarrow> \<not> hasattr resp ''Export'' \<Longrightarrow>
   ImportResult_from_suds env resp =
     Inr (ImportResult_init\<lparr>has_error := Assigned True,
            error_msg := Assigned (py_repr env resp)\<rparr>)"
  by (cases "resp = PyNone") (simp_all add: ImportResult_from_suds_def handle_no_Export)

lemma from_suds_Export_no_Error:
  "getattr resp ''Export'' = Inr ex \<Longrightarrow> \<not> hasattr ex ''_Error'' \<Longrightarrow>
   ImportResult_from_suds env resp = Inl (Builtin TypeError)"
  by (simp add: ImportResult_from_suds_def handle_Export_no_Error)

lemma from_suds_Export_only:
  "getattr resp ''Export'' = Inr ex \<Longrightarrow> getattr ex ''_Error'' = Inr err \<Longrightarrow>
   \<not> hasattr resp ''Import'' \<Longrightarrow>
   ImportResult_from_suds env resp =
     Inr (ImportResult_init\<lparr>has_error := Assigned True,
            error_msg := Assigned (py_str env err)\<rparr>)"
  by (simp add: ImportResult_from_suds_def handle_Export_Error hasattr_iff_getattr)

lemma from_suds_Import_any:
  "getattr resp ''Import'' = Inr imp \<Longrightarrow>
   ImportResult_from_suds env resp =
     rbind (handle_suds_response_errors env resp ImportResult_init) (\<lambda>r1.
     rbind (parse_messages env imp (r1\<lparr>has_error := Assigned False\<rparr>)) (parse_elements imp))"
  by (simp add: ImportResult_from_suds_def hasattr_iff_getattr rbind_assoc cong: rbind_cong)

lemma from_suds_Import_parts:
  assumes "ImportResult_from_suds env resp = Inr r" and "getattr resp ''Import'' = Inr imp"
  obtains r0 r1 where "has_error r0 = Assigned False" and "messages r0 = []"
    and "elements r0 = []" and "total_rows r0 = None" and "elapsed_time r0 = None"
    and "\<exists>h. handle_suds_response_errors env resp ImportResult_init = Inr h \<and>
             error_msg r0 = error_msg h"
    and "parse_messages env imp r0 = Inr r1" and "parse_elements imp r1 = Inr r"
proof -
  from assms obtain h r1 where h: "handle_suds_response_errors env resp ImportResult_init = Inr h"
    and r1: "parse_messages env imp (h\<lparr>has_error := Assigned False\<rparr>) = Inr r1"
    and r: "parse_elements imp r1 = Inr r"
    by (auto simp: from_suds_Import_any result_iff)
  from h obtain b e where "h = ImportResult_init\<lparr>has_error := b, error_msg := e\<rparr>"
    by (blast dest: handle_Inr_update)
  then have "messages h = []" "elements h = []" "total_rows h = None" "elapsed_time h = None"
    by (simp_all add: ImportResult_init_def)
  with h r1 r show ?thesis
    by (intro that [of "h\<lparr>has_error := Assigned False\<rparr>" r1]) auto
qed

section \<open>Evaluation of the samples\<close>

lemma sample_import_eval:
  "ImportResult_from_suds sample_env sample_import = Inr sample_import_result"
  by (simp add: py_defs sample_import_defs)

lemma sample_import_parts:
  "getattr sample_import ''Import'' = Inr sample_import_body"
  "message_items sample_import_body = Inr sample_messages"
  "getattr sample_import_body ''Elements'' =
     Inr (Object ((''Element'', PyList sample_elements) #
                  [(''Later'', PyList [sample_element ''Add'' ''id-3'' ''fk-3''])]))"
  by (simp_all add: sample_import_def sample_import_body_def message_items_def)


section \<open>The contract of from\_suds\<close>

text \<open>
  C1 (functional): whenever \<^verbatim>\<open>ImportResult.from_suds\<close> returns, \<^verbatim>\<open>has_error\<close> has been
  assigned, and it is \<^verbatim>\<open>True\<close> exactly when the response has no \<^verbatim>\<open>Import\<close> attribute;
  so the truth value of the result (\<^verbatim>\<open>__bool__\<close>) says whether the response had one.
  In particular a response that carries both \<^verbatim>\<open>Export\<close> and \<^verbatim>\<open>Import\<close> is reported
  as a success.
\<close>

theorem import_has_error:
  assumes "ImportResult_from_suds env resp = Inr r"
  shows "has_error r = Assigned (\<not> hasattr resp ''Import'') \<and>
         (ImportResult_bool r \<longleftrightarrow> hasattr resp ''Import'')"
proof (cases "hasattr resp ''Import''")
  case False
  have "has_error r = Assigned True"
  proof (cases resp rule: handle_cases)
    case None
    with assms show ?thesis by (auto simp: from_suds_no_Import_no_Export)
  next
    case No_Export
    with assms False show ?thesis by (auto simp: from_suds_no_Import_no_Export)
  next
    case (Export_Error ex err)
    with assms False show ?thesis by (auto simp: from_suds_Export_only)
  next
    case (Export_no_Error ex)
    with assms show ?thesis by (simp add: from_suds_Export_no_Error)
  qed
  with False show ?thesis by (simp add: ImportResult_bool_iff)
next
  case True
  then obtain imp where imp: "getattr resp ''Import'' = Inr imp"
    by (auto elim: hasattr_getattrE)
  from assms imp obtain r0 r1 where "has_error r0 = Assigned False"
    and "parse_messages env imp r0 = Inr r1" and "parse_elements imp r1 = Inr r"
    by (rule from_suds_Import_parts)
  with True show ?thesis
    by (simp add: parse_messages_frame parse_elements_frame ImportResult_bool_iff)
qed

theorem import_has_error_witness:
  "ImportResult_from_suds sample_env sample_import = Inr sample_import_result \<and>
   has_error sample_import_result = Assigned (\<not> hasattr sample_import ''Import'') \<and>
   (ImportResult_bool sample_import_result \<longleftrightarrow> hasattr sample_import ''Import'')"
  using import_has_error [OF sample_import_eval] sample_import_eval by simp

text \<open>
  C7 (functional): when \<^verbatim>\<open>ImportResult.from_suds\<close> returns for a response with an
  \<^verbatim>\<open>Import\<close> node, every message decodes, the result has one message per item in the
  order of the response with the item's \<^verbatim>\<open>_Result\<close> and text, the row of each message
  is the number of the last \<^verbatim>\<open>Processing row :\<close> message up to and including itself
  (0 before the first), and \<^verbatim>\<open>total_rows\<close> and \<^verbatim>\<open>elapsed_time\<close> are those of the last
  message that announces them (\<^verbatim>\<open>None\<close> if there is none).
\<close>

theorem import_messages_rows:
  assumes "ImportResult_from_suds env resp = Inr r"
    and "getattr resp ''Import'' = Inr imp" and "message_items imp = Inr items"
  shows "\<exists>infos. rmap message_info items = Inr infos \<and>
           map row (messages r) = rows_from 0 infos \<and>
           total_rows r = last_total None infos \<and>
           elapsed_time r = last_time None infos \<and>
           map (Inr \<circ> status) (messages r) = map (\<lambda>m. getattr m ''_Result'') items \<and>
           map (Inr \<circ> message) (messages r) = map (\<lambda>m. getattr m ''value'') items"
proof -
  from assms(1,2) obtain r0 r1 where r0: "messages r0 = []" "total_rows r0 = None"
      "elapsed_time r0 = None"
    and r1: "parse_messages env imp r0 = Inr r1" and r: "parse_elements imp r1 = Inr r"
    by (rule from_suds_Import_parts)
  from r1 assms(3) r0 obtain a xs where
    spec: "spec_messages env items
             \<lparr>current_row = 0, acc_total_rows = None, acc_elapsed_time = None\<rparr> = Inr (a, xs)"
    and r1_eq: "messages r1 = xs" "total_rows r1 = acc_total_rows a"
      "elapsed_time r1 = acc_elapsed_time a"
    by (auto simp: parse_messages_refines result_iff)
  from spec_messages_Inr [OF spec] r1_eq parse_elements_frame [OF r] show ?thesis by auto
qed

theorem import_messages_rows_witness:
  "\<exists>infos. rmap message_info sample_messages = Inr infos \<and>
     map row (messages sample_import_result) = rows_from 0 infos \<and>
     total_rows sample_import_result = last_total None infos \<and>
     elapsed_time sample_import_result = last_time None infos \<and>
     map (Inr \<circ> status) (messages sample_import_result) =
       map (\<lambda>m. getattr m ''_Result'') sample_messages \<and>
     map (Inr \<circ> message) (messages sample_import_result) =
       map (\<lambda>m. getattr m ''value'') sample_messages"
  by (rule import_messages_rows [OF sample_import_eval sample_import_parts(1,2)])

text \<open>
  C12 (error): \<^verbatim>\<open>ImportResult.from_suds\<close> returns a result, rather than raising, exactly
  when an \<^verbatim>\<open>Export\<close> node of the response has an \<^verbatim>\<open>_Error\<close> attribute and, if there is
  an \<^verbatim>\<open>Import\<close> node, its messages can be iterated and each of them decodes (its
  attributes exist, its time is a string in ISO format, the number it announces
  parses), and the first group of \<^verbatim>\<open>Elements\<close> can be iterated and each element has
  its three attributes.
\<close>

theorem import_returns_iff:
  "returns (ImportResult_from_suds env resp) \<longleftrightarrow>
     (\<forall>ex. getattr resp ''Export'' = Inr ex \<longrightarrow> hasattr ex ''_Error'') \<and>
     (\<forall>imp. getattr resp ''Import'' = Inr imp \<longrightarrow>
        (\<exists>items. message_items imp = Inr items \<and> list_all (message_ok env) items) \<and>
        (\<exists>els. first_group imp = Inr els \<and> list_all (\<lambda>e. returns (element_of e)) els))"
proof (cases "hasattr resp ''Import''")
  case False
  then have "returns (ImportResult_from_suds env resp) \<longleftrightarrow>
               returns (handle_suds_response_errors env resp ImportResult_init)"
    by (simp add: ImportResult_from_suds_def returns_rbind) (simp add: returns_iff)
  then have "returns (ImportResult_from_suds env resp) \<longleftrightarrow>
               (\<forall>ex. getattr resp ''Export'' = Inr ex \<longrightarrow> hasattr ex ''_Error'')"
    by (simp only: handle_returns_iff)
  moreover from False have "\<forall>imp. getattr resp ''Import'' \<noteq> Inr imp"
    by (auto simp: hasattr_iff_getattr returns_iff)
  ultimately show ?thesis by simp
next
  case True
  then obtain imp where imp: "getattr resp ''Import'' = Inr imp"
    by (auto elim: hasattr_getattrE)
  let ?E = "\<forall>ex. getattr resp ''Export'' = Inr ex \<longrightarrow> hasattr ex ''_Error''"
  have E: "(\<exists>h. handle_suds_response_errors env resp ImportResult_init = Inr h) \<longleftrightarrow> ?E"
    by (simp add: handle_returns_iff flip: returns_iff)
  have M: "\<And>r0. (\<exists>r1. parse_messages env imp r0 = Inr r1 \<and> returns (parse_elements imp r1)) \<longleftrightarrow>
             (\<exists>items. message_items imp = Inr items \<and> list_all (message_ok env) items) \<and>
             (\<exists>els. first_group imp = Inr els \<and> list_all (\<lambda>e. returns (element_of e)) els)"
    by (simp add: parse_elements_returns_iff parse_messages_returns_iff flip: returns_iff)
  have "returns (ImportResult_from_suds env resp) \<longleftrightarrow>
          (\<exists>h. handle_suds_response_errors env resp ImportResult_init = Inr h) \<and>
          (\<exists>items. message_items imp = Inr items \<and> list_all (message_ok env) items) \<and>
          (\<exists>els. first_group imp = Inr els \<and> list_all (\<lambda>e. returns (element_of e)) els)"
    unfolding from_suds_Import_any [OF imp] returns_rbind using M by blast
  with imp show ?thesis by (simp add: E)
qed

theorem import_returns_iff_witness:
  "returns (ImportResult_from_suds sample_env sample_import) \<and>
   list_all (message_ok sample_env) sample_messages \<and>
   \<not> returns (ImportResult_from_suds sample_env (Object [(''Export'', Object [])]))"
  using import_returns_iff [of sample_env sample_import]
    import_returns_iff [of sample_env "Object [(''Export'', Object [])]"]
  by (simp add: sample_import_eval sample_import_parts)



text \<open>
  C37 (functional): when \<^verbatim>\<open>ImportResult.from_suds\<close> returns and the \<^verbatim>\<open>Elements\<close> node
  of the import is an object whose first attribute holds a list, the elements of the
  result are exactly the items of that list, in order, each with its \<^verbatim>\<open>_Action\<close>,
  \<^verbatim>\<open>_ID\<close> and \<^verbatim>\<open>_ForeignKey\<close>; the other attributes of \<^verbatim>\<open>Elements\<close> are not read.
\<close>

theorem import_elements_first_group:
  assumes "ImportResult_from_suds env resp = Inr r" and "getattr resp ''Import'' = Inr imp"
    and "getattr imp ''Elements'' = Inr (Object ((k, PyList els) # others))"
  shows "rmap element_of els = Inr (elements r)"
proof -
  from assms(1,2) obtain r0 r1 where r0: "elements r0 = []"
    and r1: "parse_messages env imp r0 = Inr r1" and r: "parse_elements imp r1 = Inr r"
    by (rule from_suds_Import_parts)
  from assms(3) have "first_group imp = Inr els"
    by (simp add: first_group_def hasattr_iff_getattr)
  with r r0 parse_messages_frame(3) [OF r1] show ?thesis
    by (auto simp: parse_elements_refines result_iff)
qed

theorem import_elements_first_group_witness:
  "rmap element_of sample_elements = Inr (elements sample_import_result)"
  by (rule import_elements_first_group [OF sample_import_eval sample_import_parts(1,3)])

text \<open>
  C38 (functional): the error message of a result that \<^verbatim>\<open>ImportResult.from_suds\<close>
  returns. With an \<^verbatim>\<open>Export\<close> node it is the text of its \<^verbatim>\<open>_Error\<close>, also when the
  response has an \<^verbatim>\<open>Import\<close> node and the result counts as a success; with neither
  node it is the \<^verbatim>\<open>repr\<close> of the response, which for \<^verbatim>\<open>None\<close> is the word \<^verbatim>\<open>None\<close>
  and not the empty string; with an \<^verbatim>\<open>Import\<close> node only it is never assigned.
\<close>

theorem import_error_msg:
  assumes "ImportResult_from_suds env resp = Inr r"
  shows "error_msg r =
           (case getattr resp ''Export'' of
              Inr ex \<Rightarrow> (case getattr ex ''_Error'' of
                          Inr err \<Rightarrow> Assigned (py_str env err) | Inl _ \<Rightarrow> Unassigned)
            | Inl _ \<Rightarrow> if hasattr resp ''Import'' then Unassigned
                       else Assigned (py_repr env resp))"
proof (cases "hasattr resp ''Import''")
  case False
  show ?thesis
  proof (cases resp rule: handle_cases)
    case None
    with assms show ?thesis by (auto simp: from_suds_no_Import_no_Export)
  next
    case No_Export
    with assms False show ?thesis
      by (auto simp: from_suds_no_Import_no_Export hasattr_iff_getattr returns_iff
          split: sum.splits)
  next
    case (Export_Error ex err)
    with assms False show ?thesis by (auto simp: from_suds_Export_only)
  next
    case (Export_no_Error ex)
    with assms show ?thesis by (simp add: from_suds_Export_no_Error)
  qed
next
  case True
  then obtain imp where imp: "getattr resp ''Import'' = Inr imp"
    by (auto elim: hasattr_getattrE)
  from assms imp obtain r0 r1 h where
    h: "handle_suds_response_errors env resp ImportResult_init = Inr h"
    and "error_msg r0 = error_msg h"
    and "parse_messages env imp r0 = Inr r1" and "parse_elements imp r1 = Inr r"
    by (rule from_suds_Import_parts) blast
  then have "error_msg r = error_msg h"
    by (simp add: parse_messages_frame parse_elements_frame)
  with True imp handle_Inr_error_msg [OF h] show ?thesis
    by (auto simp: ImportResult_init_def split: sum.splits)
qed

theorem import_error_msg_witness:
  "ImportResult_from_suds sample_env PyNone =
     Inr (ImportResult_init\<lparr>has_error := Assigned True, error_msg := Assigned ''None''\<rparr>) \<and>
   error_msg (ImportResult_init\<lparr>has_error := Assigned True, error_msg := Assigned ''None''\<rparr>)
     = Assigned (py_repr sample_env PyNone)"
  using import_error_msg [of sample_env PyNone]
  by (simp add: from_suds_no_Import_no_Export)

end
