(* ===== verification/ExportResult.thy ===== *)
theory ExportResult
  imports ResultBase
begin

text \<open>
  \<^verbatim>\<open>ExportResult\<close> of \<^verbatim>\<open>result_classes.py\<close>: the record, \<^verbatim>\<open>ExportResult.from_suds\<close>
  with the loop over the archive, and \<^verbatim>\<open>__bool__\<close>.

  \<^verbatim>\<open>data\<close> is declared \<^verbatim>\<open>field(init=False)\<close> without a default, so the attribute does
  not exist until \<^verbatim>\<open>from_suds\<close> assigns it (\<open>None\<close> in the model); \<^verbatim>\<open>documents\<close> is a
  \<^verbatim>\<open>dict\<close>, kept as an association list in insertion order, where assigning to an
  existing key keeps the key's position (\<^const>\<open>AList.update\<close>).

  \<^verbatim>\<open>del suds_response.Report.Documents\<close> changes the object the caller passed in, and
  \<^verbatim>\<open>result.data\<close> is that same object: after the call the caller's response is the
  tree in \<open>data\<close>.
\<close>

section \<open>The record\<close>

record ExportResult = BaseResult +
  data :: "suds option"
  documents :: "(string \<times> byte list) list"

definition ExportResult_init :: ExportResult where
  "ExportResult_init =
     \<lparr>has_error = Unassigned, error_msg = Unassigned, data = None, documents = []\<rparr>"

section \<open>The documents\<close>

text \<open>
  The guard of the documents branch: a short-circuit conjunction, so each attribute
  is read only after \<^verbatim>\<open>hasattr\<close> has found it.
\<close>

definition has_documents :: "suds \<Rightarrow> bool" where
  "has_documents suds_response \<longleftrightarrow>
     hasattr suds_response ''Report'' \<and>
     (case getattr suds_response ''Report'' of
        Inr report \<Rightarrow>
          hasattr report ''Documents'' \<and>
          (case getattr report ''Documents'' of
             Inr d \<Rightarrow> isinstance_Text d
           | Inl _ \<Rightarrow> False)
      | Inl _ \<Rightarrow> False)"

text \<open>One pass through the body of \<^verbatim>\<open>for zipped_file in docs_zip.filelist\<close>.\<close>

definition document_step :: "zipfile \<Rightarrow> string \<Rightarrow> ExportResult \<Rightarrow> ExportResult result" where
  "document_step docs_zip filename result =
     rbind (zread docs_zip filename) (\<lambda>bs.
       Inr (result\<lparr>documents := AList.update filename bs (documents result)\<rparr>))"

definition parse_documents :: "pyenv \<Rightarrow> suds \<Rightarrow> ExportResult \<Rightarrow> ExportResult result" where
  "parse_documents env d result =
     rbind (b64decode env (py_str env d)) (\<lambda>bs.
     rbind (open_zip env bs) (\<lambda>docs_zip.
       rfold (document_step docs_zip) (filelist docs_zip) (result\<lparr>documents := []\<rparr>)))"

section \<open>from\_suds and truth value\<close>

definition ExportResult_from_suds :: "pyenv \<Rightarrow> suds \<Rightarrow> ExportResult result" where
  "ExportResult_from_suds env suds_response =
     rbind (handle_suds_response_errors env suds_response ExportResult_init) (\<lambda>r1.
     rbind (if has_documents suds_response then
              rbind (getattr suds_response ''Report'') (\<lambda>report.
              rbind (getattr report ''Documents'') (\<lambda>d.
              rbind (parse_documents env d (r1\<lparr>has_error := Assigned False\<rparr>)) (\<lambda>r2.
              rbind (delattr_in suds_response ''Report'' ''Documents'') (\<lambda>response'.
                Inr (r2, response')))))
            else Inr (r1, suds_response)) (\<lambda>(r2, response').
       let r3 = r2\<lparr>data := Some response'\<rparr> in
       Inr (if \<not> hasattr response' ''Export'' \<and> \<not> hasattr response' ''Report''
            then r3\<lparr>has_error := Assigned True,
                    error_msg := Assigned (py_repr env response')\<rparr>
            else r3)))"

definition ExportResult_bool :: "ExportResult \<Rightarrow> bool" where
  "ExportResult_bool self = (\<not> truthy (has_error self))"

section \<open>The abstract reading of an archive\<close>

text \<open>
  What the loop over the archive computes: one entry per distinct name, in the order
  of first occurrence, with the content the archive gives for that name.
\<close>

definition first_occurrences :: "'a list \<Rightarrow> 'a list" where
  "first_occurrences xs = fold (\<lambda>x seen. if x \<in> set seen then seen else seen @ [x]) xs []"

definition read_entry ::
  "zipfile \<Rightarrow> string \<Rightarrow> (string \<times> byte list) list \<Rightarrow> (string \<times> byte list) list result" where
  "read_entry z n docs = rbind (zread z n) (\<lambda>bs. Inr (AList.update n bs docs))"

definition archive_documents :: "zipfile \<Rightarrow> (string \<times> byte list) list result" where
  "archive_documents z =
     rmap (\<lambda>n. rbind (zread z n) (\<lambda>bs. Inr (n, bs))) (first_occurrences (filelist z))"

section \<open>Sample responses\<close>

definition sample_export :: suds where
  "sample_export =
     Object [(''Report'', Object [(''Row'', PyList [Text ''r1'', Text ''r2'']),
                                  (''Documents'', Text ''UEs='')])]"

definition sample_export_result :: ExportResult where
  "sample_export_result =
     \<lparr>has_error = Assigned False, error_msg = Unassigned,
      data = Some (Object [(''Report'', Object [(''Row'', PyList [Text ''r1'', Text ''r2''])])]),
      documents = [(''a.txt'', [104, 101, 108, 108, 111]), (''b.bin'', [0, 255])]\<rparr>"

definition sample_report_only :: suds where
  "sample_report_only = Object [(''Report'', Object [(''Row'', PyList [Text ''r1''])])]"

section \<open>Lemmas\<close>

lemmas export_defs [py_defs] =
  ExportResult_from_suds_def handle_suds_response_errors_def has_documents_def
  parse_documents_def document_step_def ExportResult_init_def delattr_in_def

lemmas sample_export_defs = sample_export_def sample_export_result_def sample_report_only_def

lemma ExportResult_bool_iff: "ExportResult_bool r \<longleftrightarrow> has_error r = Assigned False"
  by (simp add: ExportResult_bool_def not_truthy_iff)

lemma has_documents_iff:
  "has_documents resp \<longleftrightarrow>
     (\<exists>rep s. getattr resp ''Report'' = Inr rep \<and> getattr rep ''Documents'' = Inr (Text s))"
  by (auto simp: has_documents_def hasattr_iff_getattr returns_iff isinstance_Text_iff
      split: sum.splits)

lemma has_documents_hasattr: "has_documents resp \<Longrightarrow> hasattr resp ''Report''"
  by (simp add: has_documents_def)

lemma has_documents_simps [simp]: "\<not> has_documents PyNone"
  by (simp add: has_documents_def)

section \<open>The loop over the archive\<close>

lemma keys_update:
  "map fst (AList.update k v al) = (if k \<in> set (map fst al) then map fst al else map fst al @ [k])"
  by (induction al) auto

lemma fold_first_occurrences:
  "distinct seen \<Longrightarrow>
   distinct (fold (\<lambda>x seen. if x \<in> set seen then seen else seen @ [x]) xs seen) \<and>
   set (fold (\<lambda>x seen. if x \<in> set seen then seen else seen @ [x]) xs seen) = set seen \<union> set xs"
  by (induction xs arbitrary: seen) auto

lemma first_occurrences_distinct [simp]: "distinct (first_occurrences xs)"
  using fold_first_occurrences [of "[]" xs] by (simp add: first_occurrences_def)

lemma first_occurrences_set [simp]: "set (first_occurrences xs) = set xs"
  using fold_first_occurrences [of "[]" xs] by (simp add: first_occurrences_def)

lemma first_occurrences_distinct_id: "distinct xs \<Longrightarrow> first_occurrences xs = xs"
proof -
  have "distinct (seen @ xs) \<Longrightarrow>
        fold (\<lambda>x seen. if x \<in> set seen then seen else seen @ [x]) xs seen = seen @ xs" for seen
    by (induction xs arbitrary: seen) auto
  from this [of "[]"] show "distinct xs \<Longrightarrow> first_occurrences xs = xs"
    by (simp add: first_occurrences_def)
qed

lemma rfold_document_step_refines:
  "rfold (document_step z) names r =
     rbind (rfold (read_entry z) names (documents r)) (\<lambda>docs. Inr (r\<lparr>documents := docs\<rparr>))"
proof (induction names arbitrary: r)
  case Nil
  show ?case by simp
next
  case (Cons n names)
  have "document_step z n r =
          rbind (read_entry z n (documents r)) (\<lambda>docs. Inr (r\<lparr>documents := docs\<rparr>))"
    by (simp add: document_step_def read_entry_def rbind_assoc)
  then show ?case by (simp add: Cons.IH rbind_assoc)
qed

lemma read_entry_Inr_iff [result_iff]:
  "read_entry z n docs = Inr docs' \<longleftrightarrow> (\<exists>bs. zread z n = Inr bs \<and> docs' = AList.update n bs docs)"
  by (auto simp: read_entry_def result_iff)

lemma read_entry_returns_iff [result_iff]:
  "returns (read_entry z n docs) \<longleftrightarrow> returns (zread z n)"
  by (cases "zread z n") (simp_all add: read_entry_def)

lemma rfold_read_entry_keys:
  "rfold (read_entry z) names docs = Inr docs' \<Longrightarrow>
   map fst docs' =
     fold (\<lambda>x seen. if x \<in> set seen then seen else seen @ [x]) names (map fst docs)"
proof (induction names arbitrary: docs)
  case Nil
  then show ?case by simp
next
  case (Cons n names)
  then obtain bs where "rfold (read_entry z) names (AList.update n bs docs) = Inr docs'"
    by (auto simp: result_iff)
  from Cons.IH [OF this] show ?case by (simp add: keys_update)
qed

lemma rfold_read_entry_contents:
  assumes "rfold (read_entry z) names docs = Inr docs'"
    and "\<forall>(n, bs) \<in> set docs. zread z n = Inr bs"
  shows "\<forall>(n, bs) \<in> set docs'. zread z n = Inr bs"
proof (rule rfold_invariant [OF assms(1), where I = "\<lambda>d. \<forall>(n, bs) \<in> set d. zread z n = Inr bs"])
  show "\<forall>(n, bs) \<in> set docs. zread z n = Inr bs" by (rule assms(2))
next
  fix x u v
  assume "\<forall>(n, bs) \<in> set u. zread z n = Inr bs" and "read_entry z x u = Inr v"
  then obtain bs where "zread z x = Inr bs" and "v = AList.update x bs u"
    by (auto simp: result_iff)
  with \<open>\<forall>(n, bs) \<in> set u. zread z n = Inr bs\<close> set_update_subset [of x bs u]
  show "\<forall>(n, bs) \<in> set v. zread z n = Inr bs" by auto
qed

lemma rfold_read_entry_returns_iff:
  "returns (rfold (read_entry z) names docs) \<longleftrightarrow> list_all (\<lambda>n. returns (zread z n)) names"
proof (induction names arbitrary: docs)
  case Nil
  show ?case by simp
next
  case (Cons n names)
  have "returns (rfold (read_entry z) (n # names) docs) \<longleftrightarrow>
          (\<exists>d. read_entry z n docs = Inr d \<and> list_all (\<lambda>n. returns (zread z n)) names)"
    by (simp add: returns_rbind Cons.IH)
  also have "\<dots> \<longleftrightarrow> returns (read_entry z n docs) \<and> list_all (\<lambda>n. returns (zread z n)) names"
    by (auto simp: returns_iff)
  finally show ?case by (simp add: read_entry_returns_iff)
qed

lemma rmap_entries:
  "\<forall>(n, v) \<in> set al. g n = Inr v \<Longrightarrow>
   rmap (\<lambda>n. rbind (g n) (\<lambda>v. Inr (n, v))) (map fst al) = Inr al"
  by (induction al) auto

lemma rfold_read_entry_archive:
  assumes "rfold (read_entry z) (filelist z) [] = Inr docs"
  shows "archive_documents z = Inr docs"
proof -
  from rfold_read_entry_keys [OF assms] have "map fst docs = first_occurrences (filelist z)"
    by (simp add: first_occurrences_def)
  moreover from rfold_read_entry_contents [OF assms]
  have "\<forall>(n, bs) \<in> set docs. zread z n = Inr bs" by simp
  ultimately show ?thesis
    using rmap_entries [of docs "zread z"] by (simp add: archive_documents_def)
qed

lemma archive_documents_returns_iff:
  "returns (archive_documents z) \<longleftrightarrow> list_all (\<lambda>n. returns (zread z n)) (filelist z)"
proof -
  have "returns (rbind (zread z n) (\<lambda>bs. Inr (n, bs))) \<longleftrightarrow> returns (zread z n)" for n
    by (cases "zread z n") simp_all
  then show ?thesis by (simp add: archive_documents_def rmap_returns_iff list_all_iff)
qed

lemma parse_documents_Inr_iff:
  "parse_documents env d r = Inr r' \<longleftrightarrow>
     (\<exists>bs z docs. b64decode env (py_str env d) = Inr bs \<and> open_zip env bs = Inr z \<and>
        archive_documents z = Inr docs \<and> r' = r\<lparr>documents := docs\<rparr>)"
proof -
  have "rfold (read_entry z) (filelist z) [] = Inr docs \<longleftrightarrow> archive_documents z = Inr docs"
    for z docs
    using rfold_read_entry_archive [of z] rfold_read_entry_returns_iff [of z "filelist z" "[]"]
      archive_documents_returns_iff [of z]
    by (cases "rfold (read_entry z) (filelist z) []") (auto simp: returns_iff)
  then show ?thesis
    by (auto simp: parse_documents_def rfold_document_step_refines result_iff)
qed

lemma parse_documents_returns_iff:
  "returns (parse_documents env d r) \<longleftrightarrow>
     (\<exists>bs z. b64decode env (py_str env d) = Inr bs \<and> open_zip env bs = Inr z \<and>
        list_all (\<lambda>n. returns (zread z n)) (filelist z))"
proof -
  have R: "returns (archive_documents z) \<longleftrightarrow> (\<exists>docs. archive_documents z = Inr docs)" for z
    by (rule returns_iff)
  have "returns (parse_documents env d r) \<longleftrightarrow>
          (\<exists>bs z. b64decode env (py_str env d) = Inr bs \<and> open_zip env bs = Inr z \<and>
             returns (archive_documents z))"
    unfolding returns_iff [of "parse_documents env d r"] parse_documents_Inr_iff R by blast
  then show ?thesis by (simp add: archive_documents_returns_iff)
qed

section \<open>from\_suds by the shape of the response\<close>

lemma delattr_in_documents:
  assumes "delattr_in resp ''Report'' ''Documents'' = Inr resp'"
  shows "hasattr resp' ''Report''" and "\<not> has_documents resp'"
    and "hasattr resp' ''Export'' \<longleftrightarrow> hasattr resp ''Export''"
proof -
  from getattr_delattr_in_same [OF assms] obtain y y' where
    y: "getattr resp ''Report'' = Inr y" and y': "delattr y ''Documents'' = Inr y'"
    and r': "getattr resp' ''Report'' = Inr y'"
    by blast
  from r' show "hasattr resp' ''Report''" by (simp add: hasattr_iff_getattr)
  from hasattr_delattr [OF y'] have "\<not> hasattr y' ''Documents''" by simp
  with r' show "\<not> has_documents resp'" by (simp add: has_documents_def)
  show "hasattr resp' ''Export'' \<longleftrightarrow> hasattr resp ''Export''"
    by (rule hasattr_delattr_in [OF assms])
qed

lemma has_documents_delattr_in:
  assumes "has_documents resp"
  obtains resp' where "delattr_in resp ''Report'' ''Documents'' = Inr resp'"
proof -
  from assms have "returns (delattr_in resp ''Report'' ''Documents'')"
    by (auto simp: delattr_in_returns_iff has_documents_iff hasattr_iff_getattr)
  then show ?thesis by (auto simp: returns_iff intro: that)
qed

lemma from_suds_documents:
  assumes "getattr resp ''Report'' = Inr rep" and "getattr rep ''Documents'' = Inr (Text s)"
    and "delattr_in resp ''Report'' ''Documents'' = Inr resp'"
  shows "ExportResult_from_suds env resp =
           rbind (handle_suds_response_errors env resp ExportResult_init) (\<lambda>h.
           rbind (parse_documents env (Text s) (h\<lparr>has_error := Assigned False\<rparr>)) (\<lambda>r2.
             Inr (r2\<lparr>data := Some resp'\<rparr>)))"
proof -
  from assms(1,2) have "has_documents resp" by (auto simp: has_documents_iff)
  with assms delattr_in_documents(1) [OF assms(3)] show ?thesis
    by (simp add: ExportResult_from_suds_def rbind_assoc cong: rbind_cong)
qed

lemma from_suds_no_documents:
  "\<not> has_documents resp \<Longrightarrow>
   ExportResult_from_suds env resp =
     rbind (handle_suds_response_errors env resp ExportResult_init) (\<lambda>h.
       Inr (if \<not> hasattr resp ''Export'' \<and> \<not> hasattr resp ''Report''
            then h\<lparr>data := Some resp, has_error := Assigned True,
                   error_msg := Assigned (py_repr env resp)\<rparr>
            else h\<lparr>data := Some resp\<rparr>))"
  by (simp add: ExportResult_from_suds_def Let_def)

lemma handle_init_Inr:
  assumes "handle_suds_response_errors env resp ExportResult_init = Inr h"
  shows "data h = None" and "documents h = []"
    and "has_error h = (if resp = PyNone \<or> hasattr resp ''Export'' then Assigned True
                        else Unassigned)"
proof -
  from handle_Inr_update [OF assms] obtain b e where
    "h = ExportResult_init\<lparr>has_error := b, error_msg := e\<rparr>" by blast
  then show "data h = None" and "documents h = []"
    by (simp_all add: ExportResult_init_def)
  from handle_Inr_has_error [OF assms]
  show "has_error h = (if resp = PyNone \<or> hasattr resp ''Export'' then Assigned True
                       else Unassigned)"
    by (simp add: ExportResult_init_def)
qed

lemma from_suds_cases [consumes 1, case_names Documents No_Documents]:
  assumes "ExportResult_from_suds env resp = Inr r"
    and "\<And>rep s resp' h bs z docs.
           getattr resp ''Report'' = Inr rep \<Longrightarrow> getattr rep ''Documents'' = Inr (Text s) \<Longrightarrow>
           delattr_in resp ''Report'' ''Documents'' = Inr resp' \<Longrightarrow>
           handle_suds_response_errors env resp ExportResult_init = Inr h \<Longrightarrow>
           b64decode env s = Inr bs \<Longrightarrow> open_zip env bs = Inr z \<Longrightarrow>
           archive_documents z = Inr docs \<Longrightarrow>
           r = h\<lparr>has_error := Assigned False, documents := docs, data := Some resp'\<rparr> \<Longrightarrow> P"
    and "\<And>h. \<not> has_documents resp \<Longrightarrow>
           handle_suds_response_errors env resp ExportResult_init = Inr h \<Longrightarrow>
           r = (if \<not> hasattr resp ''Export'' \<and> \<not> hasattr resp ''Report''
                then h\<lparr>data := Some resp, has_error := Assigned True,
                       error_msg := Assigned (py_repr env resp)\<rparr>
                else h\<lparr>data := Some resp\<rparr>) \<Longrightarrow> P"
  shows P
proof (cases "has_documents resp")
  case False
  with assms(1) obtain h where "handle_suds_response_errors env resp ExportResult_init = Inr h"
    and "r = (if \<not> hasattr resp ''Export'' \<and> \<not> hasattr resp ''Report''
              then h\<lparr>data := Some resp, has_error := Assigned True,
                     error_msg := Assigned (py_repr env resp)\<rparr>
              else h\<lparr>data := Some resp\<rparr>)"
    by (auto simp: from_suds_no_documents result_iff)
  with False show ?thesis by (rule assms(3))
next
  case True
  then obtain rep s where rep: "getattr resp ''Report'' = Inr rep"
    and d: "getattr rep ''Documents'' = Inr (Text s)"
    by (auto simp: has_documents_iff)
  from True obtain resp' where del: "delattr_in resp ''Report'' ''Documents'' = Inr resp'"
    by (rule has_documents_delattr_in)
  from assms(1) obtain h bs z docs where
    "handle_suds_response_errors env resp ExportResult_init = Inr h"
    "b64decode env s = Inr bs" "open_zip env bs = Inr z" "archive_documents z = Inr docs"
    "r = h\<lparr>has_error := Assigned False, documents := docs, data := Some resp'\<rparr>"
    by (auto simp: from_suds_documents [OF rep d del] result_iff parse_documents_Inr_iff)
  with rep d del show ?thesis by (rule assms(2))
qed

lemma sample_export_eval:
  "ExportResult_from_suds sample_env sample_export = Inr sample_export_result"
  by (simp add: py_defs sample_export_defs AList.update_def AList.delete_eq)

lemma sample_export_parts:
  "getattr sample_export ''Report'' =
     Inr (Object [(''Row'', PyList [Text ''r1'', Text ''r2'']), (''Documents'', Text ''UEs='')])"
  "getattr (Object [(''Row'', PyList [Text ''r1'', Text ''r2'']), (''Documents'', Text ''UEs='')])
     ''Documents'' = Inr (Text ''UEs='')"
  "b64decode sample_env ''UEs='' = Inr [80, 75]"
  "open_zip sample_env [80, 75] = Inr sample_zip"
  by (simp_all add: sample_export_def sample_env_def)

lemma sample_bad_base64: "b64decode sample_env ''UEs'' = Inl (Builtin BinasciiError)"
  by (simp add: sample_env_def)

lemma sample_report_only_shape:
  "hasattr sample_report_only ''Report''" "\<not> has_documents sample_report_only"
  "\<not> hasattr sample_report_only ''Export''"
  by (simp_all add: sample_report_only_def has_documents_def)

lemma archive_documents_entries:
  assumes "archive_documents z = Inr docs"
  shows "map fst docs = first_occurrences (filelist z)"
    and "\<forall>(n, c) \<in> set docs. zread z n = Inr c"
proof -
  have "rmap (\<lambda>n. rbind (g n) (\<lambda>v. Inr (n, v))) ks = Inr al \<Longrightarrow>
        map fst al = ks \<and> (\<forall>(n, v) \<in> set al. g n = Inr v)"
    for g :: "string \<Rightarrow> byte list result" and ks al
    by (induction ks arbitrary: al) (auto simp: result_iff)
  from this [of "zread z" "first_occurrences (filelist z)" docs] assms
  show "map fst docs = first_occurrences (filelist z)"
    and "\<forall>(n, c) \<in> set docs. zread z n = Inr c"
    by (simp_all add: archive_documents_def)
qed

lemma from_suds_report_only:
  assumes "hasattr resp ''Report''" and "\<not> has_documents resp" and "\<not> hasattr resp ''Export''"
  shows "ExportResult_from_suds env resp = Inr (ExportResult_init\<lparr>data := Some resp\<rparr>)"
proof -
  from assms(1) have "resp \<noteq> PyNone" by auto
  with assms show ?thesis by (simp add: from_suds_no_documents handle_no_Export)
qed

section \<open>The contract of from\_suds\<close>

text \<open>
  C2 (functional): whenever \<^verbatim>\<open>ExportResult.from_suds\<close> returns, \<^verbatim>\<open>has_error\<close> is
  \<^verbatim>\<open>False\<close> exactly when the response has a \<^verbatim>\<open>Report\<close> whose \<^verbatim>\<open>Documents\<close> is a text
  node; it is \<^verbatim>\<open>True\<close> when, without such documents, the response has an \<^verbatim>\<open>Export\<close>
  node or no \<^verbatim>\<open>Report\<close> node; and for a report without documents (and without
  \<^verbatim>\<open>Export\<close>) it is never assigned. The truth value of the result therefore says
  whether documents were received, not whether the export succeeded.
\<close>

theorem export_has_error:
  assumes "ExportResult_from_suds env resp = Inr r"
  shows "has_error r =
           (if has_documents resp then Assigned False
            else if hasattr resp ''Export'' \<or> \<not> hasattr resp ''Report'' then Assigned True
            else Unassigned) \<and>
         (ExportResult_bool r \<longleftrightarrow> has_documents resp)"
  using assms
proof (cases rule: from_suds_cases)
  case (Documents rep s resp' h bs z docs)
  then have "has_documents resp" by (auto simp: has_documents_iff)
  with Documents(8) show ?thesis by (simp add: ExportResult_bool_iff)
next
  case (No_Documents h)
  from handle_init_Inr(3) [OF No_Documents(2)] No_Documents(1,3) show ?thesis
    by (cases "resp = PyNone") (auto simp: ExportResult_bool_iff)
qed

theorem export_has_error_witness:
  "ExportResult_from_suds sample_env sample_export = Inr sample_export_result \<and>
   has_error sample_export_result = Assigned False \<and> ExportResult_bool sample_export_result"
  using export_has_error [OF sample_export_eval] sample_export_eval
  by (simp add: sample_export_def has_documents_def)

text \<open>
  C24 (functional): for a response that has a \<^verbatim>\<open>Report\<close> node without a text
  \<^verbatim>\<open>Documents\<close> node and no \<^verbatim>\<open>Export\<close> node, which is an export of data without
  documents, \<^verbatim>\<open>ExportResult.from_suds\<close> returns the response as \<^verbatim>\<open>data\<close> with no
  documents, but assigns neither \<^verbatim>\<open>has_error\<close> nor \<^verbatim>\<open>error_msg\<close>: reading
  \<^verbatim>\<open>has_error\<close> yields the class attribute, which is truthy, so the result is falsy.
\<close>

theorem export_report_without_documents:
  assumes "hasattr resp ''Report''" and "\<not> has_documents resp" and "\<not> hasattr resp ''Export''"
  shows "\<exists>r. ExportResult_from_suds env resp = Inr r \<and> data r = Some resp \<and>
           documents r = [] \<and> has_error r = Unassigned \<and> error_msg r = Unassigned \<and>
           \<not> ExportResult_bool r"
  by (simp add: from_suds_report_only [OF assms] ExportResult_init_def ExportResult_bool_def)

theorem export_report_without_documents_witness:
  "\<exists>r. ExportResult_from_suds sample_env sample_report_only = Inr r \<and>
     data r = Some sample_report_only \<and> documents r = [] \<and> has_error r = Unassigned \<and>
     error_msg r = Unassigned \<and> \<not> ExportResult_bool r"
  by (rule export_report_without_documents [OF sample_report_only_shape])

text \<open>
  C6 (functional): when \<^verbatim>\<open>ExportResult.from_suds\<close> returns for a response whose
  \<^verbatim>\<open>Report.Documents\<close> is a text that decodes to an archive, \<^verbatim>\<open>documents\<close> has one
  entry per distinct file name of the archive, in the order of first occurrence in
  the archive's file list, each with the content the archive gives for that name.
\<close>

theorem export_documents:
  assumes "ExportResult_from_suds env resp = Inr r"
    and "getattr resp ''Report'' = Inr rep" and "getattr rep ''Documents'' = Inr (Text s)"
    and "b64decode env s = Inr bs" and "open_zip env bs = Inr z"
  shows "archive_documents z = Inr (documents r) \<and>
         map fst (documents r) = first_occurrences (filelist z) \<and>
         (\<forall>(n, c) \<in> set (documents r). zread z n = Inr c)"
  using assms(1)
proof (cases rule: from_suds_cases)
  case (Documents rep' s' resp' h bs' z' docs)
  with assms(2-5) have "archive_documents z = Inr (documents r)" by simp
  with archive_documents_entries [of z "documents r"] show ?thesis by simp
next
  case (No_Documents h)
  with assms(2,3) show ?thesis by (simp add: has_documents_iff)
qed

theorem export_documents_witness:
  "archive_documents sample_zip = Inr (documents sample_export_result) \<and>
   map fst (documents sample_export_result) = first_occurrences (filelist sample_zip) \<and>
   list_all (\<lambda>(n, c). zread sample_zip n = Inr c) (documents sample_export_result)"
  using export_documents [OF sample_export_eval sample_export_parts]
  by (simp add: list_all_iff)

text \<open>
  Whenever \<^verbatim>\<open>ExportResult.from_suds\<close> returns, \<^verbatim>\<open>data\<close> is assigned;
  it is the response itself, or, if the response had documents, the response with
  the \<^verbatim>\<open>Documents\<close> attribute deleted from its \<^verbatim>\<open>Report\<close>. In both cases \<^verbatim>\<open>data\<close> has
  no documents left, has a \<^verbatim>\<open>Report\<close> or \<^verbatim>\<open>Export\<close> node exactly when the response had
  one, and is a well-formed tree if the response was.
\<close>

theorem export_data_without_documents:
  assumes "ExportResult_from_suds env resp = Inr r"
  shows "\<exists>d. data r = Some d \<and> \<not> has_documents d \<and>
           (if has_documents resp then delattr_in resp ''Report'' ''Documents'' = Inr d
            else d = resp) \<and>
           (hasattr d ''Report'' \<longleftrightarrow> hasattr resp ''Report'') \<and>
           (hasattr d ''Export'' \<longleftrightarrow> hasattr resp ''Export'') \<and>
           (wf_suds resp \<longrightarrow> wf_suds d)"
  using assms
proof (cases rule: from_suds_cases)
  case (Documents rep s resp' h bs z docs)
  then have "has_documents resp" by (auto simp: has_documents_iff)
  with Documents(3,8) delattr_in_documents [OF Documents(3)] wf_suds_delattr_in [of resp]
  show ?thesis by (auto dest: has_documents_hasattr)
next
  case (No_Documents h)
  then show ?thesis by auto
qed

theorem export_data_without_documents_witness:
  "\<exists>d. data sample_export_result = Some d \<and> \<not> has_documents d \<and>
     (if has_documents sample_export
      then delattr_in sample_export ''Report'' ''Documents'' = Inr d else d = sample_export) \<and>
     (hasattr d ''Report'' \<longleftrightarrow> hasattr sample_export ''Report'') \<and>
     (hasattr d ''Export'' \<longleftrightarrow> hasattr sample_export ''Export'') \<and>
     (wf_suds sample_export \<longrightarrow> wf_suds d)"
  by (rule export_data_without_documents [OF sample_export_eval])

text \<open>
  C13 (error): \<^verbatim>\<open>ExportResult.from_suds\<close> returns a result, rather than raising,
  exactly when an \<^verbatim>\<open>Export\<close> node of the response has an \<^verbatim>\<open>_Error\<close> attribute and, if
  the response has documents, their text decodes as base64, the bytes open as an
  archive, and every file of the archive's list can be read.
\<close>

theorem export_returns_iff:
  "returns (ExportResult_from_suds env resp) \<longleftrightarrow>
     (\<forall>ex. getattr resp ''Export'' = Inr ex \<longrightarrow> hasattr ex ''_Error'') \<and>
     (\<forall>rep s. getattr resp ''Report'' = Inr rep \<and> getattr rep ''Documents'' = Inr (Text s) \<longrightarrow>
        (\<exists>bs z. b64decode env s = Inr bs \<and> open_zip env bs = Inr z \<and>
           list_all (\<lambda>n. returns (zread z n)) (filelist z)))"
proof (cases "has_documents resp")
  case False
  then have "returns (ExportResult_from_suds env resp) \<longleftrightarrow>
               returns (handle_suds_response_errors env resp ExportResult_init)"
    by (simp add: from_suds_no_documents returns_rbind) (simp add: returns_iff)
  then have "returns (ExportResult_from_suds env resp) \<longleftrightarrow>
               (\<forall>ex. getattr resp ''Export'' = Inr ex \<longrightarrow> hasattr ex ''_Error'')"
    by (simp only: handle_returns_iff)
  moreover from False
  have "\<forall>rep s. \<not> (getattr resp ''Report'' = Inr rep \<and> getattr rep ''Documents'' = Inr (Text s))"
    by (simp add: has_documents_iff)
  ultimately show ?thesis by blast
next
  case True
  then obtain rep s where rep: "getattr resp ''Report'' = Inr rep"
    and d: "getattr rep ''Documents'' = Inr (Text s)"
    by (auto simp: has_documents_iff)
  from True obtain resp' where del: "delattr_in resp ''Report'' ''Documents'' = Inr resp'"
    by (rule has_documents_delattr_in)
  have "returns (ExportResult_from_suds env resp) \<longleftrightarrow>
          (\<exists>h. handle_suds_response_errors env resp ExportResult_init = Inr h) \<and>
          (\<exists>bs z. b64decode env s = Inr bs \<and> open_zip env bs = Inr z \<and>
             list_all (\<lambda>n. returns (zread z n)) (filelist z))"
    unfolding from_suds_documents [OF rep d del] returns_rbind
    using parse_documents_returns_iff [of env "Text s"]
    by (auto simp: returns_iff)
  with rep d show ?thesis by (simp add: handle_returns_iff flip: returns_iff)
qed

theorem export_returns_iff_witness:
  "returns (ExportResult_from_suds sample_env sample_export) \<and>
   list_all (\<lambda>n. returns (zread sample_zip n)) (filelist sample_zip) \<and>
   \<not> returns (ExportResult_from_suds sample_env
        (Object [(''Report'', Object [(''Documents'', Text ''UEs'')])]))"
  using export_returns_iff [of sample_env sample_export]
    export_returns_iff [of sample_env "Object [(''Report'', Object [(''Documents'', Text ''UEs'')])]"]
  by (simp add: sample_export_eval sample_export_parts sample_bad_base64 sample_zip_def)

text \<open>
  The error message of a result that \<^verbatim>\<open>ExportResult.from_suds\<close>
  returns. With an \<^verbatim>\<open>Export\<close> node it is the text of its \<^verbatim>\<open>_Error\<close>; with neither an
  \<^verbatim>\<open>Export\<close> nor a \<^verbatim>\<open>Report\<close> node it is the \<^verbatim>\<open>repr\<close> of the response, for \<^verbatim>\<open>None\<close>
  the word \<^verbatim>\<open>None\<close>; with a \<^verbatim>\<open>Report\<close> node only it is never assigned.
\<close>

theorem export_error_msg:
  assumes "ExportResult_from_suds env resp = Inr r"
  shows "error_msg r =
           (case getattr resp ''Export'' of
              Inr ex \<Rightarrow> (case getattr ex ''_Error'' of
                          Inr err \<Rightarrow> Assigned (py_str env err) | Inl _ \<Rightarrow> Unassigned)
            | Inl _ \<Rightarrow> if hasattr resp ''Report'' then Unassigned
                       else Assigned (py_repr env resp))"
  using assms
proof (cases rule: from_suds_cases)
  case (Documents rep s resp' h bs z docs)
  from handle_Inr_error_msg [OF Documents(4)] Documents(1,8) show ?thesis
    by (auto simp: ExportResult_init_def hasattr_iff_getattr split: sum.splits)
next
  case (No_Documents h)
  from handle_Inr_error_msg [OF No_Documents(2)] No_Documents(3) show ?thesis
    by (auto simp: ExportResult_init_def hasattr_iff_getattr returns_iff split: sum.splits)
qed

theorem export_error_msg_witness:
  "ExportResult_from_suds sample_env sample_export = Inr sample_export_result \<and>
   error_msg sample_export_result = Unassigned"
  using export_error_msg [OF sample_export_eval] sample_export_eval
  by (simp add: sample_export_def)

text \<open>
  C33 (safety): \<^verbatim>\<open>ExportResult.from_suds\<close> consumes the documents of the object it is
  given. After a call that returned documents for a response without an \<^verbatim>\<open>Export\<close>
  node, the caller's response object is the tree in \<^verbatim>\<open>data\<close>, and a second call on it
  returns no documents and a result that is falsy.
\<close>

theorem export_second_call:
  assumes "ExportResult_from_suds env resp = Inr r" and "has_documents resp"
    and "\<not> hasattr resp ''Export''" and "data r = Some d"
  shows "\<exists>r'. ExportResult_from_suds env d = Inr r' \<and> documents r' = [] \<and> data r' = Some d \<and>
           ExportResult_bool r \<and> \<not> ExportResult_bool r'"
  using assms(1)
proof (cases rule: from_suds_cases)
  case (Documents rep s resp' h bs z docs)
  with assms(4) have d: "delattr_in resp ''Report'' ''Documents'' = Inr d" by simp
  from delattr_in_documents [OF d] assms(3)
  have "ExportResult_from_suds env d = Inr (ExportResult_init\<lparr>data := Some d\<rparr>)"
    by (intro from_suds_report_only) simp_all
  with Documents(8) show ?thesis
    by (simp add: ExportResult_init_def ExportResult_bool_def)
next
  case (No_Documents h)
  with assms(2) show ?thesis by simp
qed

theorem export_second_call_witness:
  "\<exists>r'. ExportResult_from_suds sample_env
          (Object [(''Report'', Object [(''Row'', PyList [Text ''r1'', Text ''r2''])])]) = Inr r' \<and>
     documents r' = [] \<and>
     data r' = Some (Object [(''Report'', Object [(''Row'', PyList [Text ''r1'', Text ''r2''])])]) \<and>
     ExportResult_bool sample_export_result \<and> \<not> ExportResult_bool r'"
  by (rule export_second_call [OF sample_export_eval])
     (simp_all add: sample_export_def sample_export_result_def has_documents_def)

end
