(* ===== verification/Render.thy ===== *)
theory Render
  imports ImportResult ExportResult
begin

text \<open>
  The four \<^verbatim>\<open>__str__\<close> methods of \<^verbatim>\<open>result_classes.py\<close>. A rendering is a string or the
  exception the method raises. The formatting the f-strings ask of the standard library
  is written out: \<^verbatim>\<open>{x:45}\<close> and \<^verbatim>\<open>{x:<8}\<close> pad a string on the right, \<^verbatim>\<open>{n:>12}\<close> pads a
  number on the left, \<^verbatim>\<open>{n:05}\<close> fills with zeros after the sign, \<^verbatim>\<open>str\<close> of a time and of
  a time difference are the ISO format and \<^verbatim>\<open>[D day[s], ]H:MM:SS[.ffffff]\<close>. A format
  with a width is defined for strings only: for any other value of the response tree
  it raises \<^verbatim>\<open>TypeError\<close>. The colour codes are those of \<^verbatim>\<open>colorama\<close>.
\<close>

section \<open>Formatting\<close>

definition NL :: string where
  "NL = [CHR 0x0A]"

definition str_of_int :: "int \<Rightarrow> string" where
  "str_of_int i = (if i < 0 then CHR ''-'' # str_of_nat (nat (- i)) else str_of_nat (nat i))"

definition ljust :: "nat \<Rightarrow> string \<Rightarrow> string" where
  "ljust w s = s @ replicate (w - length s) CHR '' ''"

definition rjust :: "nat \<Rightarrow> string \<Rightarrow> string" where
  "rjust w s = replicate (w - length s) CHR '' '' @ s"

definition format_int_zero :: "nat \<Rightarrow> int \<Rightarrow> string" where
  "format_int_zero w i =
     (if i < 0 then CHR ''-'' # zfill (w - 1) (str_of_nat (nat (- i)))
      else zfill w (str_of_nat (nat i)))"

definition format_text :: "(string \<Rightarrow> string) \<Rightarrow> suds \<Rightarrow> string result" where
  "format_text pad v = (case v of Text s \<Rightarrow> Inr (pad s) | _ \<Rightarrow> Inl (Builtin TypeError))"

definition time_isoformat :: "pytime \<Rightarrow> string" where
  "time_isoformat t =
     zfill 2 (str_of_nat (hour t)) @ '':'' @ zfill 2 (str_of_nat (minute t)) @ '':'' @
     zfill 2 (str_of_nat (second t)) @
     (if microsecond t \<noteq> 0 then ''.'' @ zfill 6 (str_of_nat (microsecond t)) else [])"

definition str_of_timedelta :: "timedelta \<Rightarrow> string" where
  "str_of_timedelta d =
     (let days = td_days d; seconds = nat (td_seconds d); us = nat (d mod 1000000);
          s = str_of_nat (seconds div 3600) @ '':'' @
              zfill 2 (str_of_nat (seconds div 60 mod 60)) @ '':'' @
              zfill 2 (str_of_nat (seconds mod 60));
          s = (if days \<noteq> 0
               then str_of_int days @ '' day'' @ (if \<bar>days\<bar> \<noteq> 1 then ''s'' else []) @ '', '' @ s
               else s)
      in if us \<noteq> 0 then s @ ''.'' @ zfill 6 (str_of_nat us) else s)"

text \<open>The truth value of a value of the response tree: its length, \<^verbatim>\<open>None\<close> is false.\<close>

definition suds_truthy :: "suds \<Rightarrow> bool" where
  "suds_truthy v =
     (case v of PyNone \<Rightarrow> False | Text s \<Rightarrow> s \<noteq> [] | Object al \<Rightarrow> al \<noteq> [] | PyList xs \<Rightarrow> xs \<noteq> [])"

section \<open>Colours\<close>

definition Fore_BLUE :: string where "Fore_BLUE = CHR 0x1B # ''[34m''"
definition Fore_GREEN :: string where "Fore_GREEN = CHR 0x1B # ''[32m''"
definition Fore_YELLOW :: string where "Fore_YELLOW = CHR 0x1B # ''[33m''"
definition Fore_RED :: string where "Fore_RED = CHR 0x1B # ''[31m''"
definition Fore_RESET :: string where "Fore_RESET = CHR 0x1B # ''[39m''"
definition Style_BRIGHT :: string where "Style_BRIGHT = CHR 0x1B # ''[1m''"
definition Style_RESET_ALL :: string where "Style_RESET_ALL = CHR 0x1B # ''[0m''"

section \<open>The error line\<close>

definition slot_str :: "pyenv \<Rightarrow> string slot \<Rightarrow> string" where
  "slot_str env s = (case s of Unassigned \<Rightarrow> field_str env | Assigned msg \<Rightarrow> msg)"

definition error_line :: "pyenv \<Rightarrow> bool slot \<Rightarrow> string slot \<Rightarrow> string" where
  "error_line env has_err msg =
     (if truthy has_err then ''ERROR: '' @ slot_str env msg @ NL else [])"

section \<open>ExportResult\<close>

definition document_line :: "string \<times> byte list \<Rightarrow> string" where
  "document_line = (\<lambda>(key, v). ljust 45 key @ '' '' @ rjust 12 (str_of_nat (length v)) @ NL)"

definition ExportResult_str :: "pyenv \<Rightarrow> ExportResult \<Rightarrow> string result" where
  "ExportResult_str env self =
     (let result = error_line env (has_error self) (error_msg self) in
      case data self of
        None \<Rightarrow> Inl (Builtin AttributeError)
      | Some d \<Rightarrow>
          (let result = (if suds_truthy d
                         then result @ ''[Data]: '' @ NL @ py_str env d @ NL else result);
               result = (if documents self \<noteq> []
                         then fold (\<lambda>item result. result @ document_line item) (documents self)
                                (result @ ''[Documents]: '' @ NL @ Style_BRIGHT @
                                 ''RelaticsFilename                              Size (bytes)'' @
                                 NL @ Style_RESET_ALL)
                         else result)
           in Inr result))"

section \<open>ImportMessage and ImportElement\<close>

definition status_fore_color :: "(string \<times> string) list" where
  "status_fore_color =
     [(''Progress'', Fore_BLUE), (''Comment'', Fore_RESET), (''Success'', Fore_GREEN),
      (''Warning'', Fore_YELLOW), (''Error'', Fore_RED)]"

text \<open>
  The subscript \<^verbatim>\<open>status_fore_color[self.status]\<close>: a string that is no key and any
  other hashable value raise \<^verbatim>\<open>KeyError\<close>, a list cannot be hashed.
\<close>

definition lookup_color :: "suds \<Rightarrow> string result" where
  "lookup_color v =
     (case v of
        Text s \<Rightarrow> of_option (Builtin KeyError) (map_of status_fore_color s)
      | PyList xs \<Rightarrow> Inl (Builtin TypeError)
      | _ \<Rightarrow> Inl (Builtin KeyError))"

definition ImportMessage_str :: "pyenv \<Rightarrow> ImportMessage \<Rightarrow> string result" where
  "ImportMessage_str env self =
     rbind (lookup_color (status self)) (\<lambda>status_color.
     rbind (format_text (ljust 8) (status self)) (\<lambda>st.
       Inr (time_isoformat (time self) @ ''  '' @ format_int_zero 5 (row self) @ ''  '' @
            status_color @ st @ Fore_RESET @ ''  '' @ py_str env (message self))))"

definition ImportElement_str :: "pyenv \<Rightarrow> ImportElement \<Rightarrow> string result" where
  "ImportElement_str env self =
     rbind (format_text (ljust 6) (action self)) (\<lambda>a.
       Inr (a @ ''  '' @ py_str env (elem_id self) @ ''  '' @ py_str env (foreign_key self)))"

section \<open>ImportResult\<close>

definition message_line :: "pyenv \<Rightarrow> ImportMessage \<Rightarrow> string \<Rightarrow> string result" where
  "message_line env msg result =
     rbind (ImportMessage_str env msg) (\<lambda>s. Inr (result @ s @ '' '' @ NL))"

definition element_line :: "pyenv \<Rightarrow> ImportElement \<Rightarrow> string \<Rightarrow> string result" where
  "element_line env elem result =
     rbind (ImportElement_str env elem) (\<lambda>s. Inr (result @ s @ '' '' @ NL))"

definition ImportResult_str :: "pyenv \<Rightarrow> ImportResult \<Rightarrow> string result" where
  "ImportResult_str env self =
     (let result = error_line env (has_error self) (error_msg self);
          result = (case total_rows self of
                      Some n \<Rightarrow> result @ ''Rows imported : '' @ str_of_int n @ NL
                    | None \<Rightarrow> result);
          result = (case elapsed_time self of
                      Some d \<Rightarrow>
                        result @ ''Elapsed time  : '' @ str_of_timedelta d @
                        '' (h:mm:ss.mmmmmm)'' @ NL
                    | None \<Rightarrow> result)
      in rbind (if messages self \<noteq> []
                then rfold (message_line env) (messages self)
                       (result @ ''[Messages]: '' @ NL @ Style_BRIGHT @
                        ''Time      Row    Status    Message'' @ NL @ Style_RESET_ALL)
                else Inr result) (\<lambda>result.
         if elements self \<noteq> []
         then rfold (element_line env) (elements self)
                (result @ ''[Elements]: '' @ NL @ Style_BRIGHT @
                 ''Action  ID                                    Foreign key'' @ NL @
                 Style_RESET_ALL)
         else Inr result))"

section \<open>The rendering as blocks of lines\<close>

text \<open>
  What the loops of \<^verbatim>\<open>ImportResult.__str__\<close> build: a header, then for a list that is not
  empty a title and one line per entry, each line followed by a space and a line break.
\<close>

definition block :: "string \<Rightarrow> string list \<Rightarrow> string" where
  "block title entries =
     (if entries = [] then [] else title @ concat (map (\<lambda>s. s @ '' '' @ NL) entries))"

definition import_header :: "pyenv \<Rightarrow> ImportResult \<Rightarrow> string" where
  "import_header env self =
     error_line env (has_error self) (error_msg self) @
     (case total_rows self of
        Some n \<Rightarrow> ''Rows imported : '' @ str_of_int n @ NL | None \<Rightarrow> []) @
     (case elapsed_time self of
        Some d \<Rightarrow> ''Elapsed time  : '' @ str_of_timedelta d @ '' (h:mm:ss.mmmmmm)'' @ NL
      | None \<Rightarrow> [])"

definition messages_title :: string where
  "messages_title =
     ''[Messages]: '' @ NL @ Style_BRIGHT @ ''Time      Row    Status    Message'' @ NL @
     Style_RESET_ALL"

definition elements_title :: string where
  "elements_title =
     ''[Elements]: '' @ NL @ Style_BRIGHT @
     ''Action  ID                                    Foreign key'' @ NL @ Style_RESET_ALL"

definition import_text :: "pyenv \<Rightarrow> ImportResult \<Rightarrow> string result" where
  "import_text env self =
     rbind (rmap (ImportMessage_str env) (messages self)) (\<lambda>ms.
     rbind (rmap (ImportElement_str env) (elements self)) (\<lambda>es.
       Inr (import_header env self @ block messages_title ms @ block elements_title es)))"

text \<open>An import result with a message whose status is none of the five.\<close>

definition sample_unknown_status :: ImportResult where
  "sample_unknown_status =
     ImportResult_init
       \<lparr>has_error := Assigned False,
        messages := [\<lparr>time = \<lparr>hour = 9, minute = 5, second = 0, microsecond = 0\<rparr>,
                      status = Text ''Info'', message = Text ''Started.'', row = 0\<rparr>]\<rparr>"

section \<open>Lemmas on formatting\<close>

lemmas render_defs [py_defs] =
  NL_def str_of_int_def ljust_def rjust_def format_int_zero_def format_text_def
  time_isoformat_def str_of_timedelta_def suds_truthy_def slot_str_def error_line_def
  document_line_def ExportResult_str_def status_fore_color_def lookup_color_def
  ImportMessage_str_def ImportElement_str_def message_line_def element_line_def
  ImportResult_str_def td_days_def td_seconds_def

lemmas colour_defs =
  Fore_BLUE_def Fore_GREEN_def Fore_YELLOW_def Fore_RED_def Fore_RESET_def Style_BRIGHT_def
  Style_RESET_ALL_def

lemma ljust_length [simp]: "length (ljust w s) = max w (length s)"
  by (simp add: ljust_def)

lemma rjust_length [simp]: "length (rjust w s) = max w (length s)"
  by (simp add: rjust_def)

lemma ljust_prefix: "take (length s) (ljust w s) = s"
  by (simp add: ljust_def)

lemma zfill_length [simp]: "length (zfill w s) = max w (length s)"
  by (simp add: zfill_def)

lemma format_text_returns_iff [result_iff]:
  "format_text pad v = Inr t \<longleftrightarrow> (\<exists>s. v = Text s \<and> t = pad s)"
  by (cases v) (auto simp: format_text_def)

lemma format_text_Text [simp]: "format_text pad (Text s) = Inr (pad s)"
  by (simp add: format_text_def)

text \<open>What \<^verbatim>\<open>{n:05}\<close> prints is read back by \<^verbatim>\<open>int\<close>.\<close>

lemma py_int_format_int_zero: "py_int (format_int_zero w i) = Some i"
proof (cases "i < 0")
  case True
  let ?ds = "zfill (w - 1) (str_of_nat (nat (- i)))"
  have ds: "?ds \<noteq> []" "list_all is_digit ?ds"
    by (simp_all add: zfill_nonempty str_of_nat_nonempty zfill_digits str_of_nat_digits)
  then have "\<not> py_isspace (last ?ds)"
    by (auto simp: list_all_iff is_digit_not_space)
  with ds(1) have "py_strip (CHR ''-'' # ?ds) = CHR ''-'' # ?ds"
    by (intro py_strip_id) (simp_all add: py_isspace_def)
  moreover have "py_digits ?ds = Some (nat (- i))"
    using py_digits_digits [OF ds]
    by (simp add: zfill_def nat_of_digits_zeros nat_of_digits_str_of_nat)
  ultimately show ?thesis using True by (simp add: format_int_zero_def py_int_def)
next
  case False
  with py_int_str_of_nat [of w "nat i"] show ?thesis by (simp add: format_int_zero_def)
qed

lemma format_int_zero_length: "5 \<le> length (format_int_zero 5 i)"
  by (simp add: format_int_zero_def)

text \<open>A number has at most \<open>k\<close> digits exactly when it is below \<open>10\<^sup>k\<close>.\<close>

lemma str_of_nat_length_le: "0 < k \<Longrightarrow> length (str_of_nat n) \<le> k \<longleftrightarrow> n < 10 ^ k"
proof (induction n arbitrary: k rule: str_of_nat.induct)
  case (1 n)
  show ?case
  proof (cases "n < 10")
    case True
    with 1(2) have "n < 10 ^ k"
      by (metis less_le_trans one_le_numeral power_increasing power_one_right Suc_leI
          One_nat_def)
    with True 1(2) show ?thesis by (subst str_of_nat.simps) (simp add: Suc_leI)
  next
    case False
    show ?thesis
    proof (cases k)
      case (Suc j)
      show ?thesis
      proof (cases "j = 0")
        case True
        with False Suc show ?thesis
          by (subst str_of_nat.simps) (simp add: str_of_nat_nonempty Suc_le_eq)
      next
        case nz: False
        with 1(1) [OF False, of j] False Suc show ?thesis
          by (subst str_of_nat.simps) (simp add: div_less_iff_less_mult mult.commute)
      qed
    qed (use 1(2) in simp)
  qed
qed

lemma format_int_zero_width:
  "length (format_int_zero 5 i) = 5 \<longleftrightarrow> - 9999 \<le> i \<and> i \<le> 99999"
proof (cases "i < 0")
  case True
  have "length (str_of_nat (nat (- i))) \<le> 4 \<longleftrightarrow> nat (- i) < 10 ^ 4"
    by (rule str_of_nat_length_le) simp
  with True show ?thesis by (auto simp: format_int_zero_def max_def)
next
  case False
  have "length (str_of_nat (nat i)) \<le> 5 \<longleftrightarrow> nat i < 10 ^ 5"
    by (rule str_of_nat_length_le) simp
  with False show ?thesis by (auto simp: format_int_zero_def max_def)
qed

lemma time_isoformat_length:
  "microsecond t = 0 \<Longrightarrow> hour t < 24 \<Longrightarrow> minute t < 60 \<Longrightarrow> second t < 60 \<Longrightarrow>
   length (time_isoformat t) = 8"
proof -
  have two: "length (zfill 2 (str_of_nat n)) = 2" if "n < 100" for n
    using str_of_nat_length_le [of 2 n] that by (simp add: max_def)
  assume "microsecond t = 0" "hour t < 24" "minute t < 60" "second t < 60"
  then show ?thesis by (simp add: time_isoformat_def two del: zfill_length)
qed

section \<open>Lemmas on the colours\<close>

lemma lookup_color_Inr_iff [result_iff]:
  "lookup_color v = Inr c \<longleftrightarrow> (\<exists>s. v = Text s \<and> map_of status_fore_color s = Some c)"
  by (cases v) (auto simp: lookup_color_def result_iff)

lemma lookup_color_returns_iff: "returns (lookup_color v) \<longleftrightarrow> known_status v"
proof (cases v)
  case (Text s)
  have "map_of status_fore_color s \<noteq> None \<longleftrightarrow>
          s \<in> {''Progress'', ''Comment'', ''Success'', ''Warning'', ''Error''}"
    by (simp add: status_fore_color_def)
  with Text show ?thesis
    by (cases "map_of status_fore_color s") (auto simp: lookup_color_def known_status_def)
qed (simp_all add: lookup_color_def known_status_def)

lemma lookup_color_length: "lookup_color v = Inr c \<Longrightarrow> length c = 5"
  by (auto simp: lookup_color_Inr_iff status_fore_color_def colour_defs split: if_splits)

lemma known_status_width: "known_status (Text s) \<Longrightarrow> length (ljust 8 s) = 8"
  by (auto simp: known_status_def)

section \<open>Loops that append lines\<close>

lemma fold_append_lines: "fold (\<lambda>x r. r @ f x) xs r0 = r0 @ concat (map f xs)"
  by (induction xs arbitrary: r0) simp_all

lemma rfold_append_lines:
  "rfold (\<lambda>x r. rbind (g x) (\<lambda>s. Inr (r @ h s))) xs r0 =
     rbind (rmap g xs) (\<lambda>ss. Inr (r0 @ concat (map h ss)))"
proof (induction xs arbitrary: r0)
  case (Cons x xs)
  show ?case by (cases "g x"; cases "rmap g xs") (simp_all add: Cons.IH)
qed simp

lemma rmap_Nil_iff: "rmap f xs = Inr [] \<longleftrightarrow> xs = []"
  by (cases xs) (auto simp: result_iff)

lemma block_rfold:
  "(if xs \<noteq> [] then rfold (\<lambda>x r. rbind (g x) (\<lambda>s. Inr (r @ s @ '' '' @ NL))) xs (r0 @ title)
    else Inr r0) =
   rbind (rmap g xs) (\<lambda>ss. Inr (r0 @ block title ss))"
proof (cases "rmap g xs")
  case (Inr ss)
  then have "ss = [] \<longleftrightarrow> xs = []" using rmap_Nil_iff [of g xs] rmap_length [OF Inr] by auto
  with Inr show ?thesis by (auto simp: rfold_append_lines block_def)
next
  case (Inl e)
  then have "xs \<noteq> []" by auto
  with Inl show ?thesis by (simp add: rfold_append_lines)
qed

section \<open>ImportMessage and ImportElement\<close>

lemma ImportMessage_str_returns_iff:
  "returns (ImportMessage_str env m) \<longleftrightarrow> known_status (status m)"
  using lookup_color_returns_iff [of "status m"]
  by (cases "status m") (auto simp: ImportMessage_str_def result_iff returns_iff known_status_def)

lemma ImportElement_str_returns_iff:
  "returns (ImportElement_str env e) \<longleftrightarrow> isinstance_Text (action e)"
  by (cases "action e") (simp_all add: ImportElement_str_def format_text_def)

lemma rmap_Inl: "rmap f xs = Inl e \<Longrightarrow> \<exists>x \<in> set xs. f x = Inl e"
  by (induction xs) (auto simp: result_iff)

lemma ImportMessage_str_Inl:
  "ImportMessage_str env m = Inl e \<Longrightarrow> e = Builtin KeyError \<or> e = Builtin TypeError"
  by (cases "status m")
    (auto simp: ImportMessage_str_def lookup_color_def format_text_def result_iff
      of_option_def split: option.splits)

lemma ImportElement_str_Inl: "ImportElement_str env el = Inl e \<Longrightarrow> e = Builtin TypeError"
  by (cases "action el") (auto simp: ImportElement_str_def format_text_def)

lemma ImportMessage_str_unknown:
  "map_of status_fore_color s = None \<Longrightarrow> status m = Text s \<Longrightarrow>
   ImportMessage_str env m = Inl (Builtin KeyError)"
  by (simp add: ImportMessage_str_def lookup_color_def)

text \<open>
  The loops of \<^verbatim>\<open>ImportResult.__str__\<close> build the header followed by the block of the
  messages and the block of the elements, each block a title and one line per entry in
  the order of the list, and nothing for an empty list. The first entry that cannot be
  rendered decides the exception, a message before any element.
\<close>

lemma ImportResult_str_blocks: "ImportResult_str env self = import_text env self"
proof -
  let ?h = "import_header env self"
  have head: "ImportResult_str env self =
      rbind (if messages self \<noteq> []
             then rfold (message_line env) (messages self) (?h @ messages_title)
             else Inr ?h) (\<lambda>result.
        if elements self \<noteq> []
        then rfold (element_line env) (elements self) (result @ elements_title)
        else Inr result)"
    by (simp add: ImportResult_str_def import_header_def messages_title_def elements_title_def
        Let_def split: option.splits)
  have lines: "message_line env = (\<lambda>x r. rbind (ImportMessage_str env x) (\<lambda>s. Inr (r @ s @ '' '' @ NL)))"
    "element_line env = (\<lambda>x r. rbind (ImportElement_str env x) (\<lambda>s. Inr (r @ s @ '' '' @ NL)))"
    by (simp_all add: message_line_def element_line_def fun_eq_iff)
  show ?thesis
    unfolding head lines block_rfold import_text_def
    by (simp add: rbind_assoc)
qed

lemma sample_unknown_status_str:
  "ImportResult_str env sample_unknown_status = Inl (Builtin KeyError)"
proof -
  have "ImportMessage_str env m = Inl (Builtin KeyError)" if "status m = Text ''Info''" for m
    by (rule ImportMessage_str_unknown [OF _ that]) (simp add: status_fore_color_def)
  then show ?thesis
    by (simp add: ImportResult_str_blocks import_text_def sample_unknown_status_def
        ImportResult_init_def)
qed

section \<open>ExportResult\<close>

lemma hasattr_truthy: "hasattr x n \<Longrightarrow> suds_truthy x"
  by (cases x) (auto simp: suds_truthy_def)

lemma ExportResult_str_no_documents:
  "data self = Some d \<Longrightarrow> documents self = [] \<Longrightarrow>
   ExportResult_str env self =
     Inr (error_line env (has_error self) (error_msg self) @
          (if suds_truthy d then ''[Data]: '' @ NL @ py_str env d @ NL else []))"
  by (simp add: ExportResult_str_def)

lemma ExportResult_str_returns_iff: "returns (ExportResult_str env self) \<longleftrightarrow> data self \<noteq> None"
  by (cases "data self") (simp_all add: ExportResult_str_def Let_def)

lemma from_suds_str_returns:
  assumes "ExportResult_from_suds env resp = Inr r"
  shows "returns (ExportResult_str env r)"
  using assms by (cases rule: from_suds_cases) (auto simp: ExportResult_str_returns_iff)

lemma document_line_length:
  "length key \<le> 45 \<Longrightarrow> length (str_of_nat (length v)) \<le> 12 \<Longrightarrow>
   length (document_line (key, v)) = 59"
  by (simp add: document_line_def NL_def)

section \<open>The contract of the renderings\<close>

text \<open>
  C32 (error): \<^verbatim>\<open>str\<close> of an import result returns exactly when the status of every
  message is one of the five keys of \<^verbatim>\<open>status_fore_color\<close> and the action of every
  element is a string. A result with any other status, which \<^verbatim>\<open>from_suds\<close> accepts,
  cannot be printed: the subscript raises \<^verbatim>\<open>KeyError\<close>.
\<close>

theorem import_str_returns_iff:
  "(returns (ImportResult_str env self) \<longleftrightarrow>
      list_all (\<lambda>m. known_status (status m)) (messages self) \<and>
      list_all (\<lambda>e. isinstance_Text (action e)) (elements self)) \<and>
   (\<forall>e. ImportResult_str env self = Inl e \<longrightarrow> e = Builtin KeyError \<or> e = Builtin TypeError)"
proof (intro conjI allI impI)
  show "returns (ImportResult_str env self) \<longleftrightarrow>
      list_all (\<lambda>m. known_status (status m)) (messages self) \<and>
      list_all (\<lambda>e. isinstance_Text (action e)) (elements self)"
    by (simp add: ImportResult_str_blocks import_text_def result_iff rmap_returns_iff
        ImportMessage_str_returns_iff ImportElement_str_returns_iff returns_iff [symmetric])
next
  fix e
  assume "ImportResult_str env self = Inl e"
  then consider m where "ImportMessage_str env m = Inl e"
    | el where "ImportElement_str env el = Inl e"
    by (auto simp: ImportResult_str_blocks import_text_def result_iff dest: rmap_Inl)
  then show "e = Builtin KeyError \<or> e = Builtin TypeError"
    by cases (auto dest: ImportMessage_str_Inl ImportElement_str_Inl)
qed

theorem import_str_returns_iff_witness:
  "returns (ImportResult_str sample_env sample_import_result) \<and>
   ImportResult_str sample_env sample_unknown_status = Inl (Builtin KeyError)"
  using import_str_returns_iff [of sample_env sample_import_result]
    sample_import_result_known(1)
  by (simp add: sample_unknown_status_str) (simp add: sample_import_result_def)

text \<open>
  Printing a successful export of data without documents starts with an
  error line. \<^verbatim>\<open>from_suds\<close> assigns neither \<^verbatim>\<open>has_error\<close> nor \<^verbatim>\<open>error_msg\<close> for such a
  response, so \<^verbatim>\<open>__str__\<close> takes the class attribute for a true flag and prints its
  rendering as the message, before the data.
\<close>

theorem export_str_report_without_documents:
  assumes "hasattr resp ''Report''" and "\<not> has_documents resp" and "\<not> hasattr resp ''Export''"
  shows "\<exists>r. ExportResult_from_suds env resp = Inr r \<and>
           ExportResult_str env r =
             Inr (''ERROR: '' @ field_str env @ NL @ ''[Data]: '' @ NL @ py_str env resp @ NL)"
  using hasattr_truthy [OF assms(1)]
  by (simp add: from_suds_report_only [OF assms] ExportResult_str_no_documents
      ExportResult_init_def error_line_def slot_str_def)

theorem export_str_report_without_documents_witness:
  "\<exists>r. ExportResult_from_suds sample_env sample_report_only = Inr r \<and>
     ExportResult_str sample_env r =
       Inr (''ERROR: '' @ field_str sample_env @ NL @ ''[Data]: '' @ NL @
            py_str sample_env sample_report_only @ NL)"
  by (rule export_str_report_without_documents [OF sample_report_only_shape])

text \<open>
  C39 (bounds): the columns of a line of a message. For a time without microseconds
  the text of the message starts in column 37, after the time, the row, the colour
  code, the status and the reset code, exactly when the row has at most five digits,
  or four and a sign: \<open>-9999 \<le> row \<le> 99999\<close>. A greater row makes the line longer and
  moves the status and the message to the right.
\<close>

theorem message_line_columns:
  assumes "ImportMessage_str env m = Inr line" and "microsecond (time m) = 0"
    and "hour (time m) < 24" and "minute (time m) < 60" and "second (time m) < 60"
  shows "(length line = 37 + length (py_str env (message m)) \<longleftrightarrow>
            - 9999 \<le> row m \<and> row m \<le> 99999) \<and>
         37 + length (py_str env (message m)) \<le> length line \<and>
         drop (length line - length (py_str env (message m))) line = py_str env (message m)"
proof -
  let ?msg = "py_str env (message m)"
  from assms(1) obtain c s where c: "lookup_color (status m) = Inr c"
    and s: "status m = Text s"
    and str: "line = time_isoformat (time m) @ ''  '' @ format_int_zero 5 (row m) @ ''  '' @
                c @ ljust 8 s @ Fore_RESET @ ''  '' @ ?msg"
    by (auto simp: ImportMessage_str_def result_iff)
  define pre where "pre = time_isoformat (time m) @ ''  '' @ format_int_zero 5 (row m) @
    ''  '' @ c @ ljust 8 s @ Fore_RESET @ ''  ''"
  from str have line: "line = pre @ ?msg" by (simp add: pre_def)
  from c s have "known_status (Text s)"
    using lookup_color_returns_iff [of "status m"] by simp
  then have "length (ljust 8 s) = 8" by (rule known_status_width)
  with lookup_color_length [OF c] time_isoformat_length [OF assms(2-5)]
  have pre: "length pre = 32 + length (format_int_zero 5 (row m))"
    by (simp add: pre_def Fore_RESET_def del: ljust_length)
  with format_int_zero_width [of "row m"] format_int_zero_length [of "row m"]
  show ?thesis unfolding line by auto
qed

theorem message_line_columns_witness:
  "ImportMessage_str sample_env (hd (messages sample_import_result)) =
     Inr (''21:52:34  00000  '' @ Fore_BLUE @ ''Progress'' @ Fore_RESET @
          ''  Successfully created ImportLog.'') \<and>
   length (''21:52:34  00000  '' @ Fore_BLUE @ ''Progress'' @ Fore_RESET @
          ''  Successfully created ImportLog.'') = 37 + 31"
proof -
  have line: "ImportMessage_str sample_env (hd (messages sample_import_result)) =
     Inr (''21:52:34  00000  '' @ Fore_BLUE @ ''Progress'' @ Fore_RESET @
          ''  Successfully created ImportLog.'')"
    by code_simp
  from message_line_columns [OF line] show ?thesis
    unfolding line by (simp add: sample_import_result_def)
qed

text \<open>
  The table of the documents: a file name of at most 45 characters and a size of at
  most twelve digits give a line of 59 characters, so the columns line up; a longer
  name pushes the size to the right.
\<close>

theorem sample_export_result_str:
  "ExportResult_str sample_env sample_export_result =
     Inr (''[Data]: '' @ NL @ ''<suds object>'' @ NL @ ''[Documents]: '' @ NL @ Style_BRIGHT @
          ''RelaticsFilename                              Size (bytes)'' @ NL @
          Style_RESET_ALL @
          ''a.txt                                                    5'' @ NL @
          ''b.bin                                                    2'' @ NL)"
  by code_simp

text \<open>A line of a message and a line of an element, as printed.\<close>

theorem sample_message_str:
  "ImportMessage_str sample_env
     \<lparr>time = \<lparr>hour = 21, minute = 52, second = 34, microsecond = 0\<rparr>,
      status = Text ''Warning'', message = Text ''Row skipped.'', row = 12\<rparr> =
   Inr (''21:52:34  00012  '' @ Fore_YELLOW @ ''Warning '' @ Fore_RESET @ ''  Row skipped.'')"
  by code_simp

end
