(* ===== verification/ResultTypes.thy ===== *)
theory ResultTypes
  imports ImportSpec Render
begin

text \<open>
  The annotations of the dataclasses of \<^verbatim>\<open>result_classes.py\<close> as predicates on the
  results, and the schema of a response of an import as a predicate on the response
  tree. Python does not check the annotations and \<^verbatim>\<open>ImportResult.from_suds\<close> copies the
  attributes of the response as they are, so a result conforms to its annotations
  exactly when the response conforms to the schema. A result that conforms can be
  printed.
\<close>

section \<open>The annotations\<close>

text \<open>
  \<^verbatim>\<open>status: ImportMessageStatus\<close> and \<^verbatim>\<open>message: str\<close>; \<^verbatim>\<open>time\<close> and \<^verbatim>\<open>row\<close> have their types
  by construction.
\<close>

definition typed_message :: "ImportMessage \<Rightarrow> bool" where
  "typed_message m \<longleftrightarrow> known_status (status m) \<and> isinstance_Text (message m)"

text \<open>\<^verbatim>\<open>action: ImportElementActions\<close>, \<^verbatim>\<open>id: str\<close> and \<^verbatim>\<open>foreign_key: str\<close>.\<close>

definition typed_element :: "ImportElement \<Rightarrow> bool" where
  "typed_element e \<longleftrightarrow>
     known_action (action e) \<and> isinstance_Text (elem_id e) \<and> isinstance_Text (foreign_key e)"

text \<open>
  \<^verbatim>\<open>has_error: bool\<close> and \<^verbatim>\<open>error_msg: str\<close> of \<^verbatim>\<open>BaseResult\<close>, the latter where there is an
  error, and the two lists of \<^verbatim>\<open>ImportResult\<close>.
\<close>

definition typed_import_result :: "ImportResult \<Rightarrow> bool" where
  "typed_import_result r \<longleftrightarrow>
     has_error r \<noteq> Unassigned \<and>
     (if truthy (has_error r) then error_msg r \<noteq> Unassigned else True) \<and>
     list_all typed_message (messages r) \<and> list_all typed_element (elements r)"

section \<open>The schema of a response\<close>

definition attr_is :: "(suds \<Rightarrow> bool) \<Rightarrow> suds \<Rightarrow> string \<Rightarrow> bool" where
  "attr_is P x n = (case getattr x n of Inr v \<Rightarrow> P v | Inl _ \<Rightarrow> False)"

definition message_conforms :: "suds \<Rightarrow> bool" where
  "message_conforms msg \<longleftrightarrow>
     attr_is known_status msg ''_Result'' \<and> attr_is isinstance_Text msg ''value''"

definition element_conforms :: "suds \<Rightarrow> bool" where
  "element_conforms elem \<longleftrightarrow>
     attr_is known_action elem ''_Action'' \<and> attr_is isinstance_Text elem ''_ID'' \<and>
     attr_is isinstance_Text elem ''_ForeignKey''"

definition items_conform :: "(suds \<Rightarrow> bool) \<Rightarrow> suds list result \<Rightarrow> bool" where
  "items_conform P items = (case items of Inr xs \<Rightarrow> list_all P xs | Inl _ \<Rightarrow> True)"

definition import_conforms :: "suds \<Rightarrow> bool" where
  "import_conforms resp =
     (case getattr resp ''Import'' of
        Inr imp \<Rightarrow>
          items_conform message_conforms (message_items imp) \<and>
          items_conform element_conforms (first_group imp)
      | Inl _ \<Rightarrow> True)"

text \<open>A response with one message whose status the service does not document.\<close>

definition sample_untyped :: suds where
  "sample_untyped =
     Object [(''Import'',
       Object [(''Message'', PyList [sample_message ''Started.'' ''09:05:00'' ''Info''])])]"

section \<open>Lemmas\<close>

lemmas typing_defs [py_defs] =
  typed_message_def typed_element_def typed_import_result_def attr_is_def
  message_conforms_def element_conforms_def items_conform_def import_conforms_def

lemma attr_is_Inr [simp]: "getattr x n = Inr v \<Longrightarrow> attr_is P x n = P v"
  by (simp add: attr_is_def)

lemma known_action_Text: "known_action a \<Longrightarrow> isinstance_Text a"
  by (auto simp: known_action_def)

lemma known_status_Text: "known_status s \<Longrightarrow> isinstance_Text s"
  by (auto simp: known_status_def)

text \<open>
  A list of records whose fields are the attributes of a list of items satisfies a
  predicate on the fields when the items satisfy it on the attributes.
\<close>

lemma list_all_attr:
  assumes "map (Inr \<circ> f) xs = map (\<lambda>m. getattr m n) items"
  shows "list_all (\<lambda>x. P (f x)) xs \<longleftrightarrow> list_all (\<lambda>m. attr_is P m n) items"
  using assms
proof (induction xs arbitrary: items)
  case (Cons x xs)
  from Cons.prems obtain m ms where items: "items = m # ms"
    by (cases items) auto
  with Cons.prems have hd: "getattr m n = Inr (f x)"
    and tl: "map (Inr \<circ> f) xs = map (\<lambda>m. getattr m n) ms"
    by (simp_all add: comp_def)
  from Cons.IH [OF tl] hd items show ?case by simp
qed simp

lemma list_all_conj: "list_all (\<lambda>x. P x \<and> Q x) xs \<longleftrightarrow> list_all P xs \<and> list_all Q xs"
  by (induction xs) auto

lemma typed_messages_iff:
  assumes "map (Inr \<circ> status) xs = map (\<lambda>m. getattr m ''_Result'') items"
    and "map (Inr \<circ> message) xs = map (\<lambda>m. getattr m ''value'') items"
  shows "list_all typed_message xs \<longleftrightarrow> list_all message_conforms items"
  unfolding typed_message_def message_conforms_def list_all_conj
  by (simp add: list_all_attr [OF assms(1)] list_all_attr [OF assms(2)])

lemma typed_element_iff:
  "element_of elem = Inr e \<Longrightarrow> typed_element e \<longleftrightarrow> element_conforms elem"
  by (auto simp: element_of_def result_iff typed_element_def element_conforms_def)

lemma typed_elements_iff:
  "rmap element_of els = Inr es \<Longrightarrow> list_all typed_element es \<longleftrightarrow> list_all element_conforms els"
  by (induction els arbitrary: es) (auto simp: result_iff typed_element_iff)

section \<open>What from\_suds returns, by fields\<close>

lemma from_suds_no_Import_fields:
  assumes "ImportResult_from_suds env resp = Inr r" and "\<not> hasattr resp ''Import''"
  shows "\<exists>msg. r = ImportResult_init\<lparr>has_error := Assigned True, error_msg := Assigned msg\<rparr>"
proof (cases resp rule: handle_cases)
  case None
  with assms show ?thesis by (auto simp: from_suds_no_Import_no_Export)
next
  case No_Export
  with assms show ?thesis by (auto simp: from_suds_no_Import_no_Export)
next
  case (Export_Error ex err)
  with assms show ?thesis by (auto simp: from_suds_Export_only)
next
  case (Export_no_Error ex)
  with assms show ?thesis by (simp add: from_suds_Export_no_Error)
qed

lemma from_suds_Import_fields:
  assumes "ImportResult_from_suds env resp = Inr r" and "getattr resp ''Import'' = Inr imp"
  obtains items els where "message_items imp = Inr items" and "first_group imp = Inr els"
    and "map (Inr \<circ> status) (messages r) = map (\<lambda>m. getattr m ''_Result'') items"
    and "map (Inr \<circ> message) (messages r) = map (\<lambda>m. getattr m ''value'') items"
    and "rmap element_of els = Inr (elements r)" and "has_error r = Assigned False"
proof -
  from assms obtain r0 r1 where r0: "has_error r0 = Assigned False" "messages r0 = []"
      "elements r0 = []"
    and r1: "parse_messages env imp r0 = Inr r1" and r: "parse_elements imp r1 = Inr r"
    by (rule from_suds_Import_parts)
  from r1 r0 obtain items a xs where items: "message_items imp = Inr items"
    and spec: "spec_messages env items
                 \<lparr>current_row = 0, acc_total_rows = total_rows r0,
                  acc_elapsed_time = elapsed_time r0\<rparr> = Inr (a, xs)"
    and xs: "messages r1 = xs"
    by (auto simp: parse_messages_refines result_iff)
  from r r0 parse_messages_frame(3) [OF r1] obtain els where els: "first_group imp = Inr els"
    and es: "rmap element_of els = Inr (elements r)"
    by (auto simp: parse_elements_refines result_iff)
  from spec_messages_Inr [OF spec] xs parse_elements_frame [OF r] parse_messages_frame [OF r1] r0
  show ?thesis by (intro that [OF items els _ _ es]) auto
qed

lemma typed_import_result_iff:
  assumes "ImportResult_from_suds env resp = Inr r"
  shows "typed_import_result r \<longleftrightarrow> import_conforms resp"
proof (cases "hasattr resp ''Import''")
  case False
  from from_suds_no_Import_fields [OF assms False] False show ?thesis
    by (auto simp: typed_import_result_def import_conforms_def ImportResult_init_def
        hasattr_iff_getattr returns_iff split: sum.splits)
next
  case True
  then obtain imp where imp: "getattr resp ''Import'' = Inr imp"
    by (auto elim: hasattr_getattrE)
  from assms imp show ?thesis
  proof (rule from_suds_Import_fields)
    fix items els
    assume "message_items imp = Inr items" "first_group imp = Inr els"
      "map (Inr \<circ> status) (messages r) = map (\<lambda>m. getattr m ''_Result'') items"
      "map (Inr \<circ> message) (messages r) = map (\<lambda>m. getattr m ''value'') items"
      "rmap element_of els = Inr (elements r)" "has_error r = Assigned False"
    then show ?thesis
      by (simp add: typed_import_result_def import_conforms_def imp items_conform_def
          typed_messages_iff typed_elements_iff)
  qed
qed

lemma typed_import_result_prints:
  assumes "typed_import_result r"
  shows "returns (ImportResult_str env r)"
proof -
  from assms have "list_all (\<lambda>m. known_status (status m)) (messages r)"
    and "list_all (\<lambda>e. isinstance_Text (action e)) (elements r)"
    by (auto simp: typed_import_result_def typed_message_def typed_element_def list_all_iff
        known_action_Text)
  then show ?thesis
    by (simp add: ImportResult_str_blocks import_text_def result_iff rmap_returns_iff
        ImportMessage_str_returns_iff ImportElement_str_returns_iff returns_iff [symmetric])
qed

lemma sample_import_conforms: "import_conforms sample_import"
  by (simp add: py_defs sample_import_defs message_items_def first_group_def known_status_def
      known_action_def)

lemma sample_untyped_eval:
  "ImportResult_from_suds sample_env sample_untyped = Inr sample_unknown_status"
  "\<not> import_conforms sample_untyped"
  by (simp_all add: py_defs sample_untyped_def sample_message_def sample_unknown_status_def
      message_items_def first_group_def known_status_def)

section \<open>Conformance\<close>

text \<open>
  C29 (type): a result of \<^verbatim>\<open>ImportResult.from_suds\<close> conforms to the annotations of its
  dataclasses exactly when the response conforms to the schema of the service: the
  flag is always a \<^verbatim>\<open>bool\<close> and an error always has a message, but the status, the text
  and the three attributes of an element are whatever the response holds, because
  \<^verbatim>\<open>from_suds\<close> checks none of them.
\<close>

theorem import_result_typed_iff:
  assumes "ImportResult_from_suds env resp = Inr r"
  shows "(typed_import_result r \<longleftrightarrow> import_conforms resp) \<and> has_error r \<noteq> Unassigned \<and>
         (truthy (has_error r) \<longrightarrow> error_msg r \<noteq> Unassigned)"
proof (cases "hasattr resp ''Import''")
  case False
  from from_suds_no_Import_fields [OF assms False] typed_import_result_iff [OF assms]
  show ?thesis by auto
next
  case True
  then obtain imp where "getattr resp ''Import'' = Inr imp"
    by (auto elim: hasattr_getattrE)
  with assms have "has_error r = Assigned False"
    by (auto elim: from_suds_Import_fields)
  with typed_import_result_iff [OF assms] show ?thesis by simp
qed

theorem import_result_typed_iff_witness:
  "(typed_import_result sample_import_result \<longleftrightarrow> import_conforms sample_import) \<and>
   has_error sample_import_result \<noteq> Unassigned \<and>
   \<not> typed_import_result sample_unknown_status"
  using import_result_typed_iff [OF sample_import_eval]
    import_result_typed_iff [OF sample_untyped_eval(1)] sample_untyped_eval(2)
  by simp

text \<open>
  A result of a response that conforms to the schema can be printed: \<^verbatim>\<open>str\<close> of it
  returns. For other responses \<^verbatim>\<open>from_suds\<close> may return a result on which
  \<^verbatim>\<open>str\<close> raises.
\<close>

theorem conforming_import_prints:
  assumes "ImportResult_from_suds env resp = Inr r" and "import_conforms resp"
  shows "returns (ImportResult_str env r)"
  using assms typed_import_result_iff [OF assms(1)] by (simp add: typed_import_result_prints)

theorem conforming_import_prints_witness:
  "returns (ImportResult_str sample_env sample_import_result) \<and>
   ImportResult_str sample_env sample_unknown_status = Inl (Builtin KeyError)"
  using conforming_import_prints [OF sample_import_eval sample_import_conforms]
  by (simp add: sample_unknown_status_str)

end
