(* ===== verification/Credential.thy ===== *)
theory Credential
  imports Runtime
begin

text \<open>
  \<^verbatim>\<open>ClientCredential\<close> of \<^verbatim>\<open>client.py\<close>: the OAuth2 client id and secret with the
  per-host cache of bearer tokens, \<^verbatim>\<open>get_token\<close> and \<^verbatim>\<open>retrieve_token\<close>.

  The world outside is explicit. A reading of the clock (\<^verbatim>\<open>datetime.datetime.now()\<close>)
  is an argument: \<^verbatim>\<open>get_token\<close> reads it once in its condition and \<^verbatim>\<open>retrieve_token\<close>
  once before it sends the request. The HTTPS exchange with the token endpoint and the
  JSON decoder are functions of the record \<open>netenv\<close>. A naive \<^verbatim>\<open>datetime\<close> is a number
  of microseconds since the start of year 1. A decoded JSON document is a value of
  \<open>json\<close>; the code applies \<^verbatim>\<open>in\<close> and \<^verbatim>\<open>[...]\<close> to whatever the server sent, so both
  are defined on every shape, with the exception Python raises.
  \<^verbatim>\<open>retrieve_token\<close> changes the object only in its last statement, so a call that
  raises leaves the credential as it was: the model returns the new credential on
  success and the exception otherwise.
\<close>

section \<open>Time\<close>

type_synonym datetime = int

definition datetime_end :: int where
  "datetime_end = 3652059 * 86400000000"

definition datetime_add :: "datetime \<Rightarrow> timedelta \<Rightarrow> datetime result" where
  "datetime_add t d =
     (if 0 \<le> t + d \<and> t + d < datetime_end then Inr (t + d) else Inl (Builtin OverflowError))"

definition datetime_sub :: "datetime \<Rightarrow> datetime \<Rightarrow> timedelta" where
  "datetime_sub a b = a - b"

section \<open>JSON values\<close>

text \<open>\<open>JFloat m e\<close> is the double \<open>m \<times> 2\<^sup>e\<close>.\<close>

datatype json =
    JNull | JBool bool | JInt int | JFloat int int | JStr string
  | JArr "json list" | JObj "(string \<times> json) list"

definition json_contains :: "string \<Rightarrow> json \<Rightarrow> bool result" where
  "json_contains key j =
     (case j of
        JObj al \<Rightarrow> Inr (map_of al key \<noteq> None)
      | JArr xs \<Rightarrow> Inr (JStr key \<in> set xs)
      | JStr s \<Rightarrow> Inr (py_in_str key s)
      | _ \<Rightarrow> Inl (Builtin TypeError))"

definition json_getitem :: "json \<Rightarrow> string \<Rightarrow> json result" where
  "json_getitem j key =
     (case j of
        JObj al \<Rightarrow> of_option (Builtin KeyError) (map_of al key)
      | _ \<Rightarrow> Inl (Builtin TypeError))"

section \<open>The network environment\<close>

record request =
  req_host :: string
  req_method :: string
  req_path :: string
  req_body :: string
  req_headers :: "(string \<times> string) list"

record netenv =
  https_exchange :: "request \<Rightarrow> byte list result"
  json_loads :: "byte list \<Rightarrow> json result"
  format_of :: "json \<Rightarrow> string"
  float_seconds :: "int \<Rightarrow> int \<Rightarrow> timedelta result"

text \<open>A value in an f-string: a string is itself, anything else is printed.\<close>

definition json_format :: "netenv \<Rightarrow> json \<Rightarrow> string" where
  "json_format net j = (case j of JStr s \<Rightarrow> s | _ \<Rightarrow> format_of net j)"

text \<open>\<^verbatim>\<open>datetime.timedelta(seconds=x)\<close>: \<^verbatim>\<open>bool\<close> is a subclass of \<^verbatim>\<open>int\<close>.\<close>

definition timedelta_of_json :: "netenv \<Rightarrow> json \<Rightarrow> timedelta result" where
  "timedelta_of_json net j =
     (case j of
        JInt n \<Rightarrow> timedelta_seconds n
      | JBool b \<Rightarrow> timedelta_seconds (if b then 1 else 0)
      | JFloat m e \<Rightarrow> float_seconds net m e
      | _ \<Rightarrow> Inl (Builtin TypeError))"

section \<open>The credential\<close>

definition TOKEN_PATH :: string where
  "TOKEN_PATH = ''/oauth2/token''"

definition USER_AGENT :: string where
  "USER_AGENT = ''Python-pyrelatics_webservice/0.0.0''"

record token_entry =
  token :: json
  expires_on :: datetime

record ClientCredential =
  client_id :: string
  client_secret :: string
  tokens :: "string \<rightharpoonup> token_entry"

definition ClientCredential_init :: "string \<Rightarrow> string \<Rightarrow> ClientCredential" where
  "ClientCredential_init cid secret =
     \<lparr>client_id = cid, client_secret = secret, tokens = Map.empty\<rparr>"

section \<open>retrieve\_token\<close>

definition token_request :: "ClientCredential \<Rightarrow> string \<Rightarrow> string \<Rightarrow> request" where
  "token_request self hostname user_agent =
     \<lparr>req_host = hostname, req_method = ''POST'', req_path = TOKEN_PATH,
      req_body = ''grant_type=client_credentials'',
      req_headers =
        [(''Authorization'',
          ''Basic '' @ b64encode (utf8_encode (client_id self @ '':'' @ client_secret self))),
         (''Content-Type'', ''text/plain''),
         (''User-Agent'', user_agent)]\<rparr>"

definition store_token ::
  "netenv \<Rightarrow> datetime \<Rightarrow> string \<Rightarrow> json \<Rightarrow> ClientCredential \<Rightarrow> ClientCredential result" where
  "store_token net requested_on hostname response self =
     rbind (json_getitem response ''access_token'') (\<lambda>tok.
     rbind (json_getitem response ''expires_in'') (\<lambda>expires_in.
     rbind (timedelta_of_json net expires_in) (\<lambda>d.
     rbind (datetime_add requested_on d) (\<lambda>expires.
       Inr (self\<lparr>tokens := (tokens self)(hostname \<mapsto>
              \<lparr>token = tok, expires_on = expires\<rparr>)\<rparr>)))))"

definition retrieve_token ::
  "netenv \<Rightarrow> datetime \<Rightarrow> string \<Rightarrow> string \<Rightarrow> ClientCredential \<Rightarrow> ClientCredential result" where
  "retrieve_token net requested_on hostname user_agent self =
     rbind (https_exchange net (token_request self hostname user_agent)) (\<lambda>data.
     rbind (json_loads net data) (\<lambda>response.
     rbind (json_contains ''error'' response) (\<lambda>has_error.
       if has_error then
         rbind (json_getitem response ''error'') (\<lambda>err.
         rbind (json_getitem response ''error_description'') (\<lambda>descr.
           Inl (Raised RuntimeError
                  (''Token request failed: '' @ json_format net err @ '' ('' @
                   json_format net descr @ '')''))))
       else
         rbind (json_contains ''access_token'' response) (\<lambda>has_token.
           if \<not> has_token then
             Inl (Raised KeyError ''Token request failed: No access_token was given'')
           else store_token net requested_on hostname response self))))"

section \<open>get\_token\<close>

text \<open>
  The condition of \<^verbatim>\<open>get_token\<close>. \<^verbatim>\<open>.seconds\<close> is the seconds field of the normalised
  difference, between 0 and 86399, not the length of the difference in seconds.
\<close>

definition needs_refresh :: "ClientCredential \<Rightarrow> string \<Rightarrow> bool \<Rightarrow> datetime \<Rightarrow> bool" where
  "needs_refresh self hostname force_refresh now \<longleftrightarrow>
     force_refresh \<or>
     (case tokens self hostname of
        None \<Rightarrow> True
      | Some entry \<Rightarrow> td_seconds (datetime_sub (expires_on entry) now) \<le> 300)"

definition get_token ::
  "netenv \<Rightarrow> datetime \<Rightarrow> datetime \<Rightarrow> string \<Rightarrow> bool \<Rightarrow> string \<Rightarrow> ClientCredential \<Rightarrow>
   (json \<times> ClientCredential) result" where
  "get_token net now requested_on hostname force_refresh user_agent self =
     rbind (if needs_refresh self hostname force_refresh now
            then retrieve_token net requested_on hostname user_agent self
            else Inr self) (\<lambda>self'.
     rbind (of_option (Builtin KeyError) (tokens self' hostname)) (\<lambda>entry.
       Inr (token entry, self')))"

section \<open>The intended condition\<close>

text \<open>
  What the documentation of \<^verbatim>\<open>get_token\<close> asks for: a cached token is reused only
  while more than 300 seconds remain before it expires.
\<close>

definition remaining_seconds :: "token_entry \<Rightarrow> datetime \<Rightarrow> int" where
  "remaining_seconds entry now = (expires_on entry - now) div 1000000"

definition should_refresh :: "ClientCredential \<Rightarrow> string \<Rightarrow> bool \<Rightarrow> datetime \<Rightarrow> bool" where
  "should_refresh self hostname force_refresh now \<longleftrightarrow>
     force_refresh \<or>
     (case tokens self hostname of
        None \<Rightarrow> True
      | Some entry \<Rightarrow> remaining_seconds entry now \<le> 300)"

section \<open>A sample server\<close>

definition sample_token_response :: json where
  "sample_token_response =
     JObj [(''access_token'', JStr ''tok-1''), (''token_type'', JStr ''Bearer''),
           (''expires_in'', JInt 3600)]"

definition sample_error_response :: json where
  "sample_error_response =
     JObj [(''error'', JStr ''invalid_client''), (''error_description'', JStr ''Client not found.'')]"

definition sample_net :: netenv where
  "sample_net =
     \<lparr>https_exchange = (\<lambda>rq.
        if req_host rq = ''ok.example'' then Inr [1]
        else if req_host rq = ''denied.example'' then Inr [2]
        else Inl (Builtin OSError)),
      json_loads = (\<lambda>bs.
        if bs = [1] then Inr sample_token_response
        else if bs = [2] then Inr sample_error_response
        else Inl (Builtin ValueError)),
      format_of = (\<lambda>_. ''<value>''),
      float_seconds = (\<lambda>m e. Inl (Builtin OverflowError))\<rparr>"

definition sample_credential :: ClientCredential where
  "sample_credential = ClientCredential_init ''id'' ''secret''"

definition sample_entry :: token_entry where
  "sample_entry = \<lparr>token = JStr ''tok-1'', expires_on = 3600000000\<rparr>"

definition sample_cached :: ClientCredential where
  "sample_cached = sample_credential\<lparr>tokens := [''ok.example'' \<mapsto> sample_entry]\<rparr>"

section \<open>Lemmas on the runtime\<close>

lemmas credential_defs [py_defs] =
  get_token_def needs_refresh_def retrieve_token_def store_token_def token_request_def
  json_contains_def json_getitem_def json_format_def timedelta_of_json_def datetime_add_def
  datetime_sub_def datetime_end_def timedelta_seconds_def timedelta_of_us_def td_seconds_def
  TOKEN_PATH_def USER_AGENT_def ClientCredential_init_def

lemmas sample_net_defs =
  sample_net_def sample_token_response_def sample_error_response_def sample_credential_def
  sample_entry_def sample_cached_def

lemma json_contains_simps [simp]:
  "json_contains key (JObj al) = Inr (map_of al key \<noteq> None)"
  "json_contains key (JArr xs) = Inr (JStr key \<in> set xs)"
  "json_contains key (JStr s) = Inr (py_in_str key s)"
  "json_contains key JNull = Inl (Builtin TypeError)"
  "json_contains key (JBool b) = Inl (Builtin TypeError)"
  "json_contains key (JInt n) = Inl (Builtin TypeError)"
  "json_contains key (JFloat m e) = Inl (Builtin TypeError)"
  by (simp_all add: json_contains_def)

lemma json_getitem_simps [simp]:
  "json_getitem (JObj al) key = of_option (Builtin KeyError) (map_of al key)"
  "json_getitem (JArr xs) key = Inl (Builtin TypeError)"
  "json_getitem (JStr s) key = Inl (Builtin TypeError)"
  "json_getitem JNull key = Inl (Builtin TypeError)"
  "json_getitem (JBool b) key = Inl (Builtin TypeError)"
  "json_getitem (JInt n) key = Inl (Builtin TypeError)"
  "json_getitem (JFloat m e) key = Inl (Builtin TypeError)"
  by (simp_all add: json_getitem_def)

lemma json_getitem_Inr_iff [result_iff]:
  "json_getitem j key = Inr v \<longleftrightarrow> (\<exists>al. j = JObj al \<and> map_of al key = Some v)"
  by (cases j) (simp_all add: result_iff)

lemma datetime_add_Inr_iff [result_iff]:
  "datetime_add t d = Inr t' \<longleftrightarrow> t' = t + d \<and> 0 \<le> t + d \<and> t + d < datetime_end"
  by (auto simp: datetime_add_def)

lemma timedelta_seconds_Inr_iff [result_iff]:
  "timedelta_seconds n = Inr d \<longleftrightarrow> d = n * 1000000 \<and> \<bar>n * 1000000 div 86400000000\<bar> \<le> 999999999"
  by (auto simp: timedelta_seconds_def result_iff)

lemma timedelta_seconds_small:
  "0 \<le> n \<Longrightarrow> n < 2 ^ 31 \<Longrightarrow> timedelta_seconds n = Inr (n * 1000000)"
  by (simp add: timedelta_seconds_def timedelta_of_us_def)

lemma td_seconds_expired:
  assumes "0 < x" and "x \<le> 86099000000"
  shows "300 < td_seconds (- x)"
proof -
  define k where "k = - ((- x) div 1000000)"
  from assms have "1 \<le> k" and "k \<le> 86099" unfolding k_def by simp_all
  then have "(- k) mod 86400 = 86400 - k" by (simp add: zmod_zminus1_eq_if)
  with \<open>k \<le> 86099\<close> show ?thesis by (simp add: td_seconds_def k_def)
qed

lemma td_seconds_multiple_of_day: "td_seconds (k * 86400000000 + r) = td_seconds r"
proof -
  have "(k * 86400000000 + r) div 1000000 = k * 86400 + r div 1000000" by simp
  then show ?thesis by (simp add: td_seconds_def)
qed

section \<open>Lemmas on retrieve\_token\<close>

lemma store_token_Inr_iff [result_iff]:
  "store_token net t h response self = Inr c \<longleftrightarrow>
     (\<exists>al tok exp d. response = JObj al \<and> map_of al ''access_token'' = Some tok \<and>
        map_of al ''expires_in'' = Some exp \<and> timedelta_of_json net exp = Inr d \<and>
        0 \<le> t + d \<and> t + d < datetime_end \<and>
        c = self\<lparr>tokens := (tokens self)(h \<mapsto> \<lparr>token = tok, expires_on = t + d\<rparr>)\<rparr>)"
  by (auto simp: store_token_def result_iff)

lemma retrieve_token_object:
  assumes "https_exchange net (token_request self h ua) = Inr data"
    and "json_loads net data = Inr (JObj al)"
  shows "retrieve_token net t h ua self =
           (case map_of al ''error'' of
              Some err \<Rightarrow>
                (case map_of al ''error_description'' of
                   Some descr \<Rightarrow>
                     Inl (Raised RuntimeError
                            (''Token request failed: '' @ json_format net err @ '' ('' @
                             json_format net descr @ '')''))
                 | None \<Rightarrow> Inl (Builtin KeyError))
            | None \<Rightarrow>
                (case map_of al ''access_token'' of
                   None \<Rightarrow> Inl (Raised KeyError ''Token request failed: No access_token was given'')
                 | Some tok \<Rightarrow> store_token net t h (JObj al) self))"
  using assms by (simp add: retrieve_token_def split: option.splits)

lemma retrieve_token_InrD:
  assumes "retrieve_token net t h ua self = Inr c"
  shows "\<exists>data al. https_exchange net (token_request self h ua) = Inr data \<and>
           json_loads net data = Inr (JObj al) \<and> map_of al ''error'' = None \<and>
           store_token net t h (JObj al) self = Inr c"
proof -
  from assms obtain data response where
    data: "https_exchange net (token_request self h ua) = Inr data"
    and response: "json_loads net data = Inr response"
    and err: "json_contains ''error'' response = Inr False"
    and store: "store_token net t h response self = Inr c"
    by (auto simp: retrieve_token_def result_iff split: if_splits)
  from store obtain al where "response = JObj al" by (auto simp: result_iff)
  with data response err store show ?thesis by simp
qed

lemma retrieve_token_frame:
  assumes "retrieve_token net t h ua self = Inr c"
  shows "client_id c = client_id self" and "client_secret c = client_secret self"
    and "h' \<noteq> h \<Longrightarrow> tokens c h' = tokens self h'"
    and "\<exists>e. tokens c h = Some e \<and> 0 \<le> expires_on e \<and> expires_on e < datetime_end"
  using retrieve_token_InrD [OF assms] by (auto simp: result_iff)

lemma needs_refresh_iff:
  "needs_refresh self h force now \<longleftrightarrow>
     force \<or> (\<forall>e. tokens self h = Some e \<longrightarrow> td_seconds (expires_on e - now) \<le> 300)"
  by (simp add: needs_refresh_def datetime_sub_def split: option.splits)

lemma get_token_cached_eq:
  "\<not> needs_refresh self h force now \<Longrightarrow> tokens self h = Some e \<Longrightarrow>
   get_token net now t h force ua self = Inr (token e, self)"
  by (simp add: get_token_def)

lemma get_token_refresh_eq:
  "needs_refresh self h force now \<Longrightarrow>
   get_token net now t h force ua self =
     rbind (retrieve_token net t h ua self) (\<lambda>c.
     rbind (of_option (Builtin KeyError) (tokens c h)) (\<lambda>e. Inr (token e, c)))"
  by (simp add: get_token_def)

section \<open>Evaluation of the samples\<close>

lemma sample_retrieve:
  "retrieve_token sample_net 0 ''ok.example'' USER_AGENT sample_credential = Inr sample_cached"
  by (simp add: sample_net_defs retrieve_token_def store_token_def token_request_def
      timedelta_of_json_def timedelta_seconds_def timedelta_of_us_def datetime_add_def
      datetime_end_def ClientCredential_init_def)

lemma sample_exchange:
  "https_exchange sample_net (token_request sample_credential ''ok.example'' USER_AGENT) = Inr [1]"
  "json_loads sample_net [1] = Inr sample_token_response"
  "https_exchange sample_net (token_request sample_credential ''denied.example'' USER_AGENT)
     = Inr [2]"
  "json_loads sample_net [2] = Inr sample_error_response"
  by (simp_all add: sample_net_def token_request_def)

lemma sample_cached_entry: "tokens sample_cached ''ok.example'' = Some sample_entry"
  by (simp add: sample_cached_def)

lemma sample_down:
  "retrieve_token sample_net 0 ''down.example'' USER_AGENT sample_credential =
     Inl (Builtin OSError)"
  by (simp add: retrieve_token_def sample_net_def token_request_def)

lemma sample_needs_refresh: "needs_refresh sample_credential h False now"
  by (simp add: needs_refresh_def sample_credential_def ClientCredential_init_def)

section \<open>The token cache\<close>

text \<open>
  C8 (functional): when the cache holds a token for the host, no refresh is forced
  and the seconds field of the time left is above 300, \<^verbatim>\<open>get_token\<close> returns the cached
  token and leaves the credential as it is, whatever the token endpoint would answer:
  no request is sent.
\<close>

theorem get_token_cached:
  assumes "tokens self h = Some e" and "300 < td_seconds (expires_on e - now)"
  shows "get_token net now t h False ua self = Inr (token e, self)"
  using assms by (intro get_token_cached_eq) (simp_all add: needs_refresh_iff)

theorem get_token_cached_witness:
  "tokens sample_cached ''ok.example'' = Some sample_entry \<and>
   get_token sample_net 1000000 1000000 ''ok.example'' False USER_AGENT sample_cached =
     Inr (JStr ''tok-1'', sample_cached)"
  using get_token_cached [of sample_cached "''ok.example''" sample_entry 1000000 sample_net
      1000000 USER_AGENT]
  by (simp add: sample_cached_entry sample_entry_def td_seconds_def)

text \<open>
  \<^verbatim>\<open>get_token\<close> raises only what \<^verbatim>\<open>retrieve_token\<close> raises. It returns
  exactly when no refresh is needed or the refresh returns; the final lookup of the
  token in the cache never fails.
\<close>

theorem get_token_returns_iff:
  "returns (get_token net now t h force ua self) \<longleftrightarrow>
     (needs_refresh self h force now \<longrightarrow> returns (retrieve_token net t h ua self))"
proof (cases "needs_refresh self h force now")
  case False
  then obtain e where "tokens self h = Some e"
    by (auto simp: needs_refresh_iff)
  with False show ?thesis by (simp add: get_token_cached_eq)
next
  case True
  have "returns (get_token net now t h force ua self) \<longleftrightarrow>
          (\<exists>c. retrieve_token net t h ua self = Inr c)"
    using retrieve_token_frame(4) [of net t h ua self]
    by (auto simp: get_token_refresh_eq [OF True] returns_iff result_iff)
  with True show ?thesis by (simp add: returns_iff)
qed

theorem get_token_returns_iff_witness:
  "needs_refresh sample_credential ''ok.example'' False 0 \<and>
   returns (get_token sample_net 0 0 ''ok.example'' False USER_AGENT sample_credential) \<and>
   \<not> returns (get_token sample_net 0 0 ''down.example'' False USER_AGENT sample_credential)"
  using get_token_returns_iff [of sample_net 0 0 "''ok.example''" False USER_AGENT
      sample_credential]
    get_token_returns_iff [of sample_net 0 0 "''down.example''" False USER_AGENT
      sample_credential]
  by (simp add: sample_retrieve sample_down sample_needs_refresh)

text \<open>
  C4 (safety): an expired token is reused. When the cached token expired up to 86099
  seconds ago, \<^verbatim>\<open>get_token\<close> without force returns it and sends no request, although
  the time left is negative: the test reads the seconds field of the difference,
  which for a negative difference is 86400 minus the seconds past.
\<close>

theorem expired_token_reused:
  assumes "tokens self h = Some e" and "expires_on e < now"
    and "now - expires_on e \<le> 86099000000"
  shows "get_token net now t h False ua self = Inr (token e, self) \<and>
         should_refresh self h False now"
proof -
  from assms(2,3) td_seconds_expired [of "now - expires_on e"]
  have "300 < td_seconds (expires_on e - now)" by simp
  with assms(1) have "get_token net now t h False ua self = Inr (token e, self)"
    by (intro get_token_cached_eq) (simp_all add: needs_refresh_iff)
  moreover from assms(1,2) have "should_refresh self h False now"
    by (simp add: should_refresh_def remaining_seconds_def)
  ultimately show ?thesis ..
qed

theorem expired_token_reused_witness:
  "expires_on sample_entry < 7200000000 \<and>
   get_token sample_net 7200000000 7200000000 ''ok.example'' False USER_AGENT sample_cached =
     Inr (JStr ''tok-1'', sample_cached) \<and>
   should_refresh sample_cached ''ok.example'' False 7200000000"
  using expired_token_reused [of sample_cached "''ok.example''" sample_entry 7200000000
      sample_net 7200000000 USER_AGENT]
  by (simp add: sample_cached_entry sample_entry_def)

text \<open>
  C26 (equivalence): while the time left on the cached token is between zero and
  one day, the condition of \<^verbatim>\<open>get_token\<close> is the documented one: refresh when forced,
  when the host has no token, or when at most 300 seconds remain. Outside that range
  the two differ.
\<close>

theorem needs_refresh_documented:
  assumes "\<forall>e. tokens self h = Some e \<longrightarrow>
             0 \<le> expires_on e - now \<and> expires_on e - now < 86400000000"
  shows "needs_refresh self h force now \<longleftrightarrow> should_refresh self h force now"
proof (cases "tokens self h")
  case None
  then show ?thesis by (simp add: needs_refresh_def should_refresh_def)
next
  case (Some e)
  with assms have "td_seconds (expires_on e - now) = (expires_on e - now) div 1000000"
    by (intro td_seconds_small) simp_all
  with Some show ?thesis
    by (simp add: needs_refresh_def should_refresh_def remaining_seconds_def datetime_sub_def)
qed

theorem needs_refresh_documented_witness:
  "tokens sample_cached ''ok.example'' = Some sample_entry \<and>
   0 \<le> expires_on sample_entry - 3300000000 \<and>
   expires_on sample_entry - 3300000000 < 86400000000 \<and>
   needs_refresh sample_cached ''ok.example'' False 3300000000 \<and>
   should_refresh sample_cached ''ok.example'' False 3300000000"
  using needs_refresh_documented [of sample_cached "''ok.example''" 3300000000 False]
  by (simp add: sample_cached_entry sample_entry_def should_refresh_def remaining_seconds_def)

section \<open>Retrieving a token\<close>

text \<open>
  C15 (error): what \<^verbatim>\<open>retrieve_token\<close> does with a JSON object from the token
  endpoint. With an \<^verbatim>\<open>error\<close> key it raises \<^verbatim>\<open>RuntimeError\<close> with the error and its
  description, or \<^verbatim>\<open>KeyError\<close> if the description is missing; without \<^verbatim>\<open>error\<close> and
  without \<^verbatim>\<open>access_token\<close> it raises \<^verbatim>\<open>KeyError\<close> with its own message; otherwise it
  goes on to store the token.
\<close>

theorem retrieve_token_classifies:
  assumes "https_exchange net (token_request self h ua) = Inr data"
    and "json_loads net data = Inr (JObj al)"
  shows "retrieve_token net t h ua self =
           (if map_of al ''error'' \<noteq> None then
              (case map_of al ''error_description'' of
                 Some descr \<Rightarrow>
                   Inl (Raised RuntimeError
                          (''Token request failed: '' @
                           json_format net (the (map_of al ''error'')) @ '' ('' @
                           json_format net descr @ '')''))
               | None \<Rightarrow> Inl (Builtin KeyError))
            else if map_of al ''access_token'' = None then
              Inl (Raised KeyError ''Token request failed: No access_token was given'')
            else store_token net t h (JObj al) self)"
  by (auto simp: retrieve_token_object [OF assms] split: option.splits)

theorem retrieve_token_classifies_witness:
  "retrieve_token sample_net 0 ''denied.example'' USER_AGENT sample_credential =
     Inl (Raised RuntimeError ''Token request failed: invalid_client (Client not found.)'')"
  using retrieve_token_classifies [OF sample_exchange(3)
      sample_exchange(4) [unfolded sample_error_response_def], of 0]
  by (simp add: json_format_def)

text \<open>
  A successful retrieval. When the endpoint answers with an object
  that has no \<^verbatim>\<open>error\<close>, an \<^verbatim>\<open>access_token\<close> and an integer \<^verbatim>\<open>expires_in\<close> of \<open>n\<close>
  seconds (below \<open>2\<^sup>3\<^sup>1\<close>), and the expiry time is a valid date, \<^verbatim>\<open>retrieve_token\<close>
  stores the token for the host with the expiry time \<^verbatim>\<open>requested_on\<close> plus \<open>n\<close>
  seconds, replacing any earlier entry for the host.
\<close>

theorem retrieve_token_stores:
  assumes "https_exchange net (token_request self h ua) = Inr data"
    and "json_loads net data = Inr (JObj al)"
    and "map_of al ''error'' = None" and "map_of al ''access_token'' = Some tok"
    and "map_of al ''expires_in'' = Some (JInt n)" and "0 \<le> n" and "n < 2 ^ 31"
    and "0 \<le> t" and "t + n * 1000000 < datetime_end"
  shows "retrieve_token net t h ua self =
           Inr (self\<lparr>tokens := (tokens self)(h \<mapsto>
                  \<lparr>token = tok, expires_on = t + n * 1000000\<rparr>)\<rparr>)"
  using assms(3-9)
  by (simp add: retrieve_token_object [OF assms(1,2)] store_token_def timedelta_of_json_def
      timedelta_seconds_small datetime_add_def)

theorem retrieve_token_stores_witness:
  "retrieve_token sample_net 0 ''ok.example'' USER_AGENT sample_credential =
     Inr (sample_credential\<lparr>tokens := (tokens sample_credential)(''ok.example'' \<mapsto>
            \<lparr>token = JStr ''tok-1'', expires_on = 0 + 3600 * 1000000\<rparr>)\<rparr>)"
  by (rule retrieve_token_stores [OF sample_exchange(1)
        sample_exchange(2) [unfolded sample_token_response_def]])
     (simp_all add: datetime_end_def)

text \<open>
  \<^verbatim>\<open>retrieve_token\<close> changes nothing but the cache entry of the host it is called
  for. When it returns, the client id, the secret and the tokens of all
  other hosts are as before, and the host has an entry whose expiry time is a valid
  date.
\<close>

theorem retrieve_token_changes_one_host:
  assumes "retrieve_token net t h ua self = Inr c"
  shows "client_id c = client_id self \<and> client_secret c = client_secret self \<and>
         (\<forall>h'. h' \<noteq> h \<longrightarrow> tokens c h' = tokens self h') \<and>
         (\<exists>e. tokens c h = Some e \<and> 0 \<le> expires_on e \<and> expires_on e < datetime_end)"
  using retrieve_token_frame [OF assms] by simp

theorem retrieve_token_changes_one_host_witness:
  "client_id sample_cached = client_id sample_credential \<and>
   client_secret sample_cached = client_secret sample_credential \<and>
   tokens sample_cached ''other.example'' = tokens sample_credential ''other.example'' \<and>
   (\<exists>e. tokens sample_cached ''ok.example'' = Some e \<and> 0 \<le> expires_on e \<and>
        expires_on e < datetime_end)"
  using retrieve_token_changes_one_host [OF sample_retrieve] by simp

section \<open>Reuse after a retrieval\<close>

lemma needs_refresh_after_store:
  assumes "tokens c h = Some \<lparr>token = tok, expires_on = t0 + n * 1000000\<rparr>"
  shows "needs_refresh c h False now \<longleftrightarrow> td_seconds (t0 + n * 1000000 - now) \<le> 300"
  using assms by (simp add: needs_refresh_def datetime_sub_def)

text \<open>
  The reuse window of the specification. After a retrieval at time
  \<open>t0\<close> of a token that is valid for \<open>n\<close> seconds, with \<open>596 \<le> n \<le> 86399\<close>, every call
  of \<^verbatim>\<open>get_token\<close> within the next 295 seconds returns the cached token and sends no
  request.
\<close>

theorem token_reused_within_295_seconds:
  assumes "tokens c h = Some \<lparr>token = tok, expires_on = t0 + n * 1000000\<rparr>"
    and "596 \<le> n" and "n \<le> 86399" and "t0 \<le> now" and "now \<le> t0 + 295000000"
  shows "get_token net now t h False ua c = Inr (tok, c)"
proof -
  let ?d = "t0 + n * 1000000 - now"
  from assms(2-5) have "0 \<le> ?d" and "?d < 86400000000" and "301000000 \<le> ?d"
    by simp_all
  then have "td_seconds ?d = ?d div 1000000" and "301 \<le> ?d div 1000000"
    by (simp_all add: td_seconds_small)
  then have "\<not> needs_refresh c h False now"
    by (simp add: needs_refresh_after_store [OF assms(1)])
  with assms(1) show ?thesis by (simp add: get_token_cached_eq)
qed

theorem token_reused_within_295_seconds_witness:
  "get_token sample_net 295000000 295000000 ''ok.example'' False USER_AGENT sample_cached =
     Inr (JStr ''tok-1'', sample_cached)"
  using token_reused_within_295_seconds [of sample_cached "''ok.example''" "JStr ''tok-1''"
      0 3600 295000000 sample_net 295000000 USER_AGENT]
  by (simp add: sample_cached_entry sample_entry_def)

text \<open>
  A token that is valid for a whole number of days, or up to 300
  seconds more, is never reused right after it was retrieved: the seconds field of
  the time left is at most 300, so the very next \<^verbatim>\<open>get_token\<close> asks for a new token.
\<close>

theorem day_token_refreshed:
  assumes "tokens c h = Some \<lparr>token = tok, expires_on = t0 + n * 1000000\<rparr>"
    and "n = k * 86400 + r" and "0 \<le> r" and "r \<le> 300"
  shows "needs_refresh c h False t0 \<and> 86400 * k \<le> remaining_seconds \<lparr>token = tok,
           expires_on = t0 + n * 1000000\<rparr> t0"
proof -
  have "t0 + n * 1000000 - t0 = k * 86400000000 + r * 1000000"
    by (simp add: assms(2) algebra_simps)
  moreover from assms(3,4) have "td_seconds (r * 1000000) = r"
    by (simp add: td_seconds_small)
  ultimately have "td_seconds (t0 + n * 1000000 - t0) \<le> 300"
    using assms(4) by (simp only: td_seconds_multiple_of_day)
  moreover from assms(2,3) have "86400 * k \<le> n" by simp
  ultimately show ?thesis
    by (simp add: needs_refresh_after_store [OF assms(1)] remaining_seconds_def)
qed

theorem day_token_refreshed_witness:
  "needs_refresh
     (sample_credential\<lparr>tokens := [''ok.example'' \<mapsto>
        \<lparr>token = JStr ''tok-2'', expires_on = 0 + 86400 * 1000000\<rparr>]\<rparr>)
     ''ok.example'' False 0 \<and>
   86400 * 1 \<le> remaining_seconds \<lparr>token = JStr ''tok-2'', expires_on = 0 + 86400 * 1000000\<rparr> 0"
  by (rule day_token_refreshed [where r = 0]) simp_all

end
