(* ===== verification/Session.thy ===== *)
theory Session
  imports Credential
begin

text \<open>
  The life of a \<^verbatim>\<open>ClientCredential\<close> object: the calls of \<^verbatim>\<open>get_token\<close> made on it, one
  after the other, as a transition system on the credential. A call is the arguments
  of \<^verbatim>\<open>get_token\<close> with the two readings of the clock; a call that raises leaves the
  object as it was. The step relation is the graph of the function \<open>after_call\<close>, so a
  run is a fold. On runs the theory shows what never changes (the invariant of the
  cache), that a client which polls once a day can keep an expired token for ever, and
  that a client which polls at least every 301 seconds sends a token request within a
  day.
\<close>

section \<open>Calls and runs\<close>

datatype call =
  Call (call_host: string) (call_force: bool) (call_now: datetime) (call_requested: datetime)
    (call_agent: string)

definition call_get_token ::
  "netenv \<Rightarrow> call \<Rightarrow> ClientCredential \<Rightarrow> (json \<times> ClientCredential) result" where
  "call_get_token net cl self =
     get_token net (call_now cl) (call_requested cl) (call_host cl) (call_force cl)
       (call_agent cl) self"

definition after_call :: "netenv \<Rightarrow> call \<Rightarrow> ClientCredential \<Rightarrow> ClientCredential" where
  "after_call net cl self =
     (case call_get_token net cl self of Inr (tok, self') \<Rightarrow> self' | Inl e \<Rightarrow> self)"

inductive cache_step :: "netenv \<Rightarrow> ClientCredential \<Rightarrow> call \<Rightarrow> ClientCredential \<Rightarrow> bool"
  for net where
    returned: "call_get_token net cl self = Inr (tok, self') \<Longrightarrow> cache_step net self cl self'"
  | raised: "call_get_token net cl self = Inl e \<Longrightarrow> cache_step net self cl self"

inductive cache_run :: "netenv \<Rightarrow> ClientCredential \<Rightarrow> call list \<Rightarrow> ClientCredential \<Rightarrow> bool"
  for net where
    nil: "cache_run net self [] self"
  | cons: "cache_step net self cl self' \<Longrightarrow> cache_run net self' cls self'' \<Longrightarrow>
           cache_run net self (cl # cls) self''"

text \<open>
  The invariant of the cache: the client id and the secret are those the object was
  made with, only hosts that were asked for have an entry, and every entry expires on
  a valid date.
\<close>

definition cache_inv :: "string \<Rightarrow> string \<Rightarrow> string set \<Rightarrow> ClientCredential \<Rightarrow> bool" where
  "cache_inv cid secret hosts self \<longleftrightarrow>
     client_id self = cid \<and> client_secret self = secret \<and> dom (tokens self) \<subseteq> hosts \<and>
     (\<forall>e \<in> ran (tokens self). 0 \<le> expires_on e \<and> expires_on e < datetime_end)"

text \<open>
  A client that asks for the token of a host every \<open>p\<close> microseconds from \<open>t0\<close> on,
  without forcing a refresh: its first \<open>n\<close> calls.
\<close>

definition polls :: "string \<Rightarrow> int \<Rightarrow> datetime \<Rightarrow> string \<Rightarrow> nat \<Rightarrow> call list" where
  "polls h p t0 ua n = map (\<lambda>k. Call h False (t0 + int k * p) (t0 + int k * p) ua) [0..<n]"

definition day_us :: int where
  "day_us = 86400000000"

section \<open>Steps and runs as functions\<close>

inductive_simps cache_run_Nil [simp]: "cache_run net self [] self'"
inductive_simps cache_run_Cons [simp]: "cache_run net self (cl # cls) self'"

lemma cache_step_iff: "cache_step net self cl self' \<longleftrightarrow> self' = after_call net cl self"
  by (cases "call_get_token net cl self")
    (auto simp: after_call_def elim!: cache_step.cases intro: cache_step.intros)

lemma cache_run_iff: "cache_run net self cls self' \<longleftrightarrow> self' = fold (after_call net) cls self"
  by (induction cls arbitrary: self) (auto simp: cache_step_iff)

lemma cache_run_append:
  "cache_run net self (xs @ ys) self'' \<longleftrightarrow>
     (\<exists>self'. cache_run net self xs self' \<and> cache_run net self' ys self'')"
  by (simp add: cache_run_iff)

lemma after_call_cached:
  "\<not> needs_refresh self (call_host cl) (call_force cl) (call_now cl) \<Longrightarrow>
   tokens self (call_host cl) = Some e \<Longrightarrow>
   call_get_token net cl self = Inr (token e, self) \<and> after_call net cl self = self"
  by (simp add: after_call_def call_get_token_def get_token_cached_eq)

lemma after_call_cases [consumes 0, case_names Same Retrieved]:
  obtains "after_call net cl self = self"
  | "retrieve_token net (call_requested cl) (call_host cl) (call_agent cl) self =
       Inr (after_call net cl self)"
  by (cases "call_get_token net cl self")
    (auto simp: after_call_def call_get_token_def get_token_def result_iff split: if_splits)

section \<open>The invariant\<close>

lemma cache_inv_mono: "cache_inv cid secret H self \<Longrightarrow> H \<subseteq> H' \<Longrightarrow> cache_inv cid secret H' self"
  by (auto simp: cache_inv_def)

lemma cache_inv_init: "cache_inv cid secret {} (ClientCredential_init cid secret)"
  by (simp add: cache_inv_def ClientCredential_init_def)

lemma cache_inv_retrieve:
  assumes "retrieve_token net t h ua self = Inr c" and "cache_inv cid secret H self"
  shows "cache_inv cid secret (insert h H) c"
proof -
  note frame = retrieve_token_frame [OF assms(1)]
  have "tokens c h' = Some e \<Longrightarrow> h' = h \<or> tokens self h' = Some e" for h' e
    using frame(3) [of h'] by (cases "h' = h") simp_all
  with frame(1,2,4) assms(2) show ?thesis
    unfolding cache_inv_def ran_def dom_def by fastforce
qed

lemma cache_inv_step:
  assumes "cache_step net self cl self'" and "cache_inv cid secret H self"
  shows "cache_inv cid secret (insert (call_host cl) H) self'"
proof (cases net cl self rule: after_call_cases)
  case Same
  with assms show ?thesis by (auto simp: cache_step_iff intro: cache_inv_mono)
next
  case Retrieved
  with assms show ?thesis by (auto simp: cache_step_iff dest: cache_inv_retrieve)
qed

lemma cache_inv_run:
  assumes "cache_run net self cls self'" and "cache_inv cid secret H self"
  shows "cache_inv cid secret (H \<union> call_host ` set cls) self'"
  using assms
proof (induction arbitrary: H rule: cache_run.induct)
  case (nil self)
  then show ?case by simp
next
  case (cons self cl self' cls self'')
  from cons.IH [OF cache_inv_step [OF cons.hyps(1) cons.prems]] show ?case by simp
qed

section \<open>Calls that reuse the token\<close>

lemma reuse_run:
  assumes "tokens self h = Some e"
    and "\<forall>cl \<in> set cls. call_host cl = h \<and> \<not> needs_refresh self h (call_force cl) (call_now cl)"
  shows "cache_run net self cls self"
    and "\<forall>cl \<in> set cls. call_get_token net cl self = Inr (token e, self)"
proof -
  from assms have *: "call_get_token net cl self = Inr (token e, self) \<and>
      after_call net cl self = self" if "cl \<in> set cls" for cl
    using that by (intro after_call_cached) auto
  then show "\<forall>cl \<in> set cls. call_get_token net cl self = Inr (token e, self)" by blast
  from * show "cache_run net self cls self"
    unfolding cache_run_iff by (induction cls) simp_all
qed

lemma polls_set: "set (polls h p t0 ua n) = (\<lambda>k. Call h False (t0 + int k * p) (t0 + int k * p) ua) ` {..<n}"
  by (auto simp: polls_def)

lemma polls_length [simp]: "length (polls h p t0 ua n) = n"
  by (simp add: polls_def)

section \<open>The window of a refresh\<close>

text \<open>
  The seconds field of the time left goes down by one for every second that passes
  and starts again at 86399 after 0: a refresh is due during 301 seconds of every day.
\<close>

lemma seconds_step:
  assumes "0 \<le> p" and "p \<le> 301000000"
  shows "d div 1000000 - 301 \<le> (d - p) div (1000000 :: int)"
proof -
  have "(d - 301 * 1000000) div 1000000 = d div 1000000 - (301 :: int)"
    by simp
  moreover from assms have "(d - 301 * 1000000) div 1000000 \<le> (d - p) div 1000000"
    by (intro zdiv_mono1) simp_all
  ultimately show ?thesis by simp
qed

lemma seconds_far:
  assumes "86099000000 \<le> q"
  shows "(d - q) div 1000000 \<le> d div 1000000 - (86099 :: int)"
proof -
  have "(d - 86099 * 1000000) div 1000000 = d div 1000000 - (86099 :: int)"
    by simp
  moreover from assms have "(d - q) div 1000000 \<le> (d - 86099 * 1000000) div 1000000"
    by (intro zdiv_mono1) simp_all
  ultimately show ?thesis by simp
qed

lemma td_seconds_window:
  assumes "86400 * m \<le> d div 1000000" and "d div 1000000 \<le> 86400 * m + 300"
  shows "td_seconds d \<le> 300"
proof -
  define r where "r = d div 1000000 - 86400 * m"
  with assms have "0 \<le> r" "r \<le> 300" and "d div 1000000 = r + m * 86400" by simp_all
  then show ?thesis by (simp add: td_seconds_def)
qed

lemma window_hit:
  assumes "0 < p" and "p \<le> 301000000"
  shows "\<exists>k. int k * p < 86099000000 + p \<and> td_seconds (d - int k * p) \<le> 300"
proof -
  define f where "f k = (d - int k * p) div 1000000" for k
  define m where "m = f 0 div 86400"
  define P where "P k \<longleftrightarrow> f k \<le> 86400 * m + 300" for k
  have f0: "86400 * m \<le> f 0" "f 0 < 86400 * m + 86400"
    unfolding m_def by simp_all
  have far: "P k" if "86099000000 \<le> int k * p" for k
    using seconds_far [OF that, of d] f0(2) by (simp add: P_def f_def)
  from assms(1) have "86099000000 \<le> int (nat 86099000000) * p"
    by (simp add: mult_le_cancel_left1 [of 86099000000 p] mult.commute)
  then have "P (nat 86099000000)" by (rule far)
  then have L: "P (LEAST k. P k)" by (rule LeastI)
  define k where "k = (LEAST k. P k)"
  have before: "\<not> P j" if "j < k" for j
    using that not_less_Least [of j P] by (simp add: k_def)
  have bound: "int k * p < 86099000000 + p"
  proof (cases k)
    case 0
    with assms show ?thesis by simp
  next
    case (Suc j)
    then have "\<not> P j" by (simp add: before)
    with far [of j] have "\<not> 86099000000 \<le> int j * p" by blast
    with Suc show ?thesis by (simp add: algebra_simps)
  qed
  have lower: "86400 * m \<le> f k"
  proof (cases k)
    case 0
    with f0 show ?thesis by simp
  next
    case (Suc j)
    then have "\<not> P j" by (simp add: before)
    then have "86400 * m + 300 < f j" by (simp add: P_def)
    moreover from assms have "f j - 301 \<le> f (Suc j)"
      using seconds_step [of p "d - int j * p"] by (simp add: f_def algebra_simps)
    ultimately show ?thesis using Suc by simp
  qed
  from L have "f k \<le> 86400 * m + 300" by (simp add: k_def P_def)
  with lower have "td_seconds (d - int k * p) \<le> 300"
    unfolding f_def by (rule td_seconds_window)
  with bound show ?thesis by blast
qed

lemma needs_refresh_window:
  "tokens self h = Some e \<Longrightarrow> td_seconds (expires_on e - t0 - q) \<le> 300 \<Longrightarrow>
   needs_refresh self h False (t0 + q)"
  by (simp add: needs_refresh_iff algebra_simps)

lemma first_refresh:
  assumes "0 < p" and "p \<le> 301000000"
  obtains k where "int k * p < day_us" and "needs_refresh self h False (t0 + int k * p)"
    and "\<And>j. j < k \<Longrightarrow> \<not> needs_refresh self h False (t0 + int j * p)"
proof -
  define R where "R k \<longleftrightarrow> needs_refresh self h False (t0 + int k * p)" for k
  have "\<exists>k. int k * p < 86099000000 + p \<and> R k"
  proof (cases "tokens self h")
    case None
    with assms(1) have "int 0 * p < 86099000000 + p \<and> R 0"
      by (simp add: R_def needs_refresh_def)
    then show ?thesis by blast
  next
    case (Some e)
    from window_hit [OF assms, of "expires_on e - t0"] show ?thesis
      by (auto simp: R_def intro: needs_refresh_window [OF Some])
  qed
  then obtain k0 where k0: "int k0 * p < 86099000000 + p" "R k0" by blast
  define k where "k = (LEAST k. R k)"
  from k0(2) have "R k" unfolding k_def by (rule LeastI)
  moreover have "\<not> R j" if "j < k" for j
    using that not_less_Least [of j R] by (simp add: k_def)
  moreover from k0(2) have "k \<le> k0" unfolding k_def by (rule Least_le)
  with assms(1) have "int k * p \<le> int k0 * p" by (simp add: mult_right_mono)
  with k0(1) assms(2) have "int k * p < day_us" by (simp add: day_us_def)
  ultimately show ?thesis by (intro that [of k]) (simp_all add: R_def)
qed

section \<open>A sample run\<close>

lemma sample_run:
  "cache_run sample_net (ClientCredential_init ''id'' ''secret'')
     [Call ''ok.example'' False 0 0 USER_AGENT] sample_cached"
  using sample_retrieve sample_needs_refresh [of "''ok.example''" 0]
  by (simp add: cache_run_iff after_call_def call_get_token_def get_token_refresh_eq
      sample_credential_def sample_cached_def)

section \<open>Runs of the cache\<close>

text \<open>
  C34 (invariant): whatever calls of \<^verbatim>\<open>get_token\<close> are made on a credential, at
  whatever times and whatever the token endpoint answers, the client id and the secret
  stay those the object was made with, only hosts that were asked for have an entry in
  the cache, and every entry expires on a valid date.
\<close>

theorem credential_run_invariant:
  assumes "cache_run net (ClientCredential_init cid secret) cls self"
  shows "cache_inv cid secret (call_host ` set cls) self"
  using cache_inv_run [OF assms cache_inv_init] by simp

theorem credential_run_invariant_witness:
  "cache_run sample_net (ClientCredential_init ''id'' ''secret'')
     [Call ''ok.example'' False 0 0 USER_AGENT] sample_cached \<and>
   cache_inv ''id'' ''secret'' {''ok.example''} sample_cached"
  using credential_run_invariant [OF sample_run] sample_run by simp

text \<open>
  C35 (safety): a client that asks for the token once a day keeps an expired token for
  ever. If the first call comes \<open>x\<close> microseconds after the token expired, with \<open>x\<close> at
  most 86099 seconds, then every one of the daily calls returns the expired token and
  none sends a request, however many days pass.
\<close>

theorem daily_polls_keep_expired_token:
  assumes "tokens self h = Some e" and "0 < x" and "x \<le> 86099000000"
  shows "cache_run net self (polls h day_us (expires_on e + x) ua n) self \<and>
         (\<forall>cl \<in> set (polls h day_us (expires_on e + x) ua n).
            expires_on e < call_now cl \<and> call_get_token net cl self = Inr (token e, self))"
proof -
  let ?cls = "polls h day_us (expires_on e + x) ua n"
  have stale: "\<not> needs_refresh self h False (expires_on e + x + int k * day_us)" for k
  proof -
    have eq: "expires_on e - (expires_on e + x + int k * day_us) =
        (- int k) * 86400000000 + (- x)"
      by (simp add: day_us_def)
    have "td_seconds (expires_on e - (expires_on e + x + int k * day_us)) = td_seconds (- x)"
      unfolding eq by (rule td_seconds_multiple_of_day)
    with td_seconds_expired [OF assms(2,3)] assms(1) show ?thesis
      by (simp add: needs_refresh_iff)
  qed
  then have "\<forall>cl \<in> set ?cls. call_host cl = h \<and>
      \<not> needs_refresh self h (call_force cl) (call_now cl)"
    by (auto simp: polls_set)
  from reuse_run [OF assms(1) this, of net] assms(2) show ?thesis
    by (auto simp: polls_set day_us_def intro: add_pos_nonneg)
qed

theorem daily_polls_keep_expired_token_witness:
  "0 < (1000000 :: int) \<and>
   cache_run sample_net sample_cached
     (polls ''ok.example'' day_us (expires_on sample_entry + 1000000) USER_AGENT 3)
     sample_cached"
  using daily_polls_keep_expired_token [OF sample_cached_entry, of 1000000 sample_net USER_AGENT 3]
  by simp

text \<open>
  C36 (liveness): a client that asks for the token at least every 301 seconds sends a
  token request within a day. Whatever the cache holds, among the calls made every \<open>p\<close>
  microseconds from \<open>t0\<close> on, with \<open>p\<close> at most 301 seconds, there is one less than a day
  after \<open>t0\<close> that calls \<^verbatim>\<open>retrieve_token\<close>; the calls before it leave the credential as
  it is.
\<close>

theorem polling_requests_token_within_a_day:
  assumes "0 < p" and "p \<le> 301000000"
  shows "\<exists>k. int k * p < day_us \<and> cache_run net self (polls h p t0 ua k) self \<and>
           call_get_token net (Call h False (t0 + int k * p) (t0 + int k * p) ua) self =
             rbind (retrieve_token net (t0 + int k * p) h ua self) (\<lambda>c.
             rbind (of_option (Builtin KeyError) (tokens c h)) (\<lambda>e. Inr (token e, c)))"
  using assms
proof (rule first_refresh [of p self h t0])
  fix k
  assume k: "int k * p < day_us" "needs_refresh self h False (t0 + int k * p)"
    and before: "\<And>j. j < k \<Longrightarrow> \<not> needs_refresh self h False (t0 + int j * p)"
  have "cache_run net self (polls h p t0 ua k) self"
  proof (cases "tokens self h")
    case None
    then have "k = 0" using before [of 0] by (cases k) (simp_all add: needs_refresh_def)
    then show ?thesis by (simp add: polls_def)
  next
    case (Some e)
    from before show ?thesis
      by (intro reuse_run(1) [OF Some]) (auto simp: polls_set)
  qed
  with k show ?thesis
    by (intro exI [of _ k]) (simp add: call_get_token_def get_token_refresh_eq)
qed

theorem polling_requests_token_within_a_day_witness:
  "0 < (300000000 :: int) \<and>
   (\<exists>k. int k * 300000000 < day_us \<and>
      cache_run sample_net sample_cached (polls ''ok.example'' 300000000 0 USER_AGENT k)
        sample_cached \<and>
      call_get_token sample_net
          (Call ''ok.example'' False (0 + int k * 300000000) (0 + int k * 300000000) USER_AGENT)
          sample_cached =
        rbind (retrieve_token sample_net (0 + int k * 300000000) ''ok.example'' USER_AGENT
                 sample_cached) (\<lambda>c.
        rbind (of_option (Builtin KeyError) (tokens c ''ok.example'')) (\<lambda>e.
          Inr (token e, c))))"
  using polling_requests_token_within_a_day [of 300000000 sample_net sample_cached
      "''ok.example''" 0 USER_AGENT]
  by simp

end
