(* ===== verification/OsPath.thy ===== *)
theory OsPath
  imports PyPrelude
begin

text \<open>
  The string functions of the standard library that \<^verbatim>\<open>client.py\<close> applies to host names
  and file names: \<^verbatim>\<open>str.lower\<close> on code points below 256, and \<^verbatim>\<open>os.path.split\<close>,
  \<^verbatim>\<open>os.path.splitext\<close> and \<^verbatim>\<open>os.path.join\<close> of \<^verbatim>\<open>posixpath\<close> (the separator is \<^verbatim>\<open>/\<close>).
  The definitions follow the library's code: \<^verbatim>\<open>split\<close> cuts after the last separator
  and strips trailing separators from a head that is not all separators;
  \<^verbatim>\<open>splitext\<close> cuts at the last dot of the last component unless only dots precede it.
\<close>

section \<open>Lower case\<close>

definition lower_char :: "char \<Rightarrow> char" where
  "lower_char c =
     (let n = (of_char c :: nat) in
      if (65 \<le> n \<and> n \<le> 90) \<or> (192 \<le> n \<and> n \<le> 222 \<and> n \<noteq> 215)
      then char_of (n + 32) else c)"

definition py_lower :: "string \<Rightarrow> string" where
  "py_lower s = map lower_char s"

section \<open>Paths\<close>

definition is_sep :: "char \<Rightarrow> bool" where
  "is_sep c \<longleftrightarrow> c = CHR ''/''"

definition is_dot :: "char \<Rightarrow> bool" where
  "is_dot c \<longleftrightarrow> c = CHR ''.''"

text \<open>The part after the last separator.\<close>

definition last_component :: "string \<Rightarrow> string" where
  "last_component p = rev (takeWhile (\<lambda>c. \<not> is_sep c) (rev p))"

definition posix_split :: "string \<Rightarrow> string \<times> string" where
  "posix_split p =
     (let tail = last_component p;
          head = take (length p - length tail) p
      in (if head \<noteq> [] \<and> \<not> list_all is_sep head
          then rev (dropWhile is_sep (rev head)) else head, tail))"

definition posix_splitext :: "string \<Rightarrow> string \<times> string" where
  "posix_splitext p =
     (let name = last_component p;
          ext = rev (takeWhile (\<lambda>c. \<not> is_dot c) (rev name))
      in if \<not> list_ex is_dot name then (p, [])
         else if list_all is_dot (take (length name - length ext - 1) name) then (p, [])
         else (take (length p - length ext - 1) p, drop (length p - length ext - 1) p))"

definition posix_join :: "string \<Rightarrow> string \<Rightarrow> string" where
  "posix_join a b =
     (if b \<noteq> [] \<and> is_sep (hd b) then b
      else if a = [] \<or> is_sep (last a) then a @ b
      else a @ ''/'' @ b)"

section \<open>Lemmas\<close>

lemmas ospath_defs [py_defs] =
  py_lower_def lower_char_def is_sep_def is_dot_def last_component_def posix_split_def
  posix_splitext_def posix_join_def

lemmas lower_eval = py_lower_def lower_char_def char_of_def bit_0

lemma py_lower_length [simp]: "length (py_lower s) = length s"
  by (simp add: py_lower_def)

lemma py_lower_append [simp]: "py_lower (s @ t) = py_lower s @ py_lower t"
  by (simp add: py_lower_def)

lemma lower_char_idem [simp]: "lower_char (lower_char c) = lower_char c"
proof -
  have "of_char c < (256 :: nat)" by simp
  then show ?thesis by (auto simp: lower_char_def Let_def)
qed

lemma py_lower_idem [simp]: "py_lower (py_lower s) = py_lower s"
  by (simp add: py_lower_def)

lemma last_component_no_sep: "\<not> list_ex is_sep (last_component p)"
proof -
  have "\<forall>c \<in> set (takeWhile (\<lambda>c. \<not> is_sep c) (rev p)). \<not> is_sep c"
    by (auto dest: set_takeWhileD)
  then show ?thesis by (simp add: last_component_def list_ex_iff)
qed

lemma last_component_suffix: "\<exists>h. p = h @ last_component p"
proof -
  have "rev p = takeWhile (\<lambda>c. \<not> is_sep c) (rev p) @ dropWhile (\<lambda>c. \<not> is_sep c) (rev p)"
    by simp
  then have "p = rev (dropWhile (\<lambda>c. \<not> is_sep c) (rev p)) @ last_component p"
    unfolding last_component_def by (metis rev_append rev_rev_ident)
  then show ?thesis ..
qed

lemma last_component_length: "length (last_component p) \<le> length p"
  using last_component_suffix [of p] by (metis le_add2 length_append)

lemma last_component_no_sep_id:
  assumes "\<not> list_ex is_sep p"
  shows "last_component p = p"
proof -
  from assms have "\<forall>c \<in> set (rev p). \<not> is_sep c" by (simp add: list_ex_iff)
  then have "takeWhile (\<lambda>c. \<not> is_sep c) (rev p) = rev p"
    by (simp only: takeWhile_eq_all_conv)
  then show ?thesis by (simp only: last_component_def rev_rev_ident)
qed

lemma last_component_after_sep:
  assumes "\<not> list_ex is_sep q"
  shows "last_component (d @ CHR ''/'' # q) = q"
proof -
  from assms have "\<And>c. c \<in> set (rev q) \<Longrightarrow> \<not> is_sep c" by (simp add: list_ex_iff)
  then have "takeWhile (\<lambda>c. \<not> is_sep c) (rev q @ CHR ''/'' # rev d) =
               rev q @ takeWhile (\<lambda>c. \<not> is_sep c) (CHR ''/'' # rev d)"
    by (rule takeWhile_append2)
  moreover have "is_sep CHR ''/''" by (simp add: is_sep_def)
  ultimately have "takeWhile (\<lambda>c. \<not> is_sep c) (rev (d @ CHR ''/'' # q)) = rev q" by simp
  then show ?thesis by (simp only: last_component_def rev_rev_ident)
qed

lemma posix_split_tail: "snd (posix_split p) = last_component p"
  by (simp add: posix_split_def Let_def)

lemma posix_splitext_name_ext:
  assumes "name \<noteq> []" and "\<not> list_ex is_sep (name @ ext)" and "\<not> list_ex is_dot (name @ ext)"
  shows "posix_splitext (name @ CHR ''.'' # ext) = (name, CHR ''.'' # ext)"
proof -
  define q where "q = name @ CHR ''.'' # ext"
  have dot: "is_dot CHR ''.''" by (simp add: is_dot_def)
  from assms(2) have "\<not> list_ex is_sep q"
    by (auto simp: q_def list_ex_iff is_sep_def)
  then have lc: "last_component q = q" by (rule last_component_no_sep_id)
  from assms(3) have "\<And>c. c \<in> set (rev ext) \<Longrightarrow> \<not> is_dot c" by (simp add: list_ex_iff)
  then have "takeWhile (\<lambda>c. \<not> is_dot c) (rev ext @ CHR ''.'' # rev name) =
               rev ext @ takeWhile (\<lambda>c. \<not> is_dot c) (CHR ''.'' # rev name)"
    by (rule takeWhile_append2)
  with dot have tw: "takeWhile (\<lambda>c. \<not> is_dot c) (rev q) = rev ext" by (simp add: q_def)
  from assms(1,3) have name: "\<not> list_all is_dot name"
    by (cases name) (auto simp: list_ex_iff)
  have ex: "list_ex is_dot q" using dot by (simp add: q_def)
  have "posix_splitext q = (name, CHR ''.'' # ext)"
    unfolding posix_splitext_def Let_def lc tw using name ex by (simp add: q_def)
  then show ?thesis by (simp only: q_def)
qed

lemma posix_splitext_append: "fst (posix_splitext p) @ snd (posix_splitext p) = p"
  by (simp add: posix_splitext_def Let_def)

lemma posix_splitext_ext:
  "snd (posix_splitext p) = [] \<or>
   (\<exists>e. snd (posix_splitext p) = CHR ''.'' # e \<and> \<not> list_ex is_dot e \<and> \<not> list_ex is_sep e)"
proof (cases "snd (posix_splitext p) = []")
  case True
  then show ?thesis ..
next
  case False
  define name where "name = last_component p"
  define ext where "ext = rev (takeWhile (\<lambda>c. \<not> is_dot c) (rev name))"
  from False have dot: "list_ex is_dot name"
    and cut: "snd (posix_splitext p) = drop (length p - length ext - 1) p"
    by (auto simp: posix_splitext_def Let_def name_def ext_def split: if_splits)
  have ext_set: "\<forall>c \<in> set ext. \<not> is_dot c"
    unfolding ext_def by (auto dest: set_takeWhileD)
  have "rev name = rev ext @ dropWhile (\<lambda>c. \<not> is_dot c) (rev name)"
    unfolding ext_def by simp
  moreover from dot have "dropWhile (\<lambda>c. \<not> is_dot c) (rev name) \<noteq> []"
    by (auto simp: list_ex_iff dropWhile_eq_Nil_conv)
  then obtain r where "dropWhile (\<lambda>c. \<not> is_dot c) (rev name) = CHR ''.'' # r"
    by (metis hd_dropWhile is_dot_def list.collapse)
  ultimately have "rev name = rev ext @ CHR ''.'' # r" by simp
  then have name: "name = rev r @ CHR ''.'' # ext"
    by (metis rev_append rev.simps(2) rev_rev_ident append_assoc append_Cons append_Nil)
  from last_component_suffix [of p] obtain h where p: "p = h @ name"
    unfolding name_def by blast
  have "drop (length p - length ext - 1) p = CHR ''.'' # ext"
    by (simp add: p name)
  moreover from last_component_no_sep [of p] have "\<not> list_ex is_sep ext"
    by (simp add: name_def [symmetric] name list_ex_iff)
  ultimately show ?thesis using cut ext_set by (auto simp: list_ex_iff)
qed

end
