(* ===== verification/PyIO.thy ===== *)
theory PyIO
  imports PyPrelude
begin

text \<open>
  Computations that change a world and may raise: a function from the world to a
  result and the world after it. An exception keeps the changes made before it was
  raised, as in Python. \<open>ibind\<close> sequences two statements, \<open>ilift\<close> embeds a pure
  computation and \<open>ifold\<close> is a \<^verbatim>\<open>for\<close> loop with an accumulator. \<open>relates R m\<close> says
  that the world after \<open>m\<close> is related by \<open>R\<close> to the world before it, whether \<open>m\<close>
  returns or raises; its rules for \<open>ibind\<close> and \<open>ifold\<close> carry the footprint lemmas of
  the client.
\<close>

type_synonym ('s, 'a) io = "'s \<Rightarrow> 'a result \<times> 's"

definition ireturn :: "'a \<Rightarrow> ('s, 'a) io" where
  "ireturn x = (\<lambda>s. (Inr x, s))"

definition iraise :: "py_error \<Rightarrow> ('s, 'a) io" where
  "iraise e = (\<lambda>s. (Inl e, s))"

definition ilift :: "'a result \<Rightarrow> ('s, 'a) io" where
  "ilift r = (\<lambda>s. (r, s))"

definition ibind :: "('s, 'a) io \<Rightarrow> ('a \<Rightarrow> ('s, 'b) io) \<Rightarrow> ('s, 'b) io" where
  "ibind m f = (\<lambda>s. case m s of (Inl e, s') \<Rightarrow> (Inl e, s') | (Inr x, s') \<Rightarrow> f x s')"

fun ifold :: "('a \<Rightarrow> 'b \<Rightarrow> ('s, 'b) io) \<Rightarrow> 'a list \<Rightarrow> 'b \<Rightarrow> ('s, 'b) io" where
  "ifold f [] acc = ireturn acc"
| "ifold f (x # xs) acc = ibind (f x acc) (ifold f xs)"

text \<open>
  \<open>relates R m\<close>: whatever \<open>m\<close> returns or raises, the world after it is related by \<open>R\<close>
  to the world before it.
\<close>

definition relates :: "('s \<Rightarrow> 's \<Rightarrow> bool) \<Rightarrow> ('s, 'a) io \<Rightarrow> bool" where
  "relates R m \<longleftrightarrow> (\<forall>s. R s (snd (m s)))"

lemma ibind_apply:
  "ibind m f s = (case m s of (Inl e, s') \<Rightarrow> (Inl e, s') | (Inr x, s') \<Rightarrow> f x s')"
  by (simp add: ibind_def)

lemma ibind_Inr [simp]: "m s = (Inr x, s') \<Longrightarrow> ibind m f s = f x s'"
  by (simp add: ibind_def)

lemma ibind_Inl [simp]: "m s = (Inl e, s') \<Longrightarrow> ibind m f s = (Inl e, s')"
  by (simp add: ibind_def)

lemma ireturn_apply [simp]: "ireturn x s = (Inr x, s)"
  by (simp add: ireturn_def)

lemma iraise_apply [simp]: "iraise e s = (Inl e, s)"
  by (simp add: iraise_def)

lemma ilift_apply [simp]: "ilift r s = (r, s)"
  by (simp add: ilift_def)

lemma ibind_ireturn [simp]: "ibind (ireturn x) f = f x"
  by (simp add: ibind_def fun_eq_iff)

lemma ibind_iraise [simp]: "ibind (iraise e) f = iraise e"
  by (simp add: ibind_def fun_eq_iff)

lemma ibind_ilift_Inr [simp]: "ibind (ilift (Inr x)) f = f x"
  by (simp add: ibind_def fun_eq_iff)

lemma ibind_ilift_Inl [simp]: "ibind (ilift (Inl e)) f = iraise e"
  by (simp add: ibind_def fun_eq_iff)

lemma ibind_assoc: "ibind (ibind m f) g = ibind m (\<lambda>x. ibind (f x) g)"
  by (auto simp: ibind_def fun_eq_iff split: prod.splits sum.splits)

lemma ibind_eq_Inr_iff [result_iff]:
  "ibind m f s = (Inr y, t) \<longleftrightarrow> (\<exists>x s'. m s = (Inr x, s') \<and> f x s' = (Inr y, t))"
  by (auto simp: ibind_def split: prod.splits sum.splits)

lemma ibind_eq_Inl_iff [result_iff]:
  "ibind m f s = (Inl e, t) \<longleftrightarrow>
     m s = (Inl e, t) \<or> (\<exists>x s'. m s = (Inr x, s') \<and> f x s' = (Inl e, t))"
  by (auto simp: ibind_def split: prod.splits sum.splits)

lemma ifold_append: "ifold f (xs @ ys) acc = ibind (ifold f xs acc) (ifold f ys)"
proof (induction xs arbitrary: acc)
  case Nil
  show ?case by simp
next
  case (Cons x xs)
  have "ifold f (xs @ ys) = (\<lambda>a. ibind (ifold f xs a) (ifold f ys))"
    by (rule ext) (rule Cons.IH)
  then show ?case by (simp add: ibind_assoc)
qed

lemma ifold_invariant:
  assumes "ifold f xs acc s = (r, t)" and "I s"
    and "\<And>x a u r' v. x \<in> set xs \<Longrightarrow> I u \<Longrightarrow> f x a u = (r', v) \<Longrightarrow> I v"
  shows "I t"
  using assms
proof (induction xs arbitrary: acc s)
  case Nil
  then show ?case by simp
next
  case (Cons x xs)
  obtain r1 s1 where step: "f x acc s = (r1, s1)" by (cases "f x acc s")
  from Cons.prems(3) [where x = x and a = acc and u = s and r' = r1 and v = s1]
    Cons.prems(2) step
  have I1: "I s1" by simp
  show ?case
  proof (cases r1)
    case (Inl e)
    with step Cons.prems(1) I1 show ?thesis by simp
  next
    case (Inr a)
    with step Cons.prems(1) have "ifold f xs a s1 = (r, t)" by simp
    then show ?thesis
    proof (rule Cons.IH [OF _ I1])
      fix y a' u r' v
      assume "y \<in> set xs" and "I u" and "f y a' u = (r', v)"
      then show "I v" by (intro Cons.prems(3) [of y u a' r' v]) simp_all
    qed
  qed
qed

lemma relatesI: "(\<And>s. R s (snd (m s))) \<Longrightarrow> relates R m"
  by (simp add: relates_def)

lemma relatesD: "relates R m \<Longrightarrow> R s (snd (m s))"
  by (simp add: relates_def)

lemma relates_pure:
  assumes "\<And>s. R s s"
  shows "relates R (ireturn x)" and "relates R (iraise e)" and "relates R (ilift r)"
  using assms by (simp_all add: relates_def)

lemma relates_ibind:
  assumes m: "relates R m" and f: "\<And>x. relates Q (f x)"
    and stop: "\<And>s s'. R s s' \<Longrightarrow> T s s'"
    and seq: "\<And>s s' s''. R s s' \<Longrightarrow> Q s' s'' \<Longrightarrow> T s s''"
  shows "relates T (ibind m f)"
proof (rule relatesI)
  fix s
  obtain r s' where ms: "m s = (r, s')" by (cases "m s")
  with relatesD [OF m, of s] have R: "R s s'" by simp
  show "T s (snd (ibind m f s))"
  proof (cases r)
    case (Inl e)
    with ms R show ?thesis by (simp add: stop)
  next
    case (Inr x)
    with ms have "ibind m f s = f x s'" by simp
    moreover from R relatesD [OF f [of x], of s'] have "T s (snd (f x s'))" by (rule seq)
    ultimately show ?thesis by simp
  qed
qed

lemma relates_ifold:
  assumes step: "\<And>x a. relates R (f x a)" and same: "\<And>s. R s s"
    and seq: "\<And>s s' s''. R s s' \<Longrightarrow> R s' s'' \<Longrightarrow> R s s''"
  shows "relates R (ifold f xs acc)"
proof (induction xs arbitrary: acc)
  case Nil
  show ?case unfolding ifold.simps by (rule relates_pure) (rule same)
next
  case (Cons x xs)
  have "relates R (ibind (f x acc) (ifold f xs))"
    by (rule relates_ibind [OF step Cons.IH]) (assumption, erule (1) seq)
  then show ?case by simp
qed

lemma relates_case_prod: "(\<And>a b. relates R (f a b)) \<Longrightarrow> relates R (case x of (a, b) \<Rightarrow> f a b)"
  by (cases x) simp

end
