(* ===== verification/Sax.thy ===== *)
theory Sax
  imports PyPrelude
begin

text \<open>
  The XML elements of the SOAP toolkit (\<^verbatim>\<open>suds.sax.element.Element\<close>) as far as
  \<^verbatim>\<open>client.py\<close> uses them: an element has a prefix, a name, the namespace prefixes it
  declares, attributes and children. The operations are the methods the code calls:
  the constructor for a name without a colon, \<^verbatim>\<open>setPrefix\<close>, \<^verbatim>\<open>set\<close>, \<^verbatim>\<open>append\<close>,
  \<^verbatim>\<open>getChild\<close> by name, indexing by a number and \<^verbatim>\<open>findPrefix\<close>. The toolkit links an
  element to its parent and changes elements in place. Here a tree is a value:
  \<^verbatim>\<open>findPrefix\<close> takes the element followed by its ancestors, and a change below the
  root is written back along the path with \<open>at_child\<close> and \<open>at_child_named\<close>.
\<close>

section \<open>Elements\<close>

datatype xml =
  Element (el_prefix: "string option") (el_name: string) (el_ns: "(string \<times> string) list")
    (el_attrs: "(string \<times> string) list") (el_children: "xml list")

definition new_element :: "string \<Rightarrow> xml" where
  "new_element name = Element None name [] [] []"

definition setPrefix :: "string option \<Rightarrow> xml \<Rightarrow> xml" where
  "setPrefix p e = (case e of Element _ n ns as cs \<Rightarrow> Element p n ns as cs)"

text \<open>\<^verbatim>\<open>set\<close> changes the value of the attribute of that name, or adds it at the end.\<close>

definition set_attr :: "string \<Rightarrow> string \<Rightarrow> xml \<Rightarrow> xml" where
  "set_attr name v e =
     (case e of Element p n ns as cs \<Rightarrow> Element p n ns (AList.update name v as) cs)"

definition append_child :: "xml \<Rightarrow> xml \<Rightarrow> xml" where
  "append_child c e = (case e of Element p n ns as cs \<Rightarrow> Element p n ns as (cs @ [c]))"

text \<open>\<^verbatim>\<open>getChild(name)\<close> is the first child of that name, \<^verbatim>\<open>e[i]\<close> the child with index \<open>i\<close>;
  both are \<^verbatim>\<open>None\<close> when there is no such child.\<close>

definition getChild :: "string \<Rightarrow> xml \<Rightarrow> xml option" where
  "getChild name e = find (\<lambda>c. el_name c = name) (el_children e)"

definition child_at :: "nat \<Rightarrow> xml \<Rightarrow> xml option" where
  "child_at i e = (if i < length (el_children e) then Some (el_children e ! i) else None)"

section \<open>Prefixes\<close>

definition XML_NS :: string where
  "XML_NS = ''http://www.w3.org/XML/1998/namespace''"

definition own_prefix :: "string \<Rightarrow> xml \<Rightarrow> string option" where
  "own_prefix uri e =
     (case find (\<lambda>(p, u). u = uri) (el_ns e) of
        Some (p, u) \<Rightarrow> Some p
      | None \<Rightarrow> if uri = XML_NS then Some ''xml'' else None)"

text \<open>The argument is the element followed by its ancestors, the nearest first.\<close>

fun findPrefix :: "string \<Rightarrow> xml list \<Rightarrow> string option" where
  "findPrefix uri [] = None"
| "findPrefix uri (e # ancestors) =
     (case own_prefix uri e of Some p \<Rightarrow> Some p | None \<Rightarrow> findPrefix uri ancestors)"

section \<open>Changes below the root\<close>

fun update_first :: "('a \<Rightarrow> bool) \<Rightarrow> ('a \<Rightarrow> 'a) \<Rightarrow> 'a list \<Rightarrow> 'a list" where
  "update_first P f [] = []"
| "update_first P f (x # xs) = (if P x then f x # xs else x # update_first P f xs)"

definition at_child_named :: "string \<Rightarrow> (xml \<Rightarrow> xml) \<Rightarrow> xml \<Rightarrow> xml" where
  "at_child_named name f e =
     (case e of Element p n ns as cs \<Rightarrow>
        Element p n ns as (update_first (\<lambda>c. el_name c = name) f cs))"

definition at_child :: "nat \<Rightarrow> (xml \<Rightarrow> xml) \<Rightarrow> xml \<Rightarrow> xml" where
  "at_child i f e =
     (case e of Element p n ns as cs \<Rightarrow>
        Element p n ns as (if i < length cs then cs[i := f (cs ! i)] else cs))"

text \<open>A change that keeps the name and the declared prefixes of the element.\<close>

definition keeps_head :: "(xml \<Rightarrow> xml) \<Rightarrow> bool" where
  "keeps_head f \<longleftrightarrow> (\<forall>e. el_name (f e) = el_name e \<and> el_ns (f e) = el_ns e)"

section \<open>Lemmas\<close>

lemmas sax_defs [py_defs] =
  new_element_def setPrefix_def set_attr_def append_child_def getChild_def child_at_def
  own_prefix_def XML_NS_def at_child_named_def at_child_def

lemma new_element_sel [simp]:
  "el_prefix (new_element n) = None" "el_name (new_element n) = n" "el_ns (new_element n) = []"
  "el_attrs (new_element n) = []" "el_children (new_element n) = []"
  by (simp_all add: new_element_def)

lemma setPrefix_sel [simp]:
  "el_prefix (setPrefix p e) = p" "el_name (setPrefix p e) = el_name e"
  "el_ns (setPrefix p e) = el_ns e" "el_attrs (setPrefix p e) = el_attrs e"
  "el_children (setPrefix p e) = el_children e"
  by (cases e; simp add: setPrefix_def)+

lemma set_attr_sel [simp]:
  "el_prefix (set_attr k v e) = el_prefix e" "el_name (set_attr k v e) = el_name e"
  "el_ns (set_attr k v e) = el_ns e" "el_attrs (set_attr k v e) = AList.update k v (el_attrs e)"
  "el_children (set_attr k v e) = el_children e"
  by (cases e; simp add: set_attr_def)+

lemma append_child_sel [simp]:
  "el_prefix (append_child c e) = el_prefix e" "el_name (append_child c e) = el_name e"
  "el_ns (append_child c e) = el_ns e" "el_attrs (append_child c e) = el_attrs e"
  "el_children (append_child c e) = el_children e @ [c]"
  by (cases e; simp add: append_child_def)+

lemma at_child_named_sel [simp]:
  "el_prefix (at_child_named n f e) = el_prefix e" "el_name (at_child_named n f e) = el_name e"
  "el_ns (at_child_named n f e) = el_ns e" "el_attrs (at_child_named n f e) = el_attrs e"
  "el_children (at_child_named n f e) = update_first (\<lambda>c. el_name c = n) f (el_children e)"
  by (cases e; simp add: at_child_named_def)+

lemma at_child_sel [simp]:
  "el_prefix (at_child i f e) = el_prefix e" "el_name (at_child i f e) = el_name e"
  "el_ns (at_child i f e) = el_ns e" "el_attrs (at_child i f e) = el_attrs e"
  "el_children (at_child i f e) =
     (if i < length (el_children e) then (el_children e)[i := f (el_children e ! i)]
      else el_children e)"
  by (cases e; simp add: at_child_def)+

lemma xml_eqI:
  "el_prefix a = el_prefix b \<Longrightarrow> el_name a = el_name b \<Longrightarrow> el_ns a = el_ns b \<Longrightarrow>
   el_attrs a = el_attrs b \<Longrightarrow> el_children a = el_children b \<Longrightarrow> a = b"
  by (rule xml.expand) simp

lemma set_attrs_distinct:
  "distinct (map fst (acc @ r)) \<Longrightarrow>
   fold (\<lambda>(k, v) attrs. AList.update k v attrs) r acc = acc @ r"
proof (induction r arbitrary: acc)
  case Nil
  show ?case by simp
next
  case (Cons kv r)
  obtain k v where kv: "kv = (k, v)" by (cases kv)
  with Cons.prems have "k \<notin> fst ` set acc" by auto
  then have "AList.update k v acc = acc @ [(k, v)]"
    by (induction acc) auto
  with Cons.prems kv show ?case by (simp add: Cons.IH)
qed

lemma fold_set_attr:
  "fold (\<lambda>(k, v). set_attr k v) r e =
     Element (el_prefix e) (el_name e) (el_ns e)
       (fold (\<lambda>(k, v) attrs. AList.update k v attrs) r (el_attrs e)) (el_children e)"
proof (induction r arbitrary: e)
  case Nil
  show ?case by simp
next
  case (Cons kv r)
  then show ?case by (cases kv) simp
qed

lemma fold_append_child:
  "fold (\<lambda>x e. append_child (g x) e) xs e =
     Element (el_prefix e) (el_name e) (el_ns e) (el_attrs e) (el_children e @ map g xs)"
proof (induction xs arbitrary: e)
  case Nil
  show ?case by simp
next
  case (Cons x xs)
  show ?case by (simp add: Cons.IH)
qed

lemma own_prefix_cong: "el_ns a = el_ns b \<Longrightarrow> own_prefix uri a = own_prefix uri b"
  by (simp add: own_prefix_def)

lemma own_prefix_no_ns: "el_ns e = [] \<Longrightarrow> uri \<noteq> XML_NS \<Longrightarrow> own_prefix uri e = None"
  by (simp add: own_prefix_def)

lemma findPrefix_cong:
  "map el_ns chain = map el_ns chain' \<Longrightarrow> findPrefix uri chain = findPrefix uri chain'"
proof (induction chain arbitrary: chain')
  case Nil
  then show ?case by simp
next
  case (Cons e chain)
  then obtain e' rest where c: "chain' = e' # rest" and "el_ns e = el_ns e'"
    and "map el_ns chain = map el_ns rest"
    by (cases chain') auto
  then show ?case using Cons.IH [of rest] own_prefix_cong [of e e' uri]
    by (simp split: option.splits)
qed

lemma update_first_find:
  assumes "\<And>x. P x \<Longrightarrow> P (f x)"
  shows "find P (update_first P f xs) = map_option f (find P xs)"
  using assms by (induction xs) auto

lemma update_first_none: "find P xs = None \<Longrightarrow> update_first P f xs = xs"
  by (induction xs) (auto split: if_splits)

lemma update_first_comp:
  assumes "\<And>x. P x \<Longrightarrow> P (g x)"
  shows "update_first P f (update_first P g xs) = update_first P (f \<circ> g) xs"
  using assms by (induction xs) auto

lemma find_append_new: "find P xs = None \<Longrightarrow> P c \<Longrightarrow> find P (xs @ [c]) = Some c"
  by (induction xs) (auto split: if_splits)

lemma keeps_headI:
  "(\<And>e. el_name (f e) = el_name e) \<Longrightarrow> (\<And>e. el_ns (f e) = el_ns e) \<Longrightarrow> keeps_head f"
  by (simp add: keeps_head_def)

lemma keeps_headD:
  "keeps_head f \<Longrightarrow> el_name (f e) = el_name e"
  "keeps_head f \<Longrightarrow> el_ns (f e) = el_ns e"
  by (simp_all add: keeps_head_def)

lemma keeps_head_basic [simp]:
  "keeps_head (append_child c)" "keeps_head (at_child i f)" "keeps_head (at_child_named n f)"
  "keeps_head (set_attr k v)" "keeps_head (setPrefix p)"
  by (simp_all add: keeps_head_def)

lemma keeps_head_comp [simp]: "keeps_head f \<Longrightarrow> keeps_head g \<Longrightarrow> keeps_head (f \<circ> g)"
  by (simp add: keeps_head_def)

lemma keeps_head_fold [simp]:
  "(\<And>x. keeps_head (f x)) \<Longrightarrow> keeps_head (fold f xs)"
  by (induction xs) (simp_all add: keeps_head_def)

lemma getChild_at_child_named:
  "keeps_head f \<Longrightarrow> getChild n (at_child_named n f e) = map_option f (getChild n e)"
  by (simp add: getChild_def update_first_find keeps_headD)

lemma child_at_at_child: "child_at i (at_child i f e) = map_option f (child_at i e)"
  by (simp add: child_at_def)

lemma getChild_append_new:
  "getChild n e = None \<Longrightarrow> el_name c = n \<Longrightarrow> getChild n (append_child c e) = Some c"
  by (simp add: getChild_def find_append_new)

lemma child_at_append_first: "el_children e = [] \<Longrightarrow> child_at 0 (append_child c e) = Some c"
  by (simp add: child_at_def)

lemma at_child_named_comp:
  "keeps_head g \<Longrightarrow>
   at_child_named n f (at_child_named n g e) = at_child_named n (f \<circ> g) e"
  by (rule xml_eqI) (simp_all add: update_first_comp keeps_headD)

lemma at_child_comp: "at_child i f (at_child i g e) = at_child i (f \<circ> g) e"
  by (rule xml_eqI) simp_all

lemma at_child_named_append_new:
  "getChild n e = None \<Longrightarrow> el_name c = n \<Longrightarrow>
   at_child_named n f (append_child c e) = append_child (f c) e"
proof (rule xml_eqI)
  assume none: "getChild n e = None" and c: "el_name c = n"
  have "update_first P f (xs @ [c]) = xs @ [f c]" if "find P xs = None" and "P c"
    for P and xs :: "xml list"
    using that by (induction xs) (auto split: if_splits)
  with none c show "el_children (at_child_named n f (append_child c e)) =
      el_children (append_child (f c) e)"
    by (simp add: getChild_def)
qed simp_all

lemma at_child_append_first:
  "el_children e = [] \<Longrightarrow> at_child 0 f (append_child c e) = append_child (f c) e"
  by (rule xml_eqI) simp_all

end
