(* ===== verification/XmlText.thy ===== *)
theory XmlText
  imports Sax
begin

text \<open>
  The text of an XML document. The first part is the printer of the SOAP toolkit,
  which \<^verbatim>\<open>run_import\<close> calls as \<^verbatim>\<open>doc.str()\<close>: \<^verbatim>\<open>suds.sax.enc.Encoder.encode\<close> (five
  substitutions, one after the other, of which the first leaves an ampersand alone
  when one of the five entity names and a semicolon follow it), the text of an
  attribute, \<^verbatim>\<open>Element.str\<close> with three spaces of indentation per level, and
  \<^verbatim>\<open>Document.str\<close>. The printer is defined for elements whose declared prefixes are
  not declared again by an ancestor, which holds for the documents of an import: they
  declare none.

  The second part is a reader for the documents of an import, as the service needs
  one: the declaration, the root \<^verbatim>\<open>Import\<close>, and one empty \<^verbatim>\<open>Row\<close> element per line
  with attributes \<^verbatim>\<open>name="value"\<close>. It follows XML 1.0: a name starts with a letter or
  an underscore and goes on with letters, digits, \<^verbatim>\<open>_\<close>, \<^verbatim>\<open>-\<close> and \<^verbatim>\<open>.\<close>; in a value the five
  entities are replaced and a tab or line break counts as a space.

  The lemmas relate the two parts: the five substitutions are one pass over the
  text; the reader returns the rows of a printed document, each value read back,
  when the keys are names and no key occurs twice in a row; and a value is read back
  as it was exactly when it holds no tab, no line break and no ampersand that starts
  an entity.
\<close>

section \<open>Escaping\<close>

definition DQ :: char where
  "DQ = CHR 0x22"

definition APOS :: char where
  "APOS = CHR 0x27"

definition LF :: string where
  "LF = [CHR 0x0A]"

definition entity_names :: "string list" where
  "entity_names = [''amp'', ''lt'', ''gt'', ''quot'', ''apos'']"

definition starts_entity :: "string \<Rightarrow> bool" where
  "starts_entity s \<longleftrightarrow> list_ex (\<lambda>n. prefix (n @ '';'') s) entity_names"

text \<open>The substitution of \<^verbatim>\<open>&(?!(amp|lt|gt|quot|apos);)\<close> by \<^verbatim>\<open>&amp;\<close>.\<close>

fun escape_amp :: "string \<Rightarrow> string" where
  "escape_amp [] = []"
| "escape_amp (c # cs) =
     (if c = CHR ''&'' \<and> \<not> starts_entity cs then ''&amp;'' @ escape_amp cs
      else c # escape_amp cs)"

definition replace_char :: "char \<Rightarrow> string \<Rightarrow> string \<Rightarrow> string" where
  "replace_char c r s = concat (map (\<lambda>x. if x = c then r else [x]) s)"

definition sax_encode :: "string \<Rightarrow> string" where
  "sax_encode s =
     replace_char APOS ''&apos;'' (replace_char DQ ''&quot;'' (replace_char CHR ''>'' ''&gt;''
       (replace_char CHR ''<'' ''&lt;'' (escape_amp s))))"

text \<open>What the five substitutions make of one character, given the text after it.\<close>

definition encode_char :: "char \<Rightarrow> string \<Rightarrow> string" where
  "encode_char c rest =
     (if c = CHR ''&'' then (if starts_entity rest then ''&'' else ''&amp;'')
      else if c = CHR ''<'' then ''&lt;''
      else if c = CHR ''>'' then ''&gt;''
      else if c = DQ then ''&quot;''
      else if c = APOS then ''&apos;''
      else [c])"

fun encode_pass :: "string \<Rightarrow> string" where
  "encode_pass [] = []"
| "encode_pass (c # cs) = encode_char c cs @ encode_pass cs"

section \<open>The printer\<close>

definition DECL :: string where
  "DECL = ''<?xml version='' @ [DQ] @ ''1.0'' @ [DQ] @ '' encoding='' @ [DQ] @ ''UTF-8'' @ [DQ] @ ''?>''"

definition qname :: "xml \<Rightarrow> string" where
  "qname e = (case el_prefix e of None \<Rightarrow> el_name e | Some p \<Rightarrow> p @ '':'' @ el_name e)"

definition attr_str :: "string \<times> string \<Rightarrow> string" where
  "attr_str = (\<lambda>(n, v). n @ ''='' @ [DQ] @ (if v \<noteq> [] then sax_encode v else v) @ [DQ])"

definition ns_str :: "string \<times> string \<Rightarrow> string" where
  "ns_str = (\<lambda>(p, u). '' xmlns:'' @ p @ ''='' @ [DQ] @ u @ [DQ])"

definition head_str :: "nat \<Rightarrow> xml \<Rightarrow> string" where
  "head_str indent e =
     replicate (indent * 3) CHR '' '' @ ''<'' @ qname e @ concat (map ns_str (el_ns e)) @
     concat (map (\<lambda>a. '' '' @ attr_str a) (el_attrs e))"

fun element_str :: "nat \<Rightarrow> xml \<Rightarrow> string" where
  "element_str indent (Element p n ns as cs) =
     (if cs = [] then head_str indent (Element p n ns as cs) @ ''/>''
      else head_str indent (Element p n ns as cs) @ ''>'' @
           concat (map (\<lambda>c. LF @ element_str (indent + 1) c) cs) @
           LF @ replicate (indent * 3) CHR '' '' @ ''</'' @ qname (Element p n ns as cs) @ ''>'')"

definition document_str :: "xml \<Rightarrow> string" where
  "document_str root = DECL @ LF @ element_str 0 root"

section \<open>The reader\<close>

definition strip :: "string \<Rightarrow> string \<Rightarrow> string option" where
  "strip p s = (if prefix p s then Some (drop (length p) s) else None)"

definition is_letter :: "char \<Rightarrow> bool" where
  "is_letter c \<longleftrightarrow>
     (let n = (of_char c :: nat) in (65 \<le> n \<and> n \<le> 90) \<or> (97 \<le> n \<and> n \<le> 122))"

definition name_start :: "char \<Rightarrow> bool" where
  "name_start c \<longleftrightarrow> is_letter c \<or> c = CHR ''_''"

definition name_char :: "char \<Rightarrow> bool" where
  "name_char c \<longleftrightarrow>
     name_start c \<or> (48 \<le> (of_char c :: nat) \<and> (of_char c :: nat) \<le> 57) \<or>
     c = CHR ''-'' \<or> c = CHR ''.''"

definition xml_name :: "string \<Rightarrow> bool" where
  "xml_name s \<longleftrightarrow> (case s of [] \<Rightarrow> False | c # cs \<Rightarrow> name_start c \<and> list_all name_char cs)"

text \<open>Replacing the entities, from left to right, and a tab or line break by a space.\<close>

definition normalize_space :: "char \<Rightarrow> char" where
  "normalize_space c = (if c = CHR 0x09 \<or> c = CHR 0x0A \<or> c = CHR 0x0D then CHR '' '' else c)"

fun xml_unescape :: "string \<Rightarrow> string" where
  "xml_unescape [] = []"
| "xml_unescape (c # cs) =
     (if c = CHR ''&'' then
        (if prefix ''amp;'' cs then CHR ''&'' # xml_unescape (drop 4 cs)
         else if prefix ''lt;'' cs then CHR ''<'' # xml_unescape (drop 3 cs)
         else if prefix ''gt;'' cs then CHR ''>'' # xml_unescape (drop 3 cs)
         else if prefix ''quot;'' cs then DQ # xml_unescape (drop 5 cs)
         else if prefix ''apos;'' cs then APOS # xml_unescape (drop 5 cs)
         else c # xml_unescape cs)
      else normalize_space c # xml_unescape cs)"

text \<open>One attribute: a space, a name, \<^verbatim>\<open>="\<close>, the value up to the next quote, the quote.\<close>

definition read_attr :: "string \<Rightarrow> ((string \<times> string) \<times> string) option" where
  "read_attr s =
     (case strip '' '' s of
        None \<Rightarrow> None
      | Some s1 \<Rightarrow>
          (let n = takeWhile name_char s1 in
           if \<not> xml_name n then None
           else case strip (''='' @ [DQ]) (dropWhile name_char s1) of
                  None \<Rightarrow> None
                | Some s2 \<Rightarrow>
                    (let v = takeWhile (\<lambda>c. c \<noteq> DQ) s2 in
                     if CHR ''<'' \<in> set v then None
                     else case strip [DQ] (dropWhile (\<lambda>c. c \<noteq> DQ) s2) of
                            None \<Rightarrow> None
                          | Some s3 \<Rightarrow> Some ((n, xml_unescape v), s3))))"

function read_attrs :: "string \<Rightarrow> ((string \<times> string) list \<times> string) option" where
  "read_attrs s =
     (if prefix '' '' s then
        (case read_attr s of
           None \<Rightarrow> None
         | Some (a, rest) \<Rightarrow>
             (case read_attrs rest of
                None \<Rightarrow> None
              | Some (as, rest') \<Rightarrow>
                  if fst a \<in> set (map fst as) then None else Some (a # as, rest')))
      else Some ([], s))"
  by pat_completeness auto

lemma strip_Some_iff: "strip p s = Some r \<longleftrightarrow> s = p @ r"
  by (auto simp: strip_def prefix_def)

lemma strip_append [simp]: "strip p (p @ r) = Some r"
  by (simp add: strip_Some_iff)

lemma read_attr_shorter:
  assumes "read_attr s = Some (a, rest)"
  shows "length rest < length s"
proof -
  from assms obtain s1 s2 where s: "s = '' '' @ s1"
    and s2: "dropWhile name_char s1 = (''='' @ [DQ]) @ s2"
    and rest: "dropWhile (\<lambda>c. c \<noteq> DQ) s2 = [DQ] @ rest"
    by (auto simp: read_attr_def strip_Some_iff Let_def split: option.splits if_splits)
  have "length rest < length (dropWhile (\<lambda>c. c \<noteq> DQ) s2)" by (simp add: rest)
  also have "\<dots> \<le> length s2" by (rule length_dropWhile_le)
  also have "\<dots> \<le> length (dropWhile name_char s1)" by (simp add: s2)
  also have "\<dots> \<le> length s1" by (rule length_dropWhile_le)
  finally show ?thesis by (simp add: s)
qed

termination read_attrs
  by (relation "measure length") (auto dest: read_attr_shorter)

declare read_attrs.simps [simp del]

lemma read_attrs_shorter: "read_attrs s = Some (as, rest) \<Longrightarrow> length rest \<le> length s"
proof (induction s arbitrary: as rest rule: read_attrs.induct)
  case (1 s)
  show ?case
  proof (cases "prefix '' '' s")
    case False
    with 1(2) show ?thesis by (subst (asm) read_attrs.simps) simp
  next
    case True
    with 1(2) obtain a r as' where a: "read_attr s = Some (a, r)"
      and r: "read_attrs r = Some (as', rest)"
      by (subst (asm) read_attrs.simps) (auto split: option.splits if_splits)
    from 1(1) [OF True a refl r] read_attr_shorter [OF a] show ?thesis by simp
  qed
qed

text \<open>The rows: each on a line of its own, indented by three spaces.\<close>

function read_rows :: "string \<Rightarrow> ((string \<times> string) list list \<times> string) option" where
  "read_rows s =
     (case strip (LF @ ''   <Row'') s of
        None \<Rightarrow> Some ([], s)
      | Some s1 \<Rightarrow>
          (case read_attrs s1 of
             None \<Rightarrow> None
           | Some (as, s2) \<Rightarrow>
               (case strip ''/>'' s2 of
                  None \<Rightarrow> None
                | Some s3 \<Rightarrow>
                    (case read_rows s3 of
                       None \<Rightarrow> None
                     | Some (rows, rest) \<Rightarrow> Some (as # rows, rest)))))"
  by pat_completeness auto

termination read_rows
proof (relation "measure length")
  fix s s1 x as s2 s3
  assume "strip (LF @ ''   <Row'') s = Some s1" "read_attrs s1 = Some x" "(as, s2) = x"
    "strip ''/>'' s2 = Some s3"
  then show "(s3, s) \<in> measure length"
    using read_attrs_shorter [of s1 as s2] by (auto simp: strip_Some_iff)
qed simp

declare read_rows.simps [simp del]

definition read_document :: "string \<Rightarrow> (string \<times> string) list list option" where
  "read_document s =
     (case strip (DECL @ LF @ ''<Import>'') s of
        None \<Rightarrow> None
      | Some s1 \<Rightarrow>
          (case read_rows s1 of
             None \<Rightarrow> None
           | Some (rows, rest) \<Rightarrow>
               if rows \<noteq> [] \<and> rest = LF @ ''</Import>'' then Some rows else None))"

section \<open>The rows that can be read back\<close>

text \<open>
  What the reader makes of a value the printer has escaped, and of a row. A row that
  the reader accepts has names as keys, each once.
\<close>

definition read_back :: "string \<Rightarrow> string" where
  "read_back v = xml_unescape (sax_encode v)"

definition read_row :: "(string \<times> string) list \<Rightarrow> (string \<times> string) list" where
  "read_row r = map (\<lambda>(n, v). (n, read_back v)) r"

definition named_row :: "(string \<times> string) list \<Rightarrow> bool" where
  "named_row r \<longleftrightarrow> distinct (map fst r) \<and> list_all (\<lambda>(n, v). xml_name n) r"

text \<open>
  A value without an ampersand that starts an entity and without a tab or a line
  break; a row whose keys are names, each once, and whose values are such values.
\<close>

fun plain_value :: "string \<Rightarrow> bool" where
  "plain_value [] = True"
| "plain_value (c # cs) \<longleftrightarrow>
     \<not> (c = CHR ''&'' \<and> starts_entity cs) \<and> normalize_space c = c \<and> plain_value cs"

definition valid_row :: "(string \<times> string) list \<Rightarrow> bool" where
  "valid_row r \<longleftrightarrow>
     distinct (map fst r) \<and> list_all (\<lambda>(n, v). xml_name n \<and> plain_value v) r"

definition row_line :: "(string \<times> string) list \<Rightarrow> string" where
  "row_line r = LF @ ''   <Row'' @ concat (map (\<lambda>a. '' '' @ attr_str a) r) @ ''/>''"

section \<open>Lemmas on escaping\<close>

lemmas xml_chars = DQ_def APOS_def LF_def

lemma replace_char_simps [simp]:
  "replace_char c r [] = []"
  "replace_char c r (x # s) = (if x = c then r else [x]) @ replace_char c r s"
  "replace_char c r (s @ t) = replace_char c r s @ replace_char c r t"
  by (simp_all add: replace_char_def)

text \<open>The five substitutions in a row are one pass over the text.\<close>

lemma sax_encode_Cons: "sax_encode (c # cs) = encode_char c cs @ sax_encode cs"
  by (simp add: sax_encode_def encode_char_def xml_chars)

lemma sax_encode_pass: "sax_encode s = encode_pass s"
  by (induction s) (simp_all add: sax_encode_Cons, simp add: sax_encode_def)

lemma encode_char_set: "set (encode_char c rest) \<subseteq> insert c (set ''&amp;lt;gt;quot;apos;'')"
  by (auto simp: encode_char_def)

lemma encode_pass_no_quote: "DQ \<notin> set (encode_pass v)" "CHR ''<'' \<notin> set (encode_pass v)"
proof -
  have "DQ \<notin> set (encode_char c rest) \<and> CHR ''<'' \<notin> set (encode_char c rest)" for c rest
    by (auto simp: encode_char_def xml_chars)
  then show "DQ \<notin> set (encode_pass v)" "CHR ''<'' \<notin> set (encode_pass v)"
    by (induction v) auto
qed

lemma xml_unescape_encode_char:
  assumes "\<not> (c = CHR ''&'' \<and> starts_entity rest)"
  shows "xml_unescape (encode_char c rest @ t) = normalize_space c # xml_unescape t"
  using assms by (auto simp: encode_char_def normalize_space_def xml_chars)

lemma xml_unescape_encode: "plain_value v \<Longrightarrow> xml_unescape (encode_pass v) = v"
  by (induction v) (simp_all add: xml_unescape_encode_char)

text \<open>
  An ampersand that starts an entity is left alone, and so is the name after it: the
  reader makes one character of them.
\<close>

lemma starts_entity_cases:
  assumes "starts_entity cs"
  obtains cs' where "cs = ''amp;'' @ cs'" | cs' where "cs = ''lt;'' @ cs'"
    | cs' where "cs = ''gt;'' @ cs'" | cs' where "cs = ''quot;'' @ cs'"
    | cs' where "cs = ''apos;'' @ cs'"
proof -
  from assms have "prefix ''amp;'' cs \<or> prefix ''lt;'' cs \<or> prefix ''gt;'' cs \<or>
      prefix ''quot;'' cs \<or> prefix ''apos;'' cs"
    by (simp add: starts_entity_def entity_names_def)
  with that show ?thesis unfolding prefix_def by blast
qed

lemma xml_unescape_entity:
  assumes "starts_entity cs"
  obtains x cs' where "length cs' < length cs"
    and "xml_unescape (encode_pass (CHR ''&'' # cs)) = x # xml_unescape (encode_pass cs')"
  using assms
proof (cases rule: starts_entity_cases)
  case (1 cs')
  show ?thesis by (rule that [of cs' "CHR ''&''"]) (simp_all add: 1 encode_char_def starts_entity_def entity_names_def xml_chars)
next
  case (2 cs')
  show ?thesis by (rule that [of cs' "CHR ''<''"]) (simp_all add: 2 encode_char_def starts_entity_def entity_names_def xml_chars)
next
  case (3 cs')
  show ?thesis by (rule that [of cs' "CHR ''>''"]) (simp_all add: 3 encode_char_def starts_entity_def entity_names_def xml_chars)
next
  case (4 cs')
  show ?thesis by (rule that [of cs' DQ]) (simp_all add: 4 encode_char_def starts_entity_def entity_names_def xml_chars)
next
  case (5 cs')
  show ?thesis by (rule that [of cs' APOS]) (simp_all add: 5 encode_char_def starts_entity_def entity_names_def xml_chars)
qed

lemma read_back_length: "length (xml_unescape (encode_pass v)) \<le> length v"
proof (induction v rule: length_induct)
  case (1 v)
  show ?case
  proof (cases v)
    case (Cons c cs)
    show ?thesis
    proof (cases "c = CHR ''&'' \<and> starts_entity cs")
      case True
      then obtain x cs' where "length cs' < length cs"
        and "xml_unescape (encode_pass (CHR ''&'' # cs)) = x # xml_unescape (encode_pass cs')"
        by (auto elim: xml_unescape_entity)
      with 1 [rule_format, of cs'] True Cons show ?thesis by simp
    next
      case False
      with 1 [rule_format, of cs] Cons show ?thesis
        by (simp add: xml_unescape_encode_char)
    qed
  qed simp
qed

lemma xml_unescape_encode_iff: "xml_unescape (encode_pass v) = v \<longleftrightarrow> plain_value v"
proof
  show "plain_value v" if "xml_unescape (encode_pass v) = v"
    using that
  proof (induction v)
    case (Cons c cs)
    show ?case
    proof (cases "c = CHR ''&'' \<and> starts_entity cs")
      case True
      then obtain x cs' where "length cs' < length cs"
        and "xml_unescape (encode_pass (CHR ''&'' # cs)) = x # xml_unescape (encode_pass cs')"
        by (auto elim: xml_unescape_entity)
      with read_back_length [of cs'] True
      have "length (xml_unescape (encode_pass (c # cs))) < length (c # cs)" by simp
      with Cons.prems show ?thesis by simp
    next
      case False
      with Cons show ?thesis by (simp add: xml_unescape_encode_char)
    qed
  qed simp
qed (rule xml_unescape_encode)

lemma read_back_iff: "read_back v = v \<longleftrightarrow> plain_value v"
  by (simp add: read_back_def sax_encode_pass xml_unescape_encode_iff)

lemma read_row_simps [simp]:
  "read_row [] = []"
  "read_row ((n, v) # r) = (n, read_back v) # read_row r"
  by (simp_all add: read_row_def)

lemma read_row_iff: "read_row r = r \<longleftrightarrow> list_all (\<lambda>(n, v). plain_value v) r"
  by (induction r) (auto simp: read_back_iff)

lemma read_row_keys [simp]: "map fst (read_row r) = map fst r"
  by (induction r) auto

lemma valid_row_iff: "valid_row r \<longleftrightarrow> named_row r \<and> read_row r = r"
  by (auto simp: valid_row_def named_row_def read_row_iff list_all_iff)

lemma valid_rows_iff:
  "list_all valid_row rows \<longleftrightarrow> list_all named_row rows \<and> map read_row rows = rows"
  by (induction rows) (auto simp: valid_row_iff)

section \<open>Lemmas on the printer\<close>

lemma attr_str_eq: "attr_str (n, v) = n @ ''='' @ [DQ] @ encode_pass v @ [DQ]"
  by (cases v) (simp_all add: attr_str_def sax_encode_pass)

lemma element_str_row:
  "LF @ element_str (Suc 0) (Element None ''Row'' [] r []) = row_line r"
  by (simp add: head_str_def qname_def row_line_def numeral_3_eq_3)

lemma document_str_rows:
  assumes "rows \<noteq> []"
  shows "document_str (Element None ''Import'' [] []
             (map (\<lambda>r. Element None ''Row'' [] r []) rows)) =
           DECL @ LF @ ''<Import>'' @ concat (map row_line rows) @ LF @ ''</Import>''"
proof -
  have "map (\<lambda>c. LF @ element_str (0 + 1) c) (map (\<lambda>r. Element None ''Row'' [] r []) rows) =
      map row_line rows"
    by (simp add: element_str_row del: element_str.simps)
  with assms show ?thesis
    by (simp add: document_str_def head_str_def qname_def del: map_map)
qed

section \<open>Lemmas on the reader\<close>

lemma xml_name_chars: "xml_name n \<Longrightarrow> list_all name_char n \<and> n \<noteq> []"
  by (cases n) (auto simp: xml_name_def name_char_def)

lemma name_char_simps [simp]: "\<not> name_char CHR ''=''" "\<not> name_char CHR '' ''"
  by (simp_all add: name_char_def name_start_def is_letter_def)

lemma takeWhile_all: "list_all P xs \<Longrightarrow> \<not> P y \<Longrightarrow> takeWhile P (xs @ y # ys) = xs"
  by (induction xs) simp_all

lemma dropWhile_all: "list_all P xs \<Longrightarrow> \<not> P y \<Longrightarrow> dropWhile P (xs @ y # ys) = y # ys"
  by (induction xs) simp_all

lemma read_attr_attr_str:
  assumes "xml_name n"
  shows "read_attr ('' '' @ attr_str (n, v) @ rest) = Some ((n, read_back v), rest)"
proof -
  let ?enc = "encode_pass v"
  have s1: "'' '' @ attr_str (n, v) @ rest = '' '' @ (n @ CHR ''='' # DQ # ?enc @ DQ # rest)"
    by (simp add: attr_str_eq)
  from assms(1) have n: "list_all name_char n" by (simp add: xml_name_chars)
  have tk: "takeWhile name_char (n @ CHR ''='' # DQ # ?enc @ DQ # rest) = n"
    and dr: "dropWhile name_char (n @ CHR ''='' # DQ # ?enc @ DQ # rest) =
      (''='' @ [DQ]) @ (?enc @ DQ # rest)"
    using n by (simp_all add: takeWhile_all dropWhile_all)
  have v: "list_all (\<lambda>c. c \<noteq> DQ) ?enc"
    using encode_pass_no_quote(1) [of v] by (auto simp: list_all_iff)
  then have tv: "takeWhile (\<lambda>c. c \<noteq> DQ) (?enc @ DQ # rest) = ?enc"
    and dv: "dropWhile (\<lambda>c. c \<noteq> DQ) (?enc @ DQ # rest) = [DQ] @ rest"
    by (simp_all add: takeWhile_all dropWhile_all)
  show ?thesis
    unfolding s1 read_attr_def strip_append option.case Let_def tk dr tv dv
    using assms encode_pass_no_quote(2) [of v] by (simp add: read_back_def sax_encode_pass)
qed

lemma read_attrs_attrs:
  assumes "named_row r" and "\<not> prefix '' '' rest"
  shows "read_attrs (concat (map (\<lambda>a. '' '' @ attr_str a) r) @ rest) = Some (read_row r, rest)"
  using assms(1)
proof (induction r)
  case Nil
  with assms(2) show ?case by (subst read_attrs.simps) simp
next
  case (Cons a r)
  obtain n v where a: "a = (n, v)" by (cases a)
  from Cons.prems a have nv: "xml_name n" and n: "n \<notin> set (map fst (read_row r))"
    and r: "named_row r"
    by (auto simp: named_row_def)
  have "concat (map (\<lambda>a. '' '' @ attr_str a) (a # r)) @ rest =
      '' '' @ attr_str (n, v) @ (concat (map (\<lambda>a. '' '' @ attr_str a) r) @ rest)"
    by (simp add: a)
  with read_attr_attr_str [OF nv] Cons.IH [OF r] n show ?case
    by (subst read_attrs.simps) (simp add: a del: read_row_keys)
qed

lemma read_rows_rows:
  assumes "list_all named_row rows" and "\<not> prefix (LF @ ''   <Row'') rest"
  shows "read_rows (concat (map row_line rows) @ rest) = Some (map read_row rows, rest)"
  using assms(1)
proof (induction rows)
  case Nil
  with assms(2) show ?case by (subst read_rows.simps) (simp add: strip_def)
next
  case (Cons r rows)
  let ?tail = "concat (map row_line rows) @ rest"
  have eq: "concat (map row_line (r # rows)) @ rest =
      (LF @ ''   <Row'') @ (concat (map (\<lambda>a. '' '' @ attr_str a) r) @ (''/>'' @ ?tail))"
    by (simp add: row_line_def)
  from Cons.prems
  have attrs: "read_attrs (concat (map (\<lambda>a. '' '' @ attr_str a) r) @ (''/>'' @ ?tail)) =
      Some (read_row r, ''/>'' @ ?tail)"
    by (intro read_attrs_attrs) simp_all
  from Cons.IH Cons.prems have rest: "read_rows ?tail = Some (map read_row rows, rest)" by simp
  show ?case
    unfolding eq
    by (subst read_rows.simps)
      (simp only: strip_append option.case attrs prod.case rest list.map)
qed

lemma read_document_rows:
  assumes "rows \<noteq> []" and "list_all named_row rows"
  shows "read_document (DECL @ LF @ ''<Import>'' @ concat (map row_line rows) @ LF @ ''</Import>'') =
           Some (map read_row rows)"
proof -
  have "read_rows (concat (map row_line rows) @ (LF @ ''</Import>'')) =
      Some (map read_row rows, LF @ ''</Import>'')"
    using assms(2) by (rule read_rows_rows) (simp add: LF_def)
  with assms(1) show ?thesis
    using strip_append [of "DECL @ LF @ ''<Import>''"
        "concat (map row_line rows) @ LF @ ''</Import>''"]
    by (simp add: read_document_def del: strip_append)
qed

end
