(* ===== verification/Plugin.thy ===== *)
theory Plugin
  imports Sax
begin

text \<open>
  \<^verbatim>\<open>AddParametersPlugin\<close> of \<^verbatim>\<open>client.py\<close>: the hook the SOAP toolkit calls with the
  envelope of a request before it is sent. \<open>marshalled\<close> is the method of that name as a
  function from the envelope to the changed envelope or to the exception it raises.
  The expression \<^verbatim>\<open>context.envelope.getChild("Body")[0].getChild("Parameters")[0]\<close> is
  \<open>parameters_node\<close>; its value is the element with its ancestors, or \<^verbatim>\<open>None\<close>. The
  handler of \<^verbatim>\<open>TypeError\<close> is \<open>build_parameters\<close>.
\<close>

section \<open>The plugin\<close>

definition RELATICS_NS :: string where
  "RELATICS_NS = ''http://www.relatics.com/''"

record AddParametersPlugin =
  parameters :: "(string \<times> string) list option"

definition AddParametersPlugin_init :: "(string \<times> string) list option \<Rightarrow> AddParametersPlugin" where
  "AddParametersPlugin_init ps = \<lparr>parameters = ps\<rparr>"

text \<open>\<^verbatim>\<open>context.envelope.getChild("Body")[0]\<close>, with the body: indexing \<^verbatim>\<open>None\<close> raises.\<close>

definition body_first :: "xml \<Rightarrow> (xml option \<times> xml) result" where
  "body_first envelope =
     (case getChild ''Body'' envelope of
        None \<Rightarrow> Inl (Builtin TypeError)
      | Some body \<Rightarrow> Inr (child_at 0 body, body))"

definition parameters_node :: "xml \<Rightarrow> xml list option result" where
  "parameters_node envelope =
     rbind (body_first envelope) (\<lambda>(first, body).
       case first of
         None \<Rightarrow> Inl (Builtin AttributeError)
       | Some root \<Rightarrow>
           (case getChild ''Parameters'' root of
              None \<Rightarrow> Inl (Builtin TypeError)
            | Some p \<Rightarrow>
                Inr (map_option (\<lambda>params. [params, p, root, body, envelope]) (child_at 0 p))))"

definition build_parameters :: "xml \<Rightarrow> xml result" where
  "build_parameters envelope =
     rbind (body_first envelope) (\<lambda>(first, body).
       case first of
         None \<Rightarrow> Inl (Builtin AttributeError)
       | Some root \<Rightarrow>
           (let root_prefix = findPrefix RELATICS_NS [root, body, envelope];
                p_1 = setPrefix root_prefix (new_element ''Parameters'');
                p_2 = setPrefix root_prefix (new_element ''Parameters'')
            in Inr (at_child_named ''Body''
                      (at_child 0 (append_child (append_child p_2 p_1))) envelope)))"

definition parameter_element :: "string option \<Rightarrow> string \<times> string \<Rightarrow> xml" where
  "parameter_element pfx =
     (\<lambda>(param_name, param_value).
        set_attr ''Value'' param_value
          (set_attr ''Name'' param_name (setPrefix pfx (new_element ''Parameter''))))"

definition add_parameters :: "string option \<Rightarrow> (string \<times> string) list \<Rightarrow> xml \<Rightarrow> xml" where
  "add_parameters pfx ps =
     fold (\<lambda>item params. append_child (parameter_element pfx item) params) ps"

definition is_type_error :: "py_error \<Rightarrow> bool" where
  "is_type_error e \<longleftrightarrow> (case e of Builtin c \<Rightarrow> c = TypeError | Raised c msg \<Rightarrow> c = TypeError)"

definition marshalled :: "AddParametersPlugin \<Rightarrow> xml \<Rightarrow> xml result" where
  "marshalled self envelope =
     (case parameters self of
        None \<Rightarrow> Inr envelope
      | Some ps \<Rightarrow>
          rbind (case parameters_node envelope of
                   Inl e \<Rightarrow>
                     if is_type_error e
                     then rbind (build_parameters envelope) (\<lambda>envelope'.
                          rbind (parameters_node envelope') (\<lambda>params. Inr (envelope', params)))
                     else Inl e
                 | Inr params \<Rightarrow> Inr (envelope, params))
            (\<lambda>(envelope', params).
               case params of
                 None \<Rightarrow> Inl (Builtin AttributeError)
               | Some chain \<Rightarrow>
                   (let pfx = findPrefix RELATICS_NS chain
                    in Inr (at_child_named ''Body''
                              (at_child 0
                                 (at_child_named ''Parameters''
                                    (at_child 0 (add_parameters pfx ps)))) envelope'))))"

section \<open>What the request should carry\<close>

text \<open>
  The block the service expects: \<^verbatim>\<open>Parameters/Parameters\<close> with one \<^verbatim>\<open>Parameter\<close> per
  item, in the order of the dictionary.
\<close>

definition parameter_block :: "string option \<Rightarrow> (string \<times> string) list \<Rightarrow> xml" where
  "parameter_block pfx ps =
     Element pfx ''Parameters'' [] []
       [Element pfx ''Parameters'' [] []
          (map (\<lambda>(n, v). Element pfx ''Parameter'' [] [(''Name'', n), (''Value'', v)] []) ps)]"

section \<open>A sample envelope\<close>

definition sample_envelope :: xml where
  "sample_envelope =
     Element (Some ''SOAP-ENV'') ''Envelope''
       [(''ns0'', ''http://www.relatics.com/''),
        (''SOAP-ENV'', ''http://schemas.xmlsoap.org/soap/envelope/'')] []
       [Element (Some ''SOAP-ENV'') ''Header'' [] [] [],
        Element (Some ''SOAP-ENV'') ''Body'' [] []
          [Element (Some ''ns0'') ''GetResult'' [] []
             [Element (Some ''ns0'') ''Operation'' [] [] []]]]"

definition sample_plugin :: AddParametersPlugin where
  "sample_plugin = AddParametersPlugin_init (Some [(''From'', ''2024-01-01''), (''To'', ''x'')])"

section \<open>Lemmas\<close>

lemmas plugin_defs [py_defs] =
  marshalled_def parameters_node_def build_parameters_def body_first_def
  parameter_element_def add_parameters_def is_type_error_def RELATICS_NS_def
  AddParametersPlugin_init_def

lemma relatics_not_xml [simp]: "RELATICS_NS \<noteq> XML_NS"
  by (simp add: RELATICS_NS_def XML_NS_def)

lemma body_first_simps:
  "getChild ''Body'' envelope = None \<Longrightarrow> body_first envelope = Inl (Builtin TypeError)"
  "getChild ''Body'' envelope = Some body \<Longrightarrow> body_first envelope = Inr (child_at 0 body, body)"
  by (simp_all add: body_first_def)

lemma parameter_element_eq:
  "parameter_element pfx (n, v) =
     Element pfx ''Parameter'' [] [(''Name'', n), (''Value'', v)] []"
  by (simp add: parameter_element_def new_element_def setPrefix_def set_attr_def)

lemma add_parameters_eq:
  "add_parameters pfx ps e =
     Element (el_prefix e) (el_name e) (el_ns e) (el_attrs e)
       (el_children e @
        map (\<lambda>(n, v). Element pfx ''Parameter'' [] [(''Name'', n), (''Value'', v)] []) ps)"
proof -
  have "parameter_element pfx =
          (\<lambda>(n, v). Element pfx ''Parameter'' [] [(''Name'', n), (''Value'', v)] [])"
    by (rule ext) (auto simp: parameter_element_eq)
  then show ?thesis by (simp add: add_parameters_def fold_append_child)
qed

lemma keeps_head_add_parameters [simp]: "keeps_head (add_parameters pfx ps)"
  by (rule keeps_headI) (simp_all add: add_parameters_eq)

lemma parameter_block_eq:
  "parameter_block pfx ps =
     append_child (add_parameters pfx ps (setPrefix pfx (new_element ''Parameters'')))
       (setPrefix pfx (new_element ''Parameters''))"
  by (simp add: parameter_block_def add_parameters_eq new_element_def setPrefix_def
      append_child_def)

text \<open>The handler first fails to find the node, builds it, and finds it then.\<close>

lemma parameters_node_missing:
  assumes "getChild ''Body'' envelope = Some body" and "child_at 0 body = Some root"
    and "getChild ''Parameters'' root = None"
  shows "parameters_node envelope = Inl (Builtin TypeError)"
  using assms by (simp add: parameters_node_def body_first_simps)

lemma build_parameters_eq:
  assumes "getChild ''Body'' envelope = Some body" and "child_at 0 body = Some root"
  shows "build_parameters envelope =
           Inr (at_child_named ''Body''
                  (at_child 0
                     (append_child
                        (append_child
                           (setPrefix (findPrefix RELATICS_NS [root, body, envelope])
                              (new_element ''Parameters''))
                           (setPrefix (findPrefix RELATICS_NS [root, body, envelope])
                              (new_element ''Parameters''))))) envelope)"
  using assms by (simp add: build_parameters_def body_first_simps Let_def)

lemma parameters_node_built:
  assumes body: "getChild ''Body'' envelope = Some body" and root: "child_at 0 body = Some root"
    and none: "getChild ''Parameters'' root = None"
    and p1: "p_1 = append_child p_2 (setPrefix pre (new_element ''Parameters''))"
  shows "parameters_node (at_child_named ''Body'' (at_child 0 (append_child p_1)) envelope) =
           Inr (Some [p_2, p_1, append_child p_1 root, at_child 0 (append_child p_1) body,
                      at_child_named ''Body'' (at_child 0 (append_child p_1)) envelope])"
proof -
  let ?env = "at_child_named ''Body'' (at_child 0 (append_child p_1)) envelope"
  from body have "getChild ''Body'' ?env = Some (at_child 0 (append_child p_1) body)"
    by (simp add: getChild_at_child_named)
  moreover from root have "child_at 0 (at_child 0 (append_child p_1) body) =
      Some (append_child p_1 root)"
    by (simp add: child_at_at_child)
  moreover from none p1 have "getChild ''Parameters'' (append_child p_1 root) = Some p_1"
    by (simp add: getChild_append_new)
  moreover from p1 have "child_at 0 p_1 = Some p_2"
    by (simp add: child_at_append_first)
  ultimately show ?thesis by (simp add: parameters_node_def body_first_simps)
qed

lemma findPrefix_new_chain:
  assumes "el_ns p_2 = []" and "el_ns p_1 = []"
  shows "findPrefix RELATICS_NS
           [p_2, p_1, append_child c root, at_child 0 f body, at_child_named n g envelope] =
         findPrefix RELATICS_NS [root, body, envelope]"
proof -
  have "findPrefix RELATICS_NS [append_child c root, at_child 0 f body,
          at_child_named n g envelope] = findPrefix RELATICS_NS [root, body, envelope]"
    by (rule findPrefix_cong) simp
  with assms show ?thesis by (simp add: own_prefix_no_ns)
qed

lemma marshalled_write_back:
  assumes body: "getChild ''Body'' envelope = Some body" and root: "child_at 0 body = Some root"
    and none: "getChild ''Parameters'' root = None"
    and p1: "p_1 = append_child p_2 (setPrefix pre (new_element ''Parameters''))"
    and p2: "el_children p_2 = []"
  shows "at_child_named ''Body'' (at_child 0 (at_child_named ''Parameters'' (at_child 0 f)))
           (at_child_named ''Body'' (at_child 0 (append_child p_1)) envelope) =
         at_child_named ''Body''
           (at_child 0 (append_child (append_child (f p_2)
              (setPrefix pre (new_element ''Parameters''))))) envelope"
proof -
  let ?q = "setPrefix pre (new_element ''Parameters'')"
  have inner: "at_child_named ''Parameters'' (at_child 0 f) (append_child p_1 r) =
                 append_child (append_child (f p_2) ?q) r"
    if "getChild ''Parameters'' r = None" for r
    using that p1 p2 by (simp add: at_child_named_append_new at_child_append_first)
  have "(at_child 0 (at_child_named ''Parameters'' (at_child 0 f)) \<circ>
         at_child 0 (append_child p_1)) body =
        at_child 0 (append_child (append_child (f p_2) ?q)) body"
    using root none inner [of root]
    by (intro xml_eqI) (auto simp: child_at_def split: if_splits)
  moreover have "update_first P (g \<circ> h) xs = update_first P k xs"
    if "find P xs = Some b" and "(g \<circ> h) b = k b" for P g h k b and xs :: "xml list"
    using that by (induction xs) (auto split: if_splits)
  ultimately have "at_child_named ''Body''
      (at_child 0 (at_child_named ''Parameters'' (at_child 0 f)) \<circ>
       at_child 0 (append_child p_1)) envelope =
      at_child_named ''Body'' (at_child 0 (append_child (append_child (f p_2) ?q))) envelope"
    using body by (intro xml_eqI) (simp_all add: getChild_def)
  then show ?thesis by (simp add: at_child_named_comp)
qed

lemma marshalled_missing_eq:
  assumes "parameters self = Some ps"
    and "getChild ''Body'' envelope = Some body" and "child_at 0 body = Some root"
    and "getChild ''Parameters'' root = None"
    and "pre = findPrefix RELATICS_NS [root, body, envelope]"
    and "q = setPrefix pre (new_element ''Parameters'')"
  shows "marshalled self envelope =
           Inr (at_child_named ''Body''
                  (at_child 0 (append_child (append_child (add_parameters pre ps q) q)))
                  envelope)"
proof -
  let ?p1 = "append_child q q"
  let ?env = "at_child_named ''Body'' (at_child 0 (append_child ?p1)) envelope"
  have node: "parameters_node ?env =
      Inr (Some [q, ?p1, append_child ?p1 root, at_child 0 (append_child ?p1) body, ?env])"
    by (rule parameters_node_built [OF assms(2-4)]) (simp add: assms(6))
  have pre: "findPrefix RELATICS_NS
      [q, ?p1, append_child ?p1 root, at_child 0 (append_child ?p1) body, ?env] = pre"
    unfolding assms(5) by (rule findPrefix_new_chain) (simp_all add: assms(6))
  have build: "build_parameters envelope = Inr ?env"
    unfolding assms(5,6) by (rule build_parameters_eq [OF assms(2,3)])
  have "marshalled self envelope =
      Inr (at_child_named ''Body''
             (at_child 0 (at_child_named ''Parameters'' (at_child 0 (add_parameters pre ps))))
             ?env)"
    using assms(1)
    by (simp add: marshalled_def parameters_node_missing [OF assms(2-4)] is_type_error_def
        build node pre del: findPrefix.simps)
  also have "at_child_named ''Body''
      (at_child 0 (at_child_named ''Parameters'' (at_child 0 (add_parameters pre ps)))) ?env =
      at_child_named ''Body''
        (at_child 0 (append_child (append_child (add_parameters pre ps q) q))) envelope"
    unfolding assms(6) by (rule marshalled_write_back [OF assms(2-4)]) simp_all
  finally show ?thesis .
qed

section \<open>The parameters are added\<close>

text \<open>
  C18 (functional): the usual case. When the first element of the body (the operation)
  has no \<^verbatim>\<open>Parameters\<close> child, \<^verbatim>\<open>marshalled\<close> appends to it the block
  \<^verbatim>\<open>Parameters/Parameters\<close> with one \<^verbatim>\<open>Parameter\<close> element per item of the dictionary, in
  its order, each with the attributes \<^verbatim>\<open>Name\<close> and \<^verbatim>\<open>Value\<close>; all of these carry the prefix
  that the operation element resolves for the namespace of the service, and nothing
  else in the envelope changes.
\<close>

theorem marshalled_adds_parameter_block:
  assumes "parameters self = Some ps"
    and "getChild ''Body'' envelope = Some body" and "child_at 0 body = Some root"
    and "getChild ''Parameters'' root = None"
  shows "marshalled self envelope =
           Inr (at_child_named ''Body''
                  (at_child 0
                     (append_child
                        (parameter_block (findPrefix RELATICS_NS [root, body, envelope]) ps)))
                  envelope)"
  using marshalled_missing_eq [OF assms refl refl] by (simp add: parameter_block_eq)

theorem marshalled_adds_parameter_block_witness:
  "marshalled sample_plugin sample_envelope =
     Inr (Element (Some ''SOAP-ENV'') ''Envelope''
       [(''ns0'', ''http://www.relatics.com/''),
        (''SOAP-ENV'', ''http://schemas.xmlsoap.org/soap/envelope/'')] []
       [Element (Some ''SOAP-ENV'') ''Header'' [] [] [],
        Element (Some ''SOAP-ENV'') ''Body'' [] []
          [Element (Some ''ns0'') ''GetResult'' [] []
             [Element (Some ''ns0'') ''Operation'' [] [] [],
              Element (Some ''ns0'') ''Parameters'' [] []
                [Element (Some ''ns0'') ''Parameters'' [] []
                   [Element (Some ''ns0'') ''Parameter'' []
                      [(''Name'', ''From''), (''Value'', ''2024-01-01'')] [],
                    Element (Some ''ns0'') ''Parameter'' []
                      [(''Name'', ''To''), (''Value'', ''x'')] []]]]]])"
  using marshalled_adds_parameter_block [of sample_plugin
      "[(''From'', ''2024-01-01''), (''To'', ''x'')]" sample_envelope
      "Element (Some ''SOAP-ENV'') ''Body'' [] []
          [Element (Some ''ns0'') ''GetResult'' [] []
             [Element (Some ''ns0'') ''Operation'' [] [] []]]"
      "Element (Some ''ns0'') ''GetResult'' [] [] [Element (Some ''ns0'') ''Operation'' [] [] []]"]
  by (simp add: sample_plugin_def sample_envelope_def AddParametersPlugin_init_def getChild_def
      child_at_def own_prefix_def RELATICS_NS_def XML_NS_def parameter_block_def
      at_child_named_def at_child_def append_child_def)

section \<open>When the hook raises\<close>

text \<open>
  C21 (error): \<^verbatim>\<open>marshalled\<close> returns exactly when there are no parameters, or the
  envelope has a body with a first element, and that element has either no
  \<^verbatim>\<open>Parameters\<close> child or one that is not empty. An envelope without a body raises
  \<^verbatim>\<open>TypeError\<close> from inside the handler; an empty body and an empty \<^verbatim>\<open>Parameters\<close>
  element raise \<^verbatim>\<open>AttributeError\<close>, which the handler does not catch.
\<close>

theorem marshalled_returns_iff:
  "returns (marshalled self envelope) \<longleftrightarrow>
     parameters self = None \<or>
     (\<exists>body root. getChild ''Body'' envelope = Some body \<and> child_at 0 body = Some root \<and>
        (case getChild ''Parameters'' root of None \<Rightarrow> True | Some p \<Rightarrow> el_children p \<noteq> []))"
proof (cases "parameters self")
  case None
  then show ?thesis by (simp add: marshalled_def)
next
  case (Some ps)
  show ?thesis
  proof (cases "getChild ''Body'' envelope")
    case None
    with Some show ?thesis
      by (simp add: marshalled_def parameters_node_def build_parameters_def body_first_simps
          is_type_error_def)
  next
    case body: (Some body)
    show ?thesis
    proof (cases "child_at 0 body")
      case None
      with Some body show ?thesis
        by (simp add: marshalled_def parameters_node_def body_first_simps is_type_error_def)
    next
      case root: (Some root)
      show ?thesis
      proof (cases "getChild ''Parameters'' root")
        case None
        with marshalled_missing_eq [OF Some body root None refl refl] body root
        show ?thesis by simp
      next
        case p: (Some p)
        with Some body root show ?thesis
          by (cases "el_children p")
             (simp_all add: marshalled_def parameters_node_def body_first_simps child_at_def
                Let_def)
      qed
    qed
  qed
qed

theorem marshalled_returns_iff_witness:
  "returns (marshalled sample_plugin sample_envelope) \<and>
   marshalled sample_plugin
     (Element None ''Envelope'' [] []
        [Element None ''Body'' [] []
           [Element None ''GetResult'' [] [] [Element None ''Parameters'' [] [] []]]]) =
     Inl (Builtin AttributeError)"
  using marshalled_returns_iff [of sample_plugin sample_envelope]
    marshalled_returns_iff [of sample_plugin
      "Element None ''Envelope'' [] []
        [Element None ''Body'' [] []
           [Element None ''GetResult'' [] [] [Element None ''Parameters'' [] [] []]]]"]
  by (simp add: sample_plugin_def sample_envelope_def AddParametersPlugin_init_def getChild_def
      child_at_def marshalled_def parameters_node_def body_first_def)

text \<open>
  When the operation element already has a \<^verbatim>\<open>Parameters\<close> child that is not empty, the parameters are appended to the first child of that element,
  whatever its name, with the prefix that child resolves.
\<close>

theorem marshalled_existing_block:
  assumes "parameters self = Some ps"
    and "getChild ''Body'' envelope = Some body" and "child_at 0 body = Some root"
    and "getChild ''Parameters'' root = Some p" and "child_at 0 p = Some params"
  shows "marshalled self envelope =
           Inr (at_child_named ''Body''
                  (at_child 0
                     (at_child_named ''Parameters''
                        (at_child 0
                           (add_parameters
                              (findPrefix RELATICS_NS [params, p, root, body, envelope]) ps))))
                  envelope)"
  using assms by (simp add: marshalled_def parameters_node_def body_first_simps Let_def)

theorem marshalled_existing_block_witness:
  "marshalled sample_plugin
     (Element None ''Envelope'' [] []
        [Element None ''Body'' [] []
           [Element None ''GetResult'' [] []
              [Element None ''Parameters'' [] [] [Element None ''Other'' [] [] []]]]]) =
   Inr (Element None ''Envelope'' [] []
        [Element None ''Body'' [] []
           [Element None ''GetResult'' [] []
              [Element None ''Parameters'' [] []
                 [Element None ''Other'' [] []
                    [Element None ''Parameter'' []
                       [(''Name'', ''From''), (''Value'', ''2024-01-01'')] [],
                     Element None ''Parameter'' []
                       [(''Name'', ''To''), (''Value'', ''x'')] []]]]]])"
  using marshalled_existing_block [of sample_plugin
      "[(''From'', ''2024-01-01''), (''To'', ''x'')]"
      "Element None ''Envelope'' [] []
        [Element None ''Body'' [] []
           [Element None ''GetResult'' [] []
              [Element None ''Parameters'' [] [] [Element None ''Other'' [] [] []]]]]"
      "Element None ''Body'' [] []
           [Element None ''GetResult'' [] []
              [Element None ''Parameters'' [] [] [Element None ''Other'' [] [] []]]]"
      "Element None ''GetResult'' [] []
              [Element None ''Parameters'' [] [] [Element None ''Other'' [] [] []]]"
      "Element None ''Parameters'' [] [] [Element None ''Other'' [] [] []]"
      "Element None ''Other'' [] [] []"]
  by (simp add: sample_plugin_def AddParametersPlugin_init_def getChild_def child_at_def
      own_prefix_def RELATICS_NS_def XML_NS_def add_parameters_eq at_child_named_def
      at_child_def)

end
