(* ===== verification/Client.thy ===== *)
theory Client
  imports Credential OsPath PyIO Sax Plugin
begin

text \<open>
  \<^verbatim>\<open>RelaticsWebservices\<close> of \<^verbatim>\<open>client.py\<close>: the constructor, \<^verbatim>\<open>get_result\<close> and
  \<^verbatim>\<open>run_import\<close> with the construction of the import payload.

  The methods act on a \<open>world\<close>: the files on disk, and the list of network accesses
  made so far (a history variable: the code has no such list, it is what an observer
  of the network would record). A method is a computation in the sense of \<open>PyIO\<close>.
  What the SOAP toolkit and the standard library do is taken from the record
  \<open>clientenv\<close>: constructing a \<^verbatim>\<open>suds.client.Client\<close> (which fetches the WSDL), invoking
  an operation, printing an XML document, and the bytes of a zip archive with given
  entries. File names are POSIX paths. While an archive is being written, the model
  takes the file to hold the archive of the entries written so far; this is what the
  file holds when the archive is closed, also after an exception.
  The argument \<^verbatim>\<open>data\<close> of \<^verbatim>\<open>run_import\<close> is a list of dictionaries, a string, or another
  object, of which only the truth value matters; \<^verbatim>\<open>authentication\<close> is \<^verbatim>\<open>None\<close> (or
  any object that is neither a string nor a credential), an entry code or a
  credential.
\<close>

section \<open>Values passed to the toolkit\<close>

datatype soap_value = SNone | SStr string | SDict "(string \<times> soap_value) list"

datatype import_data =
    DataRows "(string \<times> string) list list"
  | DataFile string
  | DataOther bool

datatype authentication = NoAuth | Entrycode string | OAuth ClientCredential

datatype event = WsdlFetched string | TokenRequested string | SoapCalled string

record soap_request =
  sr_wsdl :: string
  sr_operation :: string
  sr_headers :: "(string \<times> string) list"
  sr_plugins :: "AddParametersPlugin list"
  sr_args :: "(string \<times> soap_value) list"

record clientenv =
  net :: netenv
  wsdl_client :: "string \<Rightarrow> unit result"
  soap_invoke :: "soap_request \<Rightarrow> suds result"
  render_xml :: "xml \<Rightarrow> string"
  zip_of :: "(string \<times> byte list) list \<Rightarrow> byte list"
  tempdir :: string

record world =
  files :: "string \<rightharpoonup> byte list"
  events :: "event list"

section \<open>Constants and the constructor\<close>

definition IMPORT_BASENAME :: string where
  "IMPORT_BASENAME = ''pyrelatics_webservice''"

definition SUPPORTED_EXTENSIONS :: "string list" where
  "SUPPORTED_EXTENSIONS = [''xlsx'', ''xlsm'', ''xlsb'', ''xls'', ''csv'']"

record RelaticsWebservices =
  hostname :: string
  wsdl_url :: string
  workspace_id :: string
  identification :: soap_value
  user_agent :: string

definition RelaticsWebservices_init ::
  "string \<Rightarrow> string \<Rightarrow> string \<Rightarrow> RelaticsWebservices" where
  "RelaticsWebservices_init company_name wid ua =
     (let host = py_lower company_name @ ''.relaticsonline.com'' in
      \<lparr>hostname = host,
       wsdl_url = ''https://'' @ host @ ''/DataExchange.asmx?wsdl'',
       workspace_id = wid,
       identification = SDict [(''Identification'', SDict [(''Workspace'', SStr wid)])],
       user_agent = ua\<rparr>)"

section \<open>Access to the world\<close>

text \<open>\<^verbatim>\<open>Client(self.wsdl_url)\<close>, a call of a service method, and \<^verbatim>\<open>open(path, "rb").read()\<close>.\<close>

definition open_client :: "clientenv \<Rightarrow> string \<Rightarrow> (world, unit) io" where
  "open_client env url = (\<lambda>w. (wsdl_client env url, w\<lparr>events := events w @ [WsdlFetched url]\<rparr>))"

definition invoke :: "clientenv \<Rightarrow> soap_request \<Rightarrow> (world, suds) io" where
  "invoke env rq =
     (\<lambda>w. (soap_invoke env rq, w\<lparr>events := events w @ [SoapCalled (sr_operation rq)]\<rparr>))"

definition read_file :: "string \<Rightarrow> (world, byte list) io" where
  "read_file path = (\<lambda>w. (of_option (Builtin OSError) (files w path), w))"

section \<open>Authentication\<close>

definition auth_argument :: "authentication \<Rightarrow> soap_value" where
  "auth_argument a =
     (case a of
        Entrycode code \<Rightarrow> SDict [(''Authentication'', SDict [(''Entrycode'', SStr code)])]
      | _ \<Rightarrow> SDict [(''Authentication'', SDict [])])"

text \<open>
  \<^verbatim>\<open>authentication.get_token(self.hostname)\<close> is called with the defaults: no forced
  refresh and the module's \<^verbatim>\<open>USER_AGENT\<close>. The credential is changed in place, so the
  caller's object is the credential returned here.
\<close>

definition oauth_headers ::
  "clientenv \<Rightarrow> datetime \<Rightarrow> datetime \<Rightarrow> RelaticsWebservices \<Rightarrow> authentication \<Rightarrow>
   (string \<times> string) list \<Rightarrow> (world, (string \<times> string) list \<times> authentication) io" where
  "oauth_headers env now requested_on self a headers =
     (case a of
        OAuth c \<Rightarrow>
          (\<lambda>w. let w' = (if needs_refresh c (hostname self) False now
                         then w\<lparr>events := events w @ [TokenRequested (hostname self)]\<rparr>
                         else w)
               in case get_token (net env) now requested_on (hostname self) False USER_AGENT c of
                    Inl e \<Rightarrow> (Inl e, w')
                  | Inr (tok, c') \<Rightarrow>
                      (Inr (AList.update ''Authorization''
                              (''Bearer '' @ json_format (net env) tok) headers, OAuth c'), w'))
      | _ \<Rightarrow> ireturn (headers, a))"

section \<open>get\_result\<close>

text \<open>The plugin is installed only when parameters are given.\<close>

definition plugins_for :: "(string \<times> string) list option \<Rightarrow> AddParametersPlugin list" where
  "plugins_for params =
     (case params of None \<Rightarrow> [] | Some ps \<Rightarrow> [AddParametersPlugin_init params])"

definition get_result ::
  "clientenv \<Rightarrow> datetime \<Rightarrow> datetime \<Rightarrow> string \<Rightarrow> (string \<times> string) list option \<Rightarrow>
   authentication \<Rightarrow> RelaticsWebservices \<Rightarrow> (world, suds \<times> authentication) io" where
  "get_result env now requested_on operation_name params a self =
     ibind (open_client env (wsdl_url self)) (\<lambda>_.
     ibind (oauth_headers env now requested_on self a [(''User-Agent'', user_agent self)])
       (\<lambda>(headers, a').
     ibind (invoke env
              \<lparr>sr_wsdl = wsdl_url self, sr_operation = ''GetResult'', sr_headers = headers,
               sr_plugins = plugins_for params,
               sr_args = [(''Operation'', SStr operation_name),
                          (''Identification'', identification self),
                          (''Parameters'', SNone),
                          (''Authentication'', auth_argument a)]\<rparr>) (\<lambda>result.
       ireturn (result, a'))))"

section \<open>The import payload\<close>

definition data_is_empty :: "import_data \<Rightarrow> bool" where
  "data_is_empty d =
     (case d of DataRows rows \<Rightarrow> rows = [] | DataFile s \<Rightarrow> s = [] | DataOther t \<Rightarrow> \<not> t)"

text \<open>
  The XML document of a list of rows: one \<^verbatim>\<open>Row\<close> per dictionary, a key an attribute. A
  dictionary is the list of its items in their order; \<^verbatim>\<open>set\<close> replaces the value of a
  key that occurs again.
\<close>

definition row_element :: "(string \<times> string) list \<Rightarrow> xml" where
  "row_element data_row = fold (\<lambda>(key, v). set_attr key v) data_row (new_element ''Row'')"

definition rows_document :: "(string \<times> string) list list \<Rightarrow> xml" where
  "rows_document rows =
     fold (\<lambda>data_row root. append_child (row_element data_row) root) rows
       (new_element ''Import'')"

text \<open>The branch on the type of \<^verbatim>\<open>data\<close>: the file extension, or \<^verbatim>\<open>TypeError\<close>.\<close>

definition data_extension :: "import_data \<Rightarrow> string result" where
  "data_extension d =
     (case d of
        DataRows rows \<Rightarrow> Inr ''xml''
      | DataFile path \<Rightarrow>
          (let file_extension = drop 1 (snd (posix_splitext path)) in
           if file_extension \<notin> set SUPPORTED_EXTENSIONS
           then Inl (Raised TypeError ''Supplied file has unsupported file extension'')
           else Inr file_extension)
      | DataOther t \<Rightarrow> Inl (Raised TypeError ''Invalid data supplied''))"

definition file_basename_of :: "string option \<Rightarrow> string" where
  "file_basename_of file_name =
     (case file_name of
        None \<Rightarrow> IMPORT_BASENAME
      | Some f \<Rightarrow> fst (posix_splitext (snd (posix_split f))))"

text \<open>Adding one member to the archive at \<open>path\<close>: read what is to be added, then write.\<close>

definition zip_add ::
  "clientenv \<Rightarrow> string \<Rightarrow> (world, string \<times> byte list) io \<Rightarrow> (string \<times> byte list) list \<Rightarrow>
   (world, (string \<times> byte list) list) io" where
  "zip_add env path member entries =
     ibind member (\<lambda>entry w.
       (Inr (entries @ [entry]),
        w\<lparr>files := (files w)(path \<mapsto> zip_of env (entries @ [entry]))\<rparr>))"

definition document_member :: "string \<Rightarrow> (world, string \<times> byte list) io" where
  "document_member document_path =
     ibind (read_file document_path) (\<lambda>bs.
       ireturn (posix_join ''Documents'' (snd (posix_split document_path)), bs))"

text \<open>The data file of the archive; for data of another type nothing is added.\<close>

definition zip_add_data ::
  "clientenv \<Rightarrow> string \<Rightarrow> import_data \<Rightarrow> string \<Rightarrow> string \<Rightarrow> (string \<times> byte list) list \<Rightarrow>
   (world, (string \<times> byte list) list) io" where
  "zip_add_data env path d file_basename file_extension entries =
     (case d of
        DataRows rows \<Rightarrow>
          zip_add env path
            (ireturn (file_basename @ ''.'' @ file_extension,
                      utf8_encode (render_xml env (rows_document rows)))) entries
      | DataFile data_path \<Rightarrow>
          zip_add env path
            (ibind (read_file data_path) (\<lambda>bs. ireturn (snd (posix_split data_path), bs)))
            entries
      | DataOther t \<Rightarrow> ireturn entries)"

definition zip_path :: "clientenv \<Rightarrow> string \<Rightarrow> string" where
  "zip_path env file_basename = posix_join (tempdir env) (file_basename @ ''.zip'')"

text \<open>
  The branch \<^verbatim>\<open>documents is not None\<close>. Opening the archive for writing creates the
  file; \<^verbatim>\<open>keep_zip_file\<close> only decides whether the local name \<^verbatim>\<open>import_zip\<close> is
  unbound, the file is removed in either case.
\<close>

definition zip_payload ::
  "clientenv \<Rightarrow> import_data \<Rightarrow> string \<Rightarrow> string \<Rightarrow> string list \<Rightarrow> bool \<Rightarrow>
   (world, string) io" where
  "zip_payload env d file_basename file_extension documents keep_zip_file =
     (let import_zip_path = zip_path env file_basename in
      ibind (\<lambda>w. (Inr (), w\<lparr>files := (files w)(import_zip_path \<mapsto> zip_of env [])\<rparr>)) (\<lambda>_.
      ibind (ifold (\<lambda>document_path. zip_add env import_zip_path (document_member document_path))
               documents []) (\<lambda>entries.
      ibind (zip_add_data env import_zip_path d file_basename file_extension entries) (\<lambda>_.
      ibind (read_file import_zip_path) (\<lambda>bs.
      ibind (\<lambda>w. (Inr (), w\<lparr>files := (files w)(import_zip_path := None)\<rparr>)) (\<lambda>_.
        ireturn (b64encode bs)))))))"

text \<open>
  The branch \<^verbatim>\<open>documents is None\<close>. For data of another type \<^verbatim>\<open>data_str\<close> stays unbound
  and its use in the call raises \<^verbatim>\<open>UnboundLocalError\<close>; \<^verbatim>\<open>run_import\<close> never gets there,
  because the branch on the type of the data has raised \<^verbatim>\<open>TypeError\<close> before.
\<close>

definition plain_payload :: "clientenv \<Rightarrow> import_data \<Rightarrow> (world, string) io" where
  "plain_payload env d =
     (case d of
        DataRows rows \<Rightarrow> ireturn (b64encode (utf8_encode (render_xml env (rows_document rows))))
      | DataFile path \<Rightarrow> ibind (read_file path) (\<lambda>bs. ireturn (b64encode bs))
      | DataOther t \<Rightarrow> iraise (Builtin UnboundLocalError))"

section \<open>run\_import\<close>

definition run_import ::
  "clientenv \<Rightarrow> datetime \<Rightarrow> datetime \<Rightarrow> string \<Rightarrow> import_data \<Rightarrow> authentication \<Rightarrow>
   string option \<Rightarrow> string list option \<Rightarrow> bool \<Rightarrow> RelaticsWebservices \<Rightarrow>
   (world, suds \<times> authentication) io" where
  "run_import env now requested_on operation_name d a file_name documents keep_zip_file self =
     (if operation_name = [] then iraise (Raised ValueError ''Supplied operationName is empty'')
      else if data_is_empty d then iraise (Raised ValueError ''Supplied data is empty'')
      else
        ibind (open_client env (wsdl_url self)) (\<lambda>_.
        ibind (ilift (data_extension d)) (\<lambda>file_extension.
        let file_basename = file_basename_of file_name in
        ibind (case documents of
                 Some docs \<Rightarrow>
                   ibind (zip_payload env d file_basename file_extension docs keep_zip_file)
                     (\<lambda>data_str. ireturn (data_str, ''zip''))
               | None \<Rightarrow>
                   ibind (plain_payload env d) (\<lambda>data_str. ireturn (data_str, file_extension)))
          (\<lambda>(data_str, file_extension').
        ibind (oauth_headers env now requested_on self a [(''User-Agent'', user_agent self)])
          (\<lambda>(headers, a').
        ibind (invoke env
                 \<lparr>sr_wsdl = wsdl_url self, sr_operation = ''Import'', sr_headers = headers,
                  sr_plugins = [],
                  sr_args = [(''Operation'', SStr operation_name),
                             (''Identification'', identification self),
                             (''Authentication'', auth_argument a),
                             (''Filename'', SStr (file_basename @ ''.'' @ file_extension')),
                             (''Data'', SStr data_str)]\<rparr>) (\<lambda>result.
          ireturn (result, a')))))))"

section \<open>What the archive should hold\<close>

text \<open>
  The members of the archive of an import with documents: each document under
  \<^verbatim>\<open>Documents/\<close> with its base name, then the data file.
\<close>

definition document_entries ::
  "(string \<rightharpoonup> byte list) \<Rightarrow> string list \<Rightarrow> (string \<times> byte list) list" where
  "document_entries fs docs =
     map (\<lambda>p. (posix_join ''Documents'' (snd (posix_split p)), the (fs p))) docs"

definition archive_members ::
  "clientenv \<Rightarrow> (string \<rightharpoonup> byte list) \<Rightarrow> import_data \<Rightarrow> string \<Rightarrow> string \<Rightarrow> string list \<Rightarrow>
   (string \<times> byte list) list" where
  "archive_members env fs d file_basename file_extension documents =
     document_entries fs documents @
     (case d of
        DataRows rows \<Rightarrow>
          [(file_basename @ ''.'' @ file_extension,
            utf8_encode (render_xml env (rows_document rows)))]
      | DataFile path \<Rightarrow> [(snd (posix_split path), the (fs path))]
      | DataOther t \<Rightarrow> [])"

definition written :: "clientenv \<Rightarrow> string \<Rightarrow> (string \<times> byte list) list \<Rightarrow> world \<Rightarrow> world" where
  "written env path entries w = w\<lparr>files := (files w)(path \<mapsto> zip_of env entries)\<rparr>"

definition logged :: "event list \<Rightarrow> world \<Rightarrow> world" where
  "logged evs w = w\<lparr>events := events w @ evs\<rparr>"

text \<open>
  The footprint of a method: the files outside \<open>P\<close> are as before, and the network
  accesses made are, in this order, some of \<open>allowed\<close>.
\<close>

definition effect :: "string set \<Rightarrow> event list \<Rightarrow> world \<Rightarrow> world \<Rightarrow> bool" where
  "effect P allowed w w' \<longleftrightarrow>
     (\<forall>p. p \<notin> P \<longrightarrow> files w' p = files w p) \<and>
     (\<exists>evs. events w' = events w @ evs \<and> subseq evs allowed)"

section \<open>A sample service\<close>

definition sample_clientenv :: clientenv where
  "sample_clientenv =
     \<lparr>net = sample_net,
      wsdl_client = (\<lambda>url.
        if url = ''https://acme.relaticsonline.com/DataExchange.asmx?wsdl'' then Inr ()
        else Inl (Builtin OSError)),
      soap_invoke = (\<lambda>rq. Inr (Object [(''Operation'', Text (sr_operation rq))])),
      render_xml = (\<lambda>x. ''<Import/>''),
      zip_of = (\<lambda>entries. concat (map snd entries)),
      tempdir = ''/tmp''\<rparr>"

text \<open>The same service with a token endpoint that answers for every host.\<close>

definition sample_online :: clientenv where
  "sample_online = sample_clientenv\<lparr>net := sample_net\<lparr>https_exchange := (\<lambda>rq. Inr [1])\<rparr>\<rparr>"

definition sample_ws :: RelaticsWebservices where
  "sample_ws = RelaticsWebservices_init ''ACME'' ''ws-1'' ''agent/1''"

definition sample_world :: world where
  "sample_world =
     \<lparr>files = [''/data/in.csv'' \<mapsto> [97, 44, 98], ''/data/a.pdf'' \<mapsto> [37, 80]], events = []\<rparr>"

definition sample_rows :: "(string \<times> string) list list" where
  "sample_rows = [[(''name'', ''Object 1''), (''description'', ''Lorem'')],
                  [(''name'', ''Object 2''), (''description'', ''Ut enim'')]]"

section \<open>Lemmas on the world\<close>

lemmas client_defs [py_defs] =
  run_import_def get_result_def oauth_headers_def open_client_def invoke_def read_file_def
  auth_argument_def data_is_empty_def data_extension_def file_basename_of_def
  zip_payload_def zip_add_data_def zip_add_def document_member_def plain_payload_def
  zip_path_def row_element_def rows_document_def RelaticsWebservices_init_def
  IMPORT_BASENAME_def SUPPORTED_EXTENSIONS_def ibind_def

lemmas sample_client_defs =
  sample_clientenv_def sample_ws_def sample_world_def sample_rows_def

lemma open_client_apply [simp]:
  "open_client env url w = (wsdl_client env url, logged [WsdlFetched url] w)"
  by (simp add: open_client_def logged_def)

lemma invoke_apply [simp]:
  "invoke env rq w = (soap_invoke env rq, logged [SoapCalled (sr_operation rq)] w)"
  by (simp add: invoke_def logged_def)

lemma read_file_apply [simp]:
  "read_file path w = (of_option (Builtin OSError) (files w path), w)"
  by (simp add: read_file_def)

lemma logged_simps [simp]:
  "files (logged evs w) = files w"
  "events (logged evs w) = events w @ evs"
  "logged evs (logged evs' w) = logged (evs' @ evs) w"
  "logged [] w = w"
  by (simp_all add: logged_def)

lemma written_simps [simp]:
  "events (written env path entries w) = events w"
  "files (written env path entries w) path = Some (zip_of env entries)"
  "p \<noteq> path \<Longrightarrow> files (written env path entries w) p = files w p"
  "written env path entries (written env path entries' w) = written env path entries w"
  by (simp_all add: written_def)

lemma written_logged: "written env path entries (logged evs w) = logged evs (written env path entries w)"
  by (simp add: written_def logged_def)

lemma zip_add_Inr:
  "member w = (Inr entry, w') \<Longrightarrow>
   zip_add env path member entries w = (Inr (entries @ [entry]), written env path (entries @ [entry]) w')"
  by (simp add: zip_add_def written_def)

lemma zip_add_Inl:
  "member w = (Inl e, w') \<Longrightarrow> zip_add env path member entries w = (Inl e, w')"
  by (simp add: zip_add_def)

lemma document_member_apply:
  "document_member p w =
     (rbind (of_option (Builtin OSError) (files w p)) (\<lambda>bs.
        Inr (posix_join ''Documents'' (snd (posix_split p)), bs)), w)"
  by (cases "files w p") (simp_all add: document_member_def)

section \<open>Lemmas on the archive\<close>

lemma document_entries_simps [simp]:
  "document_entries fs [] = []"
  "document_entries fs (p # ps) =
     (posix_join ''Documents'' (snd (posix_split p)), the (fs p)) # document_entries fs ps"
  "document_entries fs (ps @ qs) = document_entries fs ps @ document_entries fs qs"
  by (simp_all add: document_entries_def)

lemma ifold_documents:
  assumes "\<forall>p \<in> set docs. p \<noteq> path \<and> files w p \<noteq> None"
  shows "ifold (\<lambda>p. zip_add env path (document_member p)) docs entries
           (written env path entries w) =
         (Inr (entries @ document_entries (files w) docs),
          written env path (entries @ document_entries (files w) docs) w)"
  using assms
proof (induction docs arbitrary: entries)
  case Nil
  show ?case by simp
next
  case (Cons p docs)
  from Cons.prems obtain bs where bs: "files w p = Some bs" and p: "p \<noteq> path" by auto
  let ?e = "(posix_join ''Documents'' (snd (posix_split p)), bs)"
  from bs p have "document_member p (written env path entries w) =
                    (Inr ?e, written env path entries w)"
    by (simp add: document_member_apply)
  then have "zip_add env path (document_member p) entries (written env path entries w) =
               (Inr (entries @ [?e]), written env path (entries @ [?e]) w)"
    by (simp add: zip_add_Inr)
  moreover from Cons.prems have "\<forall>p \<in> set docs. p \<noteq> path \<and> files w p \<noteq> None" by simp
  ultimately show ?case using bs by (simp add: Cons.IH)
qed

lemma ifold_documents_missing:
  assumes "\<forall>p \<in> set ok. p \<noteq> path \<and> files w p \<noteq> None"
    and "files w bad = None" and "bad \<noteq> path"
  shows "ifold (\<lambda>p. zip_add env path (document_member p)) (ok @ bad # rest) entries
           (written env path entries w) =
         (Inl (Builtin OSError), written env path (entries @ document_entries (files w) ok) w)"
proof -
  from assms(2,3) have "document_member bad (written env path es w) =
                          (Inl (Builtin OSError), written env path es w)" for es
    by (simp add: document_member_apply)
  then have "zip_add env path (document_member bad) es (written env path es w) =
               (Inl (Builtin OSError), written env path es w)" for es
    by (simp add: zip_add_Inl)
  then show ?thesis
    by (simp add: ifold_append ifold_documents [OF assms(1)])
qed

lemma zip_add_data_apply:
  assumes "\<forall>p. d = DataFile p \<longrightarrow> p \<noteq> path \<and> files w p \<noteq> None"
  shows "zip_add_data env path d base ext entries (written env path entries w) =
           (Inr (entries @ archive_members env (files w) d base ext []),
            written env path (entries @ archive_members env (files w) d base ext []) w)"
proof (cases d)
  case (DataRows rows)
  then show ?thesis
    by (simp add: zip_add_data_def archive_members_def zip_add_Inr)
next
  case (DataFile p)
  with assms obtain bs where "files w p = Some bs" and "p \<noteq> path" by auto
  then have "ibind (read_file p) (\<lambda>bs. ireturn (snd (posix_split p), bs))
               (written env path entries w) =
             (Inr (snd (posix_split p), bs), written env path entries w)"
    by simp
  with DataFile \<open>files w p = Some bs\<close> show ?thesis
    by (simp add: zip_add_data_def archive_members_def zip_add_Inr)
next
  case (DataOther t)
  then show ?thesis by (simp add: zip_add_data_def archive_members_def)
qed

lemma archive_members_append:
  "archive_members env fs d base ext docs =
     document_entries fs docs @ archive_members env fs d base ext []"
  by (simp add: archive_members_def)

lemma zip_payload_success:
  assumes "\<forall>p \<in> set docs. p \<noteq> zip_path env base \<and> files w p \<noteq> None"
    and "\<forall>p. d = DataFile p \<longrightarrow> p \<noteq> zip_path env base \<and> files w p \<noteq> None"
  shows "zip_payload env d base ext docs keep w =
           (Inr (b64encode (zip_of env (archive_members env (files w) d base ext docs))),
            w\<lparr>files := (files w)(zip_path env base := None)\<rparr>)"
proof -
  let ?path = "zip_path env base"
  have start: "w\<lparr>files := (files w)(?path \<mapsto> zip_of env [])\<rparr> = written env ?path [] w"
    by (simp add: written_def)
  have "written env ?path es w\<lparr>files := (files (written env ?path es w))(?path := None)\<rparr> =
          w\<lparr>files := (files w)(?path := None)\<rparr>" for es
    by (simp add: written_def)
  then show ?thesis
    using ifold_documents [OF assms(1), of env "[]"]
      zip_add_data_apply [OF assms(2), of env base ext "document_entries (files w) docs"]
    by (simp add: zip_payload_def Let_def start archive_members_append [of env _ d base ext docs])
qed

section \<open>Lemmas on authentication and file names\<close>

lemma oauth_headers_other:
  "\<forall>c. a \<noteq> OAuth c \<Longrightarrow> oauth_headers env now t self a h w = (Inr (h, a), w)"
  by (cases a) (simp_all add: oauth_headers_def)

lemma oauth_headers_cached:
  assumes "tokens c (hostname self) = Some e" and "300 < td_seconds (expires_on e - now)"
  shows "oauth_headers env now t self (OAuth c) h w =
           (Inr (AList.update ''Authorization'' (''Bearer '' @ json_format (net env) (token e)) h,
                 OAuth c), w)"
proof -
  from assms have "\<not> needs_refresh c (hostname self) False now"
    by (simp add: needs_refresh_iff)
  with assms(1) show ?thesis
    by (simp add: oauth_headers_def get_token_cached_eq)
qed

lemma data_extension_rows [simp]: "data_extension (DataRows rows) = Inr ''xml''"
  by (simp add: data_extension_def)

lemma not_empty_rows [simp]: "data_is_empty (DataRows rows) \<longleftrightarrow> rows = []"
  by (simp add: data_is_empty_def)

lemma not_empty_file [simp]: "data_is_empty (DataFile p) \<longleftrightarrow> p = []"
  by (simp add: data_is_empty_def)

lemma row_element_distinct:
  "distinct (map fst r) \<Longrightarrow> row_element r = Element None ''Row'' [] r []"
  using set_attrs_distinct [of "[]" r] by (simp add: row_element_def fold_set_attr)

lemma rows_document_children:
  "rows_document rows = Element None ''Import'' [] [] (map row_element rows)"
  by (simp add: rows_document_def fold_append_child)

lemma file_basename_of_no_sep: "\<not> list_ex is_sep (file_basename_of fn)"
proof (cases fn)
  case None
  then show ?thesis
    by (simp add: file_basename_of_def IMPORT_BASENAME_def is_sep_def)
next
  case (Some f)
  have "set (fst (posix_splitext q)) \<subseteq> set q" for q
    using posix_splitext_append [of q] by (metis set_append Un_upper1)
  with last_component_no_sep [of f] Some show ?thesis
    by (auto simp: file_basename_of_def posix_split_tail list_ex_iff)
qed

section \<open>Evaluation of the samples\<close>

lemma sample_ws_fields:
  "hostname sample_ws = ''acme.relaticsonline.com''"
  "wsdl_url sample_ws = ''https://acme.relaticsonline.com/DataExchange.asmx?wsdl''"
  "user_agent sample_ws = ''agent/1''"
  "identification sample_ws = SDict [(''Identification'', SDict [(''Workspace'', SStr ''ws-1'')])]"
  by (simp_all add: sample_ws_def RelaticsWebservices_init_def lower_eval)

lemma sample_wsdl_ok: "wsdl_client sample_clientenv (wsdl_url sample_ws) = Inr ()"
  by (simp add: sample_ws_fields sample_clientenv_def)

lemma sample_online_wsdl: "wsdl_client sample_online (wsdl_url sample_ws) = Inr ()"
  by (simp add: sample_ws_fields sample_online_def sample_clientenv_def)

lemma sample_online_token:
  "get_token (net sample_online) 0 0 (hostname sample_ws) False USER_AGENT sample_credential =
     Inr (JStr ''tok-1'',
          sample_credential\<lparr>tokens := (tokens sample_credential)(hostname sample_ws \<mapsto>
            \<lparr>token = JStr ''tok-1'', expires_on = 0 + 3600 * 1000000\<rparr>)\<rparr>)"
proof -
  have "retrieve_token (net sample_online) 0 (hostname sample_ws) USER_AGENT
          sample_credential =
        Inr (sample_credential\<lparr>tokens := (tokens sample_credential)(hostname sample_ws \<mapsto>
               \<lparr>token = JStr ''tok-1'', expires_on = 0 + 3600 * 1000000\<rparr>)\<rparr>)"
    by (simp add: sample_online_def sample_net_defs retrieve_token_def store_token_def
        token_request_def timedelta_of_json_def timedelta_seconds_def timedelta_of_us_def
        datetime_add_def datetime_end_def ClientCredential_init_def)
  moreover have "needs_refresh sample_credential (hostname sample_ws) False 0"
    by (simp add: needs_refresh_def sample_credential_def ClientCredential_init_def)
  ultimately show ?thesis
    by (simp add: get_token_refresh_eq)
qed

lemma sample_online_headers:
  "oauth_headers sample_online 0 0 sample_ws (OAuth sample_credential) headers w =
     (Inr (AList.update ''Authorization'' (''Bearer '' @ json_format (net sample_online)
             (JStr ''tok-1'')) headers,
           OAuth (sample_credential\<lparr>tokens := (tokens sample_credential)(hostname sample_ws \<mapsto>
             \<lparr>token = JStr ''tok-1'', expires_on = 0 + 3600 * 1000000\<rparr>)\<rparr>)),
      logged [TokenRequested (hostname sample_ws)] w)"
proof -
  have "needs_refresh sample_credential (hostname sample_ws) False 0"
    by (simp add: needs_refresh_def sample_credential_def ClientCredential_init_def)
  then show ?thesis
    by (simp add: oauth_headers_def sample_online_token logged_def)
qed

section \<open>Footprints\<close>

lemma effect_refl: "effect P A w w"
  by (simp add: effect_def)

lemma effect_trans:
  assumes "effect P A w w'" and "effect P B w' w''"
  shows "effect P (A @ B) w w''"
proof -
  from assms obtain e1 e2 where e: "events w' = events w @ e1" "subseq e1 A"
      "events w'' = events w' @ e2" "subseq e2 B"
    by (auto simp: effect_def)
  then have "events w'' = events w @ (e1 @ e2)" and "subseq (e1 @ e2) (A @ B)"
    by (simp_all add: list_emb_append_mono)
  then have "\<exists>evs. events w'' = events w @ evs \<and> subseq evs (A @ B)" by blast
  with assms show ?thesis by (simp add: effect_def)
qed

lemmas effect_stop = effect_trans [OF _ effect_refl]

lemma effect_ibind:
  assumes "relates (effect P A) m" and "\<And>x. relates (effect P B) (f x)"
  shows "relates (effect P (A @ B)) (ibind m f)"
  using assms by (rule relates_ibind) (erule effect_stop, erule (1) effect_trans)

lemma effect_silent_ibind:
  "relates (effect P []) m \<Longrightarrow> (\<And>x. relates (effect P B) (f x)) \<Longrightarrow>
   relates (effect P B) (ibind m f)"
  using effect_ibind [of P "[]" m B f] by simp

lemma effect_access_ibind:
  "relates (effect P [e]) m \<Longrightarrow> (\<And>x. relates (effect P B) (f x)) \<Longrightarrow>
   relates (effect P (e # B)) (ibind m f)"
  using effect_ibind [of P "[e]" m B f] by simp

lemmas effect_pure = relates_pure [of "effect P A" for P A, OF effect_refl]

lemma effect_ifold:
  assumes "\<And>x a. relates (effect P []) (f x a)"
  shows "relates (effect P []) (ifold f xs acc)"
proof (rule relates_ifold [OF assms effect_refl])
  fix s s' s''
  assume "effect P [] s s'" and "effect P [] s' s''"
  then have "effect P ([] @ []) s s''" by (rule effect_trans)
  then show "effect P [] s s''" by simp
qed

lemma effect_open_client: "relates (effect P [WsdlFetched url]) (open_client env url)"
  by (simp add: relates_def effect_def open_client_def)

lemma effect_invoke: "relates (effect P [SoapCalled (sr_operation rq)]) (invoke env rq)"
  by (simp add: relates_def effect_def invoke_def)

lemma effect_read_file: "relates (effect P []) (read_file path)"
  by (simp add: relates_def effect_def read_file_def)

lemma effect_write:
  "path \<in> P \<Longrightarrow> relates (effect P []) (\<lambda>w. (r, w\<lparr>files := (files w)(path := v)\<rparr>))"
  by (auto simp: relates_def effect_def)

lemma effect_oauth_headers:
  "relates (effect P [TokenRequested (hostname self)]) (oauth_headers env now t self a headers)"
  by (cases a)
     (auto simp: relates_def effect_def oauth_headers_def Let_def split: sum.splits prod.splits)

lemma effect_zip_add:
  assumes "path \<in> P" and "relates (effect P []) member"
  shows "relates (effect P []) (zip_add env path member entries)"
  unfolding zip_add_def by (rule effect_silent_ibind [OF assms(2)]) (rule effect_write [OF assms(1)])

lemma effect_document_member: "relates (effect P []) (document_member document_path)"
  unfolding document_member_def
  by (rule effect_silent_ibind [OF effect_read_file]) (rule effect_pure)

lemma effect_zip_add_data:
  assumes "path \<in> P"
  shows "relates (effect P []) (zip_add_data env path d file_basename file_extension entries)"
proof (cases d)
  case (DataRows rows)
  then show ?thesis by (simp add: zip_add_data_def effect_zip_add [OF assms] effect_pure)
next
  case (DataFile data_path)
  have "relates (effect P [])
          (ibind (read_file data_path) (\<lambda>bs. ireturn (snd (posix_split data_path), bs)))"
    by (rule effect_silent_ibind [OF effect_read_file]) (rule effect_pure)
  with DataFile show ?thesis by (simp add: zip_add_data_def effect_zip_add [OF assms])
next
  case (DataOther t)
  then show ?thesis by (simp add: zip_add_data_def effect_pure)
qed

lemma effect_zip_payload:
  assumes "zip_path env file_basename \<in> P"
  shows "relates (effect P [])
           (zip_payload env d file_basename file_extension documents keep_zip_file)"
  unfolding zip_payload_def Let_def
  by (intro effect_silent_ibind effect_write assms effect_zip_add_data effect_read_file
        effect_pure effect_ifold effect_zip_add effect_document_member)

lemma effect_plain_payload: "relates (effect P []) (plain_payload env d)"
  by (cases d)
     (simp_all add: plain_payload_def effect_pure effect_silent_ibind [OF effect_read_file])

text \<open>The end of both methods: the token, if any, and the call of the operation.\<close>

lemma effect_request:
  assumes "\<And>headers. sr_operation (rq headers) = op"
  shows "relates (effect P [TokenRequested (hostname self), SoapCalled op])
           (ibind (oauth_headers env now t self a hs)
              (\<lambda>(headers, a'). ibind (invoke env (rq headers)) (\<lambda>result. ireturn (result, a'))))"
proof (rule effect_access_ibind [OF effect_oauth_headers], rule relates_case_prod)
  fix headers a'
  have "relates (effect P ([SoapCalled (sr_operation (rq headers))] @ []))
          (ibind (invoke env (rq headers)) (\<lambda>result. ireturn (result, a')))"
    by (rule effect_ibind [OF effect_invoke]) (rule effect_pure)
  then show "relates (effect P [SoapCalled op])
          (ibind (invoke env (rq headers)) (\<lambda>result. ireturn (result, a')))"
    by (simp add: assms)
qed

lemma effect_get_result:
  "relates (effect P [WsdlFetched (wsdl_url self), TokenRequested (hostname self),
                      SoapCalled ''GetResult''])
     (get_result env now t op params a self)"
  unfolding get_result_def
  by (rule effect_access_ibind [OF effect_open_client]) (rule effect_request, simp)

lemma effect_run_import:
  assumes "documents \<noteq> None \<Longrightarrow> zip_path env (file_basename_of file_name) \<in> P"
  shows "relates (effect P [WsdlFetched (wsdl_url self), TokenRequested (hostname self),
                            SoapCalled ''Import''])
           (run_import env now t op d a file_name documents keep_zip_file self)"
proof -
  let ?A = "[TokenRequested (hostname self), SoapCalled ''Import'']"
  have payload: "relates (effect P [])
      (case documents of
         Some docs \<Rightarrow>
           ibind (zip_payload env d (file_basename_of file_name) ext docs keep_zip_file)
             (\<lambda>data_str. ireturn (data_str, ''zip''))
       | None \<Rightarrow> ibind (plain_payload env d) (\<lambda>data_str. ireturn (data_str, ext)))" for ext
    using assms
    by (cases documents)
       (simp_all add: effect_silent_ibind effect_zip_payload effect_plain_payload effect_pure)
  have "relates (effect P ?A)
      (ibind (ilift (data_extension d)) (\<lambda>file_extension.
         ibind (case documents of
                  Some docs \<Rightarrow>
                    ibind (zip_payload env d (file_basename_of file_name) file_extension docs
                             keep_zip_file)
                      (\<lambda>data_str. ireturn (data_str, ''zip''))
                | None \<Rightarrow>
                    ibind (plain_payload env d) (\<lambda>data_str. ireturn (data_str, file_extension)))
           (\<lambda>(data_str, file_extension').
              ibind (oauth_headers env now t self a [(''User-Agent'', user_agent self)])
                (\<lambda>(headers, a').
                   ibind (invoke env
                            \<lparr>sr_wsdl = wsdl_url self, sr_operation = ''Import'',
                             sr_headers = headers, sr_plugins = [],
                             sr_args = [(''Operation'', SStr op),
                                        (''Identification'', identification self),
                                        (''Authentication'', auth_argument a),
                                        (''Filename'',
                                         SStr (file_basename_of file_name @ ''.'' @
                                               file_extension')),
                                        (''Data'', SStr data_str)]\<rparr>)
                     (\<lambda>result. ireturn (result, a'))))))"
    by (intro effect_silent_ibind effect_pure payload relates_case_prod effect_request) simp
  then show ?thesis
    by (simp add: run_import_def Let_def effect_pure effect_access_ibind [OF effect_open_client])
qed

lemma run_import_effect:
  assumes "documents \<noteq> None \<Longrightarrow> zip_path env (file_basename_of file_name) \<in> P"
  shows "effect P [WsdlFetched (wsdl_url self), TokenRequested (hostname self),
                   SoapCalled ''Import''] w
           (snd (run_import env now t op d a file_name documents keep_zip_file self w))"
  by (rule relatesD) (rule effect_run_import [OF assms])

lemma get_result_effect:
  "effect P [WsdlFetched (wsdl_url self), TokenRequested (hostname self),
             SoapCalled ''GetResult''] w
     (snd (get_result env now t op params a self w))"
  by (rule relatesD) (rule effect_get_result)

section \<open>Validation of the arguments\<close>

text \<open>
  C10 (error): \<^verbatim>\<open>run_import\<close> rejects an empty operation name and empty data with
  \<^verbatim>\<open>ValueError\<close> before it touches anything: no file is read or written and no network
  access is made. The operation name is tested first.
\<close>

theorem run_import_rejects_empty:
  "run_import env now t [] d a fn docs keep self w =
     (Inl (Raised ValueError ''Supplied operationName is empty''), w) \<and>
   (op \<noteq> [] \<longrightarrow> data_is_empty d \<longrightarrow>
      run_import env now t op d a fn docs keep self w =
        (Inl (Raised ValueError ''Supplied data is empty''), w))"
  by (simp add: run_import_def)

theorem run_import_rejects_empty_witness:
  "run_import sample_clientenv 0 0 ''op'' (DataRows []) NoAuth None None False sample_ws
     sample_world = (Inl (Raised ValueError ''Supplied data is empty''), sample_world)"
  using run_import_rejects_empty [of sample_clientenv 0 0 "DataRows []" NoAuth None None False
      sample_ws sample_world "''op''"]
  by simp

text \<open>
  C11 (error): the file extension is validated after the SOAP client was constructed.
  For a data file whose extension is not one of the supported ones \<^verbatim>\<open>run_import\<close> has
  already fetched the WSDL when it raises \<^verbatim>\<open>TypeError\<close>, and if that fetch fails the
  caller sees the failure of the network instead of the validation error. The
  comparison is case sensitive and no file is touched.
\<close>

theorem run_import_extension_after_wsdl:
  assumes "op \<noteq> []" and "path \<noteq> []"
    and "drop 1 (snd (posix_splitext path)) \<notin> set SUPPORTED_EXTENSIONS"
  shows "run_import env now t op (DataFile path) a fn docs keep self w =
           (case wsdl_client env (wsdl_url self) of
              Inl e \<Rightarrow> Inl e
            | Inr u \<Rightarrow> Inl (Raised TypeError ''Supplied file has unsupported file extension''),
            logged [WsdlFetched (wsdl_url self)] w)"
  using assms
  by (cases "wsdl_client env (wsdl_url self)")
     (simp_all add: run_import_def data_extension_def Let_def)

theorem run_import_extension_after_wsdl_witness:
  "run_import sample_clientenv 0 0 ''op'' (DataFile ''report.XLSX'') NoAuth None None False
     sample_ws sample_world =
     (Inl (Raised TypeError ''Supplied file has unsupported file extension''),
      logged [WsdlFetched (wsdl_url sample_ws)] sample_world)"
  using run_import_extension_after_wsdl [of "''op''" "''report.XLSX''" sample_clientenv 0 0
      NoAuth None None False sample_ws sample_world]
  by (simp add: sample_wsdl_ok SUPPORTED_EXTENSIONS_def posix_splitext_def last_component_def
      is_dot_def is_sep_def)

section \<open>The requests\<close>

text \<open>
  C9 (functional): an import of rows without documents. With a list of rows, no
  documents and no OAuth credential, once the SOAP client is constructed
  \<^verbatim>\<open>run_import\<close> calls \<^verbatim>\<open>Import\<close> with the file name \<^verbatim>\<open>{base}.xml\<close> and the base64 text of
  the UTF-8 bytes of the printed XML document, sends the user agent of the service
  object, returns what the call returns without inspecting it, touches no file and
  makes exactly these two network accesses.
\<close>

theorem run_import_rows_request:
  assumes "op \<noteq> []" and "rows \<noteq> []" and "\<forall>c. a \<noteq> OAuth c"
    and "wsdl_client env (wsdl_url self) = Inr ()"
  shows "run_import env now t op (DataRows rows) a fn None keep self w =
           (rbind (soap_invoke env
                     \<lparr>sr_wsdl = wsdl_url self, sr_operation = ''Import'',
                      sr_headers = [(''User-Agent'', user_agent self)], sr_plugins = [],
                      sr_args = [(''Operation'', SStr op),
                                 (''Identification'', identification self),
                                 (''Authentication'', auth_argument a),
                                 (''Filename'', SStr (file_basename_of fn @ ''.xml'')),
                                 (''Data'', SStr (b64encode (utf8_encode
                                    (render_xml env (rows_document rows)))))]\<rparr>)
              (\<lambda>r. Inr (r, a)),
            logged [WsdlFetched (wsdl_url self), SoapCalled ''Import''] w)"
proof -
  let ?rq = "\<lparr>sr_wsdl = wsdl_url self, sr_operation = ''Import'',
               sr_headers = [(''User-Agent'', user_agent self)], sr_plugins = [],
               sr_args = [(''Operation'', SStr op),
                          (''Identification'', identification self),
                          (''Authentication'', auth_argument a),
                          (''Filename'', SStr (file_basename_of fn @ ''.xml'')),
                          (''Data'', SStr (b64encode (utf8_encode
                             (render_xml env (rows_document rows)))))]\<rparr>"
  from assms show ?thesis
    by (cases "soap_invoke env ?rq")
       (simp_all add: run_import_def Let_def plain_payload_def oauth_headers_other)
qed

theorem run_import_rows_request_witness:
  "run_import sample_clientenv 0 0 ''op'' (DataRows sample_rows) (Entrycode ''code'')
     (Some ''dir/import_ddd.xml'') None False sample_ws sample_world =
     (Inr (Object [(''Operation'', Text ''Import'')], Entrycode ''code''),
      logged [WsdlFetched (wsdl_url sample_ws), SoapCalled ''Import''] sample_world)"
  using run_import_rows_request [of "''op''" sample_rows "Entrycode ''code''" sample_clientenv
      sample_ws 0 0 "Some ''dir/import_ddd.xml''" False sample_world]
  by (simp add: sample_wsdl_ok sample_rows_def) (simp add: sample_clientenv_def)

text \<open>
  C5 (functional): an import with documents. When every document and the data file
  can be read and none of them is the temporary archive, \<^verbatim>\<open>run_import\<close> sends the base64
  text of an archive that holds each document under \<^verbatim>\<open>Documents/\<close> with its base name,
  followed by the data, under the file name \<^verbatim>\<open>{base}.zip\<close>. Afterwards the temporary
  archive does not exist, whatever \<^verbatim>\<open>keep_zip_file\<close> says and also if a file of that
  name existed before; no other file has changed.
\<close>

theorem run_import_zip_request:
  assumes "op \<noteq> []" and "\<not> data_is_empty d" and "data_extension d = Inr ext"
    and "\<forall>c. a \<noteq> OAuth c" and "wsdl_client env (wsdl_url self) = Inr ()"
    and "\<forall>p \<in> set docs. p \<noteq> zip_path env (file_basename_of fn) \<and> files w p \<noteq> None"
    and "\<forall>p. d = DataFile p \<longrightarrow> p \<noteq> zip_path env (file_basename_of fn) \<and> files w p \<noteq> None"
  shows "run_import env now t op d a fn (Some docs) keep self w =
           (rbind (soap_invoke env
                     \<lparr>sr_wsdl = wsdl_url self, sr_operation = ''Import'',
                      sr_headers = [(''User-Agent'', user_agent self)], sr_plugins = [],
                      sr_args = [(''Operation'', SStr op),
                                 (''Identification'', identification self),
                                 (''Authentication'', auth_argument a),
                                 (''Filename'', SStr (file_basename_of fn @ ''.zip'')),
                                 (''Data'', SStr (b64encode (zip_of env
                                    (archive_members env (files w) d (file_basename_of fn)
                                       ext docs))))]\<rparr>)
              (\<lambda>r. Inr (r, a)),
            logged [WsdlFetched (wsdl_url self), SoapCalled ''Import'']
              (w\<lparr>files := (files w)(zip_path env (file_basename_of fn) := None)\<rparr>))"
proof -
  let ?base = "file_basename_of fn"
  let ?w1 = "logged [WsdlFetched (wsdl_url self)] w"
  let ?rq = "\<lparr>sr_wsdl = wsdl_url self, sr_operation = ''Import'',
               sr_headers = [(''User-Agent'', user_agent self)], sr_plugins = [],
               sr_args = [(''Operation'', SStr op),
                          (''Identification'', identification self),
                          (''Authentication'', auth_argument a),
                          (''Filename'', SStr (?base @ ''.zip'')),
                          (''Data'', SStr (b64encode (zip_of env
                             (archive_members env (files w) d ?base ext docs))))]\<rparr>"
  from assms(6,7) have
    "zip_payload env d ?base ext docs keep ?w1 =
       (Inr (b64encode (zip_of env (archive_members env (files w) d ?base ext docs))),
        ?w1\<lparr>files := (files w)(zip_path env ?base := None)\<rparr>)"
    using zip_payload_success [of docs env ?base ?w1 d ext keep] by simp
  moreover have "?w1\<lparr>files := (files w)(zip_path env ?base := None)\<rparr> =
                 logged [WsdlFetched (wsdl_url self)]
                   (w\<lparr>files := (files w)(zip_path env ?base := None)\<rparr>)"
    by (simp add: logged_def)
  ultimately show ?thesis
    using assms(1-5)
    by (cases "soap_invoke env ?rq")
       (simp_all add: run_import_def Let_def oauth_headers_other)
qed

theorem run_import_zip_request_witness:
  "run_import sample_clientenv 0 0 ''op'' (DataFile ''/data/in.csv'') NoAuth None
     (Some [''/data/a.pdf'']) True sample_ws
     (sample_world\<lparr>files := (files sample_world)(''/tmp/pyrelatics_webservice.zip'' \<mapsto> [0])\<rparr>) =
     (Inr (Object [(''Operation'', Text ''Import'')], NoAuth),
      logged [WsdlFetched (wsdl_url sample_ws), SoapCalled ''Import''] sample_world)"
proof -
  let ?w = "sample_world\<lparr>files :=
              (files sample_world)(''/tmp/pyrelatics_webservice.zip'' \<mapsto> [0])\<rparr>"
  have path: "zip_path sample_clientenv (file_basename_of None) =
                ''/tmp/pyrelatics_webservice.zip''"
    by (simp add: zip_path_def file_basename_of_def IMPORT_BASENAME_def posix_join_def
        is_sep_def sample_clientenv_def)
  have ext: "data_extension (DataFile ''/data/in.csv'') = Inr ''csv''"
    by (simp add: data_extension_def SUPPORTED_EXTENSIONS_def posix_splitext_def
        last_component_def is_dot_def is_sep_def)
  have w: "?w\<lparr>files := (files ?w)(''/tmp/pyrelatics_webservice.zip'' := None)\<rparr> = sample_world"
    by (simp add: sample_world_def)
  from run_import_zip_request [of "''op''" "DataFile ''/data/in.csv''" "''csv''" NoAuth
      sample_clientenv sample_ws "[''/data/a.pdf'']" None ?w 0 0 True]
  show ?thesis
    by (simp add: sample_wsdl_ok ext path w) (simp add: sample_clientenv_def sample_world_def)
qed

text \<open>
  C17 (safety): a failure while the archive is built leaves the temporary archive
  behind. When the documents up to some point can be read and the next one is missing,
  \<^verbatim>\<open>run_import\<close> raises \<^verbatim>\<open>OSError\<close>, sends nothing, and the temporary file exists and
  holds the archive of the documents added until then.
\<close>

theorem run_import_zip_left_behind:
  assumes "op \<noteq> []" and "\<not> data_is_empty d" and "data_extension d = Inr ext"
    and "wsdl_client env (wsdl_url self) = Inr ()"
    and "\<forall>p \<in> set ok. p \<noteq> zip_path env (file_basename_of fn) \<and> files w p \<noteq> None"
    and "files w bad = None" and "bad \<noteq> zip_path env (file_basename_of fn)"
  shows "run_import env now t op d a fn (Some (ok @ bad # rest)) keep self w =
           (Inl (Builtin OSError),
            logged [WsdlFetched (wsdl_url self)]
              (written env (zip_path env (file_basename_of fn))
                 (document_entries (files w) ok) w))"
proof -
  let ?path = "zip_path env (file_basename_of fn)"
  let ?w1 = "logged [WsdlFetched (wsdl_url self)] w"
  have start: "?w1\<lparr>files := (files w)(?path \<mapsto> zip_of env [])\<rparr> = written env ?path [] ?w1"
    by (simp add: written_def)
  from assms(5-7) have
    "zip_payload env d (file_basename_of fn) ext (ok @ bad # rest) keep ?w1 =
       (Inl (Builtin OSError), written env ?path (document_entries (files w) ok) ?w1)"
    using ifold_documents_missing [of ok ?path ?w1 bad env rest "[]"]
    by (simp add: zip_payload_def Let_def start)
  with assms(1-4) show ?thesis
    by (simp add: run_import_def Let_def written_logged)
qed

theorem run_import_zip_left_behind_witness:
  "run_import sample_clientenv 0 0 ''op'' (DataRows sample_rows) NoAuth None
     (Some [''/data/a.pdf'', ''/data/missing.pdf'']) False sample_ws sample_world =
     (Inl (Builtin OSError),
      logged [WsdlFetched (wsdl_url sample_ws)]
        (written sample_clientenv ''/tmp/pyrelatics_webservice.zip''
           [(''Documents/a.pdf'', [37, 80])] sample_world))"
proof -
  have path: "zip_path sample_clientenv (file_basename_of None) =
                ''/tmp/pyrelatics_webservice.zip''"
    by (simp add: zip_path_def file_basename_of_def IMPORT_BASENAME_def posix_join_def
        is_sep_def sample_clientenv_def)
  have arc: "posix_join ''Documents'' (snd (posix_split ''/data/a.pdf'')) = ''Documents/a.pdf''"
    by (simp add: posix_join_def posix_split_def last_component_def is_sep_def)
  have files: "files sample_world ''/data/a.pdf'' = Some [37, 80]"
    "files sample_world ''/data/missing.pdf'' = None"
    by (simp_all add: sample_world_def)
  from run_import_zip_left_behind [of "''op''" "DataRows sample_rows" "''xml''"
      sample_clientenv sample_ws "[''/data/a.pdf'']" None sample_world "''/data/missing.pdf''"
      0 0 NoAuth "[]" False]
  show ?thesis
    by (simp add: sample_wsdl_ok path arc files sample_rows_def)
qed

text \<open>
  C23 (functional): \<^verbatim>\<open>get_result\<close> without OAuth. It constructs the SOAP client and,
  if that succeeds, calls \<^verbatim>\<open>GetResult\<close> with the operation name, the workspace
  identification, no parameters argument (the parameters travel in the plugin) and
  the authentication block: the entry code if a string was given, an empty block
  otherwise. The only header is the user agent. The raw response is returned as it
  is; no result object is built from it.
\<close>

theorem get_result_request:
  assumes "\<forall>c. a \<noteq> OAuth c"
  shows "get_result env now t op params a self w =
           (case wsdl_client env (wsdl_url self) of
              Inl e \<Rightarrow> (Inl e, logged [WsdlFetched (wsdl_url self)] w)
            | Inr u \<Rightarrow>
                (rbind (soap_invoke env
                          \<lparr>sr_wsdl = wsdl_url self, sr_operation = ''GetResult'',
                           sr_headers = [(''User-Agent'', user_agent self)], sr_plugins = plugins_for params,
                           sr_args = [(''Operation'', SStr op),
                                      (''Identification'', identification self),
                                      (''Parameters'', SNone),
                                      (''Authentication'',
                                       case a of
                                         Entrycode code \<Rightarrow>
                                           SDict [(''Authentication'',
                                                   SDict [(''Entrycode'', SStr code)])]
                                       | _ \<Rightarrow> SDict [(''Authentication'', SDict [])])]\<rparr>)
                   (\<lambda>r. Inr (r, a)),
                 logged [WsdlFetched (wsdl_url self), SoapCalled ''GetResult''] w))"
proof (cases "wsdl_client env (wsdl_url self)")
  case (Inl e)
  then show ?thesis by (simp add: get_result_def)
next
  case (Inr u)
  let ?rq = "\<lparr>sr_wsdl = wsdl_url self, sr_operation = ''GetResult'',
               sr_headers = [(''User-Agent'', user_agent self)], sr_plugins = plugins_for params,
               sr_args = [(''Operation'', SStr op),
                          (''Identification'', identification self),
                          (''Parameters'', SNone),
                          (''Authentication'', auth_argument a)]\<rparr>"
  from Inr assms show ?thesis
    by (cases "soap_invoke env ?rq")
       (simp_all add: get_result_def oauth_headers_other auth_argument_def)
qed

theorem get_result_request_witness:
  "get_result sample_clientenv 0 0 ''getActies'' (Some [(''param1'', ''x'')])
     (Entrycode ''B7CA'') sample_ws sample_world =
     (Inr (Object [(''Operation'', Text ''GetResult'')], Entrycode ''B7CA''),
      logged [WsdlFetched (wsdl_url sample_ws), SoapCalled ''GetResult''] sample_world)"
  using get_result_request [of "Entrycode ''B7CA''" sample_clientenv 0 0 "''getActies''"
      "Some [(''param1'', ''x'')]" sample_ws sample_world]
  by (simp add: sample_wsdl_ok) (simp add: sample_clientenv_def)

text \<open>
  \<^verbatim>\<open>get_result\<close> with an OAuth credential whose cached token for the host is still
  good. The request carries the header \<^verbatim>\<open>Authorization: Bearer\<close> with the
  cached token and an empty authentication block, no token is requested, and the
  credential is unchanged.
\<close>

theorem get_result_oauth_cached:
  assumes "tokens c (hostname self) = Some e" and "300 < td_seconds (expires_on e - now)"
    and "wsdl_client env (wsdl_url self) = Inr ()"
  shows "get_result env now t op params (OAuth c) self w =
           (rbind (soap_invoke env
                     \<lparr>sr_wsdl = wsdl_url self, sr_operation = ''GetResult'',
                      sr_headers = [(''User-Agent'', user_agent self),
                                    (''Authorization'',
                                     ''Bearer '' @ json_format (net env) (token e))],
                      sr_plugins = plugins_for params,
                      sr_args = [(''Operation'', SStr op),
                                 (''Identification'', identification self),
                                 (''Parameters'', SNone),
                                 (''Authentication'', SDict [(''Authentication'', SDict [])])]\<rparr>)
              (\<lambda>r. Inr (r, OAuth c)),
            logged [WsdlFetched (wsdl_url self), SoapCalled ''GetResult''] w)"
proof -
  let ?rq = "\<lparr>sr_wsdl = wsdl_url self, sr_operation = ''GetResult'',
               sr_headers = [(''User-Agent'', user_agent self),
                             (''Authorization'', ''Bearer '' @ json_format (net env) (token e))],
               sr_plugins = plugins_for params,
               sr_args = [(''Operation'', SStr op),
                          (''Identification'', identification self),
                          (''Parameters'', SNone),
                          (''Authentication'', SDict [(''Authentication'', SDict [])])]\<rparr>"
  from assms(3) show ?thesis
    by (cases "soap_invoke env ?rq")
       (simp_all add: get_result_def oauth_headers_cached [OF assms(1,2)] auth_argument_def)
qed

theorem get_result_oauth_cached_witness:
  "get_result sample_clientenv 0 0 ''getActies'' None
     (OAuth (sample_credential\<lparr>tokens := [''acme.relaticsonline.com'' \<mapsto> sample_entry]\<rparr>))
     sample_ws sample_world =
     (Inr (Object [(''Operation'', Text ''GetResult'')],
           OAuth (sample_credential\<lparr>tokens := [''acme.relaticsonline.com'' \<mapsto> sample_entry]\<rparr>)),
      logged [WsdlFetched (wsdl_url sample_ws), SoapCalled ''GetResult''] sample_world)"
  using get_result_oauth_cached [of
      "sample_credential\<lparr>tokens := [''acme.relaticsonline.com'' \<mapsto> sample_entry]\<rparr>"
      sample_ws sample_entry 0 sample_clientenv 0 "''getActies''" None sample_world]
  by (simp add: sample_wsdl_ok sample_ws_fields sample_entry_def td_seconds_def)
     (simp add: sample_clientenv_def)

section \<open>Names\<close>

text \<open>
  The constructor lower-cases the company name. The host name is
  the lower-cased company name followed by \<^verbatim>\<open>.relaticsonline.com\<close>, it is in lower case
  itself, the WSDL address is built from it, and two spellings of a company name that
  differ in case give the same service object.
\<close>

theorem service_host_is_lower_case:
  "hostname (RelaticsWebservices_init company wid ua) =
     py_lower company @ ''.relaticsonline.com'' \<and>
   py_lower (hostname (RelaticsWebservices_init company wid ua)) =
     hostname (RelaticsWebservices_init company wid ua) \<and>
   wsdl_url (RelaticsWebservices_init company wid ua) =
     ''https://'' @ hostname (RelaticsWebservices_init company wid ua) @
     ''/DataExchange.asmx?wsdl'' \<and>
   RelaticsWebservices_init (py_lower company) wid ua = RelaticsWebservices_init company wid ua"
proof -
  have "py_lower ''.relaticsonline.com'' = ''.relaticsonline.com''"
    by (simp add: py_lower_def lower_char_def)
  then show ?thesis by (simp add: RelaticsWebservices_init_def Let_def)
qed

text \<open>
  The base of the file name sent to the service never contains a directory separator, and for a file name of the form \<^verbatim>\<open>dir/name.ext\<close>, where \<^verbatim>\<open>name\<close>
  and \<^verbatim>\<open>ext\<close> contain neither a separator nor a dot and \<^verbatim>\<open>name\<close> is not empty, it is
  \<^verbatim>\<open>name\<close>.
\<close>

theorem file_basename_strips_directory_and_extension:
  "\<not> list_ex is_sep (file_basename_of fn) \<and>
   (name \<noteq> [] \<longrightarrow> \<not> list_ex is_sep (name @ ext) \<longrightarrow> \<not> list_ex is_dot (name @ ext) \<longrightarrow>
      file_basename_of (Some (dir @ ''/'' @ name @ ''.'' @ ext)) = name)"
proof (intro conjI impI)
  show "\<not> list_ex is_sep (file_basename_of fn)" by (rule file_basename_of_no_sep)
next
  assume name: "name \<noteq> []" and sep: "\<not> list_ex is_sep (name @ ext)"
    and dot: "\<not> list_ex is_dot (name @ ext)"
  from sep have "\<not> list_ex is_sep (name @ CHR ''.'' # ext)"
    by (auto simp: list_ex_iff is_sep_def)
  then have "last_component (dir @ CHR ''/'' # name @ CHR ''.'' # ext) = name @ CHR ''.'' # ext"
    by (rule last_component_after_sep)
  with posix_splitext_name_ext [OF name sep dot]
  show "file_basename_of (Some (dir @ ''/'' @ name @ ''.'' @ ext)) = name"
    by (simp add: file_basename_of_def posix_split_tail)
qed

theorem file_basename_strips_directory_and_extension_witness:
  "\<not> list_ex is_sep (file_basename_of (Some ''out/import_ddd.xml'')) \<and>
   file_basename_of (Some (''out'' @ ''/'' @ ''import_ddd'' @ ''.'' @ ''xml'')) = ''import_ddd''"
  using file_basename_strips_directory_and_extension [of "Some ''out/import_ddd.xml''"
      "''import_ddd''" "''xml''" "''out''"]
  by (simp add: is_sep_def is_dot_def)

text \<open>
  The XML document of an import has one \<^verbatim>\<open>Row\<close> element per row of the data, in the order of the data, and the attributes of a row element are the
  items of the row in their order.
\<close>

theorem rows_document_rows:
  assumes "\<forall>r \<in> set rows. distinct (map fst r)"
  shows "rows_document rows =
           Element None ''Import'' [] [] (map (\<lambda>r. Element None ''Row'' [] r []) rows)"
  using assms by (simp add: rows_document_children row_element_distinct)

theorem rows_document_rows_witness:
  "rows_document sample_rows =
     Element None ''Import'' [] [] (map (\<lambda>r. Element None ''Row'' [] r []) sample_rows)"
  by (rule rows_document_rows) (simp add: sample_rows_def)

section \<open>Footprint of the methods\<close>

text \<open>
  C28 (safety): whether it returns or raises, \<^verbatim>\<open>run_import\<close> changes no file other than
  the temporary archive \<^verbatim>\<open>{tempdir}/{base}.zip\<close>, and without documents it changes no
  file at all.
\<close>

theorem run_import_files_frame:
  "(p \<noteq> zip_path env (file_basename_of file_name) \<longrightarrow>
      files (snd (run_import env now t op d a file_name documents keep_zip_file self w)) p =
      files w p) \<and>
   (documents = None \<longrightarrow>
      files (snd (run_import env now t op d a file_name documents keep_zip_file self w)) =
      files w)"
  using run_import_effect [of documents env file_name
      "{zip_path env (file_basename_of file_name)}" self w now t op d a keep_zip_file]
    run_import_effect [of documents env file_name "{}" self w now t op d a keep_zip_file]
  by (auto simp: effect_def fun_eq_iff)

theorem run_import_files_frame_witness:
  "files (snd (run_import sample_clientenv 0 0 ''op'' (DataFile ''/data/in.csv'') NoAuth None
                 (Some [''/data/a.pdf'', ''/data/missing.pdf'']) False sample_ws sample_world))
     ''/data/a.pdf'' = Some [37, 80] \<and>
   files (snd (run_import sample_clientenv 0 0 ''op'' (DataFile ''/data/in.csv'') NoAuth None
                 None False sample_ws sample_world)) = files sample_world"
  using run_import_files_frame [of "''/data/a.pdf''" sample_clientenv None 0 0 "''op''"
      "DataFile ''/data/in.csv''" NoAuth "Some [''/data/a.pdf'', ''/data/missing.pdf'']" False
      sample_ws sample_world]
    run_import_files_frame [of "''/data/a.pdf''" sample_clientenv None 0 0 "''op''"
      "DataFile ''/data/in.csv''" NoAuth None False sample_ws sample_world]
  by (simp add: zip_path_def file_basename_of_def IMPORT_BASENAME_def posix_join_def is_sep_def
      sample_clientenv_def sample_world_def)

text \<open>
  C27 (safety): whether it returns or raises, \<^verbatim>\<open>run_import\<close> makes at most three network
  accesses, in this order: it fetches the WSDL, it requests a token, and it calls
  \<^verbatim>\<open>Import\<close>. With a credential that has no token for the host all three are made.
\<close>

theorem run_import_network_accesses:
  "\<exists>evs. events (snd (run_import env now t op d a file_name documents keep_zip_file self w)) =
            events w @ evs \<and>
         subseq evs [WsdlFetched (wsdl_url self), TokenRequested (hostname self),
                     SoapCalled ''Import'']"
  using run_import_effect [of documents env file_name UNIV self w now t op d a keep_zip_file]
  by (simp add: effect_def)

theorem run_import_network_accesses_witness:
  "events (snd (run_import sample_online 0 0 ''op'' (DataRows sample_rows)
                  (OAuth sample_credential) None None False sample_ws sample_world)) =
     [WsdlFetched (wsdl_url sample_ws), TokenRequested (hostname sample_ws),
      SoapCalled ''Import'']"
  using run_import_network_accesses [of sample_online 0 0 "''op''" "DataRows sample_rows"
      "OAuth sample_credential" None None False sample_ws sample_world]
  by (simp add: run_import_def data_is_empty_def data_extension_def plain_payload_def
      sample_rows_def sample_online_wsdl sample_online_headers)
     (simp add: sample_online_def sample_clientenv_def sample_world_def logged_def)

text \<open>
  The same for \<^verbatim>\<open>get_result\<close>: whether it returns or raises, it changes no file and makes
  at most three network accesses, in this order: it fetches the WSDL, it requests a
  token, and it calls \<^verbatim>\<open>GetResult\<close>.
\<close>

theorem get_result_footprint:
  "files (snd (get_result env now t op params a self w)) = files w \<and>
   (\<exists>evs. events (snd (get_result env now t op params a self w)) = events w @ evs \<and>
          subseq evs [WsdlFetched (wsdl_url self), TokenRequested (hostname self),
                      SoapCalled ''GetResult''])"
  using get_result_effect [of "{}" self w env now t op params a]
  by (simp add: effect_def fun_eq_iff)

theorem get_result_footprint_witness:
  "events (snd (get_result sample_online 0 0 ''op'' None (OAuth sample_credential) sample_ws
                  sample_world)) =
     [WsdlFetched (wsdl_url sample_ws), TokenRequested (hostname sample_ws),
      SoapCalled ''GetResult'']"
  using get_result_footprint [of sample_online 0 0 "''op''" None "OAuth sample_credential"
      sample_ws sample_world]
  by (simp add: get_result_def sample_online_wsdl sample_online_headers)
     (simp add: sample_online_def sample_clientenv_def sample_world_def logged_def)

end
