(* ===== verification/Logging.thy ===== *)
theory Logging
  imports PyPrelude
begin

text \<open>
  The part of the module \<^verbatim>\<open>logging\<close> of the standard library that the sources use: the
  five levels with their order, a record with its logger, level, message and
  arguments, the message as \<^verbatim>\<open>msg % args\<close> for the directives \<^verbatim>\<open>%s\<close> and \<^verbatim>\<open>%%\<close>, and the
  configuration: the level of the root logger, which \<^verbatim>\<open>logging.basicConfig\<close> sets, and
  the levels set on named loggers with \<^verbatim>\<open>setLevel\<close>. A logger without a level takes the
  level of the nearest ancestor that has one; the ancestors of \<^verbatim>\<open>a.b.c\<close> are \<^verbatim>\<open>a.b\<close>, \<^verbatim>\<open>a\<close>
  and the root. Names are module names: dotted, without empty components.

  The log is written and never read by the sources. So an operation and what it logs
  are two functions of the same arguments: the theories \<open>ResultLog\<close> and \<open>ClientLog\<close>
  give, for each operation that logs, the list of records it has written when it
  returns or raises.
\<close>

section \<open>Levels\<close>

datatype level = DEBUG | INFO | WARNING | ERROR | CRITICAL

primrec level_no :: "level \<Rightarrow> nat" where
  "level_no DEBUG = 10"
| "level_no INFO = 20"
| "level_no WARNING = 30"
| "level_no ERROR = 40"
| "level_no CRITICAL = 50"

primrec levelname :: "level \<Rightarrow> string" where
  "levelname DEBUG = ''DEBUG''"
| "levelname INFO = ''INFO''"
| "levelname WARNING = ''WARNING''"
| "levelname ERROR = ''ERROR''"
| "levelname CRITICAL = ''CRITICAL''"

lemma level_no_inj: "level_no a = level_no b \<longleftrightarrow> a = b"
  by (cases a; cases b) simp_all

instantiation level :: linorder
begin

definition less_eq_level :: "level \<Rightarrow> level \<Rightarrow> bool" where
  "a \<le> b \<longleftrightarrow> level_no a \<le> level_no b"

definition less_level :: "level \<Rightarrow> level \<Rightarrow> bool" where
  "a < b \<longleftrightarrow> level_no a < level_no b"

instance
proof
  fix a b c :: level
  show "a < b \<longleftrightarrow> a \<le> b \<and> \<not> b \<le> a"
    by (auto simp: less_eq_level_def less_level_def)
  show "a \<le> a" by (simp add: less_eq_level_def)
  show "a \<le> b \<Longrightarrow> b \<le> c \<Longrightarrow> a \<le> c" by (simp add: less_eq_level_def)
  show "a \<le> b \<Longrightarrow> b \<le> a \<Longrightarrow> a = b" by (simp add: less_eq_level_def level_no_inj)
  show "a \<le> b \<or> b \<le> a" by (auto simp: less_eq_level_def)
qed

end

section \<open>Records and their message\<close>

record log_record =
  logger_name :: string
  levelno :: level
  log_msg :: string
  log_args :: "string list"

text \<open>
  \<^verbatim>\<open>msg % args\<close>: \<^verbatim>\<open>%s\<close> takes the next argument and \<^verbatim>\<open>%%\<close> is a percent sign; too few or too
  many arguments are a \<^verbatim>\<open>TypeError\<close>, and the other directives, which the sources do
  not use, are left out as a \<^verbatim>\<open>ValueError\<close>.
\<close>

fun percent_format :: "string \<Rightarrow> string list \<Rightarrow> string result" where
  "percent_format [] as = (if as = [] then Inr [] else Inl (Builtin TypeError))"
| "percent_format (c # cs) as =
     (if c = CHR ''%'' then
        (case cs of
           [] \<Rightarrow> Inl (Builtin ValueError)
         | d # cs' \<Rightarrow>
             if d = CHR ''s'' then
               (case as of
                  [] \<Rightarrow> Inl (Builtin TypeError)
                | a # as' \<Rightarrow> rbind (percent_format cs' as') (\<lambda>r. Inr (a @ r)))
             else if d = CHR ''%'' then rbind (percent_format cs' as) (\<lambda>r. Inr (d # r))
             else Inl (Builtin ValueError))
      else rbind (percent_format cs as) (\<lambda>r. Inr (c # r)))"

text \<open>\<^verbatim>\<open>LogRecord.getMessage\<close>: without arguments the message is not formatted.\<close>

definition getMessage :: "log_record \<Rightarrow> string result" where
  "getMessage r = (if log_args r = [] then Inr (log_msg r) else percent_format (log_msg r) (log_args r))"

text \<open>
  The format of a handler: \<^verbatim>\<open>fmt % record.__dict__\<close> for the directives \<^verbatim>\<open>%(key)s\<close>. A
  key that the record does not have is a \<^verbatim>\<open>KeyError\<close>.
\<close>

lemma length_dropWhile_le: "length (dropWhile P xs) \<le> length xs"
  by (induction xs) simp_all

function percent_keys :: "(string \<rightharpoonup> string) \<Rightarrow> string \<Rightarrow> string result" where
  "percent_keys d [] = Inr []"
| "percent_keys d (c # cs) =
     (if c = CHR ''%'' then
        (if prefix ''('' cs then
           (let rest = dropWhile (\<lambda>x. x \<noteq> CHR '')'') (tl cs) in
            if prefix '')s'' rest then
              (case d (takeWhile (\<lambda>x. x \<noteq> CHR '')'') (tl cs)) of
                 None \<Rightarrow> Inl (Builtin KeyError)
               | Some v \<Rightarrow> rbind (percent_keys d (drop 2 rest)) (\<lambda>r. Inr (v @ r)))
            else Inl (Builtin ValueError))
         else Inl (Builtin ValueError))
      else rbind (percent_keys d cs) (\<lambda>r. Inr (c # r)))"
  by pat_completeness auto
termination
proof (relation "measure (\<lambda>(d, s). length s)")
  fix d :: "string \<rightharpoonup> string" and c :: char and cs rest :: string
  assume "rest = dropWhile (\<lambda>x. x \<noteq> CHR '')'') (tl cs)"
  with length_dropWhile_le [of "\<lambda>x. x \<noteq> CHR '')''" "tl cs"]
  show "((d, drop 2 rest), (d, c # cs)) \<in> measure (\<lambda>(d, s). length s)"
    by simp
qed simp_all

text \<open>\<^verbatim>\<open>Formatter.format\<close> with the time of the record already printed.\<close>

definition format_record :: "string \<Rightarrow> string \<Rightarrow> log_record \<Rightarrow> string result" where
  "format_record fmt asctime r =
     rbind (getMessage r) (\<lambda>message.
       percent_keys [''asctime'' \<mapsto> asctime, ''name'' \<mapsto> logger_name r,
                     ''levelname'' \<mapsto> levelname (levelno r), ''message'' \<mapsto> message] fmt)"

text \<open>A call \<^verbatim>\<open>log.info(msg, *args)\<close> of the logger \<open>n\<close>, and its kin.\<close>

definition log_call :: "string \<Rightarrow> level \<Rightarrow> string \<Rightarrow> string list \<Rightarrow> log_record" where
  "log_call n l m as = \<lparr>logger_name = n, levelno = l, log_msg = m, log_args = as\<rparr>"

section \<open>The configuration\<close>

record logconf =
  root_level :: level
  levels :: "string \<rightharpoonup> level"

text \<open>Without any configuration the root logger has the level \<^verbatim>\<open>WARNING\<close>.\<close>

definition default_conf :: logconf where
  "default_conf = \<lparr>root_level = WARNING, levels = Map.empty\<rparr>"

definition basicConfig :: "level \<Rightarrow> logconf \<Rightarrow> logconf" where
  "basicConfig l cfg = cfg\<lparr>root_level := l\<rparr>"

definition setLevel :: "string \<Rightarrow> level \<Rightarrow> logconf \<Rightarrow> logconf" where
  "setLevel n l cfg = cfg\<lparr>levels := (levels cfg)(n \<mapsto> l)\<rparr>"

text \<open>The name before the last dot, if there is a dot.\<close>

definition parent_name :: "string \<Rightarrow> string option" where
  "parent_name n =
     (if CHR ''.'' \<in> set n then Some (rev (tl (dropWhile (\<lambda>c. c \<noteq> CHR ''.'') (rev n))))
      else None)"

lemma parent_name_shorter: "parent_name n = Some p \<Longrightarrow> length p < length n"
proof -
  have "length (dropWhile P xs) \<le> length xs" for P and xs :: string
    by (induction xs) simp_all
  from this [of "\<lambda>c. c \<noteq> CHR ''.''" "rev n"] show "parent_name n = Some p \<Longrightarrow> length p < length n"
    by (cases "dropWhile (\<lambda>c. c \<noteq> CHR ''.'') (rev n)")
      (auto simp: parent_name_def split: if_splits)
qed

text \<open>
  \<^verbatim>\<open>Logger.getEffectiveLevel\<close>: the loop from the logger to its ancestors ends at the
  first level that is set, or at the root.
\<close>

function getEffectiveLevel :: "logconf \<Rightarrow> string \<Rightarrow> level" where
  "getEffectiveLevel cfg n =
     (case levels cfg n of
        Some l \<Rightarrow> l
      | None \<Rightarrow>
          (case parent_name n of
             None \<Rightarrow> root_level cfg
           | Some p \<Rightarrow> getEffectiveLevel cfg p))"
  by pat_completeness auto
termination
  by (relation "measure (\<lambda>(cfg, n). length n)") (simp_all add: parent_name_shorter)

declare getEffectiveLevel.simps [simp del]

definition isEnabledFor :: "logconf \<Rightarrow> string \<Rightarrow> level \<Rightarrow> bool" where
  "isEnabledFor cfg n l \<longleftrightarrow> getEffectiveLevel cfg n \<le> l"

text \<open>The records that reach the handler, in the order in which they were logged.\<close>

definition emitted :: "logconf \<Rightarrow> log_record list \<Rightarrow> log_record list" where
  "emitted cfg rs = filter (\<lambda>r. isEnabledFor cfg (logger_name r) (levelno r)) rs"

text \<open>The ancestors of a name, nearest first.\<close>

function ancestors :: "string \<Rightarrow> string list" where
  "ancestors n = (case parent_name n of None \<Rightarrow> [] | Some p \<Rightarrow> p # ancestors p)"
  by pat_completeness auto
termination
  by (relation "measure length") (simp_all add: parent_name_shorter)

declare ancestors.simps [simp del]

section \<open>Lemmas\<close>

lemmas level_order = less_eq_level_def less_level_def

lemmas logging_defs [py_defs] =
  log_call_def getMessage_def default_conf_def basicConfig_def setLevel_def emitted_def
  isEnabledFor_def level_order

lemma level_le_simps [simp]:
  "DEBUG \<le> l" "l \<le> CRITICAL"
  "INFO \<le> l \<longleftrightarrow> l \<noteq> DEBUG"
  "WARNING \<le> l \<longleftrightarrow> l \<noteq> DEBUG \<and> l \<noteq> INFO"
  by (cases l; simp add: level_order)+

lemma parent_name_dotted [simp]:
  assumes "CHR ''.'' \<notin> set c"
  shows "parent_name (p @ ''.'' @ c) = Some p"
proof -
  from assms have "dropWhile (\<lambda>x. x \<noteq> CHR ''.'') (rev c @ CHR ''.'' # rev p) = CHR ''.'' # rev p"
    by (subst dropWhile_append2) auto
  then show ?thesis by (simp add: parent_name_def)
qed

lemma parent_name_plain [simp]: "CHR ''.'' \<notin> set n \<Longrightarrow> parent_name n = None"
  by (simp add: parent_name_def)

text \<open>The level of a logger is its own when set, and that of its parent otherwise.\<close>

lemma getEffectiveLevel_set [simp]:
  "levels cfg n = Some l \<Longrightarrow> getEffectiveLevel cfg n = l"
  by (subst getEffectiveLevel.simps) simp

lemma getEffectiveLevel_parent:
  "levels cfg n = None \<Longrightarrow> parent_name n = Some p \<Longrightarrow>
   getEffectiveLevel cfg n = getEffectiveLevel cfg p"
  by (subst getEffectiveLevel.simps) simp

lemma getEffectiveLevel_root:
  "levels cfg n = None \<Longrightarrow> parent_name n = None \<Longrightarrow> getEffectiveLevel cfg n = root_level cfg"
  by (subst getEffectiveLevel.simps) simp

text \<open>
  The loop as a search: the level is that of the first name among the logger and its
  ancestors that has one, and the level of the root when none has.
\<close>

lemma getEffectiveLevel_find:
  "getEffectiveLevel cfg n =
     (case find (\<lambda>a. levels cfg a \<noteq> None) (n # ancestors n) of
        None \<Rightarrow> root_level cfg
      | Some a \<Rightarrow> the (levels cfg a))"
proof (induction cfg n rule: getEffectiveLevel.induct)
  case (1 cfg n)
  show ?case
  proof (cases "levels cfg n")
    case (Some l)
    then show ?thesis by simp
  next
    case None
    show ?thesis
    proof (cases "parent_name n")
      case no_parent: None
      with None show ?thesis
        by (simp add: getEffectiveLevel_root ancestors.simps [of n])
    next
      case (Some p)
      with None "1.IH" [OF None Some] show ?thesis
        by (simp add: getEffectiveLevel_parent ancestors.simps [of n])
    qed
  qed
qed

lemma getEffectiveLevel_no_levels [simp]:
  "levels cfg = Map.empty \<Longrightarrow> getEffectiveLevel cfg n = root_level cfg"
proof (induction cfg n rule: getEffectiveLevel.induct)
  case (1 cfg n)
  then show ?case
    by (cases "parent_name n") (simp_all add: getEffectiveLevel_root getEffectiveLevel_parent)
qed

lemma emitted_append [simp]: "emitted cfg (rs @ ss) = emitted cfg rs @ emitted cfg ss"
  by (simp add: emitted_def)

lemma emitted_Nil [simp]: "emitted cfg [] = []"
  by (simp add: emitted_def)

lemma emitted_Cons:
  "emitted cfg (r # rs) =
     (if getEffectiveLevel cfg (logger_name r) \<le> levelno r then r # emitted cfg rs
      else emitted cfg rs)"
  by (simp add: emitted_def isEnabledFor_def)

lemma emitted_subseq: "subseq (emitted cfg rs) rs"
  by (simp add: emitted_def)

lemma emitted_default:
  "emitted default_conf rs = filter (\<lambda>r. WARNING \<le> levelno r) rs"
  by (simp add: emitted_def isEnabledFor_def default_conf_def)

text \<open>A message with one directive \<^verbatim>\<open>%s\<close> per argument and no other percent sign.\<close>

lemma percent_format_plain [simp]:
  "CHR ''%'' \<notin> set s \<Longrightarrow> percent_format s [] = Inr s"
  by (induction s) auto

lemma percent_format_directive [simp]:
  "CHR ''%'' \<notin> set s \<Longrightarrow>
   percent_format (s @ ''%s'' @ t) (a # as) = rbind (percent_format t as) (\<lambda>r. Inr (s @ a @ r))"
proof (induction s)
  case Nil
  show ?case by simp
next
  case (Cons c s)
  then show ?case by (cases "percent_format t as") auto
qed

lemma getMessage_log_call [simp]:
  "getMessage (log_call n l m []) = Inr m"
  "getMessage (log_call n l m (a # as)) = percent_format m (a # as)"
  by (simp_all add: getMessage_def log_call_def)

lemma log_call_sel [simp]:
  "logger_name (log_call n l m as) = n"
  "levelno (log_call n l m as) = l"
  "log_msg (log_call n l m as) = m"
  "log_args (log_call n l m as) = as"
  by (simp_all add: log_call_def)

end
