(* ===== verification/ClientLog.thy ===== *)
theory ClientLog
  imports Logging Client
begin

text \<open>
  What \<^verbatim>\<open>client.py\<close> writes to the log. The module has one logger, named after the
  module (line 29), and six calls: two in \<^verbatim>\<open>get_token\<close> (lines 79 and 82), one in
  \<^verbatim>\<open>retrieve_token\<close> (line 118), two in the plugin (lines 161 and 185) and one in
  \<^verbatim>\<open>run_import\<close> (lines 348-350). For each method the records it has written when it
  returns or raises are a function of the arguments of the method. The arguments of
  three records are printed by libraries: \<^verbatim>\<open>pprint.pformat\<close> of the decoded token
  response and of the names in the archive, and \<^verbatim>\<open>str()\<close> of the SOAP envelope; they
  are the fields of the record \<open>logenv\<close>. The theorems show that the token response,
  which holds the bearer token, is written to the log whenever a token is stored,
  what the log of \<^verbatim>\<open>get_token\<close> says about the cache, and which records of the methods
  reach the handler under a configuration.
\<close>

section \<open>The records\<close>

definition client_logger :: string where
  "client_logger = ''pyrelatics_webservices.client''"

record logenv =
  pformat_json :: "json \<Rightarrow> string"
  pformat_names :: "string list \<Rightarrow> string"
  envelope_str :: "xml \<Rightarrow> string"

text \<open>
  \<^verbatim>\<open>retrieve_token\<close>: the record is written when the answer of the endpoint has been
  decoded, before the answer is examined.
\<close>

definition retrieve_token_log ::
  "logenv \<Rightarrow> netenv \<Rightarrow> string \<Rightarrow> string \<Rightarrow> ClientCredential \<Rightarrow> log_record list" where
  "retrieve_token_log lenv nenv host ua self =
     (case rbind (https_exchange nenv (token_request self host ua)) (json_loads nenv) of
        Inl e \<Rightarrow> []
      | Inr response \<Rightarrow>
          [log_call client_logger DEBUG ''Response from %s: %s''
             [TOKEN_PATH, pformat_json lenv response]])"

definition get_token_log ::
  "logenv \<Rightarrow> netenv \<Rightarrow> datetime \<Rightarrow> string \<Rightarrow> bool \<Rightarrow> string \<Rightarrow> ClientCredential \<Rightarrow>
   log_record list" where
  "get_token_log lenv nenv now host force_refresh ua self =
     (if needs_refresh self host force_refresh now
      then log_call client_logger INFO ''No previous token for %s, retrieving new token''
             [host] #
           retrieve_token_log lenv nenv host ua self
      else [log_call client_logger INFO ''Reuse previous token for %s'' [host]])"

text \<open>
  The plugin: the first record is written by the handler of \<^verbatim>\<open>TypeError\<close>, the second
  at the end of the hook, with the envelope as the hook leaves it.
\<close>

definition marshalled_log :: "logenv \<Rightarrow> AddParametersPlugin \<Rightarrow> xml \<Rightarrow> log_record list" where
  "marshalled_log lenv self envelope =
     (case parameters self of
        None \<Rightarrow> []
      | Some ps \<Rightarrow>
          (case parameters_node envelope of
             Inl e \<Rightarrow>
               if is_type_error e
               then [log_call client_logger INFO ''Adding parameters to SOAP request'' []]
               else []
           | Inr params \<Rightarrow> [])) @
     (case marshalled self envelope of
        Inl e \<Rightarrow> []
      | Inr envelope' \<Rightarrow>
          [log_call client_logger DEBUG (''Final SOAP envelope: '' @ [CHR 0x0A] @ ''%s'')
             [envelope_str lenv envelope']])"

text \<open>
  \<^verbatim>\<open>run_import\<close>: the block that writes the archive, which ends with the record of the
  names in it.
\<close>

definition zip_written ::
  "clientenv \<Rightarrow> import_data \<Rightarrow> string \<Rightarrow> string \<Rightarrow> string list \<Rightarrow>
   (world, (string \<times> byte list) list) io" where
  "zip_written env d file_basename file_extension documents =
     (let import_zip_path = zip_path env file_basename in
      ibind (\<lambda>w. (Inr (), w\<lparr>files := (files w)(import_zip_path \<mapsto> zip_of env [])\<rparr>)) (\<lambda>_.
      ibind (ifold (\<lambda>document_path. zip_add env import_zip_path (document_member document_path))
               documents []) (\<lambda>entries.
        zip_add_data env import_zip_path d file_basename file_extension entries)))"

definition zip_log ::
  "logenv \<Rightarrow> clientenv \<Rightarrow> import_data \<Rightarrow> string \<Rightarrow> string \<Rightarrow> string list \<Rightarrow> world \<Rightarrow>
   log_record list" where
  "zip_log lenv env d file_basename file_extension documents w =
     (case fst (zip_written env d file_basename file_extension documents w) of
        Inl e \<Rightarrow> []
      | Inr entries \<Rightarrow>
          [log_call client_logger DEBUG (''Zip-file created %s: '' @ [CHR 0x0A] @ ''%s'')
             [zip_path env file_basename, pformat_names lenv (map fst entries)]])"

text \<open>The call of \<^verbatim>\<open>get_token\<close> that both methods make for an OAuth credential.\<close>

definition oauth_log ::
  "logenv \<Rightarrow> clientenv \<Rightarrow> datetime \<Rightarrow> RelaticsWebservices \<Rightarrow> authentication \<Rightarrow> log_record list" where
  "oauth_log lenv env now self a =
     (case a of
        OAuth c \<Rightarrow> get_token_log lenv (net env) now (hostname self) False USER_AGENT c
      | _ \<Rightarrow> [])"

definition get_result_log ::
  "logenv \<Rightarrow> clientenv \<Rightarrow> datetime \<Rightarrow> authentication \<Rightarrow> RelaticsWebservices \<Rightarrow> log_record list" where
  "get_result_log lenv env now a self =
     (case wsdl_client env (wsdl_url self) of
        Inl e \<Rightarrow> []
      | Inr u \<Rightarrow> oauth_log lenv env now self a)"

definition run_import_log ::
  "logenv \<Rightarrow> clientenv \<Rightarrow> datetime \<Rightarrow> string \<Rightarrow> import_data \<Rightarrow> authentication \<Rightarrow>
   string option \<Rightarrow> string list option \<Rightarrow> bool \<Rightarrow> RelaticsWebservices \<Rightarrow> world \<Rightarrow>
   log_record list" where
  "run_import_log lenv env now operation_name d a file_name documents keep_zip_file self w =
     (if operation_name = [] \<or> data_is_empty d then []
      else case wsdl_client env (wsdl_url self) of
        Inl e \<Rightarrow> []
      | Inr u \<Rightarrow>
          (case data_extension d of
             Inl e \<Rightarrow> []
           | Inr file_extension \<Rightarrow>
               (let file_basename = file_basename_of file_name;
                    w1 = w\<lparr>events := events w @ [WsdlFetched (wsdl_url self)]\<rparr>
                in case documents of
                     Some docs \<Rightarrow>
                       zip_log lenv env d file_basename file_extension docs w1 @
                       (if returns (fst (zip_payload env d file_basename file_extension docs
                                           keep_zip_file w1))
                        then oauth_log lenv env now self a else [])
                   | None \<Rightarrow>
                       if returns (fst (plain_payload env d w1))
                       then oauth_log lenv env now self a else [])))"

section \<open>Samples\<close>

definition sample_logenv :: logenv where
  "sample_logenv =
     \<lparr>pformat_json = (\<lambda>j. case j of JObj al \<Rightarrow> concat (map (\<lambda>(k, v). k @ '';'') al) | _ \<Rightarrow> ''?''),
      pformat_names = (\<lambda>ns. concat (map (\<lambda>n. n @ '';'') ns)),
      envelope_str = (\<lambda>x. ''<Envelope/>'')\<rparr>"

section \<open>Lemmas\<close>

lemmas client_log_defs [py_defs] =
  client_logger_def retrieve_token_log_def get_token_log_def marshalled_log_def zip_log_def
  oauth_log_def get_result_log_def run_import_log_def sample_logenv_def

lemma zip_payload_written:
  "zip_payload env d fb fe docs keep =
     ibind (zip_written env d fb fe docs) (\<lambda>_.
     ibind (read_file (zip_path env fb)) (\<lambda>bs.
     ibind (\<lambda>w. (Inr (), w\<lparr>files := (files w)(zip_path env fb := None)\<rparr>)) (\<lambda>_.
       ireturn (b64encode bs))))"
  by (simp add: zip_payload_def zip_written_def Let_def ibind_assoc)

lemma getMessage_two [simp]:
  "CHR ''%'' \<notin> set s \<Longrightarrow> CHR ''%'' \<notin> set t \<Longrightarrow> CHR ''%'' \<notin> set u \<Longrightarrow>
   percent_format (s @ ''%s'' @ t @ ''%s'' @ u) [a, b] = Inr (s @ a @ t @ b @ u)"
  using percent_format_directive [of s "t @ ''%s'' @ u" a "[b]"]
    percent_format_directive [of t u b "[]"]
  by simp

lemma retrieve_token_log_decoded:
  "https_exchange nenv (token_request self h ua) = Inr bs \<Longrightarrow> json_loads nenv bs = Inr response \<Longrightarrow>
   retrieve_token_log lenv nenv h ua self =
     [log_call client_logger DEBUG ''Response from %s: %s'' [TOKEN_PATH, pformat_json lenv response]]"
  by (simp add: retrieve_token_log_def)

lemma retrieve_token_log_levels:
  "r \<in> set (retrieve_token_log lenv nenv h ua self) \<Longrightarrow>
   logger_name r = client_logger \<and> levelno r = DEBUG"
  by (auto simp: retrieve_token_log_def split: sum.splits)

lemma emitted_debug_iff:
  "emitted cfg [log_call n DEBUG m as] = [] \<longleftrightarrow> getEffectiveLevel cfg n \<noteq> DEBUG"
  by (cases "getEffectiveLevel cfg n") (simp_all add: emitted_Cons level_order)

section \<open>The token in the log\<close>

text \<open>
  C16 (safety): the bearer token is written to the log. Whenever \<^verbatim>\<open>retrieve_token\<close>
  stores a token, it has logged one record, at level \<^verbatim>\<open>DEBUG\<close>, whose second argument
  is the printed answer of the token endpoint, and the \<^verbatim>\<open>access_token\<close> of that answer
  is the token stored for the host. The record reaches the handler exactly when the
  effective level of the logger of the module is \<^verbatim>\<open>DEBUG\<close>.
\<close>

theorem token_response_logged:
  assumes "retrieve_token nenv t h ua self = Inr self'"
  shows "\<exists>response tok.
           retrieve_token_log lenv nenv h ua self =
             [log_call client_logger DEBUG ''Response from %s: %s''
                [TOKEN_PATH, pformat_json lenv response]] \<and>
           json_getitem response ''access_token'' = Inr tok \<and>
           map_option token (tokens self' h) = Some tok \<and>
           (emitted cfg (retrieve_token_log lenv nenv h ua self) = [] \<longleftrightarrow>
              getEffectiveLevel cfg client_logger \<noteq> DEBUG)"
proof -
  from retrieve_token_InrD [OF assms] obtain bs al where
    bs: "https_exchange nenv (token_request self h ua) = Inr bs"
    and al: "json_loads nenv bs = Inr (JObj al)"
    and st: "store_token nenv t h (JObj al) self = Inr self'"
    by blast
  from st obtain tok where "map_of al ''access_token'' = Some tok"
    and "map_option token (tokens self' h) = Some tok"
    by (auto simp: result_iff)
  with retrieve_token_log_decoded [OF bs al] show ?thesis
    by (auto simp: emitted_debug_iff)
qed

theorem token_response_logged_witness:
  "retrieve_token_log sample_logenv sample_net ''ok.example'' USER_AGENT sample_credential =
     [log_call client_logger DEBUG ''Response from %s: %s''
        [TOKEN_PATH, ''access_token;token_type;expires_in;'']] \<and>
   emitted (setLevel client_logger DEBUG default_conf)
     (retrieve_token_log sample_logenv sample_net ''ok.example'' USER_AGENT sample_credential) \<noteq> []"
proof -
  have "getEffectiveLevel (setLevel client_logger DEBUG default_conf) client_logger = DEBUG"
    by (simp add: setLevel_def)
  with token_response_logged [OF sample_retrieve, of sample_logenv
      "setLevel client_logger DEBUG default_conf"]
  have "emitted (setLevel client_logger DEBUG default_conf)
      (retrieve_token_log sample_logenv sample_net ''ok.example'' USER_AGENT sample_credential) \<noteq> []"
    by blast
  then show ?thesis
    by (simp add: retrieve_token_log_decoded [OF sample_exchange(1,2)] sample_logenv_def
        sample_token_response_def)
qed

section \<open>The log of get\_token\<close>

text \<open>
  What \<^verbatim>\<open>get_token\<close> reports about the cache. With the root logger at
  \<^verbatim>\<open>INFO\<close>, as \<^verbatim>\<open>logging.basicConfig(level=logging.INFO)\<close> sets it, a call of \<^verbatim>\<open>get_token\<close>
  emits one line. It says that the token is reused exactly when no request is
  sent; in every other case it says that there was no previous token, also when
  the cache holds a token for the host and the refresh was forced or the token is
  about to expire.
\<close>

theorem get_token_log_line:
  "map getMessage
     (emitted (basicConfig INFO default_conf)
        (get_token_log lenv nenv now h force ua self)) =
     [Inr (if needs_refresh self h force now
           then ''No previous token for '' @ h @ '', retrieving new token''
           else ''Reuse previous token for '' @ h)]"
proof -
  have "emitted (basicConfig INFO default_conf) (retrieve_token_log lenv nenv h ua self) = []"
    by (auto simp: emitted_def filter_empty_conv isEnabledFor_def basicConfig_def default_conf_def
        level_order dest!: retrieve_token_log_levels)
  moreover have "percent_format ''No previous token for %s, retrieving new token'' [h] =
      Inr (''No previous token for '' @ h @ '', retrieving new token'')"
    using percent_format_directive [of "''No previous token for ''" "'', retrieving new token''" h "[]"]
    by simp
  moreover have "percent_format ''Reuse previous token for %s'' [h] =
      Inr (''Reuse previous token for '' @ h)"
    using percent_format_directive [of "''Reuse previous token for ''" "[]" h "[]"] by simp
  ultimately show ?thesis
    by (simp add: get_token_log_def emitted_Cons basicConfig_def default_conf_def level_order)
qed

text \<open>A refresh of a cached token is reported as a missing token.\<close>

lemma sample_refresh_line:
  "map getMessage
     (emitted (basicConfig INFO default_conf)
        (get_token_log sample_logenv sample_net 3600000000 ''ok.example'' False USER_AGENT
           sample_cached)) =
     [Inr ''No previous token for ok.example, retrieving new token'']"
  by (simp add: get_token_log_line needs_refresh_def sample_cached_def sample_entry_def
      datetime_sub_def td_seconds_def)

section \<open>The log of the methods\<close>

text \<open>
  Without an OAuth credential and without documents the methods of the client log
  nothing, whatever the service answers: the answer is not examined.
\<close>

lemma entrycode_calls_log_nothing:
  assumes "\<forall>c. a \<noteq> OAuth c"
  shows "get_result_log lenv env now a self = []"
    and "run_import_log lenv env now op d a fn None keep self w = []"
  using assms
  by (cases a; auto simp: get_result_log_def run_import_log_def oauth_log_def Let_def
      split: sum.splits)+

text \<open>
  When all documents and the data file can be read, the archive is written and the
  record lists the names of its members: the documents under \<^verbatim>\<open>Documents/\<close>, then
  the data file.
\<close>

lemma zip_written_success:
  assumes "\<forall>p \<in> set docs. p \<noteq> zip_path env base \<and> files w p \<noteq> None"
    and "\<forall>p. d = DataFile p \<longrightarrow> p \<noteq> zip_path env base \<and> files w p \<noteq> None"
  shows "zip_written env d base ext docs w =
           (Inr (archive_members env (files w) d base ext docs),
            written env (zip_path env base) (archive_members env (files w) d base ext docs) w)"
proof -
  let ?path = "zip_path env base"
  have start: "w\<lparr>files := (files w)(?path \<mapsto> zip_of env [])\<rparr> = written env ?path [] w"
    by (simp add: written_def)
  show ?thesis
    using ifold_documents [OF assms(1), of env "[]"]
      zip_add_data_apply [OF assms(2), of env base ext "document_entries (files w) docs"]
    by (simp add: zip_written_def Let_def start archive_members_append [of env _ d base ext docs])
qed

lemma zip_log_success:
  assumes "\<forall>p \<in> set docs. p \<noteq> zip_path env base \<and> files w p \<noteq> None"
    and "\<forall>p. d = DataFile p \<longrightarrow> p \<noteq> zip_path env base \<and> files w p \<noteq> None"
  shows "zip_log lenv env d base ext docs w =
           [log_call client_logger DEBUG (''Zip-file created %s: '' @ [CHR 0x0A] @ ''%s'')
              [zip_path env base,
               pformat_names lenv (map fst (archive_members env (files w) d base ext docs))]]"
  by (simp add: zip_log_def zip_written_success [OF assms])

text \<open>A document that cannot be read ends the block before the record is written.\<close>

lemma zip_log_missing:
  assumes "\<forall>p \<in> set ok. p \<noteq> zip_path env base \<and> files w p \<noteq> None"
    and "files w bad = None" and "bad \<noteq> zip_path env base"
  shows "zip_log lenv env d base ext (ok @ bad # rest) w = []"
proof -
  have "w\<lparr>files := (files w)(zip_path env base \<mapsto> zip_of env [])\<rparr> =
      written env (zip_path env base) [] w"
    by (simp add: written_def)
  with ifold_documents_missing [OF assms, of env rest "[]"] show ?thesis
    by (simp add: zip_log_def zip_written_def Let_def)
qed

section \<open>The log of the plugin\<close>

text \<open>
  The envelope is logged at the end of every call of the hook that returns, with or
  without parameters; with it go the arguments of the operation, the entry code
  among them.
\<close>

lemma marshalled_log_no_parameters:
  "parameters self = None \<Longrightarrow>
   marshalled_log lenv self envelope =
     [log_call client_logger DEBUG (''Final SOAP envelope: '' @ [CHR 0x0A] @ ''%s'')
        [envelope_str lenv envelope]]"
  by (simp add: marshalled_log_def marshalled_def)

lemma marshalled_log_missing:
  assumes "parameters self = Some ps"
    and "getChild ''Body'' envelope = Some body" and "child_at 0 body = Some root"
    and "getChild ''Parameters'' root = None"
    and "marshalled self envelope = Inr envelope'"
  shows "marshalled_log lenv self envelope =
           [log_call client_logger INFO ''Adding parameters to SOAP request'' [],
            log_call client_logger DEBUG (''Final SOAP envelope: '' @ [CHR 0x0A] @ ''%s'')
              [envelope_str lenv envelope']]"
  using assms(1,5) parameters_node_missing [OF assms(2-4)]
  by (simp add: marshalled_log_def is_type_error_def)

lemma marshalled_log_last:
  assumes "marshalled self envelope = Inr envelope'"
  shows "\<exists>pre. marshalled_log lenv self envelope =
           pre @ [log_call client_logger DEBUG (''Final SOAP envelope: '' @ [CHR 0x0A] @ ''%s'')
                    [envelope_str lenv envelope']]"
  using assms by (simp add: marshalled_log_def)

end
