(* ===== verification/ResultLog.thy ===== *)
theory ResultLog
  imports Logging ImportSpec ExportResult
begin

text \<open>
  What \<^verbatim>\<open>result_classes.py\<close> writes to the log. The module has one logger, named after
  the module (line 17), and four calls: two in \<^verbatim>\<open>handle_suds_response_errors\<close> (lines 33
  and 42) and one at the end of each \<^verbatim>\<open>from_suds\<close> (lines 102 and 237). \<open>handle_log\<close>,
  \<open>export_log\<close> and \<open>import_log\<close> are the records written by a call of the method,
  whether it returns or raises: a call of the logger that comes after the statement
  that raises is not reached. The theorems give the log for every shape of response
  and relate it to the result.
\<close>

section \<open>The records\<close>

definition result_logger :: string where
  "result_logger = ''pyrelatics2.result_classes''"

text \<open>
  \<^verbatim>\<open>handle_suds_response_errors\<close>: the warning for \<^verbatim>\<open>None\<close>, and the record with the error
  message, which is reached when the message has been assigned, that is, when the
  \<^verbatim>\<open>Export\<close> node has an \<^verbatim>\<open>_Error\<close>.
\<close>

definition handle_log :: "pyenv \<Rightarrow> suds \<Rightarrow> log_record list" where
  "handle_log env suds_response =
     (if suds_response = PyNone
      then [log_call result_logger WARNING
              ''Empty response received from the export request. This indicates an undefined error.''
              []]
      else []) @
     (if hasattr suds_response ''Export'' then
        (case getattr suds_response ''Export'' of
           Inl e \<Rightarrow> []
         | Inr export \<Rightarrow>
             if hasattr export ''_Error'' then
               (case getattr export ''_Error'' of
                  Inl e \<Rightarrow> []
                | Inr err \<Rightarrow>
                    [log_call result_logger INFO
                       ''Received an error response from the import request: %s''
                       [py_str env err]])
             else [])
      else [])"

text \<open>
  \<^verbatim>\<open>ExportResult.from_suds\<close>: the last test is made on the response after the documents
  were deleted from it, which is the tree the result keeps. It is reached exactly when
  the method returns.
\<close>

definition export_log :: "pyenv \<Rightarrow> suds \<Rightarrow> log_record list" where
  "export_log env suds_response =
     handle_log env suds_response @
     (case ExportResult_from_suds env suds_response of
        Inl e \<Rightarrow> []
      | Inr result \<Rightarrow>
          (case data result of
             None \<Rightarrow> []
           | Some response' \<Rightarrow>
               if \<not> hasattr response' ''Export'' \<and> \<not> hasattr response' ''Report''
               then [log_call result_logger WARNING
                       ''Unrecognized response received from the export request.'' []]
               else []))"

definition import_log :: "pyenv \<Rightarrow> suds \<Rightarrow> log_record list" where
  "import_log env suds_response =
     handle_log env suds_response @
     (case ImportResult_from_suds env suds_response of
        Inl e \<Rightarrow> []
      | Inr result \<Rightarrow>
          if \<not> hasattr suds_response ''Export'' \<and> \<not> hasattr suds_response ''Import''
          then [log_call result_logger WARNING
                  ''Unrecognized response received from the import request.'' []]
          else [])"

text \<open>The lines of the log for a configuration: level and message of what is emitted.\<close>

definition log_lines :: "logconf \<Rightarrow> log_record list \<Rightarrow> (level \<times> string result) list" where
  "log_lines cfg rs = map (\<lambda>r. (levelno r, getMessage r)) (emitted cfg rs)"

section \<open>Samples\<close>

definition logged_error_response :: suds where
  "logged_error_response = Object [(''Export'', Object [(''_Error'', Text ''Unknown operation.'')])]"

definition logged_mixed_response :: suds where
  "logged_mixed_response =
     Object [(''Export'', Object [(''_Error'', Text ''Partial.'')]), (''Import'', Object [])]"

section \<open>Lemmas\<close>

lemmas result_log_defs [py_defs] =
  result_logger_def handle_log_def export_log_def import_log_def log_lines_def
  logged_error_response_def logged_mixed_response_def

lemma handle_log_None:
  "handle_log env PyNone =
     [log_call result_logger WARNING
        ''Empty response received from the export request. This indicates an undefined error.''
        []]"
  by (simp add: handle_log_def)

lemma handle_log_no_Export: "resp \<noteq> PyNone \<Longrightarrow> \<not> hasattr resp ''Export'' \<Longrightarrow> handle_log env resp = []"
  by (simp add: handle_log_def)

lemma handle_log_Export_Error:
  "getattr resp ''Export'' = Inr ex \<Longrightarrow> getattr ex ''_Error'' = Inr err \<Longrightarrow>
   handle_log env resp =
     [log_call result_logger INFO ''Received an error response from the import request: %s''
        [py_str env err]]"
  by (auto simp: handle_log_def hasattr_iff_getattr)

lemma handle_log_Export_no_Error:
  "getattr resp ''Export'' = Inr ex \<Longrightarrow> \<not> hasattr ex ''_Error'' \<Longrightarrow> handle_log env resp = []"
  by (auto simp: handle_log_def)

lemmas handle_log_simps =
  handle_log_None handle_log_no_Export handle_log_Export_Error handle_log_Export_no_Error

text \<open>The handler logs exactly when it assigns \<^verbatim>\<open>has_error\<close>.\<close>

lemma handle_log_Nil_iff:
  assumes "handle_suds_response_errors env resp self = Inr h"
  shows "handle_log env resp = [] \<longleftrightarrow> resp \<noteq> PyNone \<and> \<not> hasattr resp ''Export''"
  using assms
  by (cases resp rule: handle_cases)
    (auto simp: handle_log_simps handle_simps hasattr_iff_getattr)

lemma handle_log_levels:
  "r \<in> set (handle_log env resp) \<Longrightarrow>
   logger_name r = result_logger \<and> (levelno r = WARNING \<longleftrightarrow> resp = PyNone) \<and>
   (levelno r = INFO \<longleftrightarrow> resp \<noteq> PyNone)"
  by (cases resp rule: handle_cases) (auto simp: handle_log_simps)

lemma getMessage_received:
  "getMessage (log_call n l ''Received an error response from the import request: %s'' [s]) =
     Inr (''Received an error response from the import request: '' @ s)"
  using percent_format_directive [of "''Received an error response from the import request: ''" "[]" s "[]"]
  by simp

lemma from_suds_Import_has_error:
  assumes "ImportResult_from_suds env resp = Inr r" and "hasattr resp ''Import''"
  shows "has_error r = Assigned False"
proof -
  from assms(2) obtain imp where imp: "getattr resp ''Import'' = Inr imp"
    by (auto elim: hasattr_getattrE)
  from assms(1) imp obtain r0 r1 where "has_error r0 = Assigned False"
    and "parse_messages env imp r0 = Inr r1" and "parse_elements imp r1 = Inr r"
    by (rule from_suds_Import_parts)
  then show ?thesis by (simp add: parse_messages_frame parse_elements_frame)
qed

lemma from_suds_no_Import_has_error:
  assumes "ImportResult_from_suds env resp = Inr r" and "\<not> hasattr resp ''Import''"
  shows "has_error r = Assigned True"
proof (cases resp rule: handle_cases)
  case (Export_Error ex err)
  with assms show ?thesis by (auto simp: from_suds_Export_only)
next
  case (Export_no_Error ex)
  with assms show ?thesis by (simp add: from_suds_Export_no_Error)
qed (use assms in \<open>auto simp: from_suds_no_Import_no_Export\<close>)

section \<open>The log of an import\<close>

text \<open>
  The last warning does not depend on whether the method returns: a response with
  neither node has no messages to parse.
\<close>

lemma import_log_eq:
  "import_log env resp =
     handle_log env resp @
     (if \<not> hasattr resp ''Export'' \<and> \<not> hasattr resp ''Import''
      then [log_call result_logger WARNING
              ''Unrecognized response received from the import request.'' []]
      else [])"
  by (auto simp: import_log_def from_suds_no_Import_no_Export split: sum.splits)

text \<open>
  C31 (functional): the log of \<^verbatim>\<open>ImportResult.from_suds\<close> for every response, whether
  the method returns or raises. An \<^verbatim>\<open>Export\<close> node with an \<^verbatim>\<open>_Error\<close> gives one record
  of level \<^verbatim>\<open>INFO\<close> with the error, also when the response has an \<^verbatim>\<open>Import\<close> node beside
  it and the result is a success; an \<^verbatim>\<open>Export\<close> node without \<^verbatim>\<open>_Error\<close> gives no
  record, although the method raises. Without an \<^verbatim>\<open>Export\<close> node the log has a warning
  for \<^verbatim>\<open>None\<close>, which speaks of the export request, and a second warning when there is
  no \<^verbatim>\<open>Import\<close> node: for \<^verbatim>\<open>None\<close> the method logs both.
\<close>

theorem import_log_by_response:
  "import_log env resp =
     (case getattr resp ''Export'' of
        Inr ex \<Rightarrow>
          (case getattr ex ''_Error'' of
             Inr err \<Rightarrow>
               [log_call result_logger INFO
                  ''Received an error response from the import request: %s'' [py_str env err]]
           | Inl e \<Rightarrow> [])
      | Inl e \<Rightarrow>
          (if resp = PyNone
           then [log_call result_logger WARNING
                   ''Empty response received from the export request. This indicates an undefined error.''
                   []]
           else []) @
          (if hasattr resp ''Import'' then []
           else [log_call result_logger WARNING
                   ''Unrecognized response received from the import request.'' []]))"
proof (cases resp rule: handle_cases)
  case None
  then show ?thesis by (simp add: import_log_eq handle_log_None)
next
  case No_Export
  then show ?thesis
    by (auto simp: import_log_eq handle_log_no_Export hasattr_iff_getattr returns_iff
        split: sum.splits)
next
  case (Export_Error ex err)
  then show ?thesis
    by (simp add: import_log_eq handle_log_Export_Error hasattr_iff_getattr)
next
  case (Export_no_Error ex)
  then show ?thesis
    by (auto simp: import_log_eq handle_log_Export_no_Error hasattr_iff_getattr returns_iff
        split: sum.splits)
qed

text \<open>
  C30 (safety): the log and the result of an import. When \<^verbatim>\<open>ImportResult.from_suds\<close>
  returns, nothing was logged exactly when the result is a success and the response
  had no \<^verbatim>\<open>Export\<close> node, so every result with an error has a record. But with the
  configuration of the library, where only warnings are emitted, an error that the
  service reports in an \<^verbatim>\<open>Export\<close> node emits nothing: it is logged at level \<^verbatim>\<open>INFO\<close>.
\<close>

theorem import_error_logged:
  assumes "ImportResult_from_suds env resp = Inr r"
  shows "(import_log env resp = [] \<longleftrightarrow> \<not> hasattr resp ''Export'' \<and> has_error r = Assigned False) \<and>
         (emitted default_conf (import_log env resp) = [] \<longleftrightarrow>
            hasattr resp ''Export'' \<or> has_error r = Assigned False)"
proof (cases "hasattr resp ''Import''")
  case True
  with assms have "has_error r = Assigned False" by (rule from_suds_Import_has_error)
  with True assms show ?thesis
    by (cases resp rule: handle_cases)
      (auto simp: import_log_eq handle_log_simps emitted_default hasattr_iff_getattr
        from_suds_Export_no_Error)
next
  case False
  with assms have "has_error r = Assigned True" by (rule from_suds_no_Import_has_error)
  with False assms show ?thesis
    by (cases resp rule: handle_cases)
      (auto simp: import_log_eq handle_log_simps emitted_default hasattr_iff_getattr
        from_suds_Export_no_Error)
qed

theorem import_error_logged_witness:
  "ImportResult_from_suds sample_env logged_error_response =
     Inr (ImportResult_init\<lparr>has_error := Assigned True,
            error_msg := Assigned ''Unknown operation.''\<rparr>) \<and>
   log_lines (basicConfig INFO default_conf) (import_log sample_env logged_error_response) =
     [(INFO, Inr ''Received an error response from the import request: Unknown operation.'')] \<and>
   emitted default_conf (import_log sample_env logged_error_response) = []"
proof -
  have r: "ImportResult_from_suds sample_env logged_error_response =
      Inr (ImportResult_init\<lparr>has_error := Assigned True,
             error_msg := Assigned ''Unknown operation.''\<rparr>)"
    by (simp add: logged_error_response_def from_suds_Export_only [where ex = "Object [(''_Error'', Text ''Unknown operation.'')]"])
  have "hasattr logged_error_response ''Export''" by (simp add: logged_error_response_def)
  with import_error_logged [OF r] r show ?thesis
    by (simp add: log_lines_def import_log_eq logged_error_response_def
        handle_log_Export_Error [where ex = "Object [(''_Error'', Text ''Unknown operation.'')]"]
        emitted_Cons basicConfig_def default_conf_def getMessage_received)
qed

section \<open>The log of an export\<close>

lemma export_log_eq:
  "export_log env resp =
     handle_log env resp @
     (if \<not> hasattr resp ''Export'' \<and> \<not> hasattr resp ''Report''
      then [log_call result_logger WARNING
              ''Unrecognized response received from the export request.'' []]
      else [])"
proof (cases "ExportResult_from_suds env resp")
  case (Inl e)
  have "hasattr resp ''Export'' \<or> hasattr resp ''Report''"
  proof (rule ccontr)
    assume "\<not> ?thesis"
    then have "\<not> has_documents resp" "\<not> hasattr resp ''Export''"
      by (auto dest: has_documents_hasattr)
    with Inl show False
      by (cases "resp = PyNone") (simp_all add: from_suds_no_documents handle_no_Export)
  qed
  with Inl show ?thesis by (auto simp: export_log_def)
next
  case (Inr r)
  then show ?thesis
  proof (cases rule: from_suds_cases)
    case (Documents rep s resp' h bs z docs)
    from Documents(1) have "hasattr resp ''Report''" by (simp add: hasattr_iff_getattr)
    with Inr Documents(8) delattr_in_documents(1) [OF Documents(3)] show ?thesis
      by (simp add: export_log_def)
  next
    case (No_Documents h)
    with Inr show ?thesis by (simp add: export_log_def)
  qed
qed

text \<open>
  The log of \<^verbatim>\<open>ExportResult.from_suds\<close> for every response. The record for an error of
  the service speaks of the import request, the shared method being the same.
\<close>

lemma export_log_by_response:
  "export_log env resp =
     (case getattr resp ''Export'' of
        Inr ex \<Rightarrow>
          (case getattr ex ''_Error'' of
             Inr err \<Rightarrow>
               [log_call result_logger INFO
                  ''Received an error response from the import request: %s'' [py_str env err]]
           | Inl e \<Rightarrow> [])
      | Inl e \<Rightarrow>
          (if resp = PyNone
           then [log_call result_logger WARNING
                   ''Empty response received from the export request. This indicates an undefined error.''
                   []]
           else []) @
          (if hasattr resp ''Report'' then []
           else [log_call result_logger WARNING
                   ''Unrecognized response received from the export request.'' []]))"
proof (cases resp rule: handle_cases)
  case None
  then show ?thesis by (simp add: export_log_eq handle_log_None)
next
  case No_Export
  then show ?thesis
    by (auto simp: export_log_eq handle_log_no_Export hasattr_iff_getattr returns_iff
        split: sum.splits)
next
  case (Export_Error ex err)
  then show ?thesis
    by (simp add: export_log_eq handle_log_Export_Error hasattr_iff_getattr)
next
  case (Export_no_Error ex)
  then show ?thesis
    by (auto simp: export_log_eq handle_log_Export_no_Error hasattr_iff_getattr returns_iff
        split: sum.splits)
qed

section \<open>The messages\<close>

text \<open>Every record of the module has as many directives as arguments.\<close>

lemma handle_log_formats: "list_all (\<lambda>r. returns (getMessage r)) (handle_log env resp)"
  by (cases resp rule: handle_cases) (simp_all add: handle_log_simps getMessage_received)

lemma result_log_formats:
  "list_all (\<lambda>r. returns (getMessage r)) (import_log env resp)"
  "list_all (\<lambda>r. returns (getMessage r)) (export_log env resp)"
  by (simp_all add: import_log_eq export_log_eq handle_log_formats)

text \<open>
  A response with an error beside an \<^verbatim>\<open>Import\<close> node: the result is a success and the
  log has the error.
\<close>

lemma logged_mixed_response_eval:
  "ImportResult_bool (projr (ImportResult_from_suds sample_env logged_mixed_response))"
  "import_log sample_env logged_mixed_response =
     [log_call result_logger INFO ''Received an error response from the import request: %s''
        [''Partial.'']]"
  by (simp_all add: py_defs ImportResult_bool_iff)

end
