(* ===== verification/Example.thy ===== *)
theory Example
  imports Client Render ClientLog ResultLog
begin

text \<open>
  The script \<^verbatim>\<open>src/example.py\<close>: it configures logging, makes a credential and a client
  from four values of a configuration module, asks for the result of one operation
  with an entry code, and prints the truth value of what it got and then the value
  itself. The script is a computation on the world of the client together with the
  lines printed so far; its configuration of logging is a value of \<open>logconf\<close>. The
  calls that the script holds as comments are given beside it, each as the
  computation it would be with the comment signs removed.
\<close>

section \<open>Logging\<close>

definition LOG_FORMAT :: string where
  "LOG_FORMAT = ''%(asctime)s %(name)s %(levelname)s %(message)s''"

text \<open>
  \<^verbatim>\<open>logging.basicConfig(level=logging.INFO, ...)\<close> and the level of the logger
  \<^verbatim>\<open>pyrelatics2.client\<close>.
\<close>

definition example_logging :: logconf where
  "example_logging = setLevel ''pyrelatics2.client'' DEBUG (basicConfig INFO default_conf)"

section \<open>The script\<close>

record config =
  SAMPLE_CLIENT_ID :: string
  SAMPLE_CLIENT_SECRET :: string
  SAMPLE_COMPANY :: string
  SAMPLE_WORKSPACE_ID :: string

type_synonym console = "world \<times> string list"

definition on_world :: "(world, 'a) io \<Rightarrow> (console, 'a) io" where
  "on_world m = (\<lambda>(w, out). case m w of (r, w') \<Rightarrow> (r, (w', out)))"

definition print_line :: "string \<Rightarrow> (console, unit) io" where
  "print_line s = (\<lambda>(w, out). (Inr (), (w, out @ [s])))"

definition str_of_bool :: "bool \<Rightarrow> string" where
  "str_of_bool b = (if b then ''True'' else ''False'')"

definition example_main ::
  "clientenv \<Rightarrow> pyenv \<Rightarrow> datetime \<Rightarrow> datetime \<Rightarrow> config \<Rightarrow> (console, unit) io" where
  "example_main env penv now requested_on cfg =
     (let cc = ClientCredential_init (SAMPLE_CLIENT_ID cfg) (SAMPLE_CLIENT_SECRET cfg);
          relatics_webservice =
            RelaticsWebservices_init (SAMPLE_COMPANY cfg) (SAMPLE_WORKSPACE_ID cfg) USER_AGENT
      in ibind (on_world
                  (get_result env now requested_on ''getActiesEntrycode''
                     (Some [(''param1'', ''Hallo123_EntryCode'')])
                     (Entrycode ''B7CAA7A9F27BCA0B6586A607DEDE31F0'') relatics_webservice))
           (\<lambda>(aaa, auth).
         ibind (print_line (''Bool evaluation: '' @ str_of_bool (suds_truthy aaa))) (\<lambda>_.
           print_line (py_str penv aaa))))"

section \<open>The calls the script holds as comments\<close>

text \<open>
  After its call the script holds five more calls as comments (lines 35-111), each
  followed by the same two prints: \<^verbatim>\<open>get_result\<close> with the credential and without
  authentication, and three imports. They are the documentation of how the methods
  are meant to be called, so each is given here as the computation it would be with
  the comment signs removed. \<open>example_call\<close> is the pattern they share with the call
  of the script: the call, then the two prints.
\<close>

definition example_call :: "pyenv \<Rightarrow> (world, suds \<times> authentication) io \<Rightarrow> (console, authentication) io" where
  "example_call penv m =
     ibind (on_world m) (\<lambda>(x, auth).
     ibind (print_line (''Bool evaluation: '' @ str_of_bool (suds_truthy x))) (\<lambda>_.
     ibind (print_line (py_str penv x)) (\<lambda>_. ireturn auth)))"

definition RESULT_BANNER :: string where
  "RESULT_BANNER =
     [CHR 0x0A, CHR 0x0A] @ replicate 44 CHR ''#'' @ ''   RESULT   '' @ replicate 44 CHR ''#''"

definition example_service :: "config \<Rightarrow> RelaticsWebservices" where
  "example_service cfg = RelaticsWebservices_init (SAMPLE_COMPANY cfg) (SAMPLE_WORKSPACE_ID cfg) USER_AGENT"

definition example_bbb ::
  "clientenv \<Rightarrow> pyenv \<Rightarrow> datetime \<Rightarrow> datetime \<Rightarrow> config \<Rightarrow> ClientCredential \<Rightarrow>
   (console, authentication) io" where
  "example_bbb env penv now requested_on cfg cc =
     example_call penv
       (get_result env now requested_on ''getActiesOauth2''
          (Some [(''param1'', ''Hallo123_Oauth2'')]) (OAuth cc) (example_service cfg))"

definition example_ccc ::
  "clientenv \<Rightarrow> pyenv \<Rightarrow> datetime \<Rightarrow> datetime \<Rightarrow> config \<Rightarrow> (console, authentication) io" where
  "example_ccc env penv now requested_on cfg =
     example_call penv
       (get_result env now requested_on ''getActiesNoAuth''
          (Some [(''param1'', ''Hallo123_NoAuth'')]) NoAuth (example_service cfg))"

definition ddd_rows :: "(string \<times> string) list list" where
  "ddd_rows =
     [[(''name'', ''Actie EntryCode 01''), (''description'', ''Testing 12345'')],
      [(''name'', ''Actie EntryCode 02''), (''description'', ''Testing 23456'')]]"

definition example_ddd ::
  "clientenv \<Rightarrow> pyenv \<Rightarrow> datetime \<Rightarrow> datetime \<Rightarrow> config \<Rightarrow> (console, authentication) io" where
  "example_ddd env penv now requested_on cfg =
     example_call penv
       (run_import env now requested_on ''importeerActiesEntrycode'' (DataRows ddd_rows)
          (Entrycode ''85477AF6F7A1B6CE797570648CF07037'') (Some ''import_ddd.xml'') None False
          (example_service cfg))"

definition eee_rows :: "(string \<times> string) list list" where
  "eee_rows =
     [[(''name'', ''Actie OAuth2 01''), (''description'', ''Testing 12345''),
       (''Fkey'', ''example_eee_01'')],
      [(''name'', ''Actie OAuth2 02''), (''description'', ''Testing 23456''),
       (''Fkey'', ''example_eee_02'')]]"

definition example_eee ::
  "clientenv \<Rightarrow> pyenv \<Rightarrow> datetime \<Rightarrow> datetime \<Rightarrow> config \<Rightarrow> ClientCredential \<Rightarrow>
   (console, authentication) io" where
  "example_eee env penv now requested_on cfg cc =
     ibind (on_world
              (run_import env now requested_on ''importeerActiesOAuth2Client'' (DataRows eee_rows)
                 (OAuth cc) (Some ''import_eee.xml'') None False (example_service cfg)))
       (\<lambda>r. ibind (print_line RESULT_BANNER) (\<lambda>_. example_call penv (ireturn r)))"

text \<open>The paths of the last call are written with backslashes.\<close>

definition sample_data :: "string \<Rightarrow> string" where
  "sample_data f = ''sample-data'' @ [CHR 0x5C] @ f"

definition fff_documents :: "string list" where
  "fff_documents =
     [sample_data ''cms.zeEf4OrA-collection_cover.jpeg'',
      sample_data ''pexels-ksenia-chernaya-3965543.jpg'']"

definition example_fff ::
  "clientenv \<Rightarrow> pyenv \<Rightarrow> datetime \<Rightarrow> datetime \<Rightarrow> config \<Rightarrow> (console, authentication) io" where
  "example_fff env penv now requested_on cfg =
     ibind (on_world
              (run_import env now requested_on ''importeerActiesNoAuth''
                 (DataFile (sample_data ''sample_with_references.xlsx'')) NoAuth
                 (Some ''import_fff'') (Some fff_documents) False (example_service cfg)))
       (\<lambda>r. ibind (print_line RESULT_BANNER) (\<lambda>_. example_call penv (ireturn r)))"

text \<open>The request the script sends.\<close>

definition example_request :: "config \<Rightarrow> soap_request" where
  "example_request cfg =
     (let ws = RelaticsWebservices_init (SAMPLE_COMPANY cfg) (SAMPLE_WORKSPACE_ID cfg) USER_AGENT
      in \<lparr>sr_wsdl = wsdl_url ws, sr_operation = ''GetResult'',
          sr_headers = [(''User-Agent'', USER_AGENT)],
          sr_plugins = [AddParametersPlugin_init (Some [(''param1'', ''Hallo123_EntryCode'')])],
          sr_args = [(''Operation'', SStr ''getActiesEntrycode''),
                     (''Identification'',
                      SDict [(''Identification'',
                              SDict [(''Workspace'', SStr (SAMPLE_WORKSPACE_ID cfg))])]),
                     (''Parameters'', SNone),
                     (''Authentication'',
                      SDict [(''Authentication'',
                              SDict [(''Entrycode'',
                                      SStr ''B7CAA7A9F27BCA0B6586A607DEDE31F0'')])])]\<rparr>)"

definition example_wsdl :: "config \<Rightarrow> string" where
  "example_wsdl cfg =
     ''https://'' @ py_lower (SAMPLE_COMPANY cfg) @ ''.relaticsonline.com/DataExchange.asmx?wsdl''"

definition sample_config :: config where
  "sample_config =
     \<lparr>SAMPLE_CLIENT_ID = ''id'', SAMPLE_CLIENT_SECRET = ''secret'', SAMPLE_COMPANY = ''ACME'',
      SAMPLE_WORKSPACE_ID = ''ws-1''\<rparr>"

text \<open>A service that answers every request with an error.\<close>

definition sample_failing :: clientenv where
  "sample_failing =
     sample_clientenv\<lparr>soap_invoke :=
       (\<lambda>rq. Inr (Object [(''Export'', Object [(''_Error'', Text ''Unknown operation.'')])]))\<rparr>"

section \<open>Lemmas\<close>

lemmas example_defs [py_defs] =
  example_main_def on_world_def print_line_def str_of_bool_def example_request_def
  example_wsdl_def sample_config_def sample_failing_def

section \<open>What the configuration of logging lets through\<close>

text \<open>The line of the handler for a record.\<close>

lemma format_LOG_FORMAT:
  "format_record LOG_FORMAT asctime r =
     rbind (getMessage r) (\<lambda>message.
       Inr (asctime @ '' '' @ logger_name r @ '' '' @ levelname (levelno r) @ '' '' @ message))"
  by (cases "getMessage r") (simp_all add: format_record_def LOG_FORMAT_def)

text \<open>
  The script sets the level \<^verbatim>\<open>DEBUG\<close> for a logger named \<^verbatim>\<open>pyrelatics2.client\<close>. The
  loggers of the two modules are named after the modules, and neither is that logger
  or below it, so both have the level \<^verbatim>\<open>INFO\<close> of the root.
\<close>

lemma example_levels:
  "getEffectiveLevel example_logging ''pyrelatics2.client'' = DEBUG"
  "getEffectiveLevel example_logging client_logger = INFO"
  "getEffectiveLevel example_logging result_logger = INFO"
  by (simp_all add: example_logging_def setLevel_def basicConfig_def default_conf_def
      client_logger_def result_logger_def getEffectiveLevel.simps parent_name_def)

text \<open>
  So the records of level \<^verbatim>\<open>DEBUG\<close> that the client writes, the answer of the token
  endpoint among them, do not reach the handler of the script, and of a call of
  \<^verbatim>\<open>get_token\<close> the one line of level \<^verbatim>\<open>INFO\<close> does.
\<close>

lemma example_token_response_not_emitted:
  "emitted example_logging (retrieve_token_log lenv nenv h ua self) = []"
  by (auto simp: emitted_def filter_empty_conv isEnabledFor_def example_levels level_order
      dest!: retrieve_token_log_levels)

lemma example_get_token_emitted:
  "emitted example_logging (get_token_log lenv nenv now h force ua self) =
     [log_call client_logger INFO
        (if needs_refresh self h force now
         then ''No previous token for %s, retrieving new token''
         else ''Reuse previous token for %s'') [h]]"
  by (simp add: get_token_log_def emitted_Cons example_levels example_token_response_not_emitted
      level_order)

text \<open>The call of the script, with an entry code, writes nothing to the log itself.\<close>

lemma example_main_log:
  "get_result_log lenv env now (Entrycode ''B7CAA7A9F27BCA0B6586A607DEDE31F0'') ws = []"
  by (rule entrycode_calls_log_nothing) simp

lemma on_world_apply [simp]: "on_world m (w, out) = (fst (m w), (snd (m w), out))"
  by (simp add: on_world_def split: prod.splits)

lemma print_line_apply [simp]: "print_line s (w, out) = (Inr (), (w, out @ [s]))"
  by (simp add: print_line_def)

lemma get_result_entrycode:
  "get_result env now t op params (Entrycode code) ws w =
     (case wsdl_client env (wsdl_url ws) of
        Inl e \<Rightarrow> (Inl e, logged [WsdlFetched (wsdl_url ws)] w)
      | Inr u \<Rightarrow>
          (rbind (soap_invoke env
                    \<lparr>sr_wsdl = wsdl_url ws, sr_operation = ''GetResult'',
                     sr_headers = [(''User-Agent'', user_agent ws)],
                     sr_plugins = plugins_for params,
                     sr_args = [(''Operation'', SStr op),
                                (''Identification'', identification ws),
                                (''Parameters'', SNone),
                                (''Authentication'',
                                 SDict [(''Authentication'',
                                         SDict [(''Entrycode'', SStr code)])])]\<rparr>)
             (\<lambda>r. Inr (r, Entrycode code)),
           logged [WsdlFetched (wsdl_url ws), SoapCalled ''GetResult''] w))"
proof (cases "wsdl_client env (wsdl_url ws)")
  case (Inl e)
  then show ?thesis by (simp add: get_result_def logged_def)
next
  case (Inr u)
  let ?rq = "\<lparr>sr_wsdl = wsdl_url ws, sr_operation = ''GetResult'',
      sr_headers = [(''User-Agent'', user_agent ws)], sr_plugins = plugins_for params,
      sr_args = [(''Operation'', SStr op), (''Identification'', identification ws),
                 (''Parameters'', SNone),
                 (''Authentication'',
                  SDict [(''Authentication'', SDict [(''Entrycode'', SStr code)])])]\<rparr>"
  from Inr show ?thesis
    by (cases "soap_invoke env ?rq")
      (simp_all add: get_result_def oauth_headers_def auth_argument_def logged_def)
qed

lemma example_ws:
  "wsdl_url (RelaticsWebservices_init (SAMPLE_COMPANY cfg) (SAMPLE_WORKSPACE_ID cfg) ua) =
     example_wsdl cfg"
  "\<lparr>sr_wsdl = example_wsdl cfg, sr_operation = ''GetResult'',
    sr_headers =
      [(''User-Agent'',
        user_agent (RelaticsWebservices_init (SAMPLE_COMPANY cfg) (SAMPLE_WORKSPACE_ID cfg)
          USER_AGENT))],
    sr_plugins = plugins_for (Some [(''param1'', ''Hallo123_EntryCode'')]),
    sr_args =
      [(''Operation'', SStr ''getActiesEntrycode''),
       (''Identification'',
        identification (RelaticsWebservices_init (SAMPLE_COMPANY cfg) (SAMPLE_WORKSPACE_ID cfg)
          USER_AGENT)),
       (''Parameters'', SNone),
       (''Authentication'',
        SDict [(''Authentication'',
                SDict [(''Entrycode'', SStr ''B7CAA7A9F27BCA0B6586A607DEDE31F0'')])])]\<rparr> =
   example_request cfg"
  by (simp_all add: RelaticsWebservices_init_def example_wsdl_def example_request_def Let_def
      plugins_for_def)

section \<open>What the script prints\<close>

text \<open>
  When the service answers, the script has fetched the WSDL, called \<^verbatim>\<open>GetResult\<close> once
  with the entry code and the plugin for the parameter, and printed two lines: the
  truth value of the response and the response. When the WSDL cannot be fetched or
  the call fails, the exception ends the script and nothing is printed.
\<close>

lemma example_main_apply:
  "example_main env penv now t cfg (w, out) =
     (case wsdl_client env (example_wsdl cfg) of
        Inl e \<Rightarrow> (Inl e, (logged [WsdlFetched (example_wsdl cfg)] w, out))
      | Inr u \<Rightarrow>
          (case soap_invoke env (example_request cfg) of
             Inl e \<Rightarrow>
               (Inl e, (logged [WsdlFetched (example_wsdl cfg), SoapCalled ''GetResult''] w, out))
           | Inr aaa \<Rightarrow>
               (Inr (),
                (logged [WsdlFetched (example_wsdl cfg), SoapCalled ''GetResult''] w,
                 out @ [''Bool evaluation: '' @ str_of_bool (suds_truthy aaa),
                        py_str penv aaa]))))"
  by (cases "wsdl_client env (example_wsdl cfg)";
      cases "soap_invoke env (example_request cfg)")
    (simp_all add: example_main_def Let_def get_result_entrycode example_ws)

text \<open>
  The truth value the script prints is that of the response of the toolkit, not that
  of an \<^verbatim>\<open>ExportResult\<close>: for every response that is an object with an attribute but
  without documents, an error of the service included, the script prints \<^verbatim>\<open>True\<close>,
  while the result that \<^verbatim>\<open>ExportResult.from_suds\<close> makes of the same response is falsy.
\<close>

theorem example_prints_True_without_documents:
  assumes "wsdl_client env (example_wsdl cfg) = Inr ()"
    and "soap_invoke env (example_request cfg) = Inr resp"
    and "hasattr resp n" and "\<not> has_documents resp"
    and "ExportResult_from_suds penv resp = Inr r"
  shows "snd (snd (example_main env penv now t cfg (w, []))) =
           [''Bool evaluation: True'', py_str penv resp] \<and>
         \<not> ExportResult_bool r"
proof -
  from assms(5,4) have "has_error r \<noteq> Assigned False"
  proof (cases rule: from_suds_cases)
    case (Documents rep s resp' h bs z docs)
    with assms(4) show ?thesis by (simp add: has_documents_iff)
  next
    case (No_Documents h)
    from handle_init_Inr(3) [OF No_Documents(2)] No_Documents(3) show ?thesis
      by (auto split: if_splits)
  qed
  with assms(1,2) hasattr_truthy [OF assms(3)] show ?thesis
    by (simp add: example_main_apply str_of_bool_def ExportResult_bool_iff)
qed

theorem example_prints_True_without_documents_witness:
  "snd (snd (example_main sample_failing sample_env 0 0 sample_config (sample_world, []))) =
     [''Bool evaluation: True'', ''<suds object>'']"
proof -
  let ?resp = "Object [(''Export'', Object [(''_Error'', Text ''Unknown operation.'')])]"
  have "ExportResult_from_suds sample_env ?resp =
        Inr \<lparr>has_error = Assigned True, error_msg = Assigned ''Unknown operation.'',
             data = Some ?resp, documents = []\<rparr>"
    by (simp add: py_defs)
  from example_prints_True_without_documents [of sample_failing sample_config ?resp
      "''Export''" sample_env _ 0 0 sample_world, OF _ _ _ _ this]
  show ?thesis
    by (simp add: sample_failing_def sample_clientenv_def example_wsdl_def sample_config_def
        lower_eval has_documents_def sample_env_def)
qed

section \<open>What the documented calls send\<close>

lemmas documented_defs =
  example_call_def example_service_def example_bbb_def example_ccc_def example_ddd_def
  example_eee_def example_fff_def ddd_rows_def eee_rows_def sample_data_def fff_documents_def
  RESULT_BANNER_def

lemma example_call_apply:
  "example_call penv m (w, out) =
     (case m w of
        (Inl e, w') \<Rightarrow> (Inl e, (w', out))
      | (Inr (x, auth), w') \<Rightarrow>
          (Inr auth,
           (w', out @ [''Bool evaluation: '' @ str_of_bool (suds_truthy x), py_str penv x])))"
  by (cases "m w" rule: prod.exhaust [case_names Pair]; cases "fst (m w)")
    (auto simp: example_call_def split: prod.splits)

text \<open>
  The first import (lines 53-63): when the SOAP client can be constructed, the call
  sends the two rows as the document \<^verbatim>\<open>import_ddd.xml\<close> with the entry code.
\<close>

lemma example_ddd_request:
  assumes "wsdl_client env (wsdl_url (example_service cfg)) = Inr ()"
  shows "run_import env now t ''importeerActiesEntrycode'' (DataRows ddd_rows)
           (Entrycode ''85477AF6F7A1B6CE797570648CF07037'') (Some ''import_ddd.xml'') None False
           (example_service cfg) w =
         (rbind (soap_invoke env
                   \<lparr>sr_wsdl = wsdl_url (example_service cfg), sr_operation = ''Import'',
                    sr_headers = [(''User-Agent'', USER_AGENT)], sr_plugins = [],
                    sr_args = [(''Operation'', SStr ''importeerActiesEntrycode''),
                               (''Identification'', identification (example_service cfg)),
                               (''Authentication'',
                                SDict [(''Authentication'',
                                        SDict [(''Entrycode'',
                                                SStr ''85477AF6F7A1B6CE797570648CF07037'')])]),
                               (''Filename'', SStr ''import_ddd.xml''),
                               (''Data'', SStr (b64encode (utf8_encode
                                  (render_xml env (rows_document ddd_rows)))))]\<rparr>)
            (\<lambda>r. Inr (r, Entrycode ''85477AF6F7A1B6CE797570648CF07037'')),
          logged [WsdlFetched (wsdl_url (example_service cfg)), SoapCalled ''Import''] w)"
proof -
  have fn: "file_basename_of (Some ''import_ddd.xml'') = ''import_ddd''"
    by (simp add: py_defs)
  have ua: "user_agent (example_service cfg) = USER_AGENT"
    by (simp add: example_service_def RelaticsWebservices_init_def Let_def)
  let ?rq = "\<lparr>sr_wsdl = wsdl_url (example_service cfg), sr_operation = ''Import'',
      sr_headers = [(''User-Agent'', USER_AGENT)], sr_plugins = [],
      sr_args = [(''Operation'', SStr ''importeerActiesEntrycode''),
                 (''Identification'', identification (example_service cfg)),
                 (''Authentication'',
                  SDict [(''Authentication'',
                          SDict [(''Entrycode'', SStr ''85477AF6F7A1B6CE797570648CF07037'')])]),
                 (''Filename'', SStr ''import_ddd.xml''),
                 (''Data'', SStr (b64encode (utf8_encode
                    (render_xml env (rows_document ddd_rows)))))]\<rparr>"
  from assms show ?thesis
    by (cases "soap_invoke env ?rq")
      (simp_all add: run_import_def Let_def plain_payload_def oauth_headers_def auth_argument_def
        data_is_empty_def data_extension_def open_client_def invoke_def logged_def fn ua
        ddd_rows_def)
qed

text \<open>
  The last import (lines 79-111) names its files with backslashes. The functions of
  \<^verbatim>\<open>os.path\<close> for POSIX do not take a backslash for a separator, so on such a system
  the members of the archive keep the directory in their names; the extension of the
  data file is found, and the file name is sent as \<^verbatim>\<open>import_fff.zip\<close>.
\<close>

lemma example_fff_names:
  "data_extension (DataFile (sample_data ''sample_with_references.xlsx'')) = Inr ''xlsx''"
  "file_basename_of (Some ''import_fff'') = ''import_fff''"
  "map fst (archive_members env fs (DataFile (sample_data ''sample_with_references.xlsx''))
              ''import_fff'' ''xlsx'' fff_documents) =
     [''Documents/'' @ sample_data ''cms.zeEf4OrA-collection_cover.jpeg'',
      ''Documents/'' @ sample_data ''pexels-ksenia-chernaya-3965543.jpg'',
      sample_data ''sample_with_references.xlsx'']"
  by (simp_all add: py_defs archive_members_def document_entries_def sample_data_def
      fff_documents_def)

end
