(* ===== verification/ForLoop.thy ===== *)
theory ForLoop
  imports ImportResult ExportResult Plugin
begin

text \<open>
  The \<^verbatim>\<open>for\<close> statement over a list, as Python runs it: the iterator of a list keeps an
  index, each round compares the index with the length of the list, takes the item
  at the index, advances the index and runs the body; an exception in the body ends
  the loop. \<open>for_index\<close> is that loop from a given index, with the state of the body
  and the number of items taken. No argument of it gets smaller: the index grows
  towards the length, which is the measure of its termination proof. The other
  theories write a loop as \<open>rfold\<close> of its body over the items; the lemmas show that
  both agree, so that every loop of the sources ends after at most as many rounds as
  the list has items, and bound the rounds of each loop of the sources.
\<close>

section \<open>The loop by index\<close>

function for_index ::
  "('a \<Rightarrow> 's \<Rightarrow> 's result) \<Rightarrow> 'a list \<Rightarrow> nat \<Rightarrow> 's \<Rightarrow> 's result \<times> nat" where
  "for_index body xs i s =
     (if i < length xs then
        (case body (xs ! i) s of
           Inl e \<Rightarrow> (Inl e, Suc i)
         | Inr s' \<Rightarrow> for_index body xs (Suc i) s')
      else (Inr s, i))"
  by pat_completeness auto
termination
  by (relation "measure (\<lambda>(body, xs, i, s). length xs - i)") auto

declare for_index.simps [simp del]

text \<open>The rounds of a loop: the items taken from the list when the loop ends.\<close>

definition rounds :: "('a \<Rightarrow> 's \<Rightarrow> 's result) \<Rightarrow> 'a list \<Rightarrow> 's \<Rightarrow> nat" where
  "rounds body xs s = snd (for_index body xs 0 s)"

section \<open>Lemmas\<close>

lemma for_index_end [simp]: "length xs \<le> i \<Longrightarrow> for_index body xs i s = (Inr s, i)"
  by (subst for_index.simps) simp

lemma for_index_step:
  "i < length xs \<Longrightarrow>
   for_index body xs i s =
     (case body (xs ! i) s of Inl e \<Rightarrow> (Inl e, Suc i) | Inr s' \<Rightarrow> for_index body xs (Suc i) s')"
  by (subst for_index.simps) simp

text \<open>From index \<open>i\<close> the loop is the fold over the items from \<open>i\<close> on.\<close>

lemma for_index_drop: "fst (for_index body xs i s) = rfold body (drop i xs) s"
proof (induction body xs i s rule: for_index.induct)
  case (1 body xs i s)
  show ?case
  proof (cases "i < length xs")
    case True
    then have "drop i xs = xs ! i # drop (Suc i) xs" by (simp add: Cons_nth_drop_Suc)
    with True "1.IH" show ?thesis
      by (cases "body (xs ! i) s") (simp_all add: for_index_step)
  next
    case False
    then show ?thesis by simp
  qed
qed

lemma for_index_rfold: "fst (for_index body xs 0 s) = rfold body xs s"
  using for_index_drop [of body xs 0 s] by simp

text \<open>The index only grows, and never beyond the length of the list.\<close>

lemma for_index_bounds:
  "i \<le> length xs \<Longrightarrow> i \<le> snd (for_index body xs i s) \<and> snd (for_index body xs i s) \<le> length xs"
proof (induction body xs i s rule: for_index.induct)
  case (1 body xs i s)
  show ?case
  proof (cases "i < length xs")
    case True
    with "1.IH" show ?thesis
      by (cases "body (xs ! i) s") (auto simp: for_index_step)
  next
    case False
    with "1.prems" show ?thesis by simp
  qed
qed

text \<open>A loop that returns has taken every item; one that raises has taken at least one.\<close>

lemma for_index_returns:
  "i \<le> length xs \<Longrightarrow> returns (fst (for_index body xs i s)) \<Longrightarrow>
   snd (for_index body xs i s) = length xs"
proof (induction body xs i s rule: for_index.induct)
  case (1 body xs i s)
  show ?case
  proof (cases "i < length xs")
    case True
    with "1.IH" "1.prems" show ?thesis
      by (cases "body (xs ! i) s") (auto simp: for_index_step)
  next
    case False
    with "1.prems" show ?thesis by simp
  qed
qed

lemma for_index_raises:
  "fst (for_index body xs i s) = Inl e \<Longrightarrow> i < snd (for_index body xs i s)"
proof (induction body xs i s rule: for_index.induct)
  case (1 body xs i s)
  show ?case
  proof (cases "i < length xs")
    case True
    show ?thesis
    proof (cases "body (xs ! i) s")
      case (Inl e')
      with True show ?thesis by (simp add: for_index_step)
    next
      case (Inr s')
      with True "1.prems" have "fst (for_index body xs (Suc i) s') = Inl e"
        by (simp add: for_index_step)
      with "1.IH" [OF True Inr] True Inr show ?thesis
        by (simp add: for_index_step)
    qed
  next
    case False
    with "1.prems" show ?thesis by simp
  qed
qed


lemma rounds_le: "rounds body xs s \<le> length xs"
  using for_index_bounds [of 0 xs body s] by (simp add: rounds_def)

lemma rounds_returns: "returns (rfold body xs s) \<Longrightarrow> rounds body xs s = length xs"
  using for_index_returns [of 0 xs body s] by (simp add: rounds_def for_index_rfold)

lemma rounds_positive: "rfold body xs s = Inl e \<Longrightarrow> 0 < rounds body xs s"
  using for_index_raises [of body xs 0 s e] by (simp add: rounds_def for_index_rfold)

section \<open>The loops of the sources\<close>


text \<open>
  The same holds for the other loops of the sources, which differ in the body only:
  the elements of an import, the entries of an archive, and the parameters of the
  plugin, whose body does not raise.
\<close>

lemma element_loop_rounds:
  "fst (for_index element_step items 0 r) = rfold element_step items r \<and>
   rounds element_step items r \<le> length items"
  by (simp add: for_index_rfold rounds_le)

lemma document_loop_rounds:
  "fst (for_index (document_step z) names 0 r) = rfold (document_step z) names r \<and>
   rounds (document_step z) names r \<le> length names"
  by (simp add: for_index_rfold rounds_le)

lemma parameter_loop_rounds:
  "for_index (\<lambda>item params. Inr (append_child (parameter_element pfx item) params)) ps 0 p =
     (Inr (add_parameters pfx ps p), length ps)"
proof -
  let ?body = "\<lambda>item params. Inr (append_child (parameter_element pfx item) params)"
  have r: "rfold ?body ps p = Inr (add_parameters pfx ps p)"
    by (simp add: add_parameters_def rfold_total)
  then have "snd (for_index ?body ps 0 p) = length ps"
    using rounds_returns [of ?body ps p] by (simp add: rounds_def)
  with r for_index_rfold [of ?body ps p] show ?thesis
    by (simp add: prod_eq_iff)
qed

end
