(* ===== verification/Spec2Isabelle.thy ===== *)
theory Spec2Isabelle
  imports PyPrelude Suds PyStr Runtime ResultBase ImportResult ImportSpec ExportResult
    Render ResultTypes Base64 Credential Session OsPath PyIO Sax XmlText Plugin Client Example
    Logging ResultLog ClientLog ForLoop
begin

text \<open>
  A verification development for pyrelatics2, a client library for the Relatics SOAP
  data-exchange web service. The repository has two modules:
  \<^verbatim>\<open>src/pyrelatics2/result_classes.py\<close>, which turns the loosely typed object tree the
  SOAP toolkit returns into the typed results \<^verbatim>\<open>ExportResult\<close> and \<^verbatim>\<open>ImportResult\<close>, and
  \<^verbatim>\<open>src/pyrelatics_webservices/client.py\<close>, which holds the OAuth2 credential cache,
  builds requests and import payloads and sends them. \<^verbatim>\<open>src/example.py\<close> is a
  demonstration script that calls the client once and prints what it gets.

  \<^bold>\<open>Termination.\<close> Every loop of the sources is a \<^verbatim>\<open>for\<close> loop over a list, a
  dictionary or the entries of an archive, and no function of the sources is
  recursive. The models are folds over finite lists and total functions, so there is
  no fuel and nothing that could fail to return. Theory \<open>ForLoop\<close> gives the reason:
  \<open>for_index\<close> is the \<^verbatim>\<open>for\<close> statement as Python runs it, with an index that grows towards
  the length of the list (its termination is proved with that measure), and it
  computes the fold, in at most as many rounds as the list has items. The recursive
  functions of the library models (\<open>str_of_nat\<close>, \<open>a2b_loop\<close>, \<open>findPrefix\<close>) are accepted
  by \<open>fun\<close> with their termination proved; the walk from a logger to its ancestors
  (\<open>getEffectiveLevel\<close> of \<open>Logging\<close>) and the formatter (\<open>percent_keys\<close>) are
  \<^theory_text>\<open>function\<close>s whose termination is proved from the length of the name and of the
  format. The reader of XML text (\<open>read_attrs\<close>, \<open>read_rows\<close> of
  \<open>XmlText\<close>) recurses on what is left of the input after an attribute or an element;
  its termination is proved from the fact that reading one consumes text.

  \<^bold>\<open>How the code is modelled.\<close> The embedding is shallow. A class is a \<open>record\<close>
  (a subclass a record extension), a method is a function that takes the object and
  returns the updated object, and a Python exception is a value: every function that
  can raise returns \<open>py_error + 'a\<close> (\<open>Inl\<close> the exception), and sequencing is \<open>rbind\<close>.
  A \<^verbatim>\<open>for\<close> loop is \<open>rfold\<close> of its body over the items, so the first exception ends
  the loop. All loops of the modelled code run over finite lists, so no fuel is
  needed and every function is total. The dynamically typed response tree is the
  datatype \<open>suds\<close>; the fields that the code copies from the response without
  checking keep that type. Functions of the standard library and of the SOAP toolkit
  whose code is not in the repository are modelled in \<open>Suds\<close>, \<open>PyStr\<close>, \<open>Runtime\<close>,
  \<open>Base64\<close>, \<open>OsPath\<close>, \<open>Sax\<close>, \<open>XmlText\<close> and \<open>Logging\<close> from their documented behaviour,
  and those that are
  left abstract (\<^verbatim>\<open>repr\<close> and \<^verbatim>\<open>str\<close> of a toolkit object and of an unassigned field,
  \<^verbatim>\<open>time.fromisoformat\<close>, \<^verbatim>\<open>base64.b64decode\<close>, opening a zip archive) are the fields
  of the record \<open>pyenv\<close>,
  which every operation takes as its first argument. The theorems hold for every
  environment; the witnesses evaluate the definitions in \<open>sample_env\<close>, whose decoder
  is the one of \<open>Base64\<close>.

  The methods of \<^verbatim>\<open>RelaticsWebservices\<close> read and write files and talk to the network.
  They are computations on a \<open>world\<close> (theory \<open>PyIO\<close>): a function from the world
  before the call to the result, or the exception, and the world after it. The world
  holds the files and the list of network accesses made so far. That list is a
  history variable: the code keeps no such list, the model appends an \<open>event\<close> where
  the code constructs the SOAP client (which fetches the WSDL), where \<^verbatim>\<open>get_token\<close>
  sends a request, and where an operation of the service is called. What the toolkit
  answers is a field of the record \<open>clientenv\<close>.

  \<^bold>\<open>Theories.\<close>
  \<^item> \<open>PyPrelude\<close>: exceptions (\<open>exn\<close>, \<open>py_error\<close>), the result type with \<open>rbind\<close>,
    \<open>rfold\<close>, \<open>rmap\<close>, \<open>returns\<close>, and the fact collections \<open>py_defs\<close> (definitions to
    unfold when evaluating) and \<open>result_iff\<close> (when a computation returns or raises).
  \<^item> \<open>Suds\<close>: the response tree and the probes the code applies to it (\<^verbatim>\<open>hasattr\<close>,
    attribute access, \<^verbatim>\<open>del\<close>, \<^verbatim>\<open>isinstance(_, Text)\<close>, \<^verbatim>\<open>len\<close>, \<^verbatim>\<open>[0]\<close>, iteration),
    with well-formedness \<open>wf_suds\<close> and its preservation.
  \<^item> \<open>PyStr\<close>: \<^verbatim>\<open>int(s)\<close>, \<^verbatim>\<open>sub in s\<close>, \<^verbatim>\<open>s[n:]\<close>, decimal rendering, and the round trip
    \<open>py_int (zfill w (str_of_nat n)) = Some n\<close>.
  \<^item> \<open>Base64\<close>: bytes as \<open>8 word\<close>, \<^verbatim>\<open>bytes(s, "utf-8")\<close>, \<^verbatim>\<open>base64.b64encode\<close>, which
    \<^verbatim>\<open>client.py\<close> applies to the credentials and to the payload of an import, and
    \<^verbatim>\<open>base64.b64decode\<close> (the loop of \<^verbatim>\<open>binascii.a2b_base64\<close>, \<open>a2b_loop\<close>), which
    \<^verbatim>\<open>result_classes.py\<close> applies to the documents of an export. Its theorem is the
    round trip: decoding undoes encoding, for every list of bytes. \<open>utf8_decode\<close> reads
    UTF-8 back, as the receiver of a payload does.
  \<^item> \<open>Runtime\<close>: \<^verbatim>\<open>datetime.time\<close>, \<^verbatim>\<open>datetime.timedelta\<close> as a number of microseconds
    with its normalised fields and its bound, archives, \<open>pyenv\<close>.
  \<^item> \<open>ResultBase\<close>: \<^verbatim>\<open>BaseResult\<close> (lines 20-42). \<open>slot\<close> distinguishes a field that was
    assigned on the instance from one that still reads the class attribute (a truthy
    \<^verbatim>\<open>dataclasses.Field\<close> object); \<open>handle_suds_response_errors\<close> is the method of that
    name, with a case rule \<open>handle_cases\<close> for its four outcomes.
  \<^item> \<open>ImportResult\<close>: \<^verbatim>\<open>ImportMessage\<close>, \<^verbatim>\<open>ImportElement\<close>, \<^verbatim>\<open>ImportResult\<close> (lines
    132-323). \<open>ImportResult_from_suds\<close> is \<^verbatim>\<open>ImportResult.from_suds\<close>, composed of
    \<open>parse_messages\<close> (the loop of lines 211-225, body \<open>message_step\<close>, branch
    \<open>progress_update\<close>) and \<open>parse_elements\<close> (lines 228-232, body \<open>element_step\<close>);
    \<open>ImportResult_bool\<close> is \<^verbatim>\<open>__bool__\<close>; \<open>filter_messages\<close>, \<open>filter_elements\<close> and the
    seven named accessors are the methods and properties of those names. Its theorems
    are about the accessors: they select by status, keep order, and partition.
  \<^item> \<open>ImportSpec\<close>: the contract of \<^verbatim>\<open>ImportResult.from_suds\<close>. The abstract side
    decodes a message into \<open>progress_info\<close> (\<open>message_info\<close>) and applies it to an
    accumulator (\<open>apply_info\<close>); \<open>spec_messages\<close> is the pure fold. The refinement
    theorem relates the loop of the code, from any loop state, to that fold through
    \<open>abs_state\<close> and \<open>store\<close>. On top of it: the value of \<^verbatim>\<open>has_error\<close> and of
    \<^verbatim>\<open>error_msg\<close> for every shape of response, the rows, totals and elapsed time of
    the messages, which elements are read, and exactly when \<^verbatim>\<open>from_suds\<close> raises.
  \<^item> \<open>ExportResult\<close>: \<^verbatim>\<open>ExportResult\<close> (lines 46-107). \<open>ExportResult_from_suds\<close> is
    \<^verbatim>\<open>ExportResult.from_suds\<close>: the guard \<open>has_documents\<close> (lines 74-78), the archive
    loop \<open>parse_documents\<close> with body \<open>document_step\<close> (lines 82-86), the deletion of
    the \<^verbatim>\<open>Documents\<close> node (line 94), which changes the caller's object, and the
    final check. \<open>archive_documents\<close> is the abstract reading of an archive. The
    theorems give \<^verbatim>\<open>has_error\<close>, \<^verbatim>\<open>error_msg\<close>, \<^verbatim>\<open>data\<close> and \<^verbatim>\<open>documents\<close> for every
    shape of response, exactly when \<^verbatim>\<open>from_suds\<close> raises, and what a second call on
    the same object returns.
  \<^item> \<open>Render\<close>: the four \<^verbatim>\<open>__str__\<close> methods of \<^verbatim>\<open>result_classes.py\<close> (lines 109-126,
    157-159, 172-173, 244-268) as functions to the printed string or the exception:
    \<open>ExportResult_str\<close> with \<open>document_line\<close>, \<open>ImportMessage_str\<close> with the table
    \<open>status_fore_color\<close> (lines 143-149) and its subscript \<open>lookup_color\<close>,
    \<open>ImportElement_str\<close>, and \<open>ImportResult_str\<close> with the loop bodies \<open>message_line\<close>
    and \<open>element_line\<close>. The format specifications of the f-strings are \<open>ljust\<close>,
    \<open>rjust\<close>, \<open>format_int_zero\<close> and \<open>format_text\<close>. \<open>import_text\<close> is the rendering as a
    header and two blocks of lines. The theorems show that the loops build these
    blocks, exactly when printing an import result raises, what is printed for an
    export of data without documents, and for which rows the columns of a message
    line keep their width.
  \<^item> \<open>ResultTypes\<close>: the annotations of the dataclasses as predicates (\<open>typed_message\<close>,
    \<open>typed_element\<close>, \<open>typed_import_result\<close>) and the schema of a response
    (\<open>import_conforms\<close>). The theorems show that a result of \<^verbatim>\<open>ImportResult.from_suds\<close>
    satisfies its annotations exactly when the response conforms to the schema, and
    that such a result can be printed.
  \<^item> \<open>Credential\<close>: \<^verbatim>\<open>ClientCredential\<close> of \<^verbatim>\<open>client.py\<close> (lines 41-136). The cache
    \<^verbatim>\<open>tokens\<close> is a map from host names to \<open>token_entry\<close>. \<open>needs_refresh\<close> is the
    condition of \<^verbatim>\<open>get_token\<close> (lines 74-78), \<open>get_token\<close> the method; \<open>token_request\<close>
    is the request \<^verbatim>\<open>retrieve_token\<close> builds (lines 103-112), \<open>store_token\<close> its last
    statement (lines 131-134) and \<open>retrieve_token\<close> the method. The clock readings
    are arguments and the HTTPS exchange and the JSON decoder are the fields of the
    record \<open>netenv\<close>, so that a theorem which holds for every \<open>netenv\<close> says that the
    outcome does not depend on the network. \<open>should_refresh\<close> is the documented
    condition. The theorems show when the cached token is returned, that the code
    agrees with the documented condition while between zero and one day remain, that
    an expired token is reused and a token valid for a whole number of days is not,
    how \<^verbatim>\<open>retrieve_token\<close> classifies the answers of the endpoint, and that it changes
    the entry of one host only.
  \<^item> \<open>Session\<close>: the calls of \<^verbatim>\<open>get_token\<close> made on one credential as a transition
    system. \<open>call\<close> is the arguments of a call with its two clock readings,
    \<open>cache_step\<close> the change of the object by one call (a call that raises changes
    nothing), \<open>cache_run\<close> a sequence of calls; the step relation is the graph of
    \<open>after_call\<close>, so runs are folds. \<open>cache_inv\<close> is the invariant of the cache and
    \<open>polls\<close> the calls of a client that asks at a fixed interval. The theorems show
    the invariant for every run, that daily calls can keep an expired token for ever,
    and that calls at least every 301 seconds lead to a token request within a day.
  \<^item> \<open>OsPath\<close>: \<^verbatim>\<open>str.lower\<close> and \<^verbatim>\<open>os.path.split\<close>, \<^verbatim>\<open>splitext\<close>, \<^verbatim>\<open>join\<close> for POSIX paths,
    which \<^verbatim>\<open>client.py\<close> applies to host names and file names.
  \<^item> \<open>PyIO\<close>: computations on a world that may raise (\<open>ibind\<close>, \<open>ifold\<close>), and \<open>relates\<close>
    with its rules, for properties that hold whether a call returns or raises.
  \<^item> \<open>Sax\<close>: the XML elements of the toolkit as a datatype, with the methods the code
    calls (\<^verbatim>\<open>setPrefix\<close>, \<^verbatim>\<open>set\<close>, \<^verbatim>\<open>append\<close>, \<^verbatim>\<open>getChild\<close>, indexing, \<^verbatim>\<open>findPrefix\<close>) and
    the functions that write a change back along a path of the tree.
  \<^item> \<open>XmlText\<close>: the text of a document. \<open>document_str\<close> is \<^verbatim>\<open>Document.str\<close> of the toolkit,
    which \<^verbatim>\<open>run_import\<close> calls on the document of the rows (\<^verbatim>\<open>client.py\<close> lines 343
    and 369),
    with \<open>element_str\<close>, \<open>attr_str\<close> and the escaping \<open>sax_encode\<close> (five substitutions
    in sequence; \<open>encode_pass\<close> is the same in one pass). \<open>read_document\<close> is a reader
    of such documents after XML 1.0, as the service needs one. The lemmas show that
    the two escapings agree, what the printer makes of a list of rows, that the
    reader returns the rows of such a text with each value read back (\<open>read_row\<close>)
    when the keys are names (\<open>named_row\<close>), and that a value is read back as it was
    exactly when it is a \<open>plain_value\<close>.
  \<^item> \<open>Plugin\<close>: \<^verbatim>\<open>AddParametersPlugin\<close> of \<^verbatim>\<open>client.py\<close> (lines 139-185). \<open>marshalled\<close> is
    the hook of that name as a function on the envelope; \<open>parameters_node\<close> is the
    expression that looks for the node (lines 159 and 173), \<open>build_parameters\<close> the
    handler of \<^verbatim>\<open>TypeError\<close> (lines 161-171), \<open>add_parameters\<close> the loop (lines 178-183).
    \<open>parameter_block\<close> is the block the service expects. The theorems give the
    envelope after the hook when the block is missing and when it exists, and
    exactly when the hook raises.
  \<^item> \<open>Client\<close>: \<^verbatim>\<open>RelaticsWebservices\<close> of \<^verbatim>\<open>client.py\<close> (lines 188-437).
    \<open>RelaticsWebservices_init\<close> is the constructor, \<open>get_result\<close> and \<open>run_import\<close> are
    the methods; \<open>auth_argument\<close> and \<open>oauth_headers\<close> are the two authentication
    blocks both methods share (lines 224-232 and 377-385). The payload of an import
    is built by \<open>data_extension\<close> (the branch on the type of the data, lines 296-319;
    the XML document is \<open>rows_document\<close>), \<open>file_basename_of\<close> (lines 322-326),
    \<open>zip_payload\<close> (lines 330-364, with \<open>zip_path\<close>, \<open>document_member\<close>, \<open>zip_add\<close> and
    \<open>zip_add_data\<close>) and \<open>plain_payload\<close> (lines 366-374). \<open>archive_members\<close> is what
    the archive of an import should hold, and \<open>effect\<close> the footprint of a method:
    which files may change and which network accesses may be made. The theorems give
    the request each method sends for every kind of data and authentication, the
    validation of the arguments and its place before or after the first network
    access, the members of the archive, what is left on disk after a success and
    after a failure, and the footprint of both methods.
  \<^item> \<open>Example\<close>: the script \<^verbatim>\<open>src/example.py\<close>: its configuration of logging (lines
    12-17, \<open>LOG_FORMAT\<close> and \<open>example_logging\<close>) and its call (lines 20-33) as the
    computation \<open>example_main\<close> on the world and the lines printed. Its theorems give
    what the script prints and sends, show that the truth value it prints is that of
    the response of the toolkit, and which records its configuration lets through.
    The five calls that the script holds as comments (lines 35-111) are the
    computations \<open>example_bbb\<close> to \<open>example_fff\<close>, each the call it would be with the
    comment signs removed; they are not part of \<open>example_main\<close>. The lemmas give the
    request of the first documented import and the names of the archive members of
    the last one, whose paths are written with backslashes.
  \<^item> \<open>Logging\<close>: the module \<^verbatim>\<open>logging\<close> as far as the sources use it: the levels as a
    linear order, records with their message (\<open>percent_format\<close> is \<^verbatim>\<open>msg % args\<close>), the
    configuration (\<open>basicConfig\<close>, \<open>setLevel\<close>), the effective level of a logger
    (\<open>getEffectiveLevel\<close>) and the records that reach the handler (\<open>emitted\<close>). The log
    is written and never read, so what an operation logs is a function beside the
    operation, of the same arguments.
  \<^item> \<open>ResultLog\<close>: the records of \<^verbatim>\<open>result_classes.py\<close> (lines 17, 33, 42, 102, 237):
    \<open>handle_log\<close>, \<open>export_log\<close> and \<open>import_log\<close>. The theorems give the log for every
    shape of response and relate it to the result: every result with an error has a
    record, but an error that the service reports is logged below the level that the
    library emits by default.
  \<^item> \<open>ClientLog\<close>: the records of \<^verbatim>\<open>client.py\<close> (lines 29, 79, 82, 118, 161, 185,
    348-350): \<open>get_token_log\<close>, \<open>retrieve_token_log\<close>, \<open>marshalled_log\<close>, \<open>zip_log\<close> and the
    logs of the two methods. The theorems show that the answer of the token endpoint,
    with the bearer token, is logged whenever a token is stored, and what the line
    of \<^verbatim>\<open>get_token\<close> says about the cache.
  \<^item> \<open>ForLoop\<close>: the \<^verbatim>\<open>for\<close> statement by index (\<open>for_index\<close>), its agreement with the
    fold, and the number of rounds of the loops of the sources.
  \<^item> \<open>Spec2Isabelle\<close> (this theory): the properties that span components. The
    documents of an export survive the transport (the normalizer with the decoder of
    \<open>Base64\<close>), what the credential cache means for a request, and the rows of an
    import survive the transport (\<open>plain_payload\<close> of \<open>Client\<close> with the printer and the
    reader of \<open>XmlText\<close>; \<open>read_payload\<close> is the receiving side). Its last section
    holds the two responses that the end of \<^verbatim>\<open>run_import\<close> documents in a comment
    (\<^verbatim>\<open>client.py\<close> lines 400-435, \<open>documented_error_response\<close> and
    \<open>documented_import_response\<close>) with what the normalizer and the log make of them,
    and shows that the rows of the documented imports are read back unchanged.

  \<^bold>\<open>What the theorems show about the code.\<close> The classification of responses is
  total and deterministic, but it is not the one the documentation describes in
  four places, each stated as a theorem: an \<^verbatim>\<open>Export\<close> node without \<^verbatim>\<open>_Error\<close> makes
  both normalizers raise \<^verbatim>\<open>TypeError\<close>; an export of data without documents never
  assigns \<^verbatim>\<open>has_error\<close>, so the result is falsy; the message that announces a row
  already carries that row; and for \<^verbatim>\<open>None\<close> the error message is the word
  \<^verbatim>\<open>None\<close> rather than the empty string. Printing an export of data without documents
  starts with an error line that shows the unassigned field, and an import result
  with a message whose status is none of the five cannot be printed. The token cache compares the seconds field
  of a time difference, not its length, with the safety margin, so a request can
  carry a token that has expired, and a refresh happens only in a window of 301
  seconds per day. The client validates the operation name and the
  emptiness of the data before any network access, but the file extension only after
  the WSDL has been fetched; it removes the temporary archive after a successful
  encoding whatever \<^verbatim>\<open>keep_zip_file\<close> says, and leaves it behind when a document
  cannot be read; a call makes up to three network accesses; and both methods
  return the response of the toolkit as it is, without normalising it. The plugin
  adds the block of parameters when the envelope has none, and raises
  \<^verbatim>\<open>AttributeError\<close> when the envelope holds an empty \<^verbatim>\<open>Parameters\<close> element, because
  indexing an element without children yields \<^verbatim>\<open>None\<close> instead of raising. The rows of
  an import are read back from the payload as they were given when every key is an
  XML name and no value holds a tab, a line break or an ampersand followed by an
  entity name and a semicolon; the code checks none of this, and a value such as
  \<^verbatim>\<open>R&amp;D\<close> arrives as \<^verbatim>\<open>R&D\<close>, a line break as a space, and a key with a space makes
  a document no XML reader accepts. The log of a \<^verbatim>\<open>None\<close> response has two warnings,
  the first of which speaks of the export request also for an import; an error of
  the service is logged at level \<^verbatim>\<open>INFO\<close> and as an error of the import request also
  for an export; \<^verbatim>\<open>get_token\<close> reports every refresh as a missing token; the answer of
  the token endpoint and the final SOAP envelope, which hold the bearer token and
  the entry code, are written to the log at level \<^verbatim>\<open>DEBUG\<close>; and the logger for which
  the example script sets that level is not the logger of the client module.

  \<^bold>\<open>Bounds.\<close> Strings are lists of code points below 256. \<^verbatim>\<open>timedelta\<close> keeps
  Python's bound of 999999999 days and \<^verbatim>\<open>datetime\<close> the years 1 to 9999; integers
  are unbounded as in Python. The theorem on storing a token takes \<^verbatim>\<open>expires_in\<close>
  below \<open>2\<^sup>3\<^sup>1\<close> seconds, which keeps the time difference inside these bounds.
  File names are POSIX paths; the directory of temporary files is a field of
  \<open>clientenv\<close>. While an archive is written the model takes its file to hold the
  archive of the members written so far.

  \<^bold>\<open>Not modelled.\<close> The handlers of the log and the time of a record (the lines
  of the log are given up to the time). The SOAP transport,
  the HTTP client, the zip writer and the JSON decoder are libraries the sources
  only call; of the XML printer the part that prints the documents of an import is
  modelled, and the field \<open>render_xml\<close> of \<open>clientenv\<close> stands for the printer in the
  theorems that hold for every printer. The request of
  \<^verbatim>\<open>get_result\<close> carries the plugin, and the call of the hook on the envelope happens
  inside the toolkit. Line 51 of the example script, a comment that sets an
  attribute \<^verbatim>\<open>keep_zip_file\<close> of the client, has no definition: no method reads that
  attribute. What is left of the three source files are the import statements, the
  documentation strings and the comments that hold no data.
\<close>

section \<open>The documents of an export\<close>

text \<open>
  C19 (roundtrip): the documents survive the transport. With the decoder of theory
  \<open>Base64\<close>, a response whose \<^verbatim>\<open>Report.Documents\<close> is the base64 text of the bytes of an
  archive, and whose \<^verbatim>\<open>Export\<close> node, if any, has an \<^verbatim>\<open>_Error\<close>, is normalised to a
  result whose documents are the files of that archive; the result has no error and
  the tree it keeps has no \<^verbatim>\<open>Documents\<close> left.
\<close>

theorem export_of_encoded_archive:
  assumes "b64decode env = py_b64decode"
    and "getattr resp ''Report'' = Inr rep"
    and "getattr rep ''Documents'' = Inr (Text (b64encode bs))"
    and "\<forall>ex. getattr resp ''Export'' = Inr ex \<longrightarrow> hasattr ex ''_Error''"
    and "open_zip env bs = Inr z" and "archive_documents z = Inr docs"
  shows "\<exists>r resp'. ExportResult_from_suds env resp = Inr r \<and> documents r = docs \<and>
           has_error r = Assigned False \<and> ExportResult_bool r \<and>
           data r = Some resp' \<and> \<not> has_documents resp'"
proof -
  from assms(2,3) have "has_documents resp" by (auto simp: has_documents_iff)
  then obtain resp' where del: "delattr_in resp ''Report'' ''Documents'' = Inr resp'"
    by (rule has_documents_delattr_in)
  from assms(4) obtain h where h: "handle_suds_response_errors env resp ExportResult_init = Inr h"
    using handle_returns_iff [of env resp ExportResult_init] by (auto simp: returns_iff)
  from assms(1,5,6)
  have "parse_documents env (Text (b64encode bs)) (h\<lparr>has_error := Assigned False\<rparr>) =
          Inr (h\<lparr>has_error := Assigned False, documents := docs\<rparr>)"
    by (simp add: parse_documents_Inr_iff)
  with h have "ExportResult_from_suds env resp =
      Inr (h\<lparr>has_error := Assigned False, documents := docs, data := Some resp'\<rparr>)"
    by (simp add: from_suds_documents [OF assms(2,3) del])
  with delattr_in_documents(2) [OF del] show ?thesis
    by (simp add: ExportResult_bool_def)
qed

theorem export_of_encoded_archive_witness:
  "\<exists>r resp'. ExportResult_from_suds sample_env
       (Object [(''Report'', Object [(''Documents'', Text (b64encode [80, 75]))])]) = Inr r \<and>
     documents r = [(''a.txt'', [104, 101, 108, 108, 111]), (''b.bin'', [0, 255])] \<and>
     has_error r = Assigned False \<and> ExportResult_bool r \<and>
     data r = Some resp' \<and> \<not> has_documents resp'"
proof (rule export_of_encoded_archive)
  show "b64decode sample_env = py_b64decode" by (simp add: sample_env_def)
  show "getattr (Object [(''Report'', Object [(''Documents'', Text (b64encode [80, 75]))])])
          ''Report'' = Inr (Object [(''Documents'', Text (b64encode [80, 75]))])"
    by (simp add: py_defs)
  show "getattr (Object [(''Documents'', Text (b64encode [80, 75]))]) ''Documents'' =
          Inr (Text (b64encode [80, 75]))"
    by (simp add: py_defs)
  show "\<forall>ex. getattr (Object [(''Report'', Object [(''Documents'', Text (b64encode [80, 75]))])])
          ''Export'' = Inr ex \<longrightarrow> hasattr ex ''_Error''"
    by (simp add: py_defs)
  show "open_zip sample_env [80, 75] = Inr sample_zip" by (simp add: sample_env_def)
  show "archive_documents sample_zip =
          Inr [(''a.txt'', [104, 101, 108, 108, 111]), (''b.bin'', [0, 255])]"
    by (simp add: py_defs archive_documents_def first_occurrences_def read_entry_def
        sample_zip_def)
qed

section \<open>The credential cache and the requests\<close>

text \<open>
  C22 (safety): a request can carry an expired token. If the credential holds a token
  for the host that expired at most 86099 seconds ago, \<^verbatim>\<open>get_result\<close> requests no new
  token and sends the expired one in the \<^verbatim>\<open>Authorization\<close> header, although the
  documented condition asks for a refresh.
\<close>

theorem get_result_sends_expired_token:
  assumes "tokens c (hostname self) = Some e" and "expires_on e < now"
    and "now - expires_on e \<le> 86099000000"
    and "wsdl_client env (wsdl_url self) = Inr ()"
  shows "should_refresh c (hostname self) False now \<and>
         get_result env now t op params (OAuth c) self w =
           (rbind (soap_invoke env
                     \<lparr>sr_wsdl = wsdl_url self, sr_operation = ''GetResult'',
                      sr_headers = [(''User-Agent'', user_agent self),
                                    (''Authorization'',
                                     ''Bearer '' @ json_format (net env) (token e))],
                      sr_plugins = plugins_for params,
                      sr_args = [(''Operation'', SStr op),
                                 (''Identification'', identification self),
                                 (''Parameters'', SNone),
                                 (''Authentication'', SDict [(''Authentication'', SDict [])])]\<rparr>)
              (\<lambda>r. Inr (r, OAuth c)),
            logged [WsdlFetched (wsdl_url self), SoapCalled ''GetResult''] w)"
proof -
  let ?rq = "\<lparr>sr_wsdl = wsdl_url self, sr_operation = ''GetResult'',
               sr_headers = [(''User-Agent'', user_agent self),
                             (''Authorization'', ''Bearer '' @ json_format (net env) (token e))],
               sr_plugins = plugins_for params,
               sr_args = [(''Operation'', SStr op),
                          (''Identification'', identification self),
                          (''Parameters'', SNone),
                          (''Authentication'', SDict [(''Authentication'', SDict [])])]\<rparr>"
  from assms(2,3) td_seconds_expired [of "now - expires_on e"]
  have fresh: "300 < td_seconds (expires_on e - now)" by simp
  from assms(1,2) have "should_refresh c (hostname self) False now"
    by (simp add: should_refresh_def remaining_seconds_def)
  moreover from assms(4) have "get_result env now t op params (OAuth c) self w =
      (rbind (soap_invoke env ?rq) (\<lambda>r. Inr (r, OAuth c)),
       logged [WsdlFetched (wsdl_url self), SoapCalled ''GetResult''] w)"
    by (cases "soap_invoke env ?rq")
       (simp_all add: get_result_def oauth_headers_cached [OF assms(1) fresh] auth_argument_def)
  ultimately show ?thesis ..
qed

theorem get_result_sends_expired_token_witness:
  "should_refresh (sample_credential\<lparr>tokens := [''acme.relaticsonline.com'' \<mapsto> sample_entry]\<rparr>)
     (hostname sample_ws) False 3601000000 \<and>
   get_result sample_clientenv 3601000000 0 ''getActies'' None
     (OAuth (sample_credential\<lparr>tokens := [''acme.relaticsonline.com'' \<mapsto> sample_entry]\<rparr>))
     sample_ws sample_world =
     (Inr (Object [(''Operation'', Text ''GetResult'')],
           OAuth (sample_credential\<lparr>tokens := [''acme.relaticsonline.com'' \<mapsto> sample_entry]\<rparr>)),
      logged [WsdlFetched (wsdl_url sample_ws), SoapCalled ''GetResult''] sample_world)"
  using get_result_sends_expired_token [of
      "sample_credential\<lparr>tokens := [''acme.relaticsonline.com'' \<mapsto> sample_entry]\<rparr>"
      sample_ws sample_entry 3601000000 sample_clientenv 0 "''getActies''" None sample_world]
  by (simp add: sample_wsdl_ok sample_ws_fields sample_entry_def)
     (simp add: sample_clientenv_def)

section \<open>The rows of an import\<close>

text \<open>
  The receiving side of a payload: the base64 text is decoded to bytes, the bytes
  are read as UTF-8, and the text is read as a document of rows.
\<close>

definition read_payload :: "string \<Rightarrow> (string \<times> string) list list option" where
  "read_payload data_str =
     (case py_b64decode data_str of
        Inl e \<Rightarrow> None
      | Inr bs \<Rightarrow> (case utf8_decode bs of None \<Rightarrow> None | Some s \<Rightarrow> read_document s))"

text \<open>The sample service with the printer of the toolkit.\<close>

definition sample_printing :: clientenv where
  "sample_printing = sample_clientenv\<lparr>render_xml := document_str\<rparr>"

lemma document_str_rows_document:
  assumes "rows \<noteq> []" and "list_all named_row rows"
  shows "document_str (rows_document rows) =
           DECL @ LF @ ''<Import>'' @ concat (map row_line rows) @ LF @ ''</Import>''"
proof -
  from assms(2) have "map row_element rows = map (\<lambda>r. Element None ''Row'' [] r []) rows"
    by (induction rows) (simp_all add: named_row_def row_element_distinct)
  then show ?thesis
    by (simp only: rows_document_children document_str_rows [OF assms(1)])
qed

lemma read_document_rows_document:
  assumes "rows \<noteq> []" and "list_all named_row rows"
  shows "read_document (document_str (rows_document rows)) = Some (map read_row rows)"
  unfolding document_str_rows_document [OF assms] using assms by (rule read_document_rows)

lemma sample_rows_valid: "list_all valid_row sample_rows"
  by (simp add: sample_rows_def valid_row_def xml_name_def name_start_def name_char_def
      is_letter_def normalize_space_def starts_entity_def entity_names_def)

text \<open>
  C14 (roundtrip): the rows of an import and the transport. For a list of rows that
  is not empty and whose keys are XML names, each once in its row, the payload that
  \<^verbatim>\<open>run_import\<close> builds without documents (\<^verbatim>\<open>client.py\<close> lines 300-308 and 369, with
  the printer of the toolkit) is returned without a change of the world. Decoding
  it, reading it as UTF-8 and reading the document gives the rows in their order
  with their keys, and each value as the reader unescapes what the printer escaped.
  These are the rows that were given exactly when no value holds a tab, a line break
  or an ampersand that starts an entity.
\<close>

theorem rows_payload_round_trip:
  assumes "rows \<noteq> []" and "list_all named_row rows" and "render_xml env = document_str"
  shows "\<exists>data_str. plain_payload env (DataRows rows) w = (Inr data_str, w) \<and>
           read_payload data_str = Some (map read_row rows) \<and>
           (read_payload data_str = Some rows \<longleftrightarrow> list_all valid_row rows)"
  using assms
  by (auto simp: plain_payload_def ireturn_def read_payload_def read_document_rows_document
      valid_rows_iff)

theorem rows_payload_round_trip_witness:
  "\<exists>data_str. plain_payload sample_printing (DataRows sample_rows) sample_world =
       (Inr data_str, sample_world) \<and>
     read_payload data_str = Some sample_rows"
proof -
  have "sample_rows \<noteq> []" by (simp add: sample_rows_def)
  moreover have "list_all named_row sample_rows"
    using sample_rows_valid by (simp add: valid_rows_iff)
  moreover have "render_xml sample_printing = document_str" by (simp add: sample_printing_def)
  ultimately obtain data_str
    where "plain_payload sample_printing (DataRows sample_rows) sample_world =
        (Inr data_str, sample_world)"
      and "read_payload data_str = Some sample_rows \<longleftrightarrow> list_all valid_row sample_rows"
    using rows_payload_round_trip [of sample_rows sample_printing sample_world] by blast
  with sample_rows_valid show ?thesis by blast
qed

text \<open>
  Three rows that do not arrive as they were given. The printer leaves an ampersand
  alone when an entity name and a semicolon follow it, so the reader replaces the
  entity; a line break in a value is a space for the reader; and a key with a space
  gives a text that is no element.
\<close>

lemma entity_value_changes:
  "read_document (document_str (rows_document [[(''name'', ''R&amp;D'')]])) =
     Some [[(''name'', ''R&D'')]]"
  by code_simp

lemma line_break_value_changes:
  "read_document (document_str (rows_document [[(''name'', ''a'' @ LF @ ''b'')]])) =
     Some [[(''name'', ''a b'')]]"
  by code_simp

lemma key_with_space_unreadable:
  "read_document (document_str (rows_document [[(''object name'', ''x'')]])) = None"
  by code_simp

section \<open>The documented calls and responses\<close>

text \<open>
  The rows of the two imports that the example script documents are read back from
  their payload as they were given.
\<close>

lemma documented_rows_valid: "list_all valid_row ddd_rows" "list_all valid_row eee_rows"
  by (simp_all add: ddd_rows_def eee_rows_def valid_row_def xml_name_def name_start_def
      name_char_def is_letter_def normalize_space_def starts_entity_def entity_names_def)

lemma documented_rows_read_back:
  "read_payload (b64encode (utf8_encode (document_str (rows_document ddd_rows)))) = Some ddd_rows"
  "read_payload (b64encode (utf8_encode (document_str (rows_document eee_rows)))) = Some eee_rows"
proof -
  have "read_payload (b64encode (utf8_encode (document_str (rows_document rows)))) = Some rows"
    if "rows \<noteq> []" and "list_all valid_row rows" for rows
    using that by (simp add: read_payload_def read_document_rows_document valid_rows_iff)
  from this [OF _ documented_rows_valid(1)] this [OF _ documented_rows_valid(2)]
  show "read_payload (b64encode (utf8_encode (document_str (rows_document ddd_rows)))) =
      Some ddd_rows"
    and "read_payload (b64encode (utf8_encode (document_str (rows_document eee_rows)))) =
      Some eee_rows"
    by (simp_all add: ddd_rows_def eee_rows_def)
qed

text \<open>
  The end of \<^verbatim>\<open>run_import\<close> holds two responses of the service as a comment
  (\<^verbatim>\<open>client.py\<close> lines 400-435): an error, and the messages of an import up to its first
  warning. \<^verbatim>\<open>run_import\<close> returns such a response as it is; what
  \<^verbatim>\<open>ImportResult.from_suds\<close> makes of them is evaluated here, with the times read by the
  sample environment.
\<close>

definition documented_error_response :: suds where
  "documented_error_response =
     Object [(''Export'', Object [(''_Error'', Text
       ''Error while reading file: Unexpected error while reading Excel-file: Value cannot be null.'')])]"

definition documented_import_response :: suds where
  "documented_import_response =
     Object [(''Import'', Object [(''Message'', PyList
       [Object [(''value'', Text ''Successfully created ImportLog.''),
                (''_Time'', Text ''21:52:34''), (''_Result'', Text ''Progress'')],
        Object [(''value'', Text ''Cleared 0 empty row(s) from the table.''),
                (''_Time'', Text ''21:52:34''), (''_Result'', Text ''Comment'')],
        Object [(''value'', Text ''The size of the import is valid: importing 6 cells''),
                (''_Time'', Text ''21:52:34''), (''_Result'', Text ''Comment'')],
        Object [(''value'', Text ''Processing row : 00001''),
                (''_Time'', Text ''21:52:34''), (''_Result'', Text ''Progress'')],
        Object [(''value'', Text ''Actie: Reference not found''),
                (''_Time'', Text ''21:52:34''), (''_Result'', Text ''Warning'')]])])]"

definition documented_time :: pytime where
  "documented_time = \<lparr>hour = 21, minute = 52, second = 34, microsecond = 0\<rparr>"

lemma documented_error_normalised:
  "ImportResult_from_suds env documented_error_response =
     Inr (ImportResult_init\<lparr>has_error := Assigned True, error_msg := Assigned
       ''Error while reading file: Unexpected error while reading Excel-file: Value cannot be null.''\<rparr>)"
  "import_log env documented_error_response =
     [log_call result_logger INFO ''Received an error response from the import request: %s''
        [''Error while reading file: Unexpected error while reading Excel-file: Value cannot be null.'']]"
  by (simp_all add: documented_error_response_def import_log_eq
      handle_log_Export_Error [where ex = "Object [(''_Error'', Text
       ''Error while reading file: Unexpected error while reading Excel-file: Value cannot be null.'')]"]
      from_suds_Export_only [where ex = "Object [(''_Error'', Text
       ''Error while reading file: Unexpected error while reading Excel-file: Value cannot be null.'')]"])

text \<open>
  The warning of the documented import belongs to row 1, the row announced by the
  message before it, and the three messages before that one belong to row 0.
\<close>

lemma documented_import_normalised:
  "ImportResult_from_suds sample_env documented_import_response =
     Inr \<lparr>has_error = Assigned False, error_msg = Unassigned,
          messages =
            [\<lparr>time = documented_time, status = Text ''Progress'',
              message = Text ''Successfully created ImportLog.'', row = 0\<rparr>,
             \<lparr>time = documented_time, status = Text ''Comment'',
              message = Text ''Cleared 0 empty row(s) from the table.'', row = 0\<rparr>,
             \<lparr>time = documented_time, status = Text ''Comment'',
              message = Text ''The size of the import is valid: importing 6 cells'', row = 0\<rparr>,
             \<lparr>time = documented_time, status = Text ''Progress'',
              message = Text ''Processing row : 00001'', row = 1\<rparr>,
             \<lparr>time = documented_time, status = Text ''Warning'',
              message = Text ''Actie: Reference not found'', row = 1\<rparr>],
          elements = [], total_rows = None, elapsed_time = None\<rparr>"
  by (simp add: py_defs documented_import_response_def documented_time_def)

lemma documented_import_log: "import_log env documented_import_response = []"
  by (simp add: import_log_eq documented_import_response_def handle_log_no_Export)

end
